(* ===== verification/GoBase.thy ===== *)
theory GoBase
  imports Complex_Main "HOL-Library.Word" "HOL-Library.Signed_Division"
begin

text \<open>
  The prelude of the development: Go's basic data as the library services use it.

  \<^item> \<open>int\<close> and \<open>int64\<close> values are HOL integers in the signed 64-bit range; every
    arithmetic operation of the source is followed by \<open>wrap64\<close>, \<open>int32(x)\<close>
    conversions are \<open>wrap32\<close>; the division of Go truncates (\<open>go_div\<close>);
  \<^item> \<open>uuid.UUID\<close> is its 16 bytes, a 128-bit word;
  \<^item> \<open>time.Time\<close> is nanoseconds since Go's zero time (so that \<open>IsZero\<close> is \<open>t = 0\<close>),
    \<open>time.Duration\<close> nanoseconds;
  \<^item> the \<open>strings\<close> functions the source calls are written out on character lists;
  \<^item> \<open>error\<close> values carry their message and the sentinel errors they wrap
    (\<open>%w\<close>), because the services branch on both.
\<close>

section \<open>Collections for automation\<close>

named_theorems go_simps \<open>evaluation of Go's string, error and integer helpers\<close>

section \<open>Integers\<close>

type_synonym uuid = "128 word"
type_synonym time = int
type_synonym duration = int

text \<open>Two's complement wrap-around of \<open>int\<close>/\<open>int64\<close> and of \<open>int32(x)\<close>.\<close>

definition wrap64 :: "int \<Rightarrow> int" where
  "wrap64 x = signed_take_bit 63 x"

definition wrap32 :: "int \<Rightarrow> int" where
  "wrap32 x = signed_take_bit 31 x"

definition in_int64 :: "int \<Rightarrow> bool" where
  "in_int64 x \<longleftrightarrow> - (2 ^ 63) \<le> x \<and> x < 2 ^ 63"

definition go_div :: "int \<Rightarrow> int \<Rightarrow> int" where
  "go_div a b = wrap64 (a sdiv b)"

lemma wrap64_id: "in_int64 x \<Longrightarrow> wrap64 x = x"
  by (simp add: wrap64_def in_int64_def signed_take_bit_int_eq_self)

lemma wrap64_range: "in_int64 (wrap64 x)"
  using signed_take_bit_int_greater_eq_minus_exp [of 63 x]
    signed_take_bit_int_less_exp [of 63 x]
  by (simp add: wrap64_def in_int64_def)

lemma wrap64_small: "- 9223372036854775808 \<le> x \<Longrightarrow> x \<le> 9223372036854775807 \<Longrightarrow> wrap64 x = x"
  by (rule wrap64_id) (simp add: in_int64_def)

lemma wrap32_small: "- 2147483648 \<le> x \<Longrightarrow> x \<le> 2147483647 \<Longrightarrow> wrap32 x = x"
  by (simp add: wrap32_def signed_take_bit_int_eq_self)

lemma go_div_pos:
  assumes "0 \<le> a" "0 < b" "in_int64 a"
  shows "go_div a b = a div b"
proof -
  have s: "a sdiv b = a div b"
    using assms(1,2) by (cases "a = 0") (simp_all add: signed_divide_int_def)
  have "0 \<le> a div b" and "a div b \<le> a"
    using assms(1,2) zdiv_mono2 [of a 1 b] by (simp_all add: pos_imp_zdiv_nonneg_iff)
  with assms(3) have "in_int64 (a div b)"
    by (auto simp: in_int64_def)
  with s show ?thesis by (simp add: go_div_def wrap64_id)
qed

section \<open>Strings\<close>

text \<open>\<open>strings.HasPrefix\<close>, \<open>strings.Contains\<close>, \<open>strings.HasSuffix\<close>, \<open>strings.TrimSuffix\<close>.\<close>

fun hasPrefix :: "string \<Rightarrow> string \<Rightarrow> bool" where
  "hasPrefix s [] = True"
| "hasPrefix [] (p # ps) = False"
| "hasPrefix (c # s) (p # ps) = (c = p \<and> hasPrefix s ps)"

fun str_contains :: "string \<Rightarrow> string \<Rightarrow> bool" where
  "str_contains [] p = (p = [])"
| "str_contains (c # s) p = (hasPrefix (c # s) p \<or> str_contains s p)"

definition hasSuffix :: "string \<Rightarrow> string \<Rightarrow> bool" where
  "hasSuffix s p = hasPrefix (rev s) (rev p)"

definition trimSuffix :: "string \<Rightarrow> string \<Rightarrow> string" where
  "trimSuffix s p = (if hasSuffix s p then take (length s - length p) s else s)"

text \<open>\<open>strings.Split\<close> for a separator of one character.\<close>

fun str_split :: "char \<Rightarrow> string \<Rightarrow> string list" where
  "str_split sep [] = [[]]"
| "str_split sep (c # s) =
     (if c = sep then [] # str_split sep s
      else (case str_split sep s of [] \<Rightarrow> [[c]] | w # ws \<Rightarrow> (c # w) # ws))"

text \<open>\<open>strings.TrimSpace\<close> on ASCII text.\<close>

definition is_space :: "char \<Rightarrow> bool" where
  "is_space c \<longleftrightarrow> c = CHR '' '' \<or> c = CHR 0x09 \<or> c = CHR 0x0A \<or> c = CHR 0x0B \<or> c = CHR 0x0C \<or> c = CHR 0x0D"

definition trimSpace :: "string \<Rightarrow> string" where
  "trimSpace s = rev (dropWhile is_space (rev (dropWhile is_space s)))"

lemma hasPrefix_append [simp]: "hasPrefix (p @ s) p"
  by (induction p) auto

lemma hasPrefix_iff: "hasPrefix s p \<longleftrightarrow> (\<exists>t. s = p @ t)"
  by (induction s p rule: hasPrefix.induct) auto

lemma str_contains_iff: "str_contains s p \<longleftrightarrow> (\<exists>a b. s = a @ p @ b)"
proof (induction s)
  case Nil
  then show ?case by simp
next
  case (Cons c s)
  have "(\<exists>a b. c # s = a @ p @ b) \<longleftrightarrow> (\<exists>b. c # s = p @ b) \<or> (\<exists>a b. s = a @ p @ b)"
    by (metis append_Cons append_Nil list.exhaust list.inject)
  with Cons show ?case by (simp add: hasPrefix_iff)
qed

lemma str_contains_prefix: "str_contains (p @ s) p"
  by (metis append_Nil str_contains_iff)

lemma str_contains_mid: "str_contains (a @ p @ b) p"
  by (auto simp: str_contains_iff)

lemma str_split_not_Nil [simp]: "str_split sep s \<noteq> []"
  by (induction s) (auto split: list.splits)

lemma str_split_no_sep: "sep \<notin> set s \<Longrightarrow> str_split sep s = [s]"
  by (induction s) auto

lemma str_split_two:
  "sep \<notin> set a \<Longrightarrow> sep \<notin> set b \<Longrightarrow> str_split sep (a @ sep # b) = [a, b]"
  by (induction a) (auto simp: str_split_no_sep)

section \<open>Errors\<close>

text \<open>
  The sentinel errors of GORM and of the Redis client that the source tests for with
  \<open>errors.Is\<close> or \<open>==\<close>. \<open>fmt.Errorf("p: %w", err)\<close> keeps the chain,
  \<open>errors.New\<close> and \<open>fmt.Errorf\<close> without \<open>%w\<close> start a new one.
\<close>

datatype sentinel = ErrRecordNotFound | ErrUnsupportedRelation | RedisNil

datatype go_error = GoError (err_msg: string) (err_chain: "sentinel list")

type_synonym 'a result = "go_error + 'a"

definition errors_New :: "string \<Rightarrow> go_error" where
  "errors_New m = GoError m []"

definition errors_Is :: "go_error \<Rightarrow> sentinel \<Rightarrow> bool" where
  "errors_Is e t \<longleftrightarrow> t \<in> set (err_chain e)"

definition errorf_wrap :: "string \<Rightarrow> go_error \<Rightarrow> go_error" where
  "errorf_wrap m e = GoError (m @ '': '' @ err_msg e) (err_chain e)"

lemma err_msg_New [simp, go_simps]: "err_msg (errors_New m) = m"
  by (simp add: errors_New_def)

lemma errors_Is_New [simp, go_simps]: "\<not> errors_Is (errors_New m) t"
  by (simp add: errors_New_def errors_Is_def)

lemma errors_Is_wrap [simp, go_simps]: "errors_Is (errorf_wrap m e) t = errors_Is e t"
  by (simp add: errorf_wrap_def errors_Is_def)

lemma wrap_contains: "str_contains (err_msg (errorf_wrap m e)) m"
  by (simp add: errorf_wrap_def str_contains_prefix)

text \<open>A run that answered, taken apart.\<close>

lemma run_answered: "\<not> isl (fst p) \<Longrightarrow> \<exists>x. p = (Inr x, snd p)"
  by (metis isl_def prod.collapse sum.exhaust_sel)

section \<open>The UUID library\<close>

text \<open>
  \<open>github.com/google/uuid\<close> is a parameter: \<open>uuid.Parse\<close> (\<open>None\<close> with the error
  \<open>uuid_err\<close>) and \<open>UUID.String\<close>. Its documented contract, that a printed UUID parses back, is
  \<open>uuid_laws\<close>; a printed UUID holds hexadecimal digits and hyphens only.
\<close>

record uuid_lib =
  uuid_parse :: "string \<Rightarrow> uuid option"
  uuid_err :: "string \<Rightarrow> go_error"
  uuid_string :: "uuid \<Rightarrow> string"

definition uuid_laws :: "uuid_lib \<Rightarrow> bool" where
  "uuid_laws ul \<longleftrightarrow>
     (\<forall>u. uuid_parse ul (uuid_string ul u) = Some u) \<and>
     (\<forall>u. CHR '':'' \<notin> set (uuid_string ul u))"

lemma uuid_string_inj:
  assumes "uuid_laws ul"
  shows "uuid_string ul a = uuid_string ul b \<longleftrightarrow> a = b"
  using assms by (metis uuid_laws_def option.inject)

text \<open>A concrete UUID library for the witnesses: a UUID printed in unary.\<close>

definition unary_uuid :: uuid_lib where
  "unary_uuid = \<lparr>uuid_parse = (\<lambda>s. if set s \<subseteq> {CHR ''a''} then Some (of_nat (length s)) else None),
                 uuid_err = (\<lambda>s. errors_New ''invalid UUID''),
                 uuid_string = (\<lambda>u. replicate (unat u) (CHR ''a''))\<rparr>"

lemma unary_uuid_laws: "uuid_laws unary_uuid"
  by (auto simp: uuid_laws_def unary_uuid_def)

end
