(* ===== verification/Gorm.thy ===== *)
theory Gorm
  imports GoBase
begin

text \<open>
  The object-relational mapper as the repositories use it. GORM and PostgreSQL are not part
  of the repository: \<open>gorm_api\<close> is a parameter, one function per finisher method the
  source calls (\<open>Create\<close>, \<open>First\<close>, \<open>Find\<close>, \<open>Count\<close>, \<open>Save\<close>,
  \<open>Delete\<close>, \<open>Updates\<close>) over an arbitrary database state. The query chains
  (\<open>Where\<close>, \<open>Order\<close>, \<open>Offset\<close>, \<open>Limit\<close>) are built by the source and are kept as
  data, SQL text included.

  The locale \<open>gorm_store\<close> states the documented behaviour the repositories rely on; every
  call may also fail with any error, leaving the live rows as they were. \<open>mem_api\<close> is a
  concrete store over a list of rows, used by the witnesses.
\<close>

section \<open>models.Base\<close>

record base =
  base_id :: uuid
  created_at :: time
  updated_at :: time
  deleted_at :: "time option"

definition uuid_Nil :: uuid where
  "uuid_Nil = 0"

text \<open>The \<open>BeforeCreate\<close> hook; \<open>fresh\<close> is the value of \<open>uuid.New()\<close>.\<close>

definition BeforeCreate :: "uuid \<Rightarrow> 'a base_scheme \<Rightarrow> 'a base_scheme" where
  "BeforeCreate fresh b = (if base_id b = uuid_Nil then b\<lparr>base_id := fresh\<rparr> else b)"

lemma BeforeCreate_keeps: "base_id b \<noteq> uuid_Nil \<Longrightarrow> BeforeCreate fresh b = b"
  by (simp add: BeforeCreate_def)

lemma BeforeCreate_not_Nil: "fresh \<noteq> uuid_Nil \<Longrightarrow> base_id (BeforeCreate fresh b) \<noteq> uuid_Nil"
  by (simp add: BeforeCreate_def)

text \<open>Two rows with the same content: GORM sets the two time stamps on its own.\<close>

definition same_content :: "'a base_scheme \<Rightarrow> 'a base_scheme \<Rightarrow> bool" where
  "same_content r r' \<longleftrightarrow> r' = r\<lparr>created_at := created_at r', updated_at := updated_at r'\<rparr>"

lemma same_content_refl [simp]: "same_content r r"
  by (simp add: same_content_def)

lemma same_content_sym: "same_content a b \<Longrightarrow> same_content b a"
  unfolding same_content_def by (metis base.surjective base.update_convs(2,3))

lemma same_content_trans: "same_content a b \<Longrightarrow> same_content b c \<Longrightarrow> same_content a c"
  unfolding same_content_def by (metis base.surjective base.update_convs(2,3))

lemma same_content_id: "same_content r r' \<Longrightarrow> base_id r' = base_id r"
  by (auto simp: same_content_def) (metis base.select_convs(1) base.surjective base.update_convs(2,3))

lemma same_content_deleted: "same_content r r' \<Longrightarrow> deleted_at r' = deleted_at r"
  by (auto simp: same_content_def) (metis base.select_convs(4) base.surjective base.update_convs(2,3))

lemma same_content_more: "same_content r r' \<Longrightarrow> base.more r' = base.more r"
  by (auto simp: same_content_def) (metis base.select_convs(5) base.surjective base.update_convs(2,3))

section \<open>Query chains\<close>

datatype sqlarg = AStr string | AUuid uuid | ATime time | ASub string string "where_clause list"
  and where_clause = Where string "sqlarg list"

record stmt =
  conds :: "where_clause list"
  ordering :: "string list"
  offset :: "int option"
  limit :: "int option"

definition q_all :: stmt where
  "q_all = \<lparr>conds = [], ordering = [], offset = None, limit = None\<rparr>"

definition q_where :: "string \<Rightarrow> sqlarg list \<Rightarrow> stmt \<Rightarrow> stmt" where
  "q_where sql args q = q\<lparr>conds := conds q @ [Where sql args]\<rparr>"

definition q_order :: "string \<Rightarrow> stmt \<Rightarrow> stmt" where
  "q_order by q = q\<lparr>ordering := ordering q @ [by]\<rparr>"

definition q_offset :: "int \<Rightarrow> stmt \<Rightarrow> stmt" where
  "q_offset n q = q\<lparr>offset := Some n\<rparr>"

definition q_limit :: "int \<Rightarrow> stmt \<Rightarrow> stmt" where
  "q_limit n q = q\<lparr>limit := Some n\<rparr>"

lemmas q_defs = q_all_def q_where_def q_order_def q_offset_def q_limit_def

definition sat_all :: "(where_clause \<Rightarrow> 'r \<Rightarrow> bool) \<Rightarrow> stmt \<Rightarrow> 'r \<Rightarrow> bool" where
  "sat_all sat q r \<longleftrightarrow> (\<forall>c \<in> set (conds q). sat c r)"

lemma sat_all_q [simp]:
  "sat_all sat q_all r"
  "sat_all sat (q_where sql args q) r \<longleftrightarrow> sat_all sat q r \<and> sat (Where sql args) r"
  "sat_all sat (q_order b q) r = sat_all sat q r"
  "sat_all sat (q_offset n q) r = sat_all sat q r"
  "sat_all sat (q_limit n q) r = sat_all sat q r"
  by (auto simp: sat_all_def q_defs)

lemma q_window [simp]:
  "offset q_all = None" "limit q_all = None"
  "offset (q_where sql args q) = offset q" "limit (q_where sql args q) = limit q"
  "offset (q_order b q) = offset q" "limit (q_order b q) = limit q"
  "offset (q_offset n q) = Some n" "limit (q_offset n q) = limit q"
  "offset (q_limit n q) = offset q" "limit (q_limit n q) = Some n"
  by (simp_all add: q_defs)

section \<open>The finisher methods\<close>

record ('d, 'r) gorm_api =
  g_create :: "'r \<Rightarrow> 'd \<Rightarrow> 'r result \<times> 'd"
  g_first :: "stmt \<Rightarrow> 'd \<Rightarrow> 'r result \<times> 'd"
  g_find :: "stmt \<Rightarrow> 'd \<Rightarrow> 'r list result \<times> 'd"
  g_count :: "stmt \<Rightarrow> 'd \<Rightarrow> int result \<times> 'd"
  g_save :: "'r \<Rightarrow> 'd \<Rightarrow> 'r result \<times> 'd"
  g_delete :: "stmt \<Rightarrow> 'd \<Rightarrow> unit result \<times> 'd"
  g_updates :: "stmt \<Rightarrow> (string \<times> sqlarg) list \<Rightarrow> 'd \<Rightarrow> unit result \<times> 'd"

text \<open>
  The laws. \<open>rows d\<close> are the live rows (\<open>deleted_at IS NULL\<close>) by primary key,
  \<open>valid\<close> the store's own invariant, \<open>sat\<close> the meaning of a \<open>WHERE\<close> clause.
\<close>

locale gorm_store =
  fixes api :: "('d, 'a base_scheme) gorm_api"
    and rows :: "'d \<Rightarrow> uuid \<Rightarrow> 'a base_scheme option"
    and valid :: "'d \<Rightarrow> bool"
    and sat :: "where_clause \<Rightarrow> 'a base_scheme \<Rightarrow> bool"
  assumes rows_id: "valid d \<Longrightarrow> rows d i = Some r \<Longrightarrow> base_id r = i"
    and rows_live: "valid d \<Longrightarrow> rows d i = Some r \<Longrightarrow> deleted_at r = None"
    and rows_finite: "valid d \<Longrightarrow> finite (dom (rows d))"
    and first_frame: "valid d \<Longrightarrow> g_first api q d = (x, d') \<Longrightarrow> valid d' \<and> rows d' = rows d"
    and first_row: "valid d \<Longrightarrow> g_first api q d = (Inr r, d') \<Longrightarrow>
      rows d (base_id r) = Some r \<and> sat_all sat q r"
    and first_none: "valid d \<Longrightarrow> g_first api q d = (Inl e, d') \<Longrightarrow>
      errors_Is e ErrRecordNotFound \<Longrightarrow> rows d i = Some r \<Longrightarrow> \<not> sat_all sat q r"
    and find_frame: "valid d \<Longrightarrow> g_find api q d = (xs, d') \<Longrightarrow> valid d' \<and> rows d' = rows d"
    and find_sound: "valid d \<Longrightarrow> g_find api q d = (Inr rs, d') \<Longrightarrow> r \<in> set rs \<Longrightarrow>
      rows d (base_id r) = Some r \<and> sat_all sat q r"
    and find_complete: "valid d \<Longrightarrow> g_find api q d = (Inr rs, d') \<Longrightarrow> offset q = None \<Longrightarrow>
      limit q = None \<Longrightarrow> rows d i = Some r \<Longrightarrow> sat_all sat q r \<Longrightarrow> r \<in> set rs"
    and find_distinct: "valid d \<Longrightarrow> g_find api q d = (Inr rs, d') \<Longrightarrow> distinct (map base_id rs)"
    and find_limit: "valid d \<Longrightarrow> g_find api q d = (Inr rs, d') \<Longrightarrow> limit q = Some n \<Longrightarrow>
      0 < n \<Longrightarrow> int (length rs) \<le> n"
    and count_frame: "valid d \<Longrightarrow> g_count api q d = (c, d') \<Longrightarrow> valid d' \<and> rows d' = rows d"
    and count_card: "valid d \<Longrightarrow> g_count api q d = (Inr n, d') \<Longrightarrow>
      n = int (card {i. \<exists>r. rows d i = Some r \<and> sat_all sat q r})"
    and create_ok: "valid d \<Longrightarrow> base_id r \<noteq> uuid_Nil \<Longrightarrow> deleted_at r = None \<Longrightarrow>
      g_create api r d = (Inr r', d') \<Longrightarrow>
      valid d' \<and> same_content r r' \<and> rows d (base_id r) = None \<and>
      rows d' = (rows d)(base_id r := Some r')"
    and create_err: "valid d \<Longrightarrow> g_create api r d = (Inl e, d') \<Longrightarrow> valid d' \<and> rows d' = rows d"
    and save_ok: "valid d \<Longrightarrow> rows d (base_id r) \<noteq> None \<Longrightarrow> deleted_at r = None \<Longrightarrow>
      g_save api r d = (Inr r', d') \<Longrightarrow>
      valid d' \<and> same_content r r' \<and> rows d' = (rows d)(base_id r := Some r')"
    and save_err: "valid d \<Longrightarrow> g_save api r d = (Inl e, d') \<Longrightarrow> valid d' \<and> rows d' = rows d"
    and delete_ok: "valid d \<Longrightarrow> g_delete api q d = (Inr u, d') \<Longrightarrow>
      valid d' \<and> rows d' = (\<lambda>i. case rows d i of None \<Rightarrow> None
                                | Some r \<Rightarrow> if sat_all sat q r then None else Some r)"
    and delete_err: "valid d \<Longrightarrow> g_delete api q d = (Inl e, d') \<Longrightarrow> valid d' \<and> rows d' = rows d"
begin

lemma create_frame:
  "valid d \<Longrightarrow> base_id r \<noteq> uuid_Nil \<Longrightarrow> deleted_at r = None \<Longrightarrow>
   g_create api r d = (x, d') \<Longrightarrow> valid d'"
  by (cases x) (auto dest: create_ok create_err)

lemma save_frame:
  "valid d \<Longrightarrow> rows d (base_id r) \<noteq> None \<Longrightarrow> deleted_at r = None \<Longrightarrow>
   g_save api r d = (x, d') \<Longrightarrow> valid d'"
  by (cases x) (auto dest: save_ok save_err)

lemma delete_frame: "valid d \<Longrightarrow> g_delete api q d = (x, d') \<Longrightarrow> valid d'"
  by (cases x) (auto dest: delete_ok delete_err)

lemma count_pos:
  assumes "valid d" "g_count api q d = (Inr n, d')"
  shows "0 < n \<longleftrightarrow> (\<exists>i r. rows d i = Some r \<and> sat_all sat q r)"
proof -
  have fin: "finite {i. \<exists>r. rows d i = Some r \<and> sat_all sat q r}"
    by (rule finite_subset [OF _ rows_finite [OF assms(1)]]) (auto simp: dom_def)
  have "n = int (card {i. \<exists>r. rows d i = Some r \<and> sat_all sat q r})"
    by (rule count_card [OF assms])
  then show ?thesis using fin by (auto simp: card_gt_0_iff)
qed

end

text \<open>A store whose \<open>Updates\<close> assigns columns: \<open>assign\<close> is the meaning of a column map.\<close>

locale gorm_update_store = gorm_store api rows valid sat
  for api :: "('d, 'a base_scheme) gorm_api"
    and rows :: "'d \<Rightarrow> uuid \<Rightarrow> 'a base_scheme option"
    and valid :: "'d \<Rightarrow> bool"
    and sat :: "where_clause \<Rightarrow> 'a base_scheme \<Rightarrow> bool" +
  fixes assign :: "(string \<times> sqlarg) list \<Rightarrow> 'a base_scheme \<Rightarrow> 'a base_scheme"
  assumes updates_ok: "valid d \<Longrightarrow> g_updates api q cols d = (Inr u, d') \<Longrightarrow>
      valid d' \<and> dom (rows d') = dom (rows d) \<and>
      (\<forall>i r. rows d i = Some r \<longrightarrow> (\<exists>r'. rows d' i = Some r' \<and>
         (if sat_all sat q r then same_content (assign cols r) r' else r' = r)))"
    and updates_err: "valid d \<Longrightarrow> g_updates api q cols d = (Inl e, d') \<Longrightarrow> valid d' \<and> rows d' = rows d"

end
