(* ===== verification/Json.thy ===== *)
theory Json
  imports Gorm
begin

text \<open>
  \<open>encoding/json\<close>: documents as trees, the decoding of one field into a zero value of its Go
  type (an absent field or \<open>null\<close> leaves the zero value, a value of another kind is an error)
  and the encoding of optional fields. UUIDs and times, which have a text form of their own, are
  leaves. Keys are matched exactly, and a document has each key once.
\<close>

section \<open>Documents\<close>

datatype json = JNull | JBool bool | JInt int | JNum rat | JStr string | JUuid uuid | JTime time
  | JArr "json list" | JObj "(string \<times> json) list"

fun json_field :: "json \<Rightarrow> string \<Rightarrow> json option" where
  "json_field (JObj fs) k = map_of fs k"
| "json_field _ k = None"


section \<open>Decoding\<close>

definition err_unmarshal :: go_error where
  "err_unmarshal = errors_New ''json: cannot unmarshal value''"

definition get_uuid :: "json \<Rightarrow> string \<Rightarrow> uuid result" where
  "get_uuid j k = (case json_field j k of None \<Rightarrow> Inr uuid_Nil | Some JNull \<Rightarrow> Inr uuid_Nil
     | Some (JUuid u) \<Rightarrow> Inr u | _ \<Rightarrow> Inl err_unmarshal)"

definition get_uuid_ptr :: "json \<Rightarrow> string \<Rightarrow> uuid option result" where
  "get_uuid_ptr j k = (case json_field j k of None \<Rightarrow> Inr None | Some JNull \<Rightarrow> Inr None
     | Some (JUuid u) \<Rightarrow> Inr (Some u) | _ \<Rightarrow> Inl err_unmarshal)"

definition get_time :: "json \<Rightarrow> string \<Rightarrow> time result" where
  "get_time j k = (case json_field j k of None \<Rightarrow> Inr 0 | Some JNull \<Rightarrow> Inr 0
     | Some (JTime t) \<Rightarrow> Inr t | _ \<Rightarrow> Inl err_unmarshal)"

definition get_time_ptr :: "json \<Rightarrow> string \<Rightarrow> time option result" where
  "get_time_ptr j k = (case json_field j k of None \<Rightarrow> Inr None | Some JNull \<Rightarrow> Inr None
     | Some (JTime t) \<Rightarrow> Inr (Some t) | _ \<Rightarrow> Inl err_unmarshal)"

definition get_str :: "json \<Rightarrow> string \<Rightarrow> string result" where
  "get_str j k = (case json_field j k of None \<Rightarrow> Inr [] | Some JNull \<Rightarrow> Inr []
     | Some (JStr s) \<Rightarrow> Inr s | _ \<Rightarrow> Inl err_unmarshal)"

definition get_str_ptr :: "json \<Rightarrow> string \<Rightarrow> string option result" where
  "get_str_ptr j k = (case json_field j k of None \<Rightarrow> Inr None | Some JNull \<Rightarrow> Inr None
     | Some (JStr s) \<Rightarrow> Inr (Some s) | _ \<Rightarrow> Inl err_unmarshal)"

definition get_int :: "json \<Rightarrow> string \<Rightarrow> int result" where
  "get_int j k = (case json_field j k of None \<Rightarrow> Inr 0 | Some JNull \<Rightarrow> Inr 0
     | Some (JInt n) \<Rightarrow> (if in_int64 n then Inr n else Inl err_unmarshal) | _ \<Rightarrow> Inl err_unmarshal)"

definition get_int_ptr :: "json \<Rightarrow> string \<Rightarrow> int option result" where
  "get_int_ptr j k = (case json_field j k of None \<Rightarrow> Inr None | Some JNull \<Rightarrow> Inr None
     | Some (JInt n) \<Rightarrow> (if in_int64 n then Inr (Some n) else Inl err_unmarshal) | _ \<Rightarrow> Inl err_unmarshal)"

text \<open>A slice of strings: \<open>None\<close> is the nil slice.\<close>

fun json_strs :: "json list \<Rightarrow> string list result" where
  "json_strs [] = Inr []"
| "json_strs (j # js) =
     (case (j, json_strs js) of
        (JStr s, Inr ss) \<Rightarrow> Inr (s # ss)
      | (JNull, Inr ss) \<Rightarrow> Inr ([] # ss)
      | _ \<Rightarrow> Inl err_unmarshal)"

definition get_strs :: "json \<Rightarrow> string \<Rightarrow> string list option result" where
  "get_strs j k = (case json_field j k of None \<Rightarrow> Inr None | Some JNull \<Rightarrow> Inr None
     | Some (JArr js) \<Rightarrow> map_sum id Some (json_strs js) | _ \<Rightarrow> Inl err_unmarshal)"

lemmas json_get_defs = get_uuid_def get_uuid_ptr_def get_time_def get_time_ptr_def get_str_def
  get_str_ptr_def get_int_def get_int_ptr_def get_strs_def

text \<open>The top of a document that is decoded into a struct: an object or \<open>null\<close>.\<close>

definition decode_struct :: "(json \<Rightarrow> 'a result) \<Rightarrow> json \<Rightarrow> 'a result" where
  "decode_struct f j = (case j of JObj _ \<Rightarrow> f j | JNull \<Rightarrow> f j | _ \<Rightarrow> Inl err_unmarshal)"

text \<open>Field after field; the first error ends the decoding.\<close>

definition res_bind :: "'a result \<Rightarrow> ('a \<Rightarrow> 'b result) \<Rightarrow> 'b result" where
  "res_bind r f = (case r of Inl e \<Rightarrow> Inl e | Inr x \<Rightarrow> f x)"

lemma res_bind_simps [simp]: "res_bind (Inr x) f = f x" "res_bind (Inl e) f = Inl e"
  by (simp_all add: res_bind_def)

text \<open>The fields with \<open>omitempty\<close>.\<close>

definition opt_field :: "string \<Rightarrow> ('a \<Rightarrow> json) \<Rightarrow> 'a option \<Rightarrow> (string \<times> json) list" where
  "opt_field k f x = (case x of None \<Rightarrow> [] | Some v \<Rightarrow> [(k, f v)])"

definition str_field :: "string \<Rightarrow> string \<Rightarrow> (string \<times> json) list" where
  "str_field k s = (if s = [] then [] else [(k, JStr s)])"

end
