(* ===== verification/Constants.thy ===== *)
theory Constants
  imports GoBase
begin

text \<open>
  The constants of \<open>pkg/constants\<close>: error messages, roles, status values, cache keys, and the numbers and names
  that no other code of the repository reads, which are definitions here.
\<close>

abbreviation ErrInternalServer :: string where "ErrInternalServer \<equiv> ''internal server error''"
abbreviation ErrBadRequest :: string where "ErrBadRequest \<equiv> ''bad request''"
abbreviation ErrNotFound :: string where "ErrNotFound \<equiv> ''resource not found''"
abbreviation ErrUnauthorized :: string where "ErrUnauthorized \<equiv> ''unauthorized''"
abbreviation ErrForbidden :: string where "ErrForbidden \<equiv> ''forbidden''"
abbreviation ErrInvalidCredentials :: string where "ErrInvalidCredentials \<equiv> ''invalid credentials''"
abbreviation ErrInvalidToken :: string where "ErrInvalidToken \<equiv> ''invalid token''"
abbreviation ErrExpiredToken :: string where "ErrExpiredToken \<equiv> ''token expired''"
abbreviation ErrInvalidRequest :: string where "ErrInvalidRequest \<equiv> ''invalid request''"
abbreviation ErrInvalidField :: string where "ErrInvalidField \<equiv> ''invalid field value''"
abbreviation ErrRequiredField :: string where "ErrRequiredField \<equiv> ''required field missing''"
abbreviation ErrDuplicateEntity :: string where "ErrDuplicateEntity \<equiv> ''entity already exists''"
abbreviation ErrPasswordMismatch :: string where "ErrPasswordMismatch \<equiv> ''passwords do not match''"
abbreviation ErrWeakPassword :: string where
  "ErrWeakPassword \<equiv> ''password does not meet security requirements''"
abbreviation ErrEmailTaken :: string where "ErrEmailTaken \<equiv> ''email already taken''"
abbreviation ErrUsernameTaken :: string where "ErrUsernameTaken \<equiv> ''username already taken''"
abbreviation ErrBookNotAvailable :: string where "ErrBookNotAvailable \<equiv> ''book is not available''"
abbreviation ErrCategoryNotFound :: string where "ErrCategoryNotFound \<equiv> ''category not found''"
abbreviation ErrUserNotFound :: string where "ErrUserNotFound \<equiv> ''user not found''"
abbreviation ErrBookNotFound :: string where "ErrBookNotFound \<equiv> ''book not found''"
abbreviation ErrTokenRevoked :: string where "ErrTokenRevoked \<equiv> ''token has been revoked''"
abbreviation ErrTokenBlacklisted :: string where "ErrTokenBlacklisted \<equiv> ''token is blacklisted''"
abbreviation ErrInvalidRole :: string where "ErrInvalidRole \<equiv> ''invalid user role''"

abbreviation RoleAdmin :: string where "RoleAdmin \<equiv> ''admin''"
abbreviation RoleLibrarian :: string where "RoleLibrarian \<equiv> ''librarian''"
abbreviation RoleMember :: string where "RoleMember \<equiv> ''member''"
abbreviation RoleGuest :: string where "RoleGuest \<equiv> ''guest''"

abbreviation BookStatusAvailable :: string where "BookStatusAvailable \<equiv> ''available''"
abbreviation BookStatusBorrowed :: string where "BookStatusBorrowed \<equiv> ''borrowed''"
abbreviation BookStatusReserved :: string where "BookStatusReserved \<equiv> ''reserved''"
abbreviation BookStatusMaintenance :: string where "BookStatusMaintenance \<equiv> ''maintenance''"

abbreviation UserStatusActive :: string where "UserStatusActive \<equiv> ''active''"
abbreviation UserStatusInactive :: string where "UserStatusInactive \<equiv> ''inactive''"
abbreviation UserStatusPending :: string where "UserStatusPending \<equiv> ''pending''"
abbreviation UserStatusBlocked :: string where "UserStatusBlocked \<equiv> ''blocked''"

abbreviation CacheKeyBook :: string where "CacheKeyBook \<equiv> ''book:''"
abbreviation CacheKeyCategory :: string where "CacheKeyCategory \<equiv> ''category:''"
abbreviation CacheKeyUser :: string where "CacheKeyUser \<equiv> ''user:''"
abbreviation CacheKeyBooks :: string where "CacheKeyBooks \<equiv> ''books:''"
abbreviation CacheKeyCategories :: string where "CacheKeyCategories \<equiv> ''categories:''"
abbreviation CacheKeyUsers :: string where "CacheKeyUsers \<equiv> ''users:''"

abbreviation TokenTypBearer :: string where "TokenTypBearer \<equiv> ''Bearer''"
abbreviation PasswordMinLength :: nat where "PasswordMinLength \<equiv> 8"

definition UsernameMinLength :: int where "UsernameMinLength = 3"

definition UsernameMaxLength :: int where "UsernameMaxLength = 30"

definition DefaultSearchLimit :: int where "DefaultSearchLimit = 20"

definition HeaderAuthorization :: string where "HeaderAuthorization = ''Authorization''"

definition ServiceBook :: string where "ServiceBook = ''book-service''"

definition ServiceCategory :: string where "ServiceCategory = ''category-service''"

definition ServiceUser :: string where "ServiceUser = ''user-service''"

definition ServiceGateway :: string where "ServiceGateway = ''api-gateway''"

definition CacheLongTTL :: duration where "CacheLongTTL = 3600000000000"

definition CacheShortTTL :: duration where "CacheShortTTL = 300000000000"

end
