(* ===== verification/Http.thy ===== *)
theory Http
  imports Json Constants
begin

text \<open>
  What the handlers share: requests and responses of \<open>net/http\<close>, the helpers of
  \<open>pkg/utils/response.go\<close> and \<open>pkg/utils/validation.go\<close>, \<open>strconv.Atoi\<close>, and the status
  errors of gRPC. A handler is a function from the request and the state to the response and the
  state; the client library behind \<open>validator.New()\<close> is a parameter.
\<close>

section \<open>Requests and responses\<close>

text \<open>
  A request: \<open>Header.Get\<close>, \<open>URL.Query().Get\<close> and \<open>mux.Vars\<close> (the empty string when absent),
  the decoded body (an error for malformed JSON), and the values the middleware put into the
  context.
\<close>

record http_request =
  rq_header :: "string \<Rightarrow> string"
  rq_remote :: string
  rq_query :: "string \<Rightarrow> string"
  rq_vars :: "string \<Rightarrow> string"
  rq_body :: "json result"
  rq_user_id :: "string option"
  rq_user_role :: "string option"
  rq_user_email :: "string option"
  rq_auth_token :: "string option"

record http_response =
  rs_status :: int
  rs_body :: json

type_synonym 's http_handler = "http_request \<Rightarrow> 's \<Rightarrow> http_response \<times> 's"

text \<open>\<open>RespondWithJSON\<close>: a payload that does not marshal is status 500.\<close>

definition RespondWithJSON :: "int \<Rightarrow> json result \<Rightarrow> http_response" where
  "RespondWithJSON st payload =
     (case payload of
        Inl _ \<Rightarrow> \<lparr>rs_status = 500, rs_body = JStr ''Error marshaling JSON''\<rparr>
      | Inr j \<Rightarrow> \<lparr>rs_status = st, rs_body = j\<rparr>)"

definition RespondWithError :: "int \<Rightarrow> string \<Rightarrow> go_error option \<Rightarrow> http_response" where
  "RespondWithError st msg err =
     \<lparr>rs_status = st,
      rs_body = JObj ([(''status'', JInt st), (''message'', JStr msg)]
        @ (case err of None \<Rightarrow> [] | Some e \<Rightarrow> str_field ''error'' (err_msg e)))\<rparr>"

definition RespondWithSuccess :: "int \<Rightarrow> string \<Rightarrow> json option \<Rightarrow> http_response" where
  "RespondWithSuccess st msg payload =
     RespondWithJSON st (Inr (JObj ([(''status'', JInt st), (''message'', JStr msg)]
        @ opt_field ''data'' id payload)))"

lemma respond_status [simp]:
  "rs_status (RespondWithError st msg err) = st"
  "rs_status (RespondWithSuccess st msg payload) = st"
  by (simp_all add: RespondWithError_def RespondWithSuccess_def RespondWithJSON_def)

section \<open>utils.Validate\<close>

text \<open>
  A field for the validator: its JSON name, its \<open>validate\<close> tag, its value. The validator
  answers with the failed fields (name, tag, parameter) and the error itself.
\<close>

type_synonym validate_field = "string \<times> string \<times> json"

record field_error =
  fe_field :: string
  fe_tag :: string
  fe_param :: string

type_synonym validator = "validate_field list \<Rightarrow> (field_error list \<times> go_error) option"

definition getErrorMsg :: "field_error \<Rightarrow> string" where
  "getErrorMsg e =
     (if fe_tag e = ''required'' then ''This field is required''
      else if fe_tag e = ''email'' then ''Please enter a valid email address''
      else if fe_tag e = ''min'' then ''This field must be at least '' @ fe_param e @ '' characters long''
      else if fe_tag e = ''max'' then ''This field must not exceed '' @ fe_param e @ '' characters''
      else if fe_tag e = ''alphanum'' then ''This field must contain only letters and numbers''
      else if fe_tag e = ''oneof'' then ''This field must be one of: '' @ fe_param e
      else ''This field failed validation: '' @ fe_tag e)"

text \<open>The map of messages (a later error of the same field overwrites) and the error.\<close>

definition Validate :: "validator \<Rightarrow> validate_field list \<Rightarrow> (string \<rightharpoonup> string) \<times> go_error option" where
  "Validate vd fs =
     (case vd fs of
        None \<Rightarrow> (Map.empty, None)
      | Some (errs, e) \<Rightarrow> (fold (\<lambda>fe m. m(fe_field fe \<mapsto> getErrorMsg fe)) errs Map.empty, Some e))"

lemma Validate_dom:
  assumes "Validate vd fs = (m, Some e)" "vd fs = Some (errs, e)"
  shows "dom m = fe_field ` set errs"
proof -
  have "dom (fold (\<lambda>fe m. m(fe_field fe \<mapsto> getErrorMsg fe)) errs m0) = dom m0 \<union> fe_field ` set errs" for m0
    by (induction errs arbitrary: m0) auto
  from this [of Map.empty] assms show ?thesis by (simp add: Validate_def)
qed

section \<open>strconv.Atoi\<close>

definition digit :: "char \<Rightarrow> int option" where
  "digit c = (let n = of_char c :: int in if 48 \<le> n \<and> n \<le> 57 then Some (n - 48) else None)"

fun digits :: "int \<Rightarrow> string \<Rightarrow> int option" where
  "digits acc [] = Some acc"
| "digits acc (c # s) = (case digit c of None \<Rightarrow> None | Some d \<Rightarrow> digits (acc * 10 + d) s)"

definition atoi :: "string \<Rightarrow> int option" where
  "atoi s =
     (let (neg, ds) = (case s of [] \<Rightarrow> (False, []) | c # t \<Rightarrow>
            if c = CHR ''-'' then (True, t) else if c = CHR ''+'' then (False, t) else (False, s))
      in if ds = [] then None
         else (case digits 0 ds of
                 None \<Rightarrow> None
               | Some n \<Rightarrow> let v = (if neg then - n else n) in if in_int64 v then Some v else None))"

lemma atoi_range: "atoi s = Some n \<Longrightarrow> in_int64 n"
  by (auto simp: atoi_def Let_def split: prod.splits option.splits if_splits)

text \<open>\<open>if s := Query().Get(k); s != "" { if n, err := Atoi(s); err == nil { x = n } }\<close>\<close>

definition query_int :: "http_request \<Rightarrow> string \<Rightarrow> int" where
  "query_int rq k = (case atoi (rq_query rq k) of None \<Rightarrow> 0 | Some n \<Rightarrow> n)"

definition query_opt :: "http_request \<Rightarrow> string \<Rightarrow> string option" where
  "query_opt rq k = (if rq_query rq k = [] then None else Some (rq_query rq k))"

lemma atoi_empty: "atoi [] = None"
  by (simp add: atoi_def)

section \<open>List responses\<close>

text \<open>The list responses of the three services, generic in the item.\<close>

record 'i list_response =
  lr_items :: "'i list"
  lr_total_items :: int
  lr_total_pages :: int
  lr_current_page :: int
  lr_page_size :: int

definition list_response_json :: "string \<Rightarrow> ('i \<Rightarrow> json) \<Rightarrow> 'i list_response \<Rightarrow> json" where
  "list_response_json k f l = JObj
     [(k, JArr (map f (lr_items l))), (''total_items'', JInt (lr_total_items l)),
      (''total_pages'', JInt (lr_total_pages l)), (''current_page'', JInt (lr_current_page l)),
      (''page_size'', JInt (lr_page_size l))]"

text \<open>The gRPC list messages: the counters narrow to \<open>int32\<close>, the total stays \<open>int64\<close>.\<close>

definition proto_list :: "('i \<Rightarrow> 'p) \<Rightarrow> 'i list_response \<Rightarrow> 'p list_response" where
  "proto_list f l =
     \<lparr>lr_items = map f (lr_items l), lr_total_items = lr_total_items l,
      lr_total_pages = wrap32 (lr_total_pages l), lr_current_page = wrap32 (lr_current_page l),
      lr_page_size = wrap32 (lr_page_size l)\<rparr>"

section \<open>gRPC status\<close>

datatype grpc_code = InvalidArgument | NotFound | AlreadyExists | FailedPrecondition | Internal
  | Unauthenticated | PermissionDenied | Unimplemented

type_synonym 'a grpc_result = "(grpc_code \<times> string) + 'a"

section \<open>What handlers of several services share\<close>

text \<open>\<open>isAdminOrLibrarian\<close>, the same function in the handlers of categories, books and users.\<close>

definition isAdminOrLibrarian :: "http_request \<Rightarrow> bool" where
  "isAdminOrLibrarian rq =
     (case rq_user_role rq of None \<Rightarrow> False | Some role \<Rightarrow> role = RoleAdmin \<or> role = RoleLibrarian)"

text \<open>The answer to an error of a write: an internal error hides its message.\<close>

definition write_error :: "go_error \<Rightarrow> http_response" where
  "write_error e =
     (if err_msg e = ErrInternalServer then RespondWithError 500 ErrInternalServer None
      else RespondWithError 400 (err_msg e) None)"

end
