(* ===== verification/RateLimit.thy ===== *)
theory RateLimit
  imports Http
begin

text \<open>
  \<open>pkg/middleware/ratelimit.go\<close> and \<open>extractClientIP\<close> of \<open>logging.go\<close>: a token bucket per
  client IP and one for all requests. The \<open>float64\<close> token counts are rational numbers (exact, no
  rounding); \<open>time.Now()\<close> is an argument; the mutex makes each \<open>Allow\<close> and each round of
  \<open>cleanup\<close> one step. The lemmas bound what any sequence of steps grants.
\<close>

section \<open>The buckets\<close>

record token_bucket =
  tb_tokens :: rat
  tb_last :: time
  tb_capacity :: int
  tb_rate :: rat

record rate_limiter =
  rl_ips :: "string \<Rightarrow> token_bucket option"
  rl_global :: token_bucket
  rl_ipRate :: rat
  rl_ipBurst :: int
  rl_globalRate :: rat
  rl_globalBurst :: int
  rl_cleanupEvery :: duration

definition NewRateLimiter :: "rat \<Rightarrow> int \<Rightarrow> rat \<Rightarrow> int \<Rightarrow> time \<Rightarrow> rate_limiter" where
  "NewRateLimiter ipRate ipBurst globalRate globalBurst now =
     \<lparr>rl_ips = Map.empty,
      rl_global = \<lparr>tb_tokens = of_int globalBurst, tb_last = now, tb_capacity = globalBurst,
                   tb_rate = globalRate\<rparr>,
      rl_ipRate = ipRate, rl_ipBurst = ipBurst, rl_globalRate = globalRate,
      rl_globalBurst = globalBurst, rl_cleanupEvery = 10 * 60 * 1000000000\<rparr>"

definition min_float :: "rat \<Rightarrow> rat \<Rightarrow> rat" where
  "min_float a b = (if a < b then a else b)"

definition Seconds :: "duration \<Rightarrow> rat" where
  "Seconds d = of_int d / 1000000000"

definition refillBucket :: "token_bucket \<Rightarrow> time \<Rightarrow> token_bucket" where
  "refillBucket b now =
     (let elapsed = Seconds (now - tb_last b)
      in b\<lparr>tb_last := now,
           tb_tokens := min_float (of_int (tb_capacity b)) (tb_tokens b + elapsed * tb_rate b)\<rparr>)"

definition take_token :: "token_bucket \<Rightarrow> token_bucket" where
  "take_token b = b\<lparr>tb_tokens := tb_tokens b - 1\<rparr>"

definition Allow :: "rate_limiter \<Rightarrow> string \<Rightarrow> time \<Rightarrow> bool \<times> rate_limiter" where
  "Allow rl ip now =
     (let g = refillBucket (rl_global rl) now
      in if tb_tokens g < 1 then (False, rl\<lparr>rl_global := g\<rparr>)
         else
           let rl1 = rl\<lparr>rl_global := take_token g\<rparr>;
               bucket = (case rl_ips rl1 ip of
                   None \<Rightarrow> \<lparr>tb_tokens = of_int (rl_ipBurst rl1), tb_last = now,
                            tb_capacity = rl_ipBurst rl1, tb_rate = rl_ipRate rl1\<rparr>
                 | Some b \<Rightarrow> refillBucket b now)
           in if tb_tokens bucket < 1 then (False, rl1\<lparr>rl_ips := (rl_ips rl1)(ip := Some bucket)\<rparr>)
              else (True, rl1\<lparr>rl_ips := (rl_ips rl1)(ip := Some (take_token bucket))\<rparr>))"

text \<open>One tick of the \<open>cleanup\<close> goroutine.\<close>

definition cleanup_tick :: "rate_limiter \<Rightarrow> time \<Rightarrow> rate_limiter" where
  "cleanup_tick rl now =
     rl\<lparr>rl_ips := (\<lambda>ip. case rl_ips rl ip of
          None \<Rightarrow> None
        | Some b \<Rightarrow> if tb_tokens b = of_int (tb_capacity b) \<and> now - tb_last b > rl_cleanupEvery rl
                     then None else Some b)\<rparr>"

datatype rl_event = Request string time | Tick time

fun rl_run :: "rl_event list \<Rightarrow> rate_limiter \<Rightarrow> (string \<times> bool) list \<times> rate_limiter" where
  "rl_run [] rl = ([], rl)"
| "rl_run (Request ip now # es) rl =
     (let (ok, rl1) = Allow rl ip now; (gs, rl2) = rl_run es rl1 in ((ip, ok) # gs, rl2))"
| "rl_run (Tick now # es) rl = rl_run es (cleanup_tick rl now)"

fun event_time :: "rl_event \<Rightarrow> time" where
  "event_time (Request ip now) = now"
| "event_time (Tick now) = now"

section \<open>The middleware\<close>

text \<open>
  \<open>net.ParseIP\<close> followed by \<open>String\<close> is a parameter. \<open>net.SplitHostPort\<close>: the host part before
  the last colon; brackets around an IPv6 host; any other colon or bracket is an error.
\<close>

definition split_last_colon :: "string \<Rightarrow> (string \<times> string) option" where
  "split_last_colon s =
     (let r = rev s; p = takeWhile (\<lambda>c. c \<noteq> CHR '':'') r; q = dropWhile (\<lambda>c. c \<noteq> CHR '':'') r
      in case q of [] \<Rightarrow> None | _ # h \<Rightarrow> Some (rev h, rev p))"

definition SplitHostPort :: "string \<Rightarrow> string option" where
  "SplitHostPort s =
     (case split_last_colon s of
        None \<Rightarrow> None
      | Some (h, p) \<Rightarrow>
          if CHR ''['' \<in> set p \<or> CHR '']'' \<in> set p then None
          else (case h of
                  [] \<Rightarrow> Some []
                | c # t \<Rightarrow>
                    if c = CHR ''[''
                    then (if t \<noteq> [] \<and> last t = CHR '']'' \<and> CHR ''['' \<notin> set t \<and> CHR '']'' \<notin> set (butlast t)
                          then Some (butlast t) else None)
                    else if CHR '':'' \<in> set h \<or> CHR ''['' \<in> set h \<or> CHR '']'' \<in> set h then None
                    else Some h))"

definition extractClientIP :: "(string \<Rightarrow> string option) \<Rightarrow> http_request \<Rightarrow> string" where
  "extractClientIP parse_ip rq =
     (let xff = rq_header rq ''X-Forwarded-For''; xri = rq_header rq ''X-Real-IP'';
          by_remote = (case SplitHostPort (rq_remote rq) of None \<Rightarrow> rq_remote rq | Some ip \<Rightarrow> ip);
          by_real = (if xri \<noteq> [] then (case parse_ip xri of Some ip \<Rightarrow> ip | None \<Rightarrow> by_remote) else by_remote)
      in if xff \<noteq> [] then (case parse_ip xff of Some ip \<Rightarrow> ip | None \<Rightarrow> by_real) else by_real)"

definition RateLimit_Middleware ::
  "(string \<Rightarrow> string option) \<Rightarrow> time \<Rightarrow> 's http_handler \<Rightarrow> http_request \<Rightarrow> rate_limiter \<times> 's \<Rightarrow>
   http_response \<times> (rate_limiter \<times> 's)" where
  "RateLimit_Middleware parse_ip now handler rq st =
     (case Allow (fst st) (extractClientIP parse_ip rq) now of
        (False, rl) \<Rightarrow> (RespondWithError 429 ''Rate limit exceeded'' None, (rl, snd st))
      | (True, rl) \<Rightarrow> (case handler rq (snd st) of (rsp, s') \<Rightarrow> (rsp, (rl, s'))))"

section \<open>Well-formed limiters\<close>

definition bucket_ok :: "token_bucket \<Rightarrow> bool" where
  "bucket_ok b \<longleftrightarrow> 0 \<le> tb_tokens b \<and> tb_tokens b \<le> of_int (tb_capacity b) \<and> 0 \<le> tb_rate b"

text \<open>At time \<open>t\<close>: nothing was refilled later, every bucket is in range and has the limits of the limiter.\<close>

definition rl_ok :: "time \<Rightarrow> rate_limiter \<Rightarrow> bool" where
  "rl_ok t rl \<longleftrightarrow>
     bucket_ok (rl_global rl) \<and> tb_last (rl_global rl) \<le> t \<and>
     tb_capacity (rl_global rl) = rl_globalBurst rl \<and> tb_rate (rl_global rl) = rl_globalRate rl \<and>
     0 \<le> rl_ipRate rl \<and> 0 \<le> rl_ipBurst rl \<and>
     (\<forall>ip b. rl_ips rl ip = Some b \<longrightarrow> bucket_ok b \<and> tb_last b \<le> t \<and>
        tb_capacity b = rl_ipBurst rl \<and> tb_rate b = rl_ipRate rl)"

lemma Seconds_nonneg: "0 \<le> d \<Longrightarrow> 0 \<le> Seconds d"
  by (simp add: Seconds_def)

lemma Seconds_add: "Seconds (a + b) = Seconds a + Seconds b"
  by (simp add: Seconds_def add_divide_distrib)

lemma Seconds_split: "Seconds (c - a) = Seconds (c - b) + Seconds (b - a)"
  by (simp add: Seconds_add [symmetric])

lemma refill_ok: "bucket_ok b \<Longrightarrow> tb_last b \<le> now \<Longrightarrow> bucket_ok (refillBucket b now)"
  by (auto simp: bucket_ok_def refillBucket_def Let_def min_float_def Seconds_nonneg)

lemma refill_fields [simp]:
  "tb_last (refillBucket b now) = now" "tb_capacity (refillBucket b now) = tb_capacity b"
  "tb_rate (refillBucket b now) = tb_rate b"
  by (simp_all add: refillBucket_def Let_def)

lemma take_fields [simp]:
  "tb_last (take_token b) = tb_last b" "tb_capacity (take_token b) = tb_capacity b"
  "tb_rate (take_token b) = tb_rate b" "tb_tokens (take_token b) = tb_tokens b - 1"
  by (simp_all add: take_token_def)

lemma take_ok: "bucket_ok b \<Longrightarrow> 1 \<le> tb_tokens b \<Longrightarrow> bucket_ok (take_token b)"
  by (auto simp: bucket_ok_def)

lemma new_limiter_ok:
  "0 \<le> ir \<Longrightarrow> 0 \<le> ib \<Longrightarrow> 0 \<le> gr \<Longrightarrow> 0 \<le> gb \<Longrightarrow> rl_ok now (NewRateLimiter ir ib gr gb now)"
  by (simp add: rl_ok_def NewRateLimiter_def bucket_ok_def)

lemma rl_ok_later: "rl_ok t rl \<Longrightarrow> t \<le> t' \<Longrightarrow> rl_ok t' rl"
  by (fastforce simp: rl_ok_def)

text \<open>The bucket an \<open>Allow\<close> looks at.\<close>

definition ip_bucket :: "rate_limiter \<Rightarrow> string \<Rightarrow> time \<Rightarrow> token_bucket" where
  "ip_bucket rl ip now = (case rl_ips rl ip of
      None \<Rightarrow> \<lparr>tb_tokens = of_int (rl_ipBurst rl), tb_last = now, tb_capacity = rl_ipBurst rl, tb_rate = rl_ipRate rl\<rparr>
    | Some b \<Rightarrow> refillBucket b now)"

lemma ip_bucket_ok:
  assumes "rl_ok t rl" "t \<le> now"
  shows "bucket_ok (ip_bucket rl ip now)" "tb_last (ip_bucket rl ip now) = now"
    "tb_capacity (ip_bucket rl ip now) = rl_ipBurst rl" "tb_rate (ip_bucket rl ip now) = rl_ipRate rl"
proof -
  have "bucket_ok (ip_bucket rl ip now) \<and> tb_last (ip_bucket rl ip now) = now \<and>
    tb_capacity (ip_bucket rl ip now) = rl_ipBurst rl \<and> tb_rate (ip_bucket rl ip now) = rl_ipRate rl"
  proof (cases "rl_ips rl ip")
    case None
    with assms(1) show ?thesis by (simp add: ip_bucket_def rl_ok_def bucket_ok_def)
  next
    case (Some b)
    with assms have "bucket_ok b" "tb_last b \<le> now" "tb_capacity b = rl_ipBurst rl" "tb_rate b = rl_ipRate rl"
      by (fastforce simp: rl_ok_def)+
    with Some show ?thesis by (simp add: ip_bucket_def refill_ok)
  qed
  then show "bucket_ok (ip_bucket rl ip now)" "tb_last (ip_bucket rl ip now) = now"
    "tb_capacity (ip_bucket rl ip now) = rl_ipBurst rl" "tb_rate (ip_bucket rl ip now) = rl_ipRate rl"
    by auto
qed

lemma ip_bucket_cong:
  "rl_ips rl' ip = rl_ips rl ip \<Longrightarrow> rl_ipBurst rl' = rl_ipBurst rl \<Longrightarrow> rl_ipRate rl' = rl_ipRate rl \<Longrightarrow>
   ip_bucket rl' ip now = ip_bucket rl ip now"
  by (cases "rl_ips rl ip") (simp_all add: ip_bucket_def)

lemma ip_bucket_Some: "rl_ips rl ip = Some b \<Longrightarrow> ip_bucket rl ip now = refillBucket b now"
  by (simp add: ip_bucket_def)

lemma Allow_eq:
  "Allow rl ip now =
     (let g = refillBucket (rl_global rl) now; b = ip_bucket rl ip now
      in if tb_tokens g < 1 then (False, rl\<lparr>rl_global := g\<rparr>)
         else if tb_tokens b < 1
         then (False, rl\<lparr>rl_global := take_token g, rl_ips := (rl_ips rl)(ip := Some b)\<rparr>)
         else (True, rl\<lparr>rl_global := take_token g, rl_ips := (rl_ips rl)(ip := Some (take_token b))\<rparr>))"
  by (cases "rl_ips rl ip") (simp_all add: Allow_def ip_bucket_def Let_def)

lemma Allow_ok:
  assumes "rl_ok t rl" "t \<le> now" "Allow rl ip now = (ok, rl')"
  shows "rl_ok now rl'"
proof -
  let ?g = "refillBucket (rl_global rl) now" and ?b = "ip_bucket rl ip now"
  have g: "bucket_ok ?g" using assms(1,2) by (auto simp: rl_ok_def intro: refill_ok)
  note b = ip_bucket_ok [OF assms(1,2), of ip]
  have later: "rl_ok now rl" using assms(1,2) by (rule rl_ok_later)
  consider "tb_tokens ?g < 1" "rl' = rl\<lparr>rl_global := ?g\<rparr>"
    | "1 \<le> tb_tokens ?g" "rl' = rl\<lparr>rl_global := take_token ?g, rl_ips := (rl_ips rl)(ip := Some ?b)\<rparr>"
    | "1 \<le> tb_tokens ?g" "1 \<le> tb_tokens ?b"
      "rl' = rl\<lparr>rl_global := take_token ?g, rl_ips := (rl_ips rl)(ip := Some (take_token ?b))\<rparr>"
    using assms(3) by (force simp: Allow_eq Let_def split: if_splits)
  then show ?thesis
    using g b later by cases (auto simp: rl_ok_def take_ok)
qed

lemma cleanup_ok: "rl_ok t rl \<Longrightarrow> t \<le> now \<Longrightarrow> rl_ok now (cleanup_tick rl now)"
  using rl_ok_later [of t rl now] by (auto simp: rl_ok_def cleanup_tick_def split: option.splits if_splits)

section \<open>What a sequence of requests is granted\<close>

text \<open>The tokens a client could use at time \<open>t\<close>.\<close>

definition avail :: "rate_limiter \<Rightarrow> string \<Rightarrow> time \<Rightarrow> rat" where
  "avail rl ip t = tb_tokens (ip_bucket rl ip t)"

definition granted :: "string \<Rightarrow> (string \<times> bool) list \<Rightarrow> nat" where
  "granted ip gs = length (filter (\<lambda>g. g = (ip, True)) gs)"

fun ordered_from :: "time \<Rightarrow> rl_event list \<Rightarrow> bool" where
  "ordered_from t [] = True"
| "ordered_from t (e # es) = (t \<le> event_time e \<and> ordered_from (event_time e) es)"

definition end_time :: "time \<Rightarrow> rl_event list \<Rightarrow> time" where
  "end_time t es = (if es = [] then t else event_time (last es))"

lemma end_time_simps [simp]: "end_time t [] = t" "end_time t (e # es) = end_time (event_time e) es"
  by (simp_all add: end_time_def)

lemma ordered_end: "ordered_from t es \<Longrightarrow> t \<le> end_time t es"
  by (induction es arbitrary: t) (auto intro: order_trans)

lemma avail_grows:
  assumes "rl_ok t rl" "t \<le> t'"
  shows "avail rl ip t' \<le> avail rl ip t + rl_ipRate rl * Seconds (t' - t)"
proof (cases "rl_ips rl ip")
  case None
  have "0 \<le> rl_ipRate rl * Seconds (t' - t)"
    using assms by (intro mult_nonneg_nonneg Seconds_nonneg) (auto simp: rl_ok_def)
  then show ?thesis by (simp add: avail_def ip_bucket_def None)
next
  case (Some b)
  with assms(1) have b: "bucket_ok b" "tb_rate b = rl_ipRate rl" by (auto simp: rl_ok_def)
  have "0 \<le> rl_ipRate rl * Seconds (t' - t)"
    using assms by (intro mult_nonneg_nonneg Seconds_nonneg) (auto simp: rl_ok_def)
  moreover have "Seconds (t' - tb_last b) * tb_rate b =
      Seconds (t - tb_last b) * tb_rate b + rl_ipRate rl * Seconds (t' - t)"
    by (simp add: Seconds_split [of t' "tb_last b" t] b(2) algebra_simps)
  ultimately show ?thesis
    by (auto simp: avail_def ip_bucket_def Some refillBucket_def Let_def min_float_def)
qed

lemma refill_twice: "bucket_ok b \<Longrightarrow> refillBucket (refillBucket b now) now = refillBucket b now"
  by (auto simp: refillBucket_def Let_def min_float_def Seconds_def bucket_ok_def)

lemma refill_same: "tb_last b = now \<Longrightarrow> tb_tokens b \<le> of_int (tb_capacity b) \<Longrightarrow> tb_tokens (refillBucket b now) = tb_tokens b"
  by (auto simp: refillBucket_def Let_def min_float_def Seconds_def)

lemma Allow_limits:
  assumes "Allow rl ip' now = (ok, rl')"
  shows "rl_ipRate rl' = rl_ipRate rl" "rl_ipBurst rl' = rl_ipBurst rl"
  using assms by (auto simp: Allow_eq Let_def split: if_splits)

lemma Allow_cases:
  assumes "Allow rl ip now = (ok, rl')"
  obtains
    (global) "\<not> ok" "tb_tokens (refillBucket (rl_global rl) now) < 1" "rl_ips rl' = rl_ips rl"
      "rl_global rl' = refillBucket (rl_global rl) now"
  | (client) "\<not> ok" "1 \<le> tb_tokens (refillBucket (rl_global rl) now)" "tb_tokens (ip_bucket rl ip now) < 1"
      "rl_ips rl' = (rl_ips rl)(ip := Some (ip_bucket rl ip now))"
      "rl_global rl' = take_token (refillBucket (rl_global rl) now)"
  | (granted) "ok" "1 \<le> tb_tokens (refillBucket (rl_global rl) now)" "1 \<le> tb_tokens (ip_bucket rl ip now)"
      "rl_ips rl' = (rl_ips rl)(ip := Some (take_token (ip_bucket rl ip now)))"
      "rl_global rl' = take_token (refillBucket (rl_global rl) now)"
  using assms by (auto simp: Allow_eq Let_def not_less split: if_splits)

lemma Allow_avail:
  assumes "rl_ok t rl" "t \<le> now" "Allow rl ip' now = (ok, rl')"
  shows "avail rl' ip now + (if ok \<and> ip' = ip then 1 else 0) \<le> avail rl ip now"
proof -
  let ?b = "ip_bucket rl ip' now"
  note b = ip_bucket_ok [OF assms(1,2), of ip']
  note lim = Allow_limits [OF assms(3)]
  have le: "tb_tokens ?b \<le> of_int (tb_capacity ?b)" using b(1) by (simp add: bucket_ok_def)
  have same: "tb_tokens (refillBucket ?b now) = tb_tokens ?b"
    using refill_same [OF b(2) le] .
  have less: "tb_tokens (refillBucket (take_token ?b) now) = tb_tokens ?b - 1"
    using refill_same [of "take_token ?b" now] b le by simp
  show ?thesis
  proof (cases "ip' = ip")
    case False
    then have "rl_ips rl' ip = rl_ips rl ip" by (cases rule: Allow_cases [OF assms(3)]) auto
    with lim have "ip_bucket rl' ip now = ip_bucket rl ip now" by (intro ip_bucket_cong)
    with False show ?thesis by (simp add: avail_def)
  next
    case True
    from assms(3) show ?thesis
    proof (cases rule: Allow_cases)
      case global
      with lim have "ip_bucket rl' ip now = ip_bucket rl ip now" by (intro ip_bucket_cong) auto
      with global show ?thesis by (simp add: avail_def)
    next
      case client
      with True have "ip_bucket rl' ip now = refillBucket ?b now" by (intro ip_bucket_Some) simp
      with client True same show ?thesis by (simp add: avail_def)
    next
      case granted
      with True have "ip_bucket rl' ip now = refillBucket (take_token ?b) now" by (intro ip_bucket_Some) simp
      with granted True less show ?thesis by (simp add: avail_def)
    qed
  qed
qed

lemma cleanup_avail:
  assumes "rl_ok t rl" "t \<le> now"
  shows "avail (cleanup_tick rl now) ip now = avail rl ip now"
proof (cases "rl_ips rl ip")
  case (Some b)
  with assms have b: "tb_capacity b = rl_ipBurst rl" "tb_last b \<le> now" "bucket_ok b"
    by (fastforce simp: rl_ok_def)+
  have "0 \<le> Seconds (now - tb_last b) * tb_rate b"
    using b by (intro mult_nonneg_nonneg Seconds_nonneg) (auto simp: bucket_ok_def)
  with Some b show ?thesis
    by (auto simp: avail_def ip_bucket_def cleanup_tick_def refillBucket_def Let_def min_float_def)
qed (simp add: avail_def ip_bucket_def cleanup_tick_def)

lemma run_bound:
  assumes "rl_ok t rl" "ordered_from t es" "rl_run es rl = (gs, rl')"
  shows "of_nat (granted ip gs) + avail rl' ip (end_time t es)
      \<le> avail rl ip t + rl_ipRate rl * Seconds (end_time t es - t)"
    and "rl_ok (end_time t es) rl'" and "rl_ipRate rl' = rl_ipRate rl"
proof -
  have "of_nat (granted ip gs) + avail rl' ip (end_time t es)
      \<le> avail rl ip t + rl_ipRate rl * Seconds (end_time t es - t) \<and>
      rl_ok (end_time t es) rl' \<and> rl_ipRate rl' = rl_ipRate rl"
    using assms
  proof (induction es arbitrary: t rl gs)
    case Nil
    then show ?case by (simp add: granted_def Seconds_def)
  next
    case (Cons e es)
    let ?now = "event_time e"
    have t: "t \<le> ?now" "ordered_from ?now es" using Cons.prems(2) by auto
    have sec: "Seconds (end_time ?now es - t) = Seconds (end_time ?now es - ?now) + Seconds (?now - t)"
      by (rule Seconds_split)
    note grow = avail_grows [OF Cons.prems(1) t(1), of ip]
    show ?case
    proof (cases e)
      case (Tick now)
      have run: "rl_run es (cleanup_tick rl now) = (gs, rl')" using Cons.prems(3) Tick by simp
      have ok: "rl_ok now (cleanup_tick rl now)" using cleanup_ok [OF Cons.prems(1)] t Tick by simp
      have r: "rl_ipRate (cleanup_tick rl now) = rl_ipRate rl" by (simp add: cleanup_tick_def)
      from Cons.IH [OF ok _ run] t Tick sec grow cleanup_avail [OF Cons.prems(1), of now ip] r
      show ?thesis by (auto simp: algebra_simps)
    next
      case (Request ip' now)
      obtain ok rl1 where a: "Allow rl ip' now = (ok, rl1)" by (cases "Allow rl ip' now")
      obtain gs2 where run: "rl_run es rl1 = (gs2, rl')" and gs: "gs = (ip', ok) # gs2"
        using Cons.prems(3) Request a by (auto split: prod.splits)
      have now: "t \<le> now" "?now = now" using t Request by auto
      have ok1: "rl_ok now rl1" using Allow_ok [OF Cons.prems(1) now(1) a] .
      note av = Allow_avail [OF Cons.prems(1) now(1) a, of ip] Allow_limits [OF a]
      have g: "of_nat (granted ip gs) = of_nat (granted ip gs2) + (if ok \<and> ip' = ip then 1 else (0 :: rat))"
        by (auto simp: gs granted_def)
      from Cons.IH [OF ok1 _ run] t now sec grow av g
      show ?thesis by (auto simp: algebra_simps)
    qed
  qed
  then show "of_nat (granted ip gs) + avail rl' ip (end_time t es)
      \<le> avail rl ip t + rl_ipRate rl * Seconds (end_time t es - t)"
    and "rl_ok (end_time t es) rl'" and "rl_ipRate rl' = rl_ipRate rl" by auto
qed


text \<open>The same bound for the bucket all clients share.\<close>

definition global_avail :: "rate_limiter \<Rightarrow> time \<Rightarrow> rat" where
  "global_avail rl t = tb_tokens (refillBucket (rl_global rl) t)"

definition granted_all :: "(string \<times> bool) list \<Rightarrow> nat" where
  "granted_all gs = length (filter snd gs)"

lemma refill_grows:
  assumes "bucket_ok b" "t \<le> t'"
  shows "tb_tokens (refillBucket b t') \<le> tb_tokens (refillBucket b t) + tb_rate b * Seconds (t' - t)"
proof -
  have "0 \<le> tb_rate b * Seconds (t' - t)"
    using assms by (intro mult_nonneg_nonneg Seconds_nonneg) (auto simp: bucket_ok_def)
  moreover have "Seconds (t' - tb_last b) * tb_rate b =
      Seconds (t - tb_last b) * tb_rate b + tb_rate b * Seconds (t' - t)"
    by (simp add: Seconds_split [of t' "tb_last b" t] algebra_simps)
  ultimately show ?thesis
    by (auto simp: refillBucket_def Let_def min_float_def)
qed

lemma Allow_global:
  assumes "rl_ok t rl" "t \<le> now" "Allow rl ip now = (ok, rl')"
  shows "global_avail rl' now + (if ok then 1 else 0) \<le> global_avail rl now"
    and "tb_rate (rl_global rl') = tb_rate (rl_global rl)"
proof -
  let ?g = "refillBucket (rl_global rl) now"
  have g: "bucket_ok ?g" using assms(1,2) by (auto simp: rl_ok_def intro: refill_ok)
  then have le: "tb_tokens ?g \<le> of_int (tb_capacity ?g)" by (simp add: bucket_ok_def)
  have same: "tb_tokens (refillBucket ?g now) = tb_tokens ?g"
    using refill_same [OF _ le] by simp
  have less: "tb_tokens (refillBucket (take_token ?g) now) = tb_tokens ?g - 1"
    using refill_same [of "take_token ?g" now] le by simp
  from assms(3) show "global_avail rl' now + (if ok then 1 else 0) \<le> global_avail rl now"
    by (cases rule: Allow_cases) (simp_all add: global_avail_def same less)
  from assms(3) show "tb_rate (rl_global rl') = tb_rate (rl_global rl)"
    by (cases rule: Allow_cases) simp_all
qed

lemma run_global_bound:
  assumes "rl_ok t rl" "ordered_from t es" "rl_run es rl = (gs, rl')"
  shows "of_nat (granted_all gs) + global_avail rl' (end_time t es)
      \<le> global_avail rl t + tb_rate (rl_global rl) * Seconds (end_time t es - t)"
  using assms
proof (induction es arbitrary: t rl gs)
  case Nil
  then show ?case by (simp add: granted_all_def Seconds_def)
next
  case (Cons e es)
  let ?now = "event_time e"
  have t: "t \<le> ?now" "ordered_from ?now es" using Cons.prems(2) by auto
  have sec: "Seconds (end_time ?now es - t) = Seconds (end_time ?now es - ?now) + Seconds (?now - t)"
    by (rule Seconds_split)
  have grow: "global_avail rl ?now \<le> global_avail rl t + tb_rate (rl_global rl) * Seconds (?now - t)"
    using refill_grows [of "rl_global rl" t ?now] Cons.prems(1) t by (simp add: global_avail_def rl_ok_def)
  show ?case
  proof (cases e)
    case (Tick now)
    have run: "rl_run es (cleanup_tick rl now) = (gs, rl')" using Cons.prems(3) Tick by simp
    have ok: "rl_ok now (cleanup_tick rl now)" using cleanup_ok [OF Cons.prems(1)] t Tick by simp
    have r: "rl_global (cleanup_tick rl now) = rl_global rl" by (simp add: cleanup_tick_def)
    from Cons.IH [OF ok _ run] t Tick sec grow r show ?thesis
      by (auto simp: algebra_simps global_avail_def)
  next
    case (Request ip now)
    obtain ok rl1 where a: "Allow rl ip now = (ok, rl1)" by (cases "Allow rl ip now")
    obtain gs2 where run: "rl_run es rl1 = (gs2, rl')" and gs: "gs = (ip, ok) # gs2"
      using Cons.prems(3) Request a by (auto split: prod.splits)
    have now: "t \<le> now" "?now = now" using t Request by auto
    have g: "of_nat (granted_all gs) = of_nat (granted_all gs2) + (if ok then 1 else (0 :: rat))"
      by (simp add: gs granted_all_def)
    from Cons.IH [OF Allow_ok [OF Cons.prems(1) now(1) a] _ run] t now sec grow g
      Allow_global [OF Cons.prems(1) now(1) a]
    show ?thesis by (auto simp: algebra_simps)
  qed
qed

text \<open>With a burst of at least one, no stored bucket is ever full.\<close>

definition none_full :: "rate_limiter \<Rightarrow> bool" where
  "none_full rl \<longleftrightarrow> 1 \<le> rl_ipBurst rl \<and> (\<forall>ip b. rl_ips rl ip = Some b \<longrightarrow> tb_tokens b < of_int (tb_capacity b))"

lemma Allow_none_full:
  assumes "rl_ok t rl" "t \<le> now" "none_full rl" "Allow rl ip now = (ok, rl')"
  shows "none_full rl'"
proof -
  note b = ip_bucket_ok [OF assms(1,2), of ip]
  have "(1 :: rat) \<le> of_int (rl_ipBurst rl)" using assms(3) by (simp add: none_full_def)
  with assms(4,3) b Allow_limits [OF assms(4)] show ?thesis
    by (cases rule: Allow_cases) (auto simp: none_full_def bucket_ok_def split: if_splits)
qed

lemma cleanup_none: "none_full rl \<Longrightarrow> cleanup_tick rl now = rl"
proof -
  assume n: "none_full rl"
  have "(\<lambda>ip. case rl_ips rl ip of None \<Rightarrow> None
      | Some b \<Rightarrow> if tb_tokens b = of_int (tb_capacity b) \<and> now - tb_last b > rl_cleanupEvery rl
                  then None else Some b) = rl_ips rl"
    using n by (fastforce simp: none_full_def fun_eq_iff split: option.split)
  then show ?thesis by (simp add: cleanup_tick_def)
qed

lemma run_none_full:
  "rl_ok t rl \<Longrightarrow> ordered_from t es \<Longrightarrow> none_full rl \<Longrightarrow> rl_run es rl = (gs, rl') \<Longrightarrow> none_full rl'"
proof (induction es arbitrary: t rl gs)
  case (Cons e es)
  show ?case
  proof (cases e)
    case (Tick now)
    with Cons cleanup_none [OF Cons.prems(3)] rl_ok_later [of t rl now] show ?thesis by auto
  next
    case (Request ip now)
    obtain ok rl1 where a: "Allow rl ip now = (ok, rl1)" by (cases "Allow rl ip now")
    obtain gs2 where "rl_run es rl1 = (gs2, rl')"
      using Cons.prems(4) Request a by (auto split: prod.splits)
    with Cons.IH [OF Allow_ok [OF Cons.prems(1) _ a]] Allow_none_full [OF Cons.prems(1) _ Cons.prems(3) a]
      Cons.prems(2) Request show ?thesis by auto
  qed
qed simp

text \<open>All clients together, from a new limiter.\<close>

lemma new_limiter_global:
  assumes "0 \<le> ipRate" "0 \<le> ipBurst" "0 \<le> globalRate" "0 \<le> globalBurst"
    and "ordered_from t es"
    and "rl_run es (NewRateLimiter ipRate ipBurst globalRate globalBurst t) = (gs, rl')"
  shows "of_nat (granted_all gs) \<le> of_int globalBurst + globalRate * Seconds (end_time t es - t)"
proof -
  let ?rl = "NewRateLimiter ipRate ipBurst globalRate globalBurst t"
  have ok: "rl_ok t ?rl" using assms(1-4) by (rule new_limiter_ok)
  have "global_avail ?rl t = of_int globalBurst" "tb_rate (rl_global ?rl) = globalRate"
    by (simp_all add: global_avail_def NewRateLimiter_def refillBucket_def Let_def min_float_def Seconds_def)
  moreover have "0 \<le> global_avail rl' (end_time t es)"
    using run_bound(2) [OF ok assms(5,6)] refill_ok [of "rl_global rl'" "end_time t es"]
    by (simp add: rl_ok_def global_avail_def bucket_ok_def)
  ultimately show ?thesis using run_global_bound [OF ok assms(5,6)] by simp
qed

text \<open>Clients that are new, at one moment, with enough tokens in the global bucket: all are granted.\<close>

lemma refill_now: "tb_last b = now \<Longrightarrow> tb_tokens b \<le> of_int (tb_capacity b) \<Longrightarrow> refillBucket b now = b"
  by (simp add: refillBucket_def Let_def min_float_def Seconds_def)

lemma new_clients_granted:
  assumes "distinct ips" "\<forall>ip \<in> set ips. rl_ips rl ip = None" "1 \<le> rl_ipBurst rl"
    and "tb_last (rl_global rl) = now" "tb_tokens (rl_global rl) \<le> of_int (tb_capacity (rl_global rl))"
    and "of_nat (length ips) \<le> tb_tokens (rl_global rl)"
  shows "\<exists>rl'. rl_run (map (\<lambda>ip. Request ip now) ips) rl = (map (\<lambda>ip. (ip, True)) ips, rl') \<and>
    rl_global rl' = (rl_global rl)\<lparr>tb_tokens := tb_tokens (rl_global rl) - of_nat (length ips)\<rparr>"
  using assms
proof (induction ips arbitrary: rl)
  case Nil
  then show ?case by simp
next
  case (Cons ip ips)
  let ?g = "rl_global rl" and ?b = "ip_bucket rl ip now"
  let ?rl = "rl\<lparr>rl_global := take_token ?g, rl_ips := (rl_ips rl)(ip := Some (take_token ?b))\<rparr>"
  have g: "refillBucket ?g now = ?g" using Cons.prems(4,5) by (rule refill_now)
  have "1 \<le> tb_tokens ?b" using Cons.prems(2,3) by (simp add: ip_bucket_def)
  moreover have "1 \<le> tb_tokens ?g"
    using Cons.prems(6) by (simp add: order_trans [of 1 "1 + rat_of_nat (length ips)"])
  ultimately have step: "Allow rl ip now = (True, ?rl)" by (simp add: Allow_eq Let_def g)
  have "\<exists>rl'. rl_run (map (\<lambda>ip. Request ip now) ips) ?rl = (map (\<lambda>ip. (ip, True)) ips, rl') \<and>
    rl_global rl' = (rl_global ?rl)\<lparr>tb_tokens := tb_tokens (rl_global ?rl) - of_nat (length ips)\<rparr>"
    using Cons.prems by (intro Cons.IH) auto
  with step show ?case by (auto simp: take_token_def)
qed

section \<open>Properties\<close>

text \<open>
  C5. Per-client bound: over any time-ordered sequence of requests and cleanup rounds, a new
  limiter grants one client IP at most its burst plus its rate times the elapsed seconds.
\<close>

theorem ip_rate_bound:
  assumes "0 \<le> ipRate" "0 \<le> ipBurst" "0 \<le> globalRate" "0 \<le> globalBurst"
    and "ordered_from t es"
    and "rl_run es (NewRateLimiter ipRate ipBurst globalRate globalBurst t) = (gs, rl')"
  shows "of_nat (granted ip gs) \<le> of_int ipBurst + ipRate * Seconds (end_time t es - t)"
proof -
  let ?rl = "NewRateLimiter ipRate ipBurst globalRate globalBurst t"
  have ok: "rl_ok t ?rl" using assms(1-4) by (rule new_limiter_ok)
  have "avail ?rl ip t = of_int ipBurst" "rl_ipRate ?rl = ipRate"
    by (simp_all add: avail_def ip_bucket_def NewRateLimiter_def)
  moreover have "0 \<le> avail rl' ip (end_time t es)"
    using ip_bucket_ok(1) [OF run_bound(2) [OF ok assms(5,6)] order_refl]
    by (simp add: avail_def bucket_ok_def)
  ultimately show ?thesis using run_bound(1) [OF ok assms(5,6), of ip] by simp
qed

abbreviation burst_events :: "rl_event list" where
  "burst_events \<equiv> [Request ''a'' 0, Request ''a'' 0, Request ''b'' 0, Request ''a'' 0, Request ''a'' 500000000]"

lemma ip_rate_bound_witness:
  "map snd (fst (rl_run burst_events (NewRateLimiter 2 2 100 100 0))) = [True, True, True, False, True] \<and>
   (of_nat (granted ''a'' (fst (rl_run burst_events (NewRateLimiter 2 2 100 100 0)))) :: rat) \<le> 2 + 2 * (1 / 2)"
proof
  show "map snd (fst (rl_run burst_events (NewRateLimiter 2 2 100 100 0))) = [True, True, True, False, True]"
    by code_simp
  show "(of_nat (granted ''a'' (fst (rl_run burst_events (NewRateLimiter 2 2 100 100 0)))) :: rat) \<le> 2 + 2 * (1 / 2)"
    using ip_rate_bound [of 2 2 100 100 0 burst_events
        "fst (rl_run burst_events (NewRateLimiter 2 2 100 100 0))"
        "snd (rl_run burst_events (NewRateLimiter 2 2 100 100 0))" "''a''"]
    by (simp add: Seconds_def del: rl_run.simps)
qed

text \<open>
  Global bound: all clients together are granted at most the global burst plus the global
  rate times the elapsed seconds.
\<close>

theorem global_rate_bound:
  assumes "0 \<le> ipRate" "0 \<le> ipBurst" "0 \<le> globalRate" "0 \<le> globalBurst"
    and "ordered_from t es"
    and "rl_run es (NewRateLimiter ipRate ipBurst globalRate globalBurst t) = (gs, rl')"
  shows "of_nat (granted_all gs) \<le> of_int globalBurst + globalRate * Seconds (end_time t es - t)"
  by (rule new_limiter_global [OF assms])

lemma global_rate_bound_witness:
  "(of_nat (granted_all (fst (rl_run burst_events (NewRateLimiter 2 2 1 3 0)))) :: rat) \<le> 3 + 1 * (1 / 2) \<and>
   map snd (fst (rl_run burst_events (NewRateLimiter 2 2 1 3 0))) = [True, True, True, False, False]"
proof
  show "(of_nat (granted_all (fst (rl_run burst_events (NewRateLimiter 2 2 1 3 0)))) :: rat) \<le> 3 + 1 * (1 / 2)"
    using global_rate_bound [of 2 2 1 3 0 burst_events
        "fst (rl_run burst_events (NewRateLimiter 2 2 1 3 0))"
        "snd (rl_run burst_events (NewRateLimiter 2 2 1 3 0))"]
    by (simp add: Seconds_def del: rl_run.simps)
  show "map snd (fst (rl_run burst_events (NewRateLimiter 2 2 1 3 0))) = [True, True, True, False, False]"
    by code_simp
qed

text \<open>
  The cleanup never frees a bucket: when the per-IP burst is at least one, every stored bucket
  has given a token since it was last full, so the test \<open>tokens == capacity\<close> of \<open>cleanup\<close> fails
  for every bucket at every time, after any sequence of requests. The table of clients only grows.
\<close>

theorem cleanup_never_evicts:
  assumes "0 \<le> ipRate" "1 \<le> ipBurst" "0 \<le> globalRate" "0 \<le> globalBurst"
    and "ordered_from t es"
    and "rl_run es (NewRateLimiter ipRate ipBurst globalRate globalBurst t) = (gs, rl)"
  shows "cleanup_tick rl now = rl"
proof -
  let ?rl = "NewRateLimiter ipRate ipBurst globalRate globalBurst t"
  have ok: "rl_ok t ?rl" using assms(1-4) by (intro new_limiter_ok) auto
  have "none_full ?rl" using assms(2) by (simp add: none_full_def NewRateLimiter_def)
  then have "none_full rl" using run_none_full [OF ok assms(5) _ assms(6)] by blast
  then show ?thesis by (rule cleanup_none)
qed

lemma cleanup_never_evicts_witness:
  "rl_ips (cleanup_tick (snd (rl_run burst_events (NewRateLimiter 2 2 100 100 0))) 100000000000000) ''b'' \<noteq> None"
proof -
  have "cleanup_tick (snd (rl_run burst_events (NewRateLimiter 2 2 100 100 0))) 100000000000000
      = snd (rl_run burst_events (NewRateLimiter 2 2 100 100 0))"
    using cleanup_never_evicts [of 2 2 100 100 0 burst_events
        "fst (rl_run burst_events (NewRateLimiter 2 2 100 100 0))"
        "snd (rl_run burst_events (NewRateLimiter 2 2 100 100 0))" 100000000000000]
    by (simp del: rl_run.simps)
  moreover have "rl_ips (snd (rl_run burst_events (NewRateLimiter 2 2 100 100 0))) ''b'' \<noteq> None"
    by code_simp
  ultimately show ?thesis by simp
qed

text \<open>
  Isolation and its limit: a request changes no other client's bucket; but a request that the
  client's own bucket denies still takes a token from the global bucket, so a client far over its
  limit uses up the requests of all others.
\<close>

theorem Allow_isolation:
  "rl_ips (snd (Allow rl ip now)) = (rl_ips rl)(ip := rl_ips (snd (Allow rl ip now)) ip) \<and>
   (tb_tokens (refillBucket (rl_global rl) now) \<ge> 1 \<longrightarrow> tb_tokens (ip_bucket rl ip now) < 1 \<longrightarrow>
     \<not> fst (Allow rl ip now) \<and>
     tb_tokens (rl_global (snd (Allow rl ip now))) = tb_tokens (refillBucket (rl_global rl) now) - 1)"
  by (auto simp: Allow_eq Let_def not_less)

lemma Allow_isolation_witness:
  "\<not> fst (Allow (snd (rl_run [Request ''a'' 0] (NewRateLimiter 1 1 1 5 0))) ''a'' 0) \<and>
   tb_tokens (rl_global (snd (Allow (snd (rl_run [Request ''a'' 0] (NewRateLimiter 1 1 1 5 0))) ''a'' 0))) = 3"
proof -
  let ?rl = "snd (rl_run [Request ''a'' 0] (NewRateLimiter 1 1 1 5 0))"
  have 1: "tb_tokens (refillBucket (rl_global ?rl) 0) = 4" "tb_tokens (ip_bucket ?rl ''a'' 0) = 0"
    by code_simp+
  from Allow_isolation [of ?rl "''a''" 0] 1 show ?thesis by simp
qed

text \<open>
  C35. The per-client limit is the client's choice: a single host that puts another address into
  \<open>X-Forwarded-For\<close> of each request is granted the whole global burst at once, however small the burst
  per client, and whoever asks next at that moment is refused.
\<close>

theorem spoofing_starves:
  assumes "1 \<le> ipBurst" and "int (length rqs) = globalBurst"
    and "\<forall>rq \<in> set rqs. rq_remote rq = host \<and> rq_header rq ''X-Forwarded-For'' \<noteq> [] \<and>
      parse_ip (rq_header rq ''X-Forwarded-For'') \<noteq> None"
    and "distinct (map (\<lambda>rq. the (parse_ip (rq_header rq ''X-Forwarded-For''))) rqs)"
    and "rl_run (map (\<lambda>rq. Request (extractClientIP parse_ip rq) now) rqs)
      (NewRateLimiter ipRate ipBurst globalRate globalBurst now) = (gs, rl')"
  shows "map snd gs = replicate (length rqs) True \<and> \<not> fst (Allow rl' ip now)"
proof -
  let ?rl = "NewRateLimiter ipRate ipBurst globalRate globalBurst now"
  let ?ips = "map (\<lambda>rq. the (parse_ip (rq_header rq ''X-Forwarded-For''))) rqs"
  have ips: "map (\<lambda>rq. Request (extractClientIP parse_ip rq) now) rqs = map (\<lambda>ip. Request ip now) ?ips"
    using assms(3) by (auto simp: extractClientIP_def Let_def)
  have burst: "of_int globalBurst = (of_nat (length rqs) :: rat)" using assms(2) by auto
  obtain rl1 where run: "rl_run (map (\<lambda>ip. Request ip now) ?ips) ?rl = (map (\<lambda>ip. (ip, True)) ?ips, rl1)"
    and g: "rl_global rl1 = (rl_global ?rl)\<lparr>tb_tokens := tb_tokens (rl_global ?rl) - of_nat (length ?ips)\<rparr>"
    using new_clients_granted [OF assms(4), of ?rl now] assms(1) burst
    by (auto simp: NewRateLimiter_def)
  then have rl': "gs = map (\<lambda>ip. (ip, True)) ?ips" "rl' = rl1" using assms(5) unfolding ips by auto
  have "tb_tokens (rl_global rl1) = 0" "tb_last (rl_global rl1) = now" "tb_capacity (rl_global rl1) = globalBurst"
    using g burst by (simp_all add: NewRateLimiter_def)
  then have "refillBucket (rl_global rl1) now = rl_global rl1" using burst by (intro refill_now) simp_all
  with \<open>tb_tokens (rl_global rl1) = 0\<close> have "\<not> fst (Allow rl1 ip now)" by (simp add: Allow_eq Let_def)
  with rl' show ?thesis by (simp add: map_replicate_const comp_def)
qed

definition spoofed_request :: "string \<Rightarrow> http_request" where
  "spoofed_request ip =
     \<lparr>rq_header = (\<lambda>k. if k = ''X-Forwarded-For'' then ip else []), rq_remote = ''10.0.0.9:4000'',
      rq_query = (\<lambda>_. []), rq_vars = (\<lambda>_. []), rq_body = Inr JNull, rq_user_id = None,
      rq_user_role = None, rq_user_email = None, rq_auth_token = None\<rparr>"

lemma spoofing_starves_witness:
  "\<not> fst (Allow (snd (rl_run (map (\<lambda>rq. Request (extractClientIP Some rq) 0)
      (map spoofed_request [''1.1.1.1'', ''1.1.1.2'', ''1.1.1.3''])) (NewRateLimiter 1 1 1 3 0))) ''8.8.8.8'' 0)"
proof -
  let ?rqs = "map spoofed_request [''1.1.1.1'', ''1.1.1.2'', ''1.1.1.3'']"
  let ?run = "rl_run (map (\<lambda>rq. Request (extractClientIP Some rq) 0) ?rqs) (NewRateLimiter 1 1 1 3 0)"
  have a: "(1 :: int) \<le> 1" "int (length ?rqs) = 3" by simp_all
  have rqs: "\<forall>rq \<in> set ?rqs. rq_remote rq = ''10.0.0.9:4000'' \<and> rq_header rq ''X-Forwarded-For'' \<noteq> [] \<and>
      Some (rq_header rq ''X-Forwarded-For'') \<noteq> None"
    by (simp add: spoofed_request_def)
  have d: "distinct (map (\<lambda>rq. the (Some (rq_header rq ''X-Forwarded-For''))) ?rqs)"
    by (simp add: spoofed_request_def)
  have run: "?run = (fst ?run, snd ?run)" by simp
  from spoofing_starves [where parse_ip = Some, OF a rqs d run] show ?thesis by blast
qed

end
