(* ===== verification/MemStore.thy ===== *)
theory MemStore
  imports Gorm
begin

text \<open>
  A concrete database for the witnesses: the live rows of one table as a list in insertion
  order. \<open>conflict\<close> is the table's \<open>UNIQUE\<close> constraint, \<open>sat\<close> the meaning of its
  \<open>WHERE\<close> clauses, \<open>assign\<close> that of a column map. Sort keys are ignored. The
  interpretation shows that the laws of \<open>gorm_update_store\<close> can hold together.
\<close>

definition err_not_found :: go_error where
  "err_not_found = GoError ''record not found'' [ErrRecordNotFound]"

definition err_duplicate :: go_error where
  "err_duplicate = GoError ''duplicate key value violates unique constraint'' []"

definition mem_window :: "stmt \<Rightarrow> 'r list \<Rightarrow> 'r list" where
  "mem_window q rs =
     (let rs' = (case offset q of None \<Rightarrow> rs | Some n \<Rightarrow> drop (nat n) rs)
      in case limit q of None \<Rightarrow> rs' | Some n \<Rightarrow> take (nat n) rs')"

definition mem_create ::
  "('a base_scheme \<Rightarrow> 'a base_scheme \<Rightarrow> bool) \<Rightarrow> 'a base_scheme \<Rightarrow> 'a base_scheme list \<Rightarrow>
   'a base_scheme result \<times> 'a base_scheme list" where
  "mem_create conflict r d =
     (if base_id r \<in> base_id ` set d \<or> (\<exists>x \<in> set d. conflict r x) then (Inl err_duplicate, d)
      else (Inr r, d @ [r]))"

definition mem_find :: "(where_clause \<Rightarrow> 'r \<Rightarrow> bool) \<Rightarrow> stmt \<Rightarrow> 'r list \<Rightarrow> 'r list result \<times> 'r list" where
  "mem_find sat q d = (Inr (mem_window q (filter (sat_all sat q) d)), d)"

definition mem_first :: "(where_clause \<Rightarrow> 'r \<Rightarrow> bool) \<Rightarrow> stmt \<Rightarrow> 'r list \<Rightarrow> 'r result \<times> 'r list" where
  "mem_first sat q d =
     (case filter (sat_all sat q) d of [] \<Rightarrow> (Inl err_not_found, d) | r # _ \<Rightarrow> (Inr r, d))"

definition mem_count :: "(where_clause \<Rightarrow> 'r \<Rightarrow> bool) \<Rightarrow> stmt \<Rightarrow> 'r list \<Rightarrow> int result \<times> 'r list" where
  "mem_count sat q d = (Inr (int (length (filter (sat_all sat q) d))), d)"

definition mem_save ::
  "('a base_scheme \<Rightarrow> 'a base_scheme \<Rightarrow> bool) \<Rightarrow> 'a base_scheme \<Rightarrow> 'a base_scheme list \<Rightarrow>
   'a base_scheme result \<times> 'a base_scheme list" where
  "mem_save conflict r d =
     (if \<exists>x \<in> set d. base_id x \<noteq> base_id r \<and> conflict r x then (Inl err_duplicate, d)
      else (Inr r, map (\<lambda>x. if base_id x = base_id r then r else x) d))"

definition mem_delete :: "(where_clause \<Rightarrow> 'r \<Rightarrow> bool) \<Rightarrow> stmt \<Rightarrow> 'r list \<Rightarrow> unit result \<times> 'r list" where
  "mem_delete sat q d = (Inr (), filter (\<lambda>r. \<not> sat_all sat q r) d)"

definition mem_updates ::
  "(where_clause \<Rightarrow> 'r \<Rightarrow> bool) \<Rightarrow> ((string \<times> sqlarg) list \<Rightarrow> 'r \<Rightarrow> 'r) \<Rightarrow>
   stmt \<Rightarrow> (string \<times> sqlarg) list \<Rightarrow> 'r list \<Rightarrow> unit result \<times> 'r list" where
  "mem_updates sat assign q cols d =
     (Inr (), map (\<lambda>r. if sat_all sat q r then assign cols r else r) d)"

definition mem_api ::
  "('a base_scheme \<Rightarrow> 'a base_scheme \<Rightarrow> bool) \<Rightarrow> (where_clause \<Rightarrow> 'a base_scheme \<Rightarrow> bool) \<Rightarrow>
   ((string \<times> sqlarg) list \<Rightarrow> 'a base_scheme \<Rightarrow> 'a base_scheme) \<Rightarrow>
   ('a base_scheme list, 'a base_scheme) gorm_api" where
  "mem_api conflict sat assign =
     \<lparr>g_create = mem_create conflict, g_first = mem_first sat, g_find = mem_find sat,
      g_count = mem_count sat, g_save = mem_save conflict, g_delete = mem_delete sat,
      g_updates = mem_updates sat assign\<rparr>"

definition mem_rows :: "'a base_scheme list \<Rightarrow> uuid \<Rightarrow> 'a base_scheme option" where
  "mem_rows d i = List.find (\<lambda>r. base_id r = i) d"

definition mem_valid :: "'a base_scheme list \<Rightarrow> bool" where
  "mem_valid d \<longleftrightarrow> distinct (map base_id d) \<and> (\<forall>r \<in> set d. deleted_at r = None)"

lemmas mem_ops = mem_create_def mem_find_def mem_first_def mem_count_def mem_save_def
  mem_delete_def mem_updates_def

lemma mem_api_simps [simp]:
  "g_create (mem_api conflict sat assign) = mem_create conflict"
  "g_first (mem_api conflict sat assign) = mem_first sat"
  "g_find (mem_api conflict sat assign) = mem_find sat"
  "g_count (mem_api conflict sat assign) = mem_count sat"
  "g_save (mem_api conflict sat assign) = mem_save conflict"
  "g_delete (mem_api conflict sat assign) = mem_delete sat"
  "g_updates (mem_api conflict sat assign) = mem_updates sat assign"
  by (simp_all add: mem_api_def)

lemma mem_rows_Nil [simp]: "mem_rows [] i = None"
  by (simp add: mem_rows_def)

lemma mem_rows_Cons [simp]: "mem_rows (r # d) i = (if base_id r = i then Some r else mem_rows d i)"
  by (simp add: mem_rows_def)

lemma mem_rows_SomeD: "mem_rows d i = Some r \<Longrightarrow> r \<in> set d \<and> base_id r = i"
  by (induction d) (auto split: if_splits)

lemma mem_rows_None: "mem_rows d i = None \<longleftrightarrow> i \<notin> base_id ` set d"
  by (induction d) auto

lemma mem_rows_iff: "mem_valid d \<Longrightarrow> mem_rows d i = Some r \<longleftrightarrow> r \<in> set d \<and> base_id r = i"
  by (induction d) (auto simp: mem_valid_def)

lemma mem_rows_snoc:
  "base_id r \<notin> base_id ` set d \<Longrightarrow> mem_rows (d @ [r]) = (mem_rows d)(base_id r := Some r)"
  by (induction d) (auto simp: fun_eq_iff)

lemma mem_rows_map:
  "(\<And>x. x \<in> set d \<Longrightarrow> base_id (f x) = base_id x) \<Longrightarrow> mem_rows (map f d) i = map_option f (mem_rows d i)"
  by (induction d) auto

lemma mem_rows_replace:
  "mem_rows d (base_id r) = Some y \<Longrightarrow>
   mem_rows (map (\<lambda>x. if base_id x = base_id r then r else x) d) = (mem_rows d)(base_id r := Some r)"
proof (rule ext, subst mem_rows_map)
  fix i
  assume "mem_rows d (base_id r) = Some y"
  then show "map_option (\<lambda>x. if base_id x = base_id r then r else x) (mem_rows d i) =
      ((mem_rows d)(base_id r := Some r)) i"
    by (cases "mem_rows d i") (auto dest: mem_rows_SomeD)
qed simp

lemma mem_valid_map:
  "(\<And>x. x \<in> set d \<Longrightarrow> base_id (f x) = base_id x \<and> deleted_at (f x) = None) \<Longrightarrow>
   mem_valid d \<Longrightarrow> mem_valid (map f d)"
  by (auto simp: mem_valid_def comp_def cong: map_cong)

lemma mem_rows_filter:
  "mem_valid d \<Longrightarrow> mem_rows (filter P d) i =
     (case mem_rows d i of None \<Rightarrow> None | Some r \<Rightarrow> if P r then Some r else None)"
proof (induction d)
  case Nil
  then show ?case by simp
next
  case (Cons x d)
  then have v: "mem_valid d" and x: "base_id x \<notin> base_id ` set d"
    by (auto simp: mem_valid_def)
  show ?case
  proof (cases "base_id x = i")
    case True
    with x have "mem_rows d i = None" by (simp add: mem_rows_None)
    with True Cons.IH [OF v] show ?thesis by simp
  next
    case False
    with Cons.IH [OF v] show ?thesis by simp
  qed
qed

lemma mem_valid_filter: "mem_valid d \<Longrightarrow> mem_valid (filter P d)"
  by (simp add: mem_valid_def distinct_map_filter)

lemma mem_valid_live: "mem_valid d \<Longrightarrow> r \<in> set d \<Longrightarrow> deleted_at r = None"
  by (simp add: mem_valid_def)

lemma mem_window_set: "set (mem_window q rs) \<subseteq> set rs"
  by (auto simp: mem_window_def Let_def split: option.splits dest: in_set_takeD in_set_dropD)

lemma mem_window_distinct: "distinct (map f rs) \<Longrightarrow> distinct (map f (mem_window q rs))"
  by (auto simp: mem_window_def Let_def take_map [symmetric] drop_map [symmetric] split: option.splits)

lemma mem_window_limit: "limit q = Some n \<Longrightarrow> 0 < n \<Longrightarrow> int (length (mem_window q rs)) \<le> n"
  by (auto simp: mem_window_def Let_def split: option.splits)

lemma mem_window_none: "offset q = None \<Longrightarrow> limit q = None \<Longrightarrow> mem_window q rs = rs"
  by (simp add: mem_window_def)

lemma mem_card:
  assumes "mem_valid d"
  shows "card {i. \<exists>r. mem_rows d i = Some r \<and> P r} = length (filter P d)"
proof -
  have "{i. \<exists>r. mem_rows d i = Some r \<and> P r} = base_id ` set (filter P d)"
    using mem_rows_iff [OF assms] by auto
  also have "card \<dots> = length (filter P d)"
    using mem_valid_filter [OF assms, of P]
    by (metis distinct_card length_map mem_valid_def set_map)
  finally show ?thesis .
qed

lemma filter_ConsD: "filter P xs = y # ys \<Longrightarrow> y \<in> set xs \<and> P y"
  by (drule arg_cong [of _ _ set]) auto

text \<open>The store laws hold for the list store.\<close>

lemma mem_gorm_store: "gorm_store (mem_api conflict sat assign) mem_rows mem_valid sat"
proof (unfold_locales, goal_cases)
  case (3 d)
  have "dom (mem_rows d) \<subseteq> base_id ` set d"
    by (auto dest: mem_rows_SomeD)
  then show ?case by (rule finite_subset) simp
next
  case (5 d q r d')
  then show ?case
    by (auto simp: mem_first_def mem_rows_iff split: list.splits dest: filter_ConsD)
next
  case (9 d q rs d' i r)
  then show ?case by (auto simp: mem_find_def mem_window_none mem_rows_iff)
next
  case (10 d q rs d')
  then show ?case by (auto simp: mem_find_def mem_valid_def distinct_map_filter intro: mem_window_distinct)
next
  case (11 d q rs d' n)
  then show ?case by (auto simp: mem_find_def intro: mem_window_limit)
next
  case (13 d q n d')
  then show ?case by (auto simp: mem_count_def mem_card)
next
  case (14 d r r' d')
  then show ?case
    by (auto simp: mem_create_def mem_valid_def mem_rows_None mem_rows_snoc split: if_splits)
next
  case (16 d r r' d')
  then show ?case
    by (auto simp: mem_save_def mem_rows_replace split: if_splits intro!: mem_valid_map)
      (auto simp: mem_valid_def)
next
  case (18 d q u d')
  then show ?case
    by (auto simp: mem_delete_def mem_valid_filter mem_rows_filter fun_eq_iff split: option.splits)
qed (auto simp: mem_ops mem_rows_iff mem_card mem_valid_live sat_all_def filter_empty_conv
       dest!: mem_rows_SomeD subsetD [OF mem_window_set]
       split: list.splits if_splits)

interpretation mem: gorm_store "mem_api conflict sat assign" mem_rows mem_valid sat
  by (rule mem_gorm_store)

lemma mem_update_store:
  assumes "\<And>cols r. base_id (assign cols r) = base_id r"
    and "\<And>cols r. deleted_at (assign cols r) = deleted_at r"
  shows "gorm_update_store (mem_api conflict sat assign) mem_rows mem_valid sat assign"
proof (intro gorm_update_store.intro mem_gorm_store, unfold_locales, goal_cases)
  case (1 d q cols u d')
  let ?f = "\<lambda>r. if sat_all sat q r then assign cols r else r"
  have d': "d' = map ?f d" using 1 by (simp add: mem_updates_def)
  have r: "mem_rows d' i = map_option ?f (mem_rows d i)" for i
    unfolding d' by (rule mem_rows_map) (simp add: assms)
  have "mem_valid d'"
    unfolding d' using 1(1) by (intro mem_valid_map) (auto simp: assms mem_valid_def)
  with r show ?case by (auto simp: dom_def)
qed (simp add: mem_updates_def)

end
