(* ===== verification/RedisCache.thy ===== *)
theory RedisCache
  imports MemStore Json
begin

text \<open>
  The cache of \<open>pkg/cache/redis.go\<close>: JSON encoding around the Redis client, and the two
  ways the repositories use it (read through, ignore-errors invalidation). The client
  \<open>github.com/go-redis/redis\<close> is the parameter \<open>redis_client\<close>; JSON documents are kept as
  trees (the text form of UUIDs and times is one leaf). The locale \<open>cache_store\<close> states what
  the repositories rely on: entries may vanish at any call (expiry, eviction), calls may fail,
  nothing else appears.
\<close>

section \<open>The client and the wrapper\<close>

record 'c redis_client =
  rc_get :: "string \<Rightarrow> 'c \<Rightarrow> json result \<times> 'c"
  rc_set :: "string \<Rightarrow> json \<Rightarrow> duration \<Rightarrow> 'c \<Rightarrow> unit result \<times> 'c"
  rc_del :: "string \<Rightarrow> 'c \<Rightarrow> unit result \<times> 'c"
  rc_exists :: "string \<Rightarrow> 'c \<Rightarrow> int result \<times> 'c"
  rc_expire :: "string \<Rightarrow> duration \<Rightarrow> 'c \<Rightarrow> unit result \<times> 'c"
  rc_incr :: "string \<Rightarrow> 'c \<Rightarrow> int result \<times> 'c"
  rc_hset :: "string \<Rightarrow> string \<Rightarrow> json \<Rightarrow> 'c \<Rightarrow> unit result \<times> 'c"
  rc_hget :: "string \<Rightarrow> string \<Rightarrow> 'c \<Rightarrow> json result \<times> 'c"
  rc_hdel :: "string \<Rightarrow> string \<Rightarrow> 'c \<Rightarrow> unit result \<times> 'c"
  rc_hexists :: "string \<Rightarrow> string \<Rightarrow> 'c \<Rightarrow> bool result \<times> 'c"

definition redis_Nil :: go_error where
  "redis_Nil = GoError ''redis: nil'' [RedisNil]"

definition wrap_err :: "string \<Rightarrow> 'a result \<times> 'c \<Rightarrow> 'a result \<times> 'c" where
  "wrap_err m p = (case p of (Inl e, c) \<Rightarrow> (Inl (errorf_wrap m e), c) | (Inr x, c) \<Rightarrow> (Inr x, c))"

definition Redis_Set ::
  "'c redis_client \<Rightarrow> ('v \<Rightarrow> json result) \<Rightarrow> string \<Rightarrow> 'v \<Rightarrow> duration \<Rightarrow> 'c \<Rightarrow> unit result \<times> 'c" where
  "Redis_Set cl marshal key value expiration c =
     (case marshal value of
        Inl e \<Rightarrow> (Inl (errorf_wrap ''failed to marshal value'' e), c)
      | Inr data \<Rightarrow> wrap_err ''failed to set key'' (rc_set cl key data expiration c))"

definition Redis_Get ::
  "'c redis_client \<Rightarrow> (json \<Rightarrow> 'v result) \<Rightarrow> string \<Rightarrow> 'c \<Rightarrow> 'v result \<times> 'c" where
  "Redis_Get cl unmarshal key c =
     (case rc_get cl key c of
        (Inl e, c') \<Rightarrow>
          if e = redis_Nil then (Inl (errors_New (''key not found: '' @ key)), c')
          else (Inl (errorf_wrap ''failed to get key'' e), c')
      | (Inr data, c') \<Rightarrow>
          (case unmarshal data of
             Inl e \<Rightarrow> (Inl (errorf_wrap ''failed to unmarshal value'' e), c')
           | Inr v \<Rightarrow> (Inr v, c')))"

definition Redis_Delete :: "'c redis_client \<Rightarrow> string \<Rightarrow> 'c \<Rightarrow> unit result \<times> 'c" where
  "Redis_Delete cl key c = wrap_err ''failed to delete key'' (rc_del cl key c)"

text \<open>\<open>Close\<close> hands on what the connection pool answers.\<close>

definition Redis_Close :: "('c \<Rightarrow> unit result \<times> 'c) \<Rightarrow> 'c \<Rightarrow> unit result \<times> 'c" where
  "Redis_Close pool_close c = pool_close c"

definition Redis_Exists :: "'c redis_client \<Rightarrow> string \<Rightarrow> 'c \<Rightarrow> bool result \<times> 'c" where
  "Redis_Exists cl key c =
     (case rc_exists cl key c of
        (Inl e, c') \<Rightarrow> (Inl (errorf_wrap ''failed to check key existence'' e), c')
      | (Inr count, c') \<Rightarrow> (Inr (count > 0), c'))"

definition Redis_Expire :: "'c redis_client \<Rightarrow> string \<Rightarrow> duration \<Rightarrow> 'c \<Rightarrow> unit result \<times> 'c" where
  "Redis_Expire cl key expiration c =
     wrap_err ''failed to set expiration time'' (rc_expire cl key expiration c)"

definition Redis_Incr :: "'c redis_client \<Rightarrow> string \<Rightarrow> 'c \<Rightarrow> int result \<times> 'c" where
  "Redis_Incr cl key c = wrap_err ''failed to increment key'' (rc_incr cl key c)"

definition Redis_HSet ::
  "'c redis_client \<Rightarrow> ('v \<Rightarrow> json result) \<Rightarrow> string \<Rightarrow> string \<Rightarrow> 'v \<Rightarrow> 'c \<Rightarrow> unit result \<times> 'c" where
  "Redis_HSet cl marshal key field value c =
     (case marshal value of
        Inl e \<Rightarrow> (Inl (errorf_wrap ''failed to marshal value'' e), c)
      | Inr data \<Rightarrow> wrap_err ''failed to set hash field'' (rc_hset cl key field data c))"

definition Redis_HGet ::
  "'c redis_client \<Rightarrow> (json \<Rightarrow> 'v result) \<Rightarrow> string \<Rightarrow> string \<Rightarrow> 'c \<Rightarrow> 'v result \<times> 'c" where
  "Redis_HGet cl unmarshal key field c =
     (case rc_hget cl key field c of
        (Inl e, c') \<Rightarrow>
          if e = redis_Nil then (Inl (errors_New (''field not found: '' @ field)), c')
          else (Inl (errorf_wrap ''failed to get hash field'' e), c')
      | (Inr data, c') \<Rightarrow>
          (case unmarshal data of
             Inl e \<Rightarrow> (Inl (errorf_wrap ''failed to unmarshal value'' e), c')
           | Inr v \<Rightarrow> (Inr v, c')))"

definition Redis_HDelete :: "'c redis_client \<Rightarrow> string \<Rightarrow> string \<Rightarrow> 'c \<Rightarrow> unit result \<times> 'c" where
  "Redis_HDelete cl key field c = wrap_err ''failed to delete hash field'' (rc_hdel cl key field c)"

definition Redis_HExists :: "'c redis_client \<Rightarrow> string \<Rightarrow> string \<Rightarrow> 'c \<Rightarrow> bool result \<times> 'c" where
  "Redis_HExists cl key field c =
     wrap_err ''failed to check hash field existence'' (rc_hexists cl key field c)"

text \<open>\<open>constants.CacheDefaultTTL\<close>: 15 minutes in nanoseconds.\<close>

definition CacheDefaultTTL :: duration where
  "CacheDefaultTTL = 15 * 60 * 1000000000"

section \<open>How repositories use it\<close>

text \<open>
  The read-through of every \<open>GetBy...\<close> method: a cache hit is returned as it decodes; a miss
  (any error of \<open>Get\<close>) runs the query, wraps \<open>ErrRecordNotFound\<close> and stores the row,
  ignoring the error of \<open>Set\<close>. The repository's \<open>cache\<close> field may be nil.
\<close>

definition wrap_not_found :: "string \<Rightarrow> go_error \<Rightarrow> go_error" where
  "wrap_not_found m e = (if errors_Is e ErrRecordNotFound then errorf_wrap m e else e)"

definition read_through ::
  "'c redis_client option \<Rightarrow> ('r \<Rightarrow> json) \<Rightarrow> (json \<Rightarrow> 'r result) \<Rightarrow> string \<Rightarrow> string \<Rightarrow>
   ('d \<Rightarrow> 'r result \<times> 'd) \<Rightarrow> 'd \<times> 'c \<Rightarrow> 'r result \<times> ('d \<times> 'c)" where
  "read_through cache marshal unmarshal key nf query s =
     (case cache of
        None \<Rightarrow>
          (case query (fst s) of
             (Inl e, d) \<Rightarrow> (Inl (wrap_not_found nf e), (d, snd s))
           | (Inr r, d) \<Rightarrow> (Inr r, (d, snd s)))
      | Some cl \<Rightarrow>
          (case Redis_Get cl unmarshal key (snd s) of
             (Inr r, c) \<Rightarrow> (Inr r, (fst s, c))
           | (Inl _, c) \<Rightarrow>
               (case query (fst s) of
                  (Inl e, d) \<Rightarrow> (Inl (wrap_not_found nf e), (d, c))
                | (Inr r, d) \<Rightarrow>
                    (Inr r, (d, snd (Redis_Set cl (\<lambda>x. Inr (marshal x)) key r CacheDefaultTTL c))))))"

text \<open>\<open>_ = r.cache.Delete(ctx, key)\<close> under \<open>r.cache != nil\<close>, and a sequence of them.\<close>

definition invalidate :: "'c redis_client option \<Rightarrow> string \<Rightarrow> 'c \<Rightarrow> 'c" where
  "invalidate cache key c = (case cache of None \<Rightarrow> c | Some cl \<Rightarrow> snd (Redis_Delete cl key c))"

fun invalidate_all :: "'c redis_client option \<Rightarrow> string list \<Rightarrow> 'c \<Rightarrow> 'c" where
  "invalidate_all cache [] c = c"
| "invalidate_all cache (k # ks) c = invalidate_all cache ks (invalidate cache k c)"

lemma snd_wrap_err [simp]: "snd (wrap_err m p) = snd p"
  by (auto simp: wrap_err_def split: prod.splits sum.splits)

lemma invalidate_eq: "invalidate (Some cl) key c = snd (rc_del cl key c)"
  by (simp add: invalidate_def Redis_Delete_def)

lemma invalidate_None [simp]: "invalidate None key c = c"
  by (simp add: invalidate_def)

lemma invalidate_all_None [simp]: "invalidate_all None ks c = c"
  by (induction ks) auto

section \<open>The contract of the client\<close>

locale cache_store =
  fixes cache :: "'c redis_client option"
    and view :: "'c \<Rightarrow> string \<Rightarrow> json option"
  assumes get_frame: "cache = Some cl \<Longrightarrow> rc_get cl k c = (x, c') \<Longrightarrow> view c' \<subseteq>\<^sub>m view c"
    and get_hit: "cache = Some cl \<Longrightarrow> rc_get cl k c = (Inr j, c') \<Longrightarrow> view c k = Some j"
    and set_frame: "cache = Some cl \<Longrightarrow> rc_set cl k j ttl c = (y, c') \<Longrightarrow> view c' k' = Some j' \<Longrightarrow>
      view c k' = Some j' \<or> k' = k \<and> j' = j"
    and del_frame: "cache = Some cl \<Longrightarrow> rc_del cl k c = (z, c') \<Longrightarrow> view c' \<subseteq>\<^sub>m view c"
    and del_ok: "cache = Some cl \<Longrightarrow> rc_del cl k c = (Inr u, c') \<Longrightarrow> view c' k = None"
begin

lemma invalidate_frame: "view (invalidate cache k c) \<subseteq>\<^sub>m view c"
proof (cases cache)
  case (Some cl)
  then show ?thesis
    using del_frame [OF Some, of k c] by (cases "rc_del cl k c") (auto simp: invalidate_eq)
qed simp

lemma invalidate_all_frame: "view (invalidate_all cache ks c) \<subseteq>\<^sub>m view c"
  by (induction ks arbitrary: c) (auto intro: map_le_trans invalidate_frame)

lemma read_through_hit_or_miss:
  assumes "read_through cache marshal unmarshal key nf query (d, c) = (Inr r, (d', c'))"
  shows "(\<exists>j. cache \<noteq> None \<and> view c key = Some j \<and> unmarshal j = Inr r \<and> d' = d \<and> view c' \<subseteq>\<^sub>m view c) \<or>
         (query d = (Inr r, d') \<and>
          (\<forall>k j. view c' k = Some j \<longrightarrow> view c k = Some j \<or> k = key \<and> j = marshal r))"
proof (cases cache)
  case None
  with assms show ?thesis by (auto simp: read_through_def split: prod.splits sum.splits)
next
  case (Some cl)
  obtain g c1 where g: "rc_get cl key c = (g, c1)" by (cases "rc_get cl key c")
  have frame: "view c1 \<subseteq>\<^sub>m view c" by (rule get_frame [OF Some g])
  show ?thesis
  proof (cases "\<exists>j. g = Inr j \<and> unmarshal j = Inr r \<and> d' = d \<and> c' = c1")
    case True
    with Some g frame get_hit [OF Some] show ?thesis by blast
  next
    case False
    with assms Some g obtain y where q: "query d = (Inr r, d')"
      and s: "rc_set cl key (marshal r) CacheDefaultTTL c1 = (y, c')"
      by (cases "rc_set cl key (marshal r) CacheDefaultTTL c1")
        (auto simp: read_through_def Redis_Get_def Redis_Set_def split: prod.splits sum.splits if_splits)
    have "view c k = Some j \<or> k = key \<and> j = marshal r" if "view c' k = Some j" for k j
      using set_frame [OF Some s that] frame by (auto simp: map_le_def dom_def)
    with q show ?thesis by blast
  qed
qed

lemma read_through_error:
  assumes "read_through cache marshal unmarshal key nf query (d, c) = (Inl e, (d', c'))"
  shows "\<exists>e'. query d = (Inl e', d') \<and> e = wrap_not_found nf e' \<and> view c' \<subseteq>\<^sub>m view c"
proof (cases cache)
  case None
  with assms show ?thesis by (auto simp: read_through_def split: prod.splits sum.splits)
next
  case (Some cl)
  obtain g c1 where g: "rc_get cl key c = (g, c1)" by (cases "rc_get cl key c")
  with assms Some get_frame [OF Some g] show ?thesis
    by (auto simp: read_through_def Redis_Get_def split: prod.splits sum.splits if_splits)
qed

end

text \<open>A client whose \<open>DEL\<close> always succeeds, as while Redis is reachable.\<close>

locale reliable_cache = cache_store cache view
  for cache :: "'c redis_client option" and view :: "'c \<Rightarrow> string \<Rightarrow> json option" +
  assumes del_total: "cache = Some cl \<Longrightarrow> \<exists>c'. rc_del cl k c = (Inr (), c')"
begin

lemma invalidate_gone: "cache \<noteq> None \<Longrightarrow> view (invalidate cache k c) k = None"
proof (cases cache)
  case (Some cl)
  obtain c' where "rc_del cl k c = (Inr (), c')" using del_total [OF Some] by blast
  with Some del_ok [OF Some] show ?thesis by (simp add: invalidate_eq)
qed simp

lemma invalidate_all_gone:
  "cache \<noteq> None \<Longrightarrow> k \<in> set ks \<Longrightarrow> view (invalidate_all cache ks c) k = None"
proof (induction ks arbitrary: c)
  case (Cons x ks)
  show ?case
  proof (cases "k = x")
    case True
    have "view (invalidate_all cache ks (invalidate cache x c)) \<subseteq>\<^sub>m view (invalidate cache x c)"
      by (rule invalidate_all_frame)
    then have "view (invalidate_all cache ks (invalidate cache x c)) k = None"
      using invalidate_gone [OF Cons.prems(1), of x c] True
      by (metis domIff map_le_implies_dom_le subset_iff)
    then show ?thesis by simp
  next
    case False
    with Cons show ?thesis by simp
  qed
qed simp

end

section \<open>A concrete client for the witnesses\<close>

definition mem_redis :: "(string \<rightharpoonup> json) redis_client" where
  "mem_redis =
     \<lparr>rc_get = (\<lambda>k c. (case c k of None \<Rightarrow> Inl redis_Nil | Some j \<Rightarrow> Inr j, c)),
      rc_set = (\<lambda>k j ttl c. (Inr (), c(k \<mapsto> j))),
      rc_del = (\<lambda>k c. (Inr (), c(k := None))),
      rc_exists = (\<lambda>k c. (Inr (if c k = None then 0 else 1), c)),
      rc_expire = (\<lambda>k ttl c. (Inr (), c)),
      rc_incr = (\<lambda>k c. (Inr 1, c(k \<mapsto> JInt 1))),
      rc_hset = (\<lambda>k f j c. (Inr (), c)),
      rc_hget = (\<lambda>k f c. (Inl redis_Nil, c)),
      rc_hdel = (\<lambda>k f c. (Inr (), c)),
      rc_hexists = (\<lambda>k f c. (Inr False, c))\<rparr>"

lemma mem_redis_simps [simp]:
  "rc_get mem_redis k c = (case c k of None \<Rightarrow> Inl redis_Nil | Some j \<Rightarrow> Inr j, c)"
  "rc_set mem_redis k j ttl c = (Inr (), c(k \<mapsto> j))"
  "rc_del mem_redis k c = (Inr (), c(k := None))"
  by (simp_all add: mem_redis_def)

lemma mem_redis_reliable: "reliable_cache (Some mem_redis) (\<lambda>c. c)"
  by unfold_locales (auto simp: map_le_def split: option.splits if_splits)

lemma no_cache_reliable: "reliable_cache None view"
  by unfold_locales auto

interpretation rc: reliable_cache "Some mem_redis" "\<lambda>c. c"
  by (rule mem_redis_reliable)

end
