(* ===== verification/Paging.thy ===== *)
theory Paging
  imports GoBase
begin

text \<open>
  Pagination as all three services do it: the clamping of \<open>page\<close> and \<open>limit\<close> in the
  filters' \<open>Validate\<close>, the offset \<open>(Page - 1) * Limit\<close>, the page count
  \<open>(count + limit - 1) / limit\<close>, all in wrapping 64-bit arithmetic; and the two variants of
  \<open>pkg/models/base.go\<close> and \<open>pkg/utils/response.go\<close>. The lemmas give the exact ranges in
  which the arithmetic does not wrap and show that the pages tile the result.
\<close>

definition DefaultPageSize :: int where "DefaultPageSize = 10"

definition MaxPageSize :: int where "MaxPageSize = 100"

definition clamp_page :: "int \<Rightarrow> int" where
  "clamp_page p = (if p \<le> 0 then 1 else p)"

definition clamp_limit :: "int \<Rightarrow> int" where
  "clamp_limit l = (if l \<le> 0 then DefaultPageSize else if l > MaxPageSize then MaxPageSize else l)"

definition page_offset :: "int \<Rightarrow> int \<Rightarrow> int" where
  "page_offset page lm = wrap64 (wrap64 (page - 1) * lm)"

definition total_pages :: "int \<Rightarrow> int \<Rightarrow> int" where
  "total_pages count lm = go_div (wrap64 (wrap64 (count + lm) - 1)) lm"

section \<open>Ranges\<close>

lemma clamp_page_pos [simp]: "1 \<le> clamp_page p" "0 < clamp_page p"
  by (auto simp: clamp_page_def)

lemma clamp_limit_range: "1 \<le> clamp_limit l \<and> clamp_limit l \<le> 100"
  by (auto simp: clamp_limit_def DefaultPageSize_def MaxPageSize_def)

lemma clamp_limit_pos [simp]: "0 < clamp_limit l" "1 \<le> clamp_limit l" "clamp_limit l \<le> 100"
  using clamp_limit_range [of l] by auto

lemma clamp_idem [simp]:
  "clamp_page (clamp_page p) = clamp_page p"
  "clamp_limit (clamp_limit l) = clamp_limit l"
  by (auto simp: clamp_page_def clamp_limit_def DefaultPageSize_def MaxPageSize_def)

text \<open>Up to page 92233720368547758 the offset does not wrap, whatever the limit.\<close>

lemma page_offset_exact:
  assumes "1 \<le> page" "page \<le> 92233720368547758" "1 \<le> lm" "lm \<le> 100"
  shows "page_offset page lm = (page - 1) * lm"
proof -
  have "wrap64 (page - 1) = page - 1"
    using assms by (intro wrap64_small) auto
  moreover have "(page - 1) * lm \<le> 92233720368547758 * 100"
    using assms by (intro mult_mono) auto
  moreover have "0 \<le> (page - 1) * lm"
    using assms by simp
  ultimately show ?thesis
    by (simp add: page_offset_def wrap64_small)
qed

lemma total_pages_exact:
  assumes "0 \<le> count" "count \<le> 9223372036854775707" "1 \<le> lm" "lm \<le> 100"
  shows "total_pages count lm = (count + lm - 1) div lm"
proof -
  have "wrap64 (count + lm) = count + lm" "wrap64 (count + lm - 1) = count + lm - 1"
    using assms by (auto intro!: wrap64_small)
  then show ?thesis
    using assms by (simp add: total_pages_def go_div_pos in_int64_def)
qed

text \<open>The page count is the ceiling: the last page is not empty and holds the last item.\<close>

lemma ceil_div_bounds:
  assumes "(0::int) \<le> n" "1 \<le> l"
  shows "n \<le> (n + l - 1) div l * l" and "(n + l - 1) div l * l < n + l"
proof -
  have e: "(n + l - 1) div l * l = (n + l - 1) - (n + l - 1) mod l"
    by (simp add: minus_mod_eq_div_mult)
  have "0 \<le> (n + l - 1) mod l" "(n + l - 1) mod l < l"
    using assms by auto
  with e show "n \<le> (n + l - 1) div l * l" "(n + l - 1) div l * l < n + l"
    by auto
qed

lemma ceil_div_alt:
  assumes "(0::int) \<le> n" "1 \<le> l"
  shows "(n + l - 1) div l = n div l + (if n mod l > 0 then 1 else 0)"
proof -
  define q m where "q = n div l" and "m = n mod l"
  have n: "n = q * l + m" and m: "0 \<le> m" "m < l"
    using assms by (auto simp: q_def m_def)
  have e: "n + l - 1 = q * l + (m + l - 1)" using n by simp
  have l0: "l \<noteq> 0" using assms(2) by simp
  have "(n + l - 1) div l = q + (m + l - 1) div l"
    unfolding e by (rule div_mult_self3 [OF l0])
  moreover have "(m + l - 1) div l = (if m > 0 then 1 else 0)"
  proof (cases "m = 0")
    case True
    then show ?thesis using assms(2) by (simp add: div_pos_pos_trivial)
  next
    case False
    have "(m - 1 + l * 1) div l = (m - 1) div l + 1"
      using assms(2) by (subst div_mult_self2) auto
    with False m show ?thesis by (simp add: algebra_simps div_pos_pos_trivial)
  qed
  ultimately show ?thesis by (simp add: q_def m_def)
qed

section \<open>Pages tile the result\<close>

definition page_of :: "int \<Rightarrow> int \<Rightarrow> 'a list \<Rightarrow> 'a list" where
  "page_of page lm xs = take (nat lm) (drop (nat (page_offset page lm)) xs)"

lemma tiles_nat: "concat (map (\<lambda>p. take l (drop (p * l) xs)) [0..<n]) = take (n * l) xs"
proof (induction n)
  case (Suc n)
  have "concat (map (\<lambda>p. take l (drop (p * l) xs)) [0..<Suc n])
      = take (n * l) xs @ take l (drop (n * l) xs)"
    using Suc by simp
  also have "\<dots> = take (n * l + l) xs"
    by (simp add: take_add)
  finally show ?case by (simp add: add.commute)
qed simp

lemma page_of_nat:
  assumes "1 \<le> lm" "lm \<le> 100" "int p < 92233720368547758"
  shows "page_of (int p + 1) lm xs = take (nat lm) (drop (p * nat lm) xs)"
proof -
  have "page_offset (int p + 1) lm = int p * lm"
    using assms by (simp add: page_offset_exact)
  then have "nat (page_offset (int p + 1) lm) = p * nat lm"
    using assms by (simp add: nat_mult_distrib)
  then show ?thesis by (simp add: page_of_def)
qed

lemma pages_tile_result:
  assumes "1 \<le> lm" "lm \<le> 100" "int (length xs) < 92233720368547758"
  shows "concat (map (\<lambda>p. page_of (int p + 1) lm xs) [0..<nat (total_pages (int (length xs)) lm)]) = xs"
proof -
  let ?n = "total_pages (int (length xs)) lm"
  have n: "?n = (int (length xs) + lm - 1) div lm"
    using assms by (intro total_pages_exact) auto
  have lo: "int (length xs) \<le> ?n * lm" and hi: "?n * lm < int (length xs) + lm"
    using ceil_div_bounds [of "int (length xs)" lm] assms by (simp_all add: n)
  have n0: "0 \<le> ?n" using n assms by (simp add: pos_imp_zdiv_nonneg_iff)
  have "(?n - 1) * lm < int (length xs)" using hi by (simp add: algebra_simps)
  then have small: "?n \<le> int (length xs)" if "xs \<noteq> []"
    using assms(1) that by (smt (verit) mult_le_cancel_left1 mult_less_cancel_right2 of_nat_0_less_iff length_greater_0_conv)
  have tiles: "map (\<lambda>p. page_of (int p + 1) lm xs) [0..<nat ?n]
      = map (\<lambda>p. take (nat lm) (drop (p * nat lm) xs)) [0..<nat ?n]"
  proof (rule map_cong [OF refl])
    fix p assume "p \<in> set [0..<nat ?n]"
    then have "int p < ?n" by auto
    moreover have "xs \<noteq> []"
    proof
      assume "xs = []"
      then have "?n = 0" using n assms by (simp add: div_pos_pos_trivial)
      with \<open>int p < ?n\<close> show False by simp
    qed
    ultimately have "int p < 92233720368547758" using small assms(3) by auto
    then show "page_of (int p + 1) lm xs = take (nat lm) (drop (p * nat lm) xs)"
      using assms by (simp add: page_of_nat)
  qed
  then have "concat (map (\<lambda>p. page_of (int p + 1) lm xs) [0..<nat ?n]) = take (nat ?n * nat lm) xs"
    by (simp only: tiles tiles_nat)
  moreover have "length xs \<le> nat ?n * nat lm"
    using lo n0 assms(1) by (simp add: nat_mult_distrib [symmetric])
  ultimately show ?thesis by simp
qed

section \<open>models.PaginationParams and RespondWithPagination\<close>

record pagination_params =
  pp_page :: int
  pp_size :: int

definition GetLimit :: "pagination_params \<Rightarrow> int \<times> pagination_params" where
  "GetLimit p = (let p' = (if pp_size p \<le> 0 then p\<lparr>pp_size := 10\<rparr> else p) in (pp_size p', p'))"

definition GetPage :: "pagination_params \<Rightarrow> int \<times> pagination_params" where
  "GetPage p = (let p' = (if pp_page p \<le> 0 then p\<lparr>pp_page := 1\<rparr> else p) in (pp_page p', p'))"

definition GetOffset :: "pagination_params \<Rightarrow> int \<times> pagination_params" where
  "GetOffset p =
     (let (page, p1) = GetPage p; (lm, p2) = GetLimit p1
      in (wrap64 (wrap64 (page - 1) * lm), p2))"

text \<open>The page count of \<open>RespondWithPagination\<close>; \<open>None\<close> is the division-by-zero panic.\<close>

definition respond_total_pages :: "int \<Rightarrow> int \<Rightarrow> int option" where
  "respond_total_pages totalItems pageSize =
     (if pageSize = 0 then None
      else let n = go_div totalItems pageSize
           in Some (if totalItems - pageSize * (totalItems sdiv pageSize) > 0 then wrap64 (n + 1) else n))"

lemma GetOffset_eq:
  "GetOffset p = (page_offset (clamp_page (pp_page p)) (if pp_size p \<le> 0 then 10 else pp_size p),
     p\<lparr>pp_page := clamp_page (pp_page p), pp_size := (if pp_size p \<le> 0 then 10 else pp_size p)\<rparr>)"
  by (simp add: GetOffset_def GetPage_def GetLimit_def page_offset_def clamp_page_def Let_def)

text \<open>The two page counts of the code base agree.\<close>

lemma respond_total_pages_eq:
  assumes "0 \<le> count" "count \<le> 9223372036854775707" "1 \<le> lm" "lm \<le> 100"
  shows "respond_total_pages count lm = Some (total_pages count lm)"
proof -
  have sd: "count sdiv lm = count div lm"
    using assms by (cases "count = 0") (simp_all add: signed_divide_int_def)
  have md: "count - lm * (count div lm) = count mod lm"
    by (simp add: minus_mult_div_eq_mod)
  have gd: "go_div count lm = count div lm"
    using assms by (intro go_div_pos) (auto simp: in_int64_def)
  have "count div lm \<le> count"
    using assms zdiv_mono2 [of count 1 lm] by simp
  moreover have "0 \<le> count div lm"
    using assms by (simp add: pos_imp_zdiv_nonneg_iff)
  ultimately have "wrap64 (count div lm + 1) = count div lm + 1"
    using assms by (intro wrap64_small) auto
  with sd md gd show ?thesis
    using assms total_pages_exact [of count lm] ceil_div_alt [of count lm]
    by (simp add: respond_total_pages_def Let_def)
qed

end
