(* ===== verification/CategoryModel.thy ===== *)
theory CategoryModel
  imports RedisCache Paging Constants Http
begin

text \<open>
  The data of the category service: \<open>model.Category\<close> with its JSON form, the request and
  filter types of \<open>entity/dto\<close>, the responses of \<open>entity/dao\<close>, and the meaning of the
  \<open>WHERE\<close> clauses the category repository sends.
\<close>

record category = base +
  cat_name :: string
  cat_description :: string
  cat_parent :: "uuid option"

text \<open>\<open>NewCategory\<close>; the arguments are \<open>uuid.New()\<close> and the two readings of \<open>time.Now()\<close>.\<close>

definition NewCategory :: "uuid \<Rightarrow> time \<Rightarrow> time \<Rightarrow> string \<Rightarrow> string \<Rightarrow> uuid option \<Rightarrow> category" where
  "NewCategory new_id now1 now2 nm descr parent =
     \<lparr>base_id = new_id, created_at = now1, updated_at = now2, deleted_at = None,
      cat_name = nm, cat_description = descr, cat_parent = parent\<rparr>"

text \<open>\<open>json.Marshal\<close>: \<open>DeletedAt\<close> has tag \<open>json:"-"\<close>, \<open>ParentID\<close> is \<open>omitempty\<close>.\<close>

definition marshal_category :: "category \<Rightarrow> json" where
  "marshal_category c = JObj
     ([(''id'', JUuid (base_id c)), (''created_at'', JTime (created_at c)),
       (''updated_at'', JTime (updated_at c)), (''name'', JStr (cat_name c)),
       (''description'', JStr (cat_description c))]
      @ opt_field ''parent_id'' JUuid (cat_parent c))"

text \<open>\<open>json.Unmarshal\<close> into a zero \<open>Category\<close>.\<close>

definition unmarshal_category :: "json \<Rightarrow> category result" where
  "unmarshal_category = decode_struct (\<lambda>j.
     res_bind (get_uuid j ''id'') (\<lambda>i.
     res_bind (get_time j ''created_at'') (\<lambda>ca.
     res_bind (get_time j ''updated_at'') (\<lambda>ua.
     res_bind (get_str j ''name'') (\<lambda>n.
     res_bind (get_str j ''description'') (\<lambda>ds.
     res_bind (get_uuid_ptr j ''parent_id'') (\<lambda>p.
       Inr \<lparr>base_id = i, created_at = ca, updated_at = ua, deleted_at = None,
            cat_name = n, cat_description = ds, cat_parent = p\<rparr>)))))))"

lemma category_json_roundtrip:
  "unmarshal_category (marshal_category c) = Inr (c\<lparr>deleted_at := None\<rparr>)"
  by (cases c) (simp add: unmarshal_category_def decode_struct_def marshal_category_def opt_field_def json_get_defs
      split: option.split)

section \<open>dto and dao\<close>

record category_create =
  cc_name :: string
  cc_description :: string
  cc_parent :: "string option"

text \<open>\<open>Decode\<close> of the two request bodies, and the tag \<open>validate:"required"\<close>.\<close>

definition decode_category_create :: "json \<Rightarrow> category_create result" where
  "decode_category_create = decode_struct (\<lambda>j.
     res_bind (get_str j ''name'') (\<lambda>n.
     res_bind (get_str j ''description'') (\<lambda>ds.
     res_bind (get_str_ptr j ''parent_id'') (\<lambda>p.
       Inr \<lparr>cc_name = n, cc_description = ds, cc_parent = p\<rparr>))))"

definition category_create_tags :: "category_create \<Rightarrow> validate_field list" where
  "category_create_tags req = [(''name'', ''required'', JStr (cc_name req))]"

record category_update =
  cu_name :: "string option"
  cu_description :: "string option"
  cu_parent :: "string option"

definition decode_category_update :: "json \<Rightarrow> category_update result" where
  "decode_category_update = decode_struct (\<lambda>j.
     res_bind (get_str_ptr j ''name'') (\<lambda>n.
     res_bind (get_str_ptr j ''description'') (\<lambda>ds.
     res_bind (get_str_ptr j ''parent_id'') (\<lambda>p.
       Inr \<lparr>cu_name = n, cu_description = ds, cu_parent = p\<rparr>))))"

record category_filter =
  cf_page :: int
  cf_limit :: int
  cf_sort_by :: string
  cf_desc :: bool
  cf_parent :: "string option"

definition CategoryFilter_Validate :: "category_filter \<Rightarrow> category_filter" where
  "CategoryFilter_Validate f =
     f\<lparr>cf_page := clamp_page (cf_page f),
       cf_limit := clamp_limit (cf_limit f),
       cf_sort_by := (if cf_sort_by f = [] then ''name'' else cf_sort_by f)\<rparr>"

definition CategoryFilter_GetOffset :: "category_filter \<Rightarrow> int" where
  "CategoryFilter_GetOffset f = page_offset (cf_page f) (cf_limit f)"

record category_response =
  rsp_id :: uuid
  rsp_name :: string
  rsp_description :: string
  rsp_parent :: "uuid option"
  rsp_created :: time
  rsp_updated :: time

definition NewCategoryResponse :: "category \<Rightarrow> category_response" where
  "NewCategoryResponse c =
     \<lparr>rsp_id = base_id c, rsp_name = cat_name c, rsp_description = cat_description c,
      rsp_parent = cat_parent c, rsp_created = created_at c, rsp_updated = updated_at c\<rparr>"

definition category_response_json :: "category_response \<Rightarrow> json" where
  "category_response_json r = JObj
     ([(''id'', JUuid (rsp_id r)), (''name'', JStr (rsp_name r)), (''description'', JStr (rsp_description r))]
      @ opt_field ''parent_id'' JUuid (rsp_parent r)
      @ [(''created_at'', JTime (rsp_created r)), (''updated_at'', JTime (rsp_updated r))])"

section \<open>The WHERE clauses of the category repository\<close>

fun category_sat :: "where_clause \<Rightarrow> category \<Rightarrow> bool" where
  "category_sat (Where sql [AUuid u]) c =
     (if sql = ''id = ?'' then base_id c = u
      else if sql = ''parent_id = ?'' then cat_parent c = Some u else False)"
| "category_sat (Where sql [AStr s]) c = (sql = ''name = ?'' \<and> cat_name c = s)"
| "category_sat (Where sql []) c = (sql = ''parent_id IS NULL'' \<and> cat_parent c = None)"
| "category_sat _ c = False"

end
