(* ===== verification/CategoryRepo.thy ===== *)
theory CategoryRepo
  imports CategoryModel
begin

text \<open>
  \<open>services/category-service/internal/repository/category.repo.go\<close>: the repository interface
  as a record of functions and its implementation over the ORM and the cache, one definition
  per method. The state is the pair of the database and the cache.
\<close>

record 's category_repository =
  cr_Create :: "category \<Rightarrow> 's \<Rightarrow> category result \<times> 's"
  cr_GetByID :: "uuid \<Rightarrow> 's \<Rightarrow> category result \<times> 's"
  cr_GetByName :: "string \<Rightarrow> 's \<Rightarrow> category result \<times> 's"
  cr_Update :: "category \<Rightarrow> 's \<Rightarrow> category result \<times> 's"
  cr_Delete :: "uuid \<Rightarrow> 's \<Rightarrow> unit result \<times> 's"
  cr_List :: "category_filter \<Rightarrow> 's \<Rightarrow> (category list \<times> int) result \<times> 's"
  cr_GetChildren :: "uuid \<Rightarrow> 's \<Rightarrow> category list result \<times> 's"
  cr_HasBooks :: "uuid \<Rightarrow> 's \<Rightarrow> bool result \<times> 's"

text \<open>
  The database handle: the \<open>categories\<close> table, and \<open>Count\<close> on a table named by a string
  (\<open>HasBooks\<close> counts rows of \<open>books_categories\<close> without a model).
\<close>

record 'd category_db =
  cdb_categories :: "('d, category) gorm_api"
  cdb_count_table :: "string \<Rightarrow> stmt \<Rightarrow> 'd \<Rightarrow> int result \<times> 'd"

record ('d, 'c) category_repo_conf =
  crc_uuid :: uuid_lib
  crc_db :: "'d category_db"
  crc_cache :: "'c redis_client option"

definition category_key :: "uuid_lib \<Rightarrow> uuid \<Rightarrow> string" where
  "category_key ul i = CacheKeyCategory @ uuid_string ul i"

definition category_name_key :: "string \<Rightarrow> string" where
  "category_name_key n = CacheKeyCategory @ ''name:'' @ n"

definition category_list_key :: string where
  "category_list_key = CacheKeyCategories @ ''list''"

lemma category_keys_distinct:
  assumes "uuid_laws ul"
  shows "category_key ul i \<noteq> category_name_key n" "category_key ul i \<noteq> category_list_key"
    "category_name_key n \<noteq> category_list_key"
    "category_key ul i = category_key ul j \<longleftrightarrow> i = j"
    "category_name_key n = category_name_key m \<longleftrightarrow> n = m"
proof -
  have "CHR '':'' \<notin> set (uuid_string ul i)" using assms by (simp add: uuid_laws_def)
  then show "category_key ul i \<noteq> category_name_key n"
    by (auto simp: category_key_def category_name_key_def)
  show "category_key ul i = category_key ul j \<longleftrightarrow> i = j"
    using uuid_string_inj [OF assms] by (simp add: category_key_def)
qed (simp_all add: category_key_def category_name_key_def category_list_key_def)

definition categoryRepository_Create ::
  "('d, 'c) category_repo_conf \<Rightarrow> category \<Rightarrow> 'd \<times> 'c \<Rightarrow> category result \<times> ('d \<times> 'c)" where
  "categoryRepository_Create r cat s =
     (case g_create (cdb_categories (crc_db r)) cat (fst s) of
        (Inl e, d) \<Rightarrow> (Inl e, (d, snd s))
      | (Inr cat', d) \<Rightarrow> (Inr cat', (d, invalidate (crc_cache r) category_list_key (snd s))))"

definition categoryRepository_GetByID ::
  "('d, 'c) category_repo_conf \<Rightarrow> uuid \<Rightarrow> 'd \<times> 'c \<Rightarrow> category result \<times> ('d \<times> 'c)" where
  "categoryRepository_GetByID r i s =
     read_through (crc_cache r) marshal_category unmarshal_category (category_key (crc_uuid r) i)
       ErrCategoryNotFound
       (g_first (cdb_categories (crc_db r)) (q_where ''id = ?'' [AUuid i] q_all)) s"

definition categoryRepository_GetByName ::
  "('d, 'c) category_repo_conf \<Rightarrow> string \<Rightarrow> 'd \<times> 'c \<Rightarrow> category result \<times> ('d \<times> 'c)" where
  "categoryRepository_GetByName r n s =
     read_through (crc_cache r) marshal_category unmarshal_category (category_name_key n)
       (''category with name '' @ n @ '' not found'')
       (g_first (cdb_categories (crc_db r)) (q_where ''name = ?'' [AStr n] q_all)) s"

definition categoryRepository_Update ::
  "('d, 'c) category_repo_conf \<Rightarrow> category \<Rightarrow> 'd \<times> 'c \<Rightarrow> category result \<times> ('d \<times> 'c)" where
  "categoryRepository_Update r cat s =
     (case g_save (cdb_categories (crc_db r)) cat (fst s) of
        (Inl e, d) \<Rightarrow> (Inl e, (d, snd s))
      | (Inr cat', d) \<Rightarrow>
          (Inr cat', (d, invalidate_all (crc_cache r)
             [category_key (crc_uuid r) (base_id cat'), category_name_key (cat_name cat'), category_list_key]
             (snd s))))"

definition categoryRepository_HasBooks ::
  "('d, 'c) category_repo_conf \<Rightarrow> uuid \<Rightarrow> 'd \<times> 'c \<Rightarrow> bool result \<times> ('d \<times> 'c)" where
  "categoryRepository_HasBooks r i s =
     (case cdb_count_table (crc_db r) ''books_categories'' (q_where ''category_id = ?'' [AUuid i] q_all) (fst s) of
        (Inl e, d) \<Rightarrow>
          if errors_Is e ErrUnsupportedRelation then (Inr False, (d, snd s)) else (Inl e, (d, snd s))
      | (Inr n, d) \<Rightarrow> (Inr (n > 0), (d, snd s)))"

definition categoryRepository_Delete ::
  "('d, 'c) category_repo_conf \<Rightarrow> uuid \<Rightarrow> 'd \<times> 'c \<Rightarrow> unit result \<times> ('d \<times> 'c)" where
  "categoryRepository_Delete r i s =
     (case categoryRepository_GetByID r i s of
        (Inl e, s1) \<Rightarrow> (Inl e, s1)
      | (Inr cat, s1) \<Rightarrow>
          (case g_count (cdb_categories (crc_db r)) (q_where ''parent_id = ?'' [AUuid i] q_all) (fst s1) of
             (Inl e, d2) \<Rightarrow> (Inl e, (d2, snd s1))
           | (Inr n, d2) \<Rightarrow>
               if n > 0 then (Inl (errors_New ''cannot delete category with child categories''), (d2, snd s1))
               else
                 (case categoryRepository_HasBooks r i (d2, snd s1) of
                    (Inl e, s3) \<Rightarrow> (Inl e, s3)
                  | (Inr True, s3) \<Rightarrow>
                      (Inl (errors_New ''cannot delete category with associated books''), s3)
                  | (Inr False, s3) \<Rightarrow>
                      (case g_delete (cdb_categories (crc_db r)) (q_where ''id = ?'' [AUuid i] q_all) (fst s3) of
                         (Inl e, d4) \<Rightarrow> (Inl e, (d4, snd s3))
                       | (Inr _, d4) \<Rightarrow>
                           (Inr (), (d4, invalidate_all (crc_cache r)
                              [category_key (crc_uuid r) i, category_name_key (cat_name cat), category_list_key]
                              (snd s3)))))))"

text \<open>The filter part of \<open>List\<close>, and the ordered window of its second query.\<close>

definition category_list_where :: "uuid_lib \<Rightarrow> category_filter \<Rightarrow> stmt" where
  "category_list_where ul f =
     (case cf_parent f of
        None \<Rightarrow> q_all
      | Some p \<Rightarrow>
          if p = ''null'' then q_where ''parent_id IS NULL'' [] q_all
          else (case uuid_parse ul p of
                  None \<Rightarrow> q_all
                | Some u \<Rightarrow> q_where ''parent_id = ?'' [AUuid u] q_all))"

definition category_list_query :: "uuid_lib \<Rightarrow> category_filter \<Rightarrow> stmt" where
  "category_list_query ul f =
     q_limit (cf_limit f) (q_offset (CategoryFilter_GetOffset f)
       (if cf_sort_by f \<noteq> []
        then (if cf_desc f then q_order (cf_sort_by f @ '' DESC'') (category_list_where ul f)
              else q_order (cf_sort_by f) (category_list_where ul f))
        else q_order ''name ASC'' (category_list_where ul f)))"

definition categoryRepository_List ::
  "('d, 'c) category_repo_conf \<Rightarrow> category_filter \<Rightarrow> 'd \<times> 'c \<Rightarrow>
   (category list \<times> int) result \<times> ('d \<times> 'c)" where
  "categoryRepository_List r f s =
     (case g_count (cdb_categories (crc_db r)) (category_list_where (crc_uuid r) f) (fst s) of
        (Inl e, d1) \<Rightarrow> (Inl e, (d1, snd s))
      | (Inr n, d1) \<Rightarrow>
          (case g_find (cdb_categories (crc_db r)) (category_list_query (crc_uuid r) f) d1 of
             (Inl e, d2) \<Rightarrow> (Inl e, (d2, snd s))
           | (Inr cats, d2) \<Rightarrow> (Inr (cats, n), (d2, snd s))))"

definition categoryRepository_GetChildren ::
  "('d, 'c) category_repo_conf \<Rightarrow> uuid \<Rightarrow> 'd \<times> 'c \<Rightarrow> category list result \<times> ('d \<times> 'c)" where
  "categoryRepository_GetChildren r i s =
     (case g_find (cdb_categories (crc_db r)) (q_where ''parent_id = ?'' [AUuid i] q_all) (fst s) of
        (Inl e, d) \<Rightarrow> (Inl e, (d, snd s))
      | (Inr cats, d) \<Rightarrow> (Inr cats, (d, snd s)))"

definition NewCategoryRepository :: "('d, 'c) category_repo_conf \<Rightarrow> ('d \<times> 'c) category_repository" where
  "NewCategoryRepository r =
     \<lparr>cr_Create = categoryRepository_Create r, cr_GetByID = categoryRepository_GetByID r,
      cr_GetByName = categoryRepository_GetByName r, cr_Update = categoryRepository_Update r,
      cr_Delete = categoryRepository_Delete r, cr_List = categoryRepository_List r,
      cr_GetChildren = categoryRepository_GetChildren r, cr_HasBooks = categoryRepository_HasBooks r\<rparr>"

lemma NewCategoryRepository_simps [simp]:
  "cr_Create (NewCategoryRepository r) = categoryRepository_Create r"
  "cr_GetByID (NewCategoryRepository r) = categoryRepository_GetByID r"
  "cr_GetByName (NewCategoryRepository r) = categoryRepository_GetByName r"
  "cr_Update (NewCategoryRepository r) = categoryRepository_Update r"
  "cr_Delete (NewCategoryRepository r) = categoryRepository_Delete r"
  "cr_List (NewCategoryRepository r) = categoryRepository_List r"
  "cr_GetChildren (NewCategoryRepository r) = categoryRepository_GetChildren r"
  "cr_HasBooks (NewCategoryRepository r) = categoryRepository_HasBooks r"
  by (simp_all add: NewCategoryRepository_def)

end
