(* ===== verification/ServiceBase.thy ===== *)
theory ServiceBase
  imports Gorm Constants
begin

text \<open>
  What the business logic of the three services shares: the readings of \<open>uuid.New()\<close> and
  \<open>time.Now()\<close> when a row is made, the internal error that hides its cause, the translation of a
  repository error, and the assignment of an optional field of an update request
  (\<open>if req.X != nil { row.X = *req.X }\<close>).
\<close>

record new_row_env =
  new_uuid :: uuid
  now_created :: time
  now_updated :: time

definition err_internal :: go_error where
  "err_internal = errors_New ErrInternalServer"

text \<open>The translation of a repository error that every lookup of the service repeats.\<close>

definition lookup_error :: "string \<Rightarrow> string \<Rightarrow> go_error \<Rightarrow> go_error" where
  "lookup_error pat msg e = (if str_contains (err_msg e) pat then errors_New msg else err_internal)"

definition upd :: "('a \<Rightarrow> 'b \<Rightarrow> 'b) \<Rightarrow> 'a option \<Rightarrow> 'b \<Rightarrow> 'b" where
  "upd put x u = (case x of None \<Rightarrow> u | Some v \<Rightarrow> put v u)"

end
