(* ===== verification/CategoryService.thy ===== *)
theory CategoryService
  imports CategoryRepo ServiceBase
begin

text \<open>
  \<open>services/category-service/internal/service/category.service.go\<close>: the business logic of
  categories over the repository interface, one definition per method. The repository and the
  UUID library are arguments; the readings of \<open>uuid.New()\<close> and \<open>time.Now()\<close> of a creation are
  the argument \<open>env\<close>. Logging has no effect on the state and is left out.
\<close>

definition err_name_exists :: "string \<Rightarrow> go_error" where
  "err_name_exists n = errors_New (''category with name '' @ n @ '' already exists'')"

definition err_parent_format :: "string \<Rightarrow> go_error" where
  "err_parent_format p = errors_New (''invalid parent ID format: '' @ p)"

definition err_cycle :: go_error where
  "err_cycle = errors_New ''operation would create a category cycle''"

definition err_own_parent :: go_error where
  "err_own_parent = errors_New ''category cannot be its own parent''"

section \<open>CreateCategory\<close>

text \<open>The parent part of \<open>CreateCategory\<close>: nil or empty means no parent.\<close>

definition create_parent ::
  "uuid_lib \<Rightarrow> 's category_repository \<Rightarrow> string option \<Rightarrow> 's \<Rightarrow> uuid option result \<times> 's" where
  "create_parent ul repo p s =
     (case p of
        None \<Rightarrow> (Inr None, s)
      | Some str \<Rightarrow>
          if str = [] then (Inr None, s)
          else (case uuid_parse ul str of
                  None \<Rightarrow> (Inl (err_parent_format str), s)
                | Some i \<Rightarrow>
                    (case cr_GetByID repo i s of
                       (Inl e, s') \<Rightarrow> (Inl (lookup_error ErrCategoryNotFound ''parent category not found'' e), s')
                     | (Inr parent, s') \<Rightarrow> (Inr (Some (base_id parent)), s'))))"

definition CreateCategory ::
  "uuid_lib \<Rightarrow> 's category_repository \<Rightarrow> new_row_env \<Rightarrow> category_create \<Rightarrow> 's \<Rightarrow>
   category_response result \<times> 's" where
  "CreateCategory ul repo env req s =
     (case cr_GetByName repo (cc_name req) s of
        (Inr existing, s1) \<Rightarrow> (Inl (err_name_exists (cc_name req)), s1)
      | (Inl _, s1) \<Rightarrow>
          (case create_parent ul repo (cc_parent req) s1 of
             (Inl e, s2) \<Rightarrow> (Inl e, s2)
           | (Inr parent, s2) \<Rightarrow>
               (case cr_Create repo
                       (NewCategory (new_uuid env) (now_created env) (now_updated env)
                          (cc_name req) (cc_description req) parent) s2 of
                  (Inl e, s3) \<Rightarrow> (Inl err_internal, s3)
                | (Inr cat, s3) \<Rightarrow> (Inr (NewCategoryResponse cat), s3))))"

section \<open>Lookups\<close>

definition GetCategoryByID ::
  "'s category_repository \<Rightarrow> uuid \<Rightarrow> 's \<Rightarrow> category_response result \<times> 's" where
  "GetCategoryByID repo i s =
     (case cr_GetByID repo i s of
        (Inl e, s') \<Rightarrow> (Inl (lookup_error ErrCategoryNotFound ErrCategoryNotFound e), s')
      | (Inr cat, s') \<Rightarrow> (Inr (NewCategoryResponse cat), s'))"

definition GetCategoryByName ::
  "'s category_repository \<Rightarrow> string \<Rightarrow> 's \<Rightarrow> category_response result \<times> 's" where
  "GetCategoryByName repo n s =
     (case cr_GetByName repo n s of
        (Inl e, s') \<Rightarrow>
          (Inl (lookup_error ''not found'' (''category with name '' @ n @ '' not found'') e), s')
      | (Inr cat, s') \<Rightarrow> (Inr (NewCategoryResponse cat), s'))"

section \<open>ensureNoCycle\<close>

text \<open>
  The closure \<open>checkCycle\<close> of \<open>ensureNoCycle\<close>: it follows parent pointers from \<open>current\<close>
  until it meets \<open>childID\<close> (an error), a visited category or a root. \<open>visited\<close> is the map of
  the closure; every call adds a new UUID to it, and there are finitely many.
\<close>

function checkCycle ::
  "'s category_repository \<Rightarrow> uuid \<Rightarrow> uuid set \<Rightarrow> uuid \<Rightarrow> 's \<Rightarrow> unit result \<times> 's" where
  "checkCycle repo childID visited current s =
     (if current = childID then (Inl err_cycle, s)
      else if current \<in> visited then (Inr (), s)
      else (case cr_GetByID repo current s of
              (Inl e, s') \<Rightarrow> (Inl e, s')
            | (Inr cat, s') \<Rightarrow>
                (case cat_parent cat of
                   Some p \<Rightarrow> checkCycle repo childID (insert current visited) p s'
                 | None \<Rightarrow> (Inr (), s'))))"
  by pat_completeness auto
termination
proof (relation "measure (\<lambda>(repo, childID, visited, current, s). card (- visited))", goal_cases)
  case (2 repo childID visited current s)
  have "- insert current visited \<subset> - visited" using 2 by auto
  then show ?case by (simp add: psubset_card_mono)
qed simp

declare checkCycle.simps [simp del]

definition ensureNoCycle ::
  "'s category_repository \<Rightarrow> uuid \<Rightarrow> uuid \<Rightarrow> 's \<Rightarrow> unit result \<times> 's" where
  "ensureNoCycle repo parentID childID s = checkCycle repo childID {} parentID s"

section \<open>UpdateCategory\<close>

text \<open>The uniqueness check of a changed name.\<close>

definition update_name_check ::
  "'s category_repository \<Rightarrow> uuid \<Rightarrow> string option \<Rightarrow> category \<Rightarrow> 's \<Rightarrow> unit result \<times> 's" where
  "update_name_check repo i new_name cat s =
     (case new_name of
        None \<Rightarrow> (Inr (), s)
      | Some n \<Rightarrow>
          if n = cat_name cat then (Inr (), s)
          else (case cr_GetByName repo n s of
                  (Inr existing, s') \<Rightarrow>
                    if base_id existing \<noteq> i then (Inl (err_name_exists n), s') else (Inr (), s')
                | (Inl _, s') \<Rightarrow> (Inr (), s')))"

text \<open>The parent part: nil keeps the parent, the empty string clears it, an ID is checked.\<close>

definition update_parent ::
  "uuid_lib \<Rightarrow> 's category_repository \<Rightarrow> uuid \<Rightarrow> string option \<Rightarrow> category \<Rightarrow> 's \<Rightarrow> category result \<times> 's" where
  "update_parent ul repo i p cat s =
     (case p of
        None \<Rightarrow> (Inr cat, s)
      | Some str \<Rightarrow>
          if str = [] then (Inr (cat\<lparr>cat_parent := None\<rparr>), s)
          else (case uuid_parse ul str of
                  None \<Rightarrow> (Inl (err_parent_format str), s)
                | Some pid \<Rightarrow>
                    if pid = i then (Inl err_own_parent, s)
                    else (case cr_GetByID repo pid s of
                            (Inl e, s1) \<Rightarrow>
                              (Inl (lookup_error ErrCategoryNotFound ''parent category not found'' e), s1)
                          | (Inr parent, s1) \<Rightarrow>
                              (case ensureNoCycle repo pid i s1 of
                                 (Inl e, s2) \<Rightarrow> (Inl e, s2)
                               | (Inr _, s2) \<Rightarrow> (Inr (cat\<lparr>cat_parent := Some (base_id parent)\<rparr>), s2)))))"

definition UpdateCategory ::
  "uuid_lib \<Rightarrow> 's category_repository \<Rightarrow> uuid \<Rightarrow> category_update \<Rightarrow> 's \<Rightarrow>
   category_response result \<times> 's" where
  "UpdateCategory ul repo i req s =
     (case cr_GetByID repo i s of
        (Inl e, s1) \<Rightarrow> (Inl (lookup_error ErrCategoryNotFound ErrCategoryNotFound e), s1)
      | (Inr cat, s1) \<Rightarrow>
          (case update_name_check repo i (cu_name req) cat s1 of
             (Inl e, s2) \<Rightarrow> (Inl e, s2)
           | (Inr _, s2) \<Rightarrow>
               let cat1 = (case cu_name req of None \<Rightarrow> cat | Some n \<Rightarrow> cat\<lparr>cat_name := n\<rparr>);
                   cat2 = (case cu_description req of None \<Rightarrow> cat1 | Some ds \<Rightarrow> cat1\<lparr>cat_description := ds\<rparr>)
               in (case update_parent ul repo i (cu_parent req) cat2 s2 of
                     (Inl e, s3) \<Rightarrow> (Inl e, s3)
                   | (Inr cat3, s3) \<Rightarrow>
                       (case cr_Update repo cat3 s3 of
                          (Inl e, s4) \<Rightarrow> (Inl err_internal, s4)
                        | (Inr cat4, s4) \<Rightarrow> (Inr (NewCategoryResponse cat4), s4)))))"

section \<open>DeleteCategory, ListCategories, GetCategoryChildren\<close>

definition delete_error :: "go_error \<Rightarrow> go_error" where
  "delete_error e =
     (if str_contains (err_msg e) ''child categories''
      then errors_New ''cannot delete category with child categories''
      else if str_contains (err_msg e) ''associated books''
      then errors_New ''cannot delete category with associated books''
      else err_internal)"

definition DeleteCategory :: "'s category_repository \<Rightarrow> uuid \<Rightarrow> 's \<Rightarrow> unit result \<times> 's" where
  "DeleteCategory repo i s =
     (case cr_GetByID repo i s of
        (Inl e, s1) \<Rightarrow> (Inl (lookup_error ErrCategoryNotFound ErrCategoryNotFound e), s1)
      | (Inr _, s1) \<Rightarrow>
          (case cr_Delete repo i s1 of
             (Inl e, s2) \<Rightarrow> (Inl (delete_error e), s2)
           | (Inr _, s2) \<Rightarrow> (Inr (), s2)))"

definition ListCategories ::
  "'s category_repository \<Rightarrow> category_filter \<Rightarrow> 's \<Rightarrow> category_response list_response result \<times> 's" where
  "ListCategories repo f0 s =
     (let f = CategoryFilter_Validate f0
      in case cr_List repo f s of
           (Inl e, s') \<Rightarrow> (Inl err_internal, s')
         | (Inr (cats, count), s') \<Rightarrow>
             (Inr \<lparr>lr_items = map NewCategoryResponse cats, lr_total_items = count,
                   lr_total_pages = total_pages count (cf_limit f),
                   lr_current_page = cf_page f, lr_page_size = cf_limit f\<rparr>, s'))"

definition GetCategoryChildren ::
  "'s category_repository \<Rightarrow> uuid \<Rightarrow> 's \<Rightarrow> category_response list_response result \<times> 's" where
  "GetCategoryChildren repo i s =
     (case cr_GetByID repo i s of
        (Inl e, s1) \<Rightarrow> (Inl (lookup_error ErrCategoryNotFound ErrCategoryNotFound e), s1)
      | (Inr _, s1) \<Rightarrow>
          (case cr_GetChildren repo i s1 of
             (Inl e, s2) \<Rightarrow> (Inl err_internal, s2)
           | (Inr children, s2) \<Rightarrow>
               (Inr \<lparr>lr_items = map NewCategoryResponse children,
                     lr_total_items = int (length children), lr_total_pages = 1,
                     lr_current_page = 1, lr_page_size = int (length children)\<rparr>, s2)))"

end
