(* ===== verification/CategorySpec.thy ===== *)
theory CategorySpec
  imports CategoryService
begin

text \<open>
  What the category service promises: the live categories are a forest (every parent is a live
  category, no category is its own ancestor). The contract of the repository interface is the
  locale \<open>category_contract\<close>; the service lemmas are proved once inside it.
\<close>

section \<open>The abstract specification\<close>

type_synonym category_map = "uuid \<Rightarrow> category option"

definition parent_rel :: "category_map \<Rightarrow> (uuid \<times> uuid) set" where
  "parent_rel m = {(i, p). \<exists>c. m i = Some c \<and> cat_parent c = Some p}"

definition forest :: "category_map \<Rightarrow> bool" where
  "forest m \<longleftrightarrow> acyclic (parent_rel m) \<and>
     (\<forall>i c p. m i = Some c \<longrightarrow> cat_parent c = Some p \<longrightarrow> m p \<noteq> None)"

lemma parent_rel_iff: "(i, p) \<in> parent_rel m \<longleftrightarrow> (\<exists>c. m i = Some c \<and> cat_parent c = Some p)"
  by (simp add: parent_rel_def)

lemma forest_empty [simp]: "forest (\<lambda>_. None)"
  by (simp add: forest_def parent_rel_def acyclic_def)

lemma forest_parent_live: "forest m \<Longrightarrow> m i = Some c \<Longrightarrow> cat_parent c = Some p \<Longrightarrow> m p \<noteq> None"
  by (simp add: forest_def)

lemma forestI:
  "acyclic (parent_rel m) \<Longrightarrow> (\<And>i c p. m i = Some c \<Longrightarrow> cat_parent c = Some p \<Longrightarrow> m p \<noteq> None) \<Longrightarrow> forest m"
  by (auto simp: forest_def)

lemma parent_rel_upd:
  "parent_rel (m(i := Some c)) \<subseteq>
     (parent_rel m - {i} \<times> UNIV) \<union> (case cat_parent c of None \<Rightarrow> {} | Some p \<Rightarrow> {(i, p)})"
  by (auto simp: parent_rel_def split: if_splits)

lemma forest_upd:
  assumes f: "forest m"
    and p: "\<And>p. cat_parent c = Some p \<Longrightarrow> m p \<noteq> None \<and> (p, i) \<notin> (parent_rel m)\<^sup>*"
  shows "forest (m(i := Some c))"
proof -
  let ?R = "parent_rel m" and ?S = "parent_rel m - {i} \<times> UNIV"
  have acy: "acyclic ?S" using f by (auto simp: forest_def intro: acyclic_subset)
  have "acyclic (?S \<union> (case cat_parent c of None \<Rightarrow> {} | Some p \<Rightarrow> {(i, p)}))"
  proof (cases "cat_parent c")
    case None
    with acy show ?thesis by simp
  next
    case (Some q)
    have "(q, i) \<notin> ?S\<^sup>*" using p [OF Some] rtrancl_mono [of ?S ?R] by blast
    with acy Some show ?thesis by simp
  qed
  then have "acyclic (parent_rel (m(i := Some c)))"
    by (rule acyclic_subset) (rule parent_rel_upd)
  then show ?thesis
  proof (rule forestI)
    fix j d q
    assume "(m(i := Some c)) j = Some d" "cat_parent d = Some q"
    then have "m q \<noteq> None"
      using p forest_parent_live [OF f] by (cases "j = i") auto
    then show "(m(i := Some c)) q \<noteq> None" by simp
  qed
qed

lemma forest_delete:
  assumes f: "forest m" and no: "\<And>j c. m j = Some c \<Longrightarrow> cat_parent c \<noteq> Some i"
  shows "forest (m(i := None))"
proof -
  have "parent_rel (m(i := None)) \<subseteq> parent_rel m"
    by (auto simp: parent_rel_def split: if_splits)
  then have "acyclic (parent_rel (m(i := None)))"
    using f by (auto simp: forest_def intro: acyclic_subset)
  then show ?thesis
  proof (rule forestI)
    fix j d q
    assume j: "(m(i := None)) j = Some d" and q: "cat_parent d = Some q"
    then have "m j = Some d" by (auto split: if_splits)
    with q no forest_parent_live [OF f] show "(m(i := None)) q \<noteq> None" by auto
  qed
qed

lemma no_path_to_fresh:
  assumes "forest m" "m i = None" "p \<noteq> i"
  shows "(p, i) \<notin> (parent_rel m)\<^sup>*"
proof
  assume "(p, i) \<in> (parent_rel m)\<^sup>*"
  with assms(3) obtain j where "(j, i) \<in> parent_rel m" by (auto elim: rtranclE)
  then obtain c where "m j = Some c" "cat_parent c = Some i" by (auto simp: parent_rel_iff)
  with assms(2) forest_parent_live [OF assms(1)] show False by simp
qed

text \<open>What the request asks of the parent field of a row whose parent is \<open>old\<close>.\<close>

definition requested_parent :: "uuid_lib \<Rightarrow> string option \<Rightarrow> uuid option \<Rightarrow> uuid option" where
  "requested_parent ul p old =
     (case p of None \<Rightarrow> old | Some str \<Rightarrow> if str = [] then None else uuid_parse ul str)"

text \<open>The row an update is to leave: the fields of the request over those of the old row.\<close>

definition requested_category :: "uuid_lib \<Rightarrow> category_update \<Rightarrow> category \<Rightarrow> category" where
  "requested_category ul req c =
     c\<lparr>cat_name := (case cu_name req of None \<Rightarrow> cat_name c | Some n \<Rightarrow> n),
       cat_description := (case cu_description req of None \<Rightarrow> cat_description c | Some ds \<Rightarrow> ds),
       cat_parent := requested_parent ul (cu_parent req) (cat_parent c)\<rparr>"

section \<open>The contract of the repository\<close>

locale category_contract =
  fixes repo :: "'s category_repository"
    and cats :: "'s \<Rightarrow> category_map"
    and ok :: "'s \<Rightarrow> bool"
  assumes cats_id: "ok s \<Longrightarrow> cats s i = Some c \<Longrightarrow> base_id c = i \<and> deleted_at c = None"
    and by_id_frame: "ok s \<Longrightarrow> cr_GetByID repo i s = (x, s') \<Longrightarrow> ok s' \<and> cats s' = cats s"
    and by_id_some: "ok s \<Longrightarrow> cr_GetByID repo i s = (Inr c, s') \<Longrightarrow> cats s i = Some c"
    and by_id_none: "ok s \<Longrightarrow> cr_GetByID repo i s = (Inl e, s') \<Longrightarrow> errors_Is e ErrRecordNotFound \<Longrightarrow>
      cats s i = None \<and> str_contains (err_msg e) ErrCategoryNotFound"
    and by_name_frame: "ok s \<Longrightarrow> cr_GetByName repo n s = (x, s') \<Longrightarrow> ok s' \<and> cats s' = cats s"
    and by_name_none: "ok s \<Longrightarrow> cr_GetByName repo n s = (Inl e, s') \<Longrightarrow> errors_Is e ErrRecordNotFound \<Longrightarrow>
      cats s i = Some c \<Longrightarrow> cat_name c \<noteq> n"
    and create_ok: "ok s \<Longrightarrow> base_id c \<noteq> uuid_Nil \<Longrightarrow> deleted_at c = None \<Longrightarrow>
      cr_Create repo c s = (Inr c', s') \<Longrightarrow>
      ok s' \<and> same_content c c' \<and> cats s (base_id c) = None \<and> cats s' = (cats s)(base_id c := Some c')"
    and create_err: "ok s \<Longrightarrow> cr_Create repo c s = (Inl e, s') \<Longrightarrow> ok s' \<and> cats s' = cats s"
    and update_ok: "ok s \<Longrightarrow> cats s (base_id c) \<noteq> None \<Longrightarrow> deleted_at c = None \<Longrightarrow>
      cr_Update repo c s = (Inr c', s') \<Longrightarrow>
      ok s' \<and> same_content c c' \<and> cats s' = (cats s)(base_id c := Some c')"
    and update_err: "ok s \<Longrightarrow> cr_Update repo c s = (Inl e, s') \<Longrightarrow> ok s' \<and> cats s' = cats s"
    and remove_ok: "ok s \<Longrightarrow> cr_Delete repo i s = (Inr u, s') \<Longrightarrow>
      ok s' \<and> cats s i \<noteq> None \<and> (\<forall>j c. cats s j = Some c \<longrightarrow> cat_parent c \<noteq> Some i) \<and>
      cats s' = (cats s)(i := None)"
    and remove_err: "ok s \<Longrightarrow> cr_Delete repo i s = (Inl e, s') \<Longrightarrow> ok s' \<and> cats s' = cats s"
    and list_frame: "ok s \<Longrightarrow> cr_List repo f s = (y, s') \<Longrightarrow> ok s' \<and> cats s' = cats s"
    and children_frame: "ok s \<Longrightarrow> cr_GetChildren repo i s = (z, s') \<Longrightarrow> ok s' \<and> cats s' = cats s"
    and children_ok: "ok s \<Longrightarrow> cr_GetChildren repo i s = (Inr cs, s') \<Longrightarrow>
      distinct (map base_id cs) \<and>
      (\<forall>c. c \<in> set cs \<longleftrightarrow> cats s (base_id c) = Some c \<and> cat_parent c = Some i)"
begin

lemma same_parent: "same_content c c' \<Longrightarrow> cat_parent (c' :: category) = cat_parent c"
  by (cases c; cases c') (simp add: same_content_def)

subsection \<open>ensureNoCycle\<close>

lemma card_visited: "current \<notin> vis \<Longrightarrow> card (- insert current vis) < card (- (vis :: uuid set))"
  by (rule psubset_card_mono) auto

lemma checkCycle_frame:
  "ok s \<Longrightarrow> checkCycle repo ch vis cur s = (x, s') \<Longrightarrow> ok s' \<and> cats s' = cats s"
proof (induction "card (- vis)" arbitrary: vis cur s rule: less_induct)
  case less
  show ?case
  proof (cases "cur = ch \<or> cur \<in> vis")
    case True
    with less.prems show ?thesis by (auto simp: checkCycle.simps [of repo ch vis cur s] split: if_splits)
  next
    case False
    obtain y t where g: "cr_GetByID repo cur s = (y, t)" by (cases "cr_GetByID repo cur s")
    have t: "ok t" "cats t = cats s" using by_id_frame [OF less.prems(1) g] by auto
    show ?thesis
    proof (cases "\<exists>c p. y = Inr c \<and> cat_parent c = Some p")
      case True
      then obtain c p where y: "y = Inr c" "cat_parent c = Some p" by blast
      with False g less.prems have "checkCycle repo ch (insert cur vis) p t = (x, s')"
        by (simp add: checkCycle.simps [of repo ch vis cur s])
      moreover have "cur \<notin> vis" using False by simp
      ultimately show ?thesis using less.hyps [OF card_visited t(1)] t(2) by metis
    next
      case no: False
      with False g less.prems t show ?thesis
        by (auto simp: checkCycle.simps [of repo ch vis cur s] split: sum.splits option.splits)
    qed
  qed
qed

lemma checkCycle_sound:
  assumes acy: "acyclic (parent_rel (cats s))"
  shows "ok s \<Longrightarrow> \<forall>v \<in> vis. (v, cur) \<in> (parent_rel (cats s))\<^sup>+ \<Longrightarrow>
    checkCycle repo ch vis cur s = (Inr u, s') \<Longrightarrow> (cur, ch) \<notin> (parent_rel (cats s))\<^sup>*"
  using acy
proof (induction "card (- vis)" arbitrary: vis cur s rule: less_induct)
  case less
  let ?R = "parent_rel (cats s)"
  have nv: "cur \<notin> vis" using less.prems(2,4) by (auto simp: acyclic_def)
  have nc: "cur \<noteq> ch" using less.prems(3) by (auto simp: checkCycle.simps [of repo ch vis cur s])
  obtain y t where g: "cr_GetByID repo cur s = (y, t)" by (cases "cr_GetByID repo cur s")
  with less.prems(3) nv nc obtain c where y: "y = Inr c"
    by (auto simp: checkCycle.simps [of repo ch vis cur s] split: sum.splits)
  have t: "ok t" "cats t = cats s" using by_id_frame [OF less.prems(1) g] by auto
  have c: "cats s cur = Some c" using by_id_some [OF less.prems(1)] g y by blast
  show ?case
  proof (cases "cat_parent c")
    case None
    with c have "(cur, q) \<notin> ?R" for q by (simp add: parent_rel_iff)
    with nc show ?thesis by (auto elim: converse_rtranclE)
  next
    case (Some p)
    with c have e: "(cur, p) \<in> ?R" by (simp add: parent_rel_iff)
    have rec: "checkCycle repo ch (insert cur vis) p t = (Inr u, s')"
      using less.prems(3) nv nc g y Some by (simp add: checkCycle.simps [of repo ch vis cur s])
    have "\<forall>v \<in> insert cur vis. (v, p) \<in> ?R\<^sup>+"
      using less.prems(2) e by (auto intro: trancl_into_trancl)
    then have "(p, ch) \<notin> ?R\<^sup>*"
      using less.hyps [OF card_visited [OF nv] t(1) _ rec] t(2) less.prems(4) by simp
    moreover have "q = p" if "(cur, q) \<in> ?R" for q
      using that c Some by (simp add: parent_rel_iff)
    ultimately show ?thesis using nc by (auto elim: converse_rtranclE)
  qed
qed

lemma ensureNoCycle_sound:
  assumes "ok s" "acyclic (parent_rel (cats s))" "ensureNoCycle repo p ch s = (Inr u, s')"
  shows "(p, ch) \<notin> (parent_rel (cats s))\<^sup>*"
  using checkCycle_sound [OF assms(2,1), of "{}" p ch u s'] assms(3) by (simp add: ensureNoCycle_def)

text \<open>It rejects only real cycles: any other error is one of the lookup.\<close>

lemma checkCycle_error:
  "ok s \<Longrightarrow> checkCycle repo ch vis cur s = (Inl e, s') \<Longrightarrow>
   (cur, ch) \<in> (parent_rel (cats s))\<^sup>* \<and> e = err_cycle \<or> (\<exists>j t t'. cr_GetByID repo j t = (Inl e, t'))"
proof (induction "card (- vis)" arbitrary: vis cur s rule: less_induct)
  case less
  let ?R = "parent_rel (cats s)"
  show ?case
  proof (cases "cur = ch \<or> cur \<in> vis")
    case True
    with less.prems(2) show ?thesis
      by (auto simp: checkCycle.simps [of repo ch vis cur s] split: if_splits)
  next
    case False
    obtain y t where g: "cr_GetByID repo cur s = (y, t)" by (cases "cr_GetByID repo cur s")
    have t: "ok t" "cats t = cats s" using by_id_frame [OF less.prems(1) g] by auto
    show ?thesis
    proof (cases "\<exists>c p. y = Inr c \<and> cat_parent c = Some p")
      case True
      then obtain c p where y: "y = Inr c" "cat_parent c = Some p" by blast
      then have "cats s cur = Some c" using by_id_some [OF less.prems(1)] g by blast
      then have "(cur, p) \<in> ?R" using y by (simp add: parent_rel_iff)
      moreover have "checkCycle repo ch (insert cur vis) p t = (Inl e, s')"
        using less.prems(2) False g y by (simp add: checkCycle.simps [of repo ch vis cur s])
      ultimately show ?thesis
        using less.hyps [OF card_visited t(1)] False t(2) by (auto intro: converse_rtrancl_into_rtrancl)
    next
      case no: False
      with False g less.prems(2) show ?thesis
        by (auto simp: checkCycle.simps [of repo ch vis cur s] split: sum.splits option.splits)
    qed
  qed
qed


subsection \<open>CreateCategory\<close>

lemma create_parent_spec:
  assumes "ok s" "create_parent ul repo p s = (x, s')"
  shows "ok s' \<and> cats s' = cats s \<and>
    (\<forall>q. x = Inr q \<longrightarrow> (case q of
        None \<Rightarrow> p = None \<or> p = Some []
      | Some i \<Rightarrow> (\<exists>str. p = Some str \<and> uuid_parse ul str = Some i) \<and> cats s i \<noteq> None))"
proof (cases "\<exists>str i. p = Some str \<and> str \<noteq> [] \<and> uuid_parse ul str = Some i")
  case True
  then obtain str i where p: "p = Some str" "str \<noteq> []" "uuid_parse ul str = Some i" by blast
  obtain y t where g: "cr_GetByID repo i s = (y, t)" by (cases "cr_GetByID repo i s")
  have "cats s i = Some c \<and> base_id c = i" if "y = Inr c" for c
    using by_id_some [OF assms(1)] cats_id [OF assms(1)] g that by blast
  with g p assms by_id_frame [OF assms(1) g] show ?thesis
    by (auto simp: create_parent_def split: sum.splits)
next
  case False
  with assms show ?thesis
    by (auto simp: create_parent_def split: option.splits if_splits)
qed

lemma CreateCategory_spec:
  assumes "ok s" "new_uuid env \<noteq> uuid_Nil" "CreateCategory ul repo env req s = (x, s')"
  shows "ok s' \<and> (case x of
      Inl e \<Rightarrow> cats s' = cats s
    | Inr rsp \<Rightarrow> \<exists>c. cats s (new_uuid env) = None \<and> cats s' = (cats s)(new_uuid env := Some c) \<and>
        rsp = NewCategoryResponse c \<and> cat_name c = cc_name req \<and>
        cat_description c = cc_description req \<and>
        (case cat_parent c of
           None \<Rightarrow> cc_parent req = None \<or> cc_parent req = Some []
         | Some p \<Rightarrow> (\<exists>str. cc_parent req = Some str \<and> uuid_parse ul str = Some p) \<and> cats s p \<noteq> None))"
proof -
  obtain y s1 where g: "cr_GetByName repo (cc_name req) s = (y, s1)"
    by (cases "cr_GetByName repo (cc_name req) s")
  have s1: "ok s1" "cats s1 = cats s" using by_name_frame [OF assms(1) g] by auto
  obtain q s2 where p: "create_parent ul repo (cc_parent req) s1 = (q, s2)"
    by (cases "create_parent ul repo (cc_parent req) s1")
  have s2: "ok s2" "cats s2 = cats s" using create_parent_spec [OF s1(1) p] s1 by auto
  show ?thesis
  proof (cases "\<exists>e parent. y = Inl e \<and> q = Inr parent")
    case False
    with g p s1 s2 assms(3) show ?thesis by (auto simp: CreateCategory_def split: sum.splits)
  next
    case True
    then obtain e parent where y: "y = Inl e" and q: "q = Inr parent" by blast
    let ?c = "NewCategory (new_uuid env) (now_created env) (now_updated env)
       (cc_name req) (cc_description req) parent"
    obtain z s3 where c: "cr_Create repo ?c s2 = (z, s3)" by (cases "cr_Create repo ?c s2")
    show ?thesis
    proof (cases z)
      case (Inl e')
      with create_err [OF s2(1)] c g p y q assms(3) s2 show ?thesis
        by (auto simp: CreateCategory_def)
    next
      case (Inr c')
      have n: "base_id ?c = new_uuid env" "deleted_at ?c = None" by (simp_all add: NewCategory_def)
      have *: "ok s3" "same_content ?c c'" "cats s2 (new_uuid env) = None"
          "cats s3 = (cats s2)(new_uuid env := Some c')"
        using create_ok [OF s2(1), of ?c c' s3] n assms(2) c Inr by auto
      have x: "x = Inr (NewCategoryResponse c')" "s' = s3"
        using assms(3) g p y q c Inr by (auto simp: CreateCategory_def)
      have "cat_name c' = cc_name req" "cat_description c' = cc_description req" "cat_parent c' = parent"
        using *(2) by (cases c'; simp add: same_content_def NewCategory_def)+
      moreover have "case parent of None \<Rightarrow> cc_parent req = None \<or> cc_parent req = Some []
         | Some p \<Rightarrow> (\<exists>str. cc_parent req = Some str \<and> uuid_parse ul str = Some p) \<and> cats s p \<noteq> None"
        using create_parent_spec [OF s1(1) p] q s1(2) by (auto split: option.splits)
      ultimately show ?thesis using * s2 x by auto
    qed
  qed
qed

lemma CreateCategory_forest:
  assumes "ok s" "new_uuid env \<noteq> uuid_Nil" "forest (cats s)"
    "CreateCategory ul repo env req s = (x, s')"
  shows "forest (cats s')"
proof (cases x)
  case (Inl e)
  with CreateCategory_spec [OF assms(1,2,4)] assms(3) show ?thesis by simp
next
  case (Inr rsp)
  with CreateCategory_spec [OF assms(1,2,4)] obtain c where
    n: "cats s (new_uuid env) = None" and u: "cats s' = (cats s)(new_uuid env := Some c)" and
    p: "\<And>p. cat_parent c = Some p \<Longrightarrow> cats s p \<noteq> None"
    by (auto split: option.splits)
  show ?thesis unfolding u
  proof (rule forest_upd [OF assms(3)])
    fix p assume "cat_parent c = Some p"
    with p have "cats s p \<noteq> None" by blast
    moreover have "p \<noteq> new_uuid env" using calculation n by auto
    ultimately show "cats s p \<noteq> None \<and> (p, new_uuid env) \<notin> (parent_rel (cats s))\<^sup>*"
      using no_path_to_fresh [OF assms(3) n] by blast
  qed
qed


subsection \<open>UpdateCategory\<close>

lemma update_name_check_frame:
  assumes "ok s" "update_name_check repo i nm c s = (x, s')"
  shows "ok s' \<and> cats s' = cats s"
proof (cases "\<exists>n. nm = Some n \<and> n \<noteq> cat_name c")
  case True
  then obtain n where n: "nm = Some n" "n \<noteq> cat_name c" by blast
  obtain y t where g: "cr_GetByName repo n s = (y, t)" by (cases "cr_GetByName repo n s")
  with n assms by_name_frame [OF assms(1) g] show ?thesis
    by (auto simp: update_name_check_def split: sum.splits if_splits)
next
  case False
  with assms show ?thesis by (auto simp: update_name_check_def split: option.splits)
qed

lemma update_parent_spec:
  assumes "ok s" "update_parent ul repo i p c s = (x, s')"
  shows "ok s' \<and> cats s' = cats s"
    and "x = Inr c' \<Longrightarrow> c' = c\<lparr>cat_parent := requested_parent ul p (cat_parent c)\<rparr>"
    and "x = Inr c' \<Longrightarrow> p = None \<or> cat_parent c' = None \<or>
      (\<exists>q. cat_parent c' = Some q \<and> cats s q \<noteq> None \<and> q \<noteq> i \<and>
         (acyclic (parent_rel (cats s)) \<longrightarrow> (q, i) \<notin> (parent_rel (cats s))\<^sup>*))"
proof -
  have "ok s' \<and> cats s' = cats s \<and> (\<forall>c'. x = Inr c' \<longrightarrow>
      c' = c\<lparr>cat_parent := requested_parent ul p (cat_parent c)\<rparr> \<and>
      (p = None \<or> cat_parent c' = None \<or>
      (\<exists>q. cat_parent c' = Some q \<and> cats s q \<noteq> None \<and> q \<noteq> i \<and>
         (acyclic (parent_rel (cats s)) \<longrightarrow> (q, i) \<notin> (parent_rel (cats s))\<^sup>*))))"
  proof (cases "\<exists>str q. p = Some str \<and> str \<noteq> [] \<and> uuid_parse ul str = Some q \<and> q \<noteq> i")
    case False
    with assms show ?thesis
      by (auto simp: update_parent_def requested_parent_def split: option.splits if_splits)
  next
    case True
    then obtain str q where p: "p = Some str" "str \<noteq> []" "uuid_parse ul str = Some q" "q \<noteq> i" by blast
    obtain y s1 where g: "cr_GetByID repo q s = (y, s1)" by (cases "cr_GetByID repo q s")
    have s1: "ok s1" "cats s1 = cats s" using by_id_frame [OF assms(1) g] by auto
    obtain z s2 where e: "ensureNoCycle repo q i s1 = (z, s2)" by (cases "ensureNoCycle repo q i s1")
    have s2: "ok s2" "cats s2 = cats s"
      using checkCycle_frame [OF s1(1)] e s1(2) by (auto simp: ensureNoCycle_def)
    show ?thesis
    proof (cases "\<exists>d u. y = Inr d \<and> z = Inr u")
      case False
      with assms p g e s1 s2 show ?thesis
        by (auto simp: update_parent_def split: sum.splits)
    next
      case True
      then obtain d u where y: "y = Inr d" "z = Inr u" by blast
      have d: "cats s q = Some d" "base_id d = q"
        using by_id_some [OF assms(1)] cats_id [OF assms(1)] g y by blast+
      have "(q, i) \<notin> (parent_rel (cats s))\<^sup>*" if "acyclic (parent_rel (cats s))"
        using ensureNoCycle_sound [of s1 q i u s2] s1 that e y by simp
      with assms p g e y d s2 show ?thesis
        by (auto simp: update_parent_def requested_parent_def)
    qed
  qed
  then show "ok s' \<and> cats s' = cats s"
    and "x = Inr c' \<Longrightarrow> c' = c\<lparr>cat_parent := requested_parent ul p (cat_parent c)\<rparr>"
    and "x = Inr c' \<Longrightarrow> p = None \<or> cat_parent c' = None \<or>
      (\<exists>q. cat_parent c' = Some q \<and> cats s q \<noteq> None \<and> q \<noteq> i \<and>
         (acyclic (parent_rel (cats s)) \<longrightarrow> (q, i) \<notin> (parent_rel (cats s))\<^sup>*))"
    by blast+
qed

lemma UpdateCategory_spec:
  assumes "ok s" "UpdateCategory ul repo i req s = (x, s')"
  shows "ok s' \<and> (case x of
      Inl e \<Rightarrow> cats s' = cats s
    | Inr rsp \<Rightarrow> \<exists>c0 c. cats s i = Some c0 \<and> same_content (requested_category ul req c0) c \<and>
        cats s' = (cats s)(i := Some c) \<and> rsp = NewCategoryResponse c \<and>
        (cu_parent req = None \<or> cat_parent c = None \<or>
         (\<exists>q. cat_parent c = Some q \<and> cats s q \<noteq> None \<and> q \<noteq> i \<and>
           (acyclic (parent_rel (cats s)) \<longrightarrow> (q, i) \<notin> (parent_rel (cats s))\<^sup>*))))"
proof -
  obtain y s1 where g: "cr_GetByID repo i s = (y, s1)" by (cases "cr_GetByID repo i s")
  have s1: "ok s1" "cats s1 = cats s" using by_id_frame [OF assms(1) g] by auto
  show ?thesis
  proof (cases y)
    case (Inl e)
    with g s1 assms(2) show ?thesis by (auto simp: UpdateCategory_def)
  next
    case (Inr c0)
    have c0: "cats s i = Some c0" "base_id c0 = i" "deleted_at c0 = None"
      using by_id_some [OF assms(1)] cats_id [OF assms(1)] g Inr by blast+
    obtain z s2 where n: "update_name_check repo i (cu_name req) c0 s1 = (z, s2)"
      by (cases "update_name_check repo i (cu_name req) c0 s1")
    have s2: "ok s2" "cats s2 = cats s" using update_name_check_frame [OF s1(1) n] s1 by auto
    let ?c1 = "case cu_name req of None \<Rightarrow> c0 | Some n \<Rightarrow> c0\<lparr>cat_name := n\<rparr>"
    let ?c2 = "case cu_description req of None \<Rightarrow> ?c1 | Some ds \<Rightarrow> ?c1\<lparr>cat_description := ds\<rparr>"
    obtain w s3 where u: "update_parent ul repo i (cu_parent req) ?c2 s2 = (w, s3)"
      by (cases "update_parent ul repo i (cu_parent req) ?c2 s2")
    have s3: "ok s3" "cats s3 = cats s" using update_parent_spec(1) [OF s2(1) u] s2 by auto
    show ?thesis
    proof (cases "\<exists>v c3. z = Inr v \<and> w = Inr c3")
      case False
      with g Inr n u s2 s3 assms(2) show ?thesis
        by (auto simp: UpdateCategory_def Let_def split: sum.splits)
    next
      case True
      then obtain v c3 where z: "z = Inr v" and w: "w = Inr c3" by blast
      have c3: "c3 = requested_category ul req c0"
        using update_parent_spec(2) [OF s2(1) u w]
        by (cases "cu_name req"; cases "cu_description req"; cases c0)
          (simp_all add: requested_category_def)
      have i3: "base_id c3 = i" "deleted_at c3 = None"
        using c0 by (simp_all add: c3 requested_category_def)
      obtain a s4 where s: "cr_Update repo c3 s3 = (a, s4)" by (cases "cr_Update repo c3 s3")
      have x: "x = (case a of Inl e \<Rightarrow> Inl err_internal | Inr c \<Rightarrow> Inr (NewCategoryResponse c))" "s' = s4"
        using assms(2) g Inr n z u w s by (auto simp: UpdateCategory_def Let_def split: sum.splits)
      show ?thesis
      proof (cases a)
        case (Inl e)
        with x update_err [OF s3(1)] s s3 show ?thesis by auto
      next
        case a: (Inr c)
        have up: "ok s4" "same_content c3 c" "cats s4 = (cats s)(i := Some c)"
          using update_ok [OF s3(1), of c3 c s4] i3 c0 s a s3 by auto
        have "cat_parent c = cat_parent c3" using same_parent up(2) by blast
        then show ?thesis
          using x a up c0(1) update_parent_spec(3) [OF s2(1) u w] s2(2) by (auto simp: c3)
      qed
    qed
  qed
qed

lemma UpdateCategory_forest:
  assumes "ok s" "forest (cats s)" "UpdateCategory ul repo i req s = (x, s')"
  shows "forest (cats s')"
proof (cases x)
  case (Inl e)
  with UpdateCategory_spec [OF assms(1,3)] assms(2) show ?thesis by simp
next
  case (Inr rsp)
  have acy: "acyclic (parent_rel (cats s))" using assms(2) by (simp add: forest_def)
  from Inr UpdateCategory_spec [OF assms(1,3)] acy obtain c0 c where
    c0: "cats s i = Some c0" and sc: "same_content (requested_category ul req c0) c" and
    u: "cats s' = (cats s)(i := Some c)" and
    p: "cu_parent req = None \<or> cat_parent c = None \<or>
       (\<exists>q. cat_parent c = Some q \<and> cats s q \<noteq> None \<and> q \<noteq> i \<and> (q, i) \<notin> (parent_rel (cats s))\<^sup>*)"
    by auto
  show ?thesis unfolding u
  proof (rule forest_upd [OF assms(2)])
    fix q assume q: "cat_parent c = Some q"
    show "cats s q \<noteq> None \<and> (q, i) \<notin> (parent_rel (cats s))\<^sup>*"
    proof (cases "cu_parent req = None")
      case False
      with p q show ?thesis by auto
    next
      case True
      with sc q have c0p: "cat_parent c0 = Some q"
        using same_parent by (fastforce simp: requested_category_def requested_parent_def)
      then have "(i, q) \<in> parent_rel (cats s)" using c0 by (simp add: parent_rel_iff)
      with acy have "(q, i) \<notin> (parent_rel (cats s))\<^sup>*"
        by (meson acyclic_def rtrancl_into_trancl2)
      with forest_parent_live [OF assms(2) c0 c0p] show ?thesis by blast
    qed
  qed
qed

subsection \<open>DeleteCategory and the readers\<close>

lemma DeleteCategory_spec:
  assumes "ok s" "DeleteCategory repo i s = (x, s')"
  shows "ok s' \<and> (case x of
      Inl e \<Rightarrow> cats s' = cats s
    | Inr _ \<Rightarrow> cats s i \<noteq> None \<and> (\<forall>j c. cats s j = Some c \<longrightarrow> cat_parent c \<noteq> Some i) \<and>
        cats s' = (cats s)(i := None))"
proof -
  obtain y s1 where g: "cr_GetByID repo i s = (y, s1)" by (cases "cr_GetByID repo i s")
  have s1: "ok s1" "cats s1 = cats s" using by_id_frame [OF assms(1) g] by auto
  obtain z s2 where d: "cr_Delete repo i s1 = (z, s2)" by (cases "cr_Delete repo i s1")
  from assms(2) g d s1 remove_ok [OF s1(1), of i _ s2] remove_err [OF s1(1), of i _ s2]
  show ?thesis by (auto simp: DeleteCategory_def split: sum.splits)
qed

lemma DeleteCategory_forest:
  assumes "ok s" "forest (cats s)" "DeleteCategory repo i s = (x, s')"
  shows "forest (cats s')"
proof (cases x)
  case (Inl e)
  with DeleteCategory_spec [OF assms(1,3)] assms(2) show ?thesis by simp
next
  case (Inr u)
  with DeleteCategory_spec [OF assms(1,3)] assms(2) show ?thesis by (auto intro: forest_delete)
qed

lemma GetCategoryByID_spec:
  assumes "ok s" "GetCategoryByID repo i s = (x, s')"
  shows "ok s' \<and> cats s' = cats s \<and>
    (\<forall>rsp. x = Inr rsp \<longrightarrow> (\<exists>c. cats s i = Some c \<and> rsp = NewCategoryResponse c))"
proof -
  obtain y t where g: "cr_GetByID repo i s = (y, t)" by (cases "cr_GetByID repo i s")
  with assms by_id_frame [OF assms(1) g] by_id_some [OF assms(1)] show ?thesis
    by (auto simp: GetCategoryByID_def split: sum.splits)
qed

lemma GetCategoryByName_frame:
  assumes "ok s" "GetCategoryByName repo n s = (x, s')"
  shows "ok s' \<and> cats s' = cats s"
proof -
  obtain y t where g: "cr_GetByName repo n s = (y, t)" by (cases "cr_GetByName repo n s")
  with assms by_name_frame [OF assms(1) g] show ?thesis
    by (auto simp: GetCategoryByName_def split: sum.splits)
qed

lemma ListCategories_frame:
  assumes "ok s" "ListCategories repo f s = (x, s')"
  shows "ok s' \<and> cats s' = cats s"
proof -
  obtain y t where g: "cr_List repo (CategoryFilter_Validate f) s = (y, t)"
    by (cases "cr_List repo (CategoryFilter_Validate f) s")
  with assms list_frame [OF assms(1) g] show ?thesis
    by (auto simp: ListCategories_def Let_def split: sum.splits)
qed

lemma GetCategoryChildren_spec:
  assumes "ok s" "GetCategoryChildren repo i s = (x, s')"
  shows "ok s' \<and> cats s' = cats s \<and>
    (\<forall>l. x = Inr l \<longrightarrow> cats s i \<noteq> None \<and>
       set (lr_items l) = NewCategoryResponse ` {c. cats s (base_id c) = Some c \<and> cat_parent c = Some i} \<and>
       distinct (map rsp_id (lr_items l)) \<and> lr_total_items l = int (length (lr_items l)))"
proof -
  obtain y s1 where g: "cr_GetByID repo i s = (y, s1)" by (cases "cr_GetByID repo i s")
  have s1: "ok s1" "cats s1 = cats s" using by_id_frame [OF assms(1) g] by auto
  obtain z s2 where d: "cr_GetChildren repo i s1 = (z, s2)" by (cases "cr_GetChildren repo i s1")
  have s2: "ok s2" "cats s2 = cats s" using children_frame [OF s1(1) d] s1 by auto
  show ?thesis
  proof (cases "\<exists>c cs. y = Inr c \<and> z = Inr cs")
    case False
    with assms g d s1 s2 show ?thesis by (auto simp: GetCategoryChildren_def split: sum.splits)
  next
    case True
    then obtain c cs where y: "y = Inr c" and z: "z = Inr cs" by blast
    have "cats s i = Some c" using by_id_some [OF assms(1)] g y by blast
    moreover have "distinct (map base_id cs)"
      and "set cs = {c. cats s (base_id c) = Some c \<and> cat_parent c = Some i}"
      using children_ok [OF s1(1)] d z s1(2) by auto
    moreover have "map rsp_id (map NewCategoryResponse cs) = map base_id cs"
      by (simp add: NewCategoryResponse_def)
    ultimately show ?thesis
      using assms(2) g d y z s2 by (auto simp: GetCategoryChildren_def simp del: map_map)
  qed
qed

end

end
