(* ===== verification/CachedTable.thy ===== *)
theory CachedTable
  imports RedisCache
begin

text \<open>
  A table read through the cache by primary key, as in the three repositories. The locale
  \<open>cached_table\<close> joins the laws of the ORM and of the Redis client; its invariant
  \<open>table_inv\<close> says that a cached row is the live row of its key as JSON gives it back
  (\<open>strip\<close>: the fields with tag \<open>json:"-"\<close> are lost). A lookup by primary key, a lookup
  under another key and a write followed by invalidation keep it.
\<close>

definition coherent ::
  "(uuid \<Rightarrow> string) \<Rightarrow> (json \<Rightarrow> 'r result) \<Rightarrow> ('r \<Rightarrow> 'r) \<Rightarrow> (uuid \<Rightarrow> 'r option) \<Rightarrow>
   (string \<Rightarrow> json option) \<Rightarrow> bool" where
  "coherent key unmarshal strip m v \<longleftrightarrow>
     (\<forall>i j. v (key i) = Some j \<longrightarrow> (\<exists>c. m i = Some c \<and> unmarshal j = Inr (strip c)))"

definition table_inv ::
  "'c redis_client option \<Rightarrow> (uuid \<Rightarrow> string) \<Rightarrow> (json \<Rightarrow> 'r result) \<Rightarrow> ('r \<Rightarrow> 'r) \<Rightarrow>
   ('d \<Rightarrow> uuid \<Rightarrow> 'r option) \<Rightarrow> ('d \<Rightarrow> bool) \<Rightarrow> ('c \<Rightarrow> string \<Rightarrow> json option) \<Rightarrow> 'd \<times> 'c \<Rightarrow> bool" where
  "table_inv cache key unmarshal strip rows valid view s \<longleftrightarrow>
     valid (fst s) \<and> (cache \<noteq> None \<longrightarrow> coherent key unmarshal strip (rows (fst s)) (view (snd s)))"

lemma coherent_mono: "coherent key um st m v \<Longrightarrow> v' \<subseteq>\<^sub>m v \<Longrightarrow> coherent key um st m v'"
  unfolding coherent_def map_le_def dom_def by fastforce

lemma coherentD:
  "coherent key um st m v \<Longrightarrow> v (key i) = Some j \<Longrightarrow> \<exists>c. m i = Some c \<and> um j = Inr (st c)"
  by (simp add: coherent_def)

lemma coherent_upd:
  assumes "inj key" "coherent key um st m v" "v' \<subseteq>\<^sub>m v" "v' (key i) = None"
  shows "coherent key um st (m(i := x)) v'"
  unfolding coherent_def
proof (intro allI impI)
  fix k j assume k: "v' (key k) = Some j"
  then have "v (key k) = Some j" using assms(3) by (auto simp: map_le_def dom_def)
  moreover have "k \<noteq> i" using k assms(4) by auto
  ultimately show "\<exists>c. (m(i := x)) k = Some c \<and> um j = Inr (st c)"
    using coherentD [OF assms(2)] by simp
qed

text \<open>A row may appear where nothing is cached; the cache has no entry for an absent row.\<close>

lemma coherent_fresh:
  assumes "coherent key um st m v" "v' \<subseteq>\<^sub>m v" "m i = None"
  shows "coherent key um st (m(i := Some x)) v'"
  unfolding coherent_def
proof (intro allI impI)
  fix k j assume "v' (key k) = Some j"
  then have "v (key k) = Some j" using assms(2) by (auto simp: map_le_def dom_def)
  then obtain c where "m k = Some c \<and> um j = Inr (st c)" using coherentD [OF assms(1)] by blast
  moreover from this assms(3) have "k \<noteq> i" by auto
  ultimately show "\<exists>c. (m(i := Some x)) k = Some c \<and> um j = Inr (st c)" by simp
qed

locale cached_table =
  db: gorm_store api rows valid sat +
  ch: reliable_cache cache view
  for api :: "('d, 'a base_scheme) gorm_api"
    and rows :: "'d \<Rightarrow> uuid \<Rightarrow> 'a base_scheme option"
    and valid :: "'d \<Rightarrow> bool"
    and sat :: "where_clause \<Rightarrow> 'a base_scheme \<Rightarrow> bool"
    and cache :: "'c redis_client option"
    and view :: "'c \<Rightarrow> string \<Rightarrow> json option" +
  fixes key :: "uuid \<Rightarrow> string"
    and marshal :: "'a base_scheme \<Rightarrow> json"
    and unmarshal :: "json \<Rightarrow> 'a base_scheme result"
    and strip :: "'a base_scheme \<Rightarrow> 'a base_scheme"
  assumes key_inj: "inj key"
    and json_live: "deleted_at c = None \<Longrightarrow> unmarshal (marshal c) = Inr (strip c)"
begin

abbreviation inv :: "'d \<times> 'c \<Rightarrow> bool" where
  "inv \<equiv> table_inv cache key unmarshal strip rows valid view"

lemma inv_valid: "inv s \<Longrightarrow> valid (fst s)"
  by (simp add: table_inv_def)

lemma query_frame: "inv s \<Longrightarrow> valid d \<Longrightarrow> rows d = rows (fst s) \<Longrightarrow> inv (d, snd s)"
  by (simp add: table_inv_def)

lemma inv_shrink:
  "inv (d, c) \<Longrightarrow> valid d' \<Longrightarrow> rows d' = rows d \<Longrightarrow> view c' \<subseteq>\<^sub>m view c \<Longrightarrow> inv (d', c')"
  by (auto simp: table_inv_def intro: coherent_mono)

lemma lookup_id:
  assumes i: "inv (d, c)"
    and qi: "\<And>x. sat_all sat q x \<longleftrightarrow> base_id x = i"
    and g: "read_through cache marshal unmarshal (key i) nf (g_first api q) (d, c) = (x, (d', c'))"
  shows "inv (d', c') \<and> rows d' = rows d \<and>
    (case x of Inr a \<Rightarrow> \<exists>b. rows d i = Some b \<and> (a = b \<or> cache \<noteq> None \<and> a = strip b)
     | Inl e \<Rightarrow> errors_Is e ErrRecordNotFound \<longrightarrow>
         rows d i = None \<and> str_contains (err_msg e) nf)"
proof (cases x)
  case (Inl e)
  have v: "valid d" using i by (simp add: table_inv_def)
  from ch.read_through_error [OF g [unfolded Inl]] obtain e' where q: "g_first api q d = (Inl e', d')"
    and e: "e = wrap_not_found nf e'" and le: "view c' \<subseteq>\<^sub>m view c" by blast
  have fr: "valid d' \<and> rows d' = rows d" by (rule db.first_frame [OF v q])
  have "rows d i = None" if "errors_Is e' ErrRecordNotFound"
    using db.first_none [OF v q that] qi db.rows_id [OF v] by (cases "rows d i") auto
  with Inl e fr inv_shrink [OF i _ _ le] wrap_contains show ?thesis
    by (auto simp: wrap_not_found_def split: if_splits)
next
  case (Inr a)
  have v: "valid d" using i by (simp add: table_inv_def)
  from ch.read_through_hit_or_miss [OF g [unfolded Inr]]
  consider (hit) j where "view c (key i) = Some j" "unmarshal j = Inr a" "d' = d"
      "view c' \<subseteq>\<^sub>m view c" "cache \<noteq> None"
    | (miss) "g_first api q d = (Inr a, d')"
        "\<forall>k j. view c' k = Some j \<longrightarrow> view c k = Some j \<or> k = key i \<and> j = marshal a"
    by blast
  then show ?thesis
  proof cases
    case hit
    then have "coherent key unmarshal strip (rows d) (view c)" using i by (simp add: table_inv_def)
    with hit obtain b where "rows d i = Some b" "a = strip b" by (auto dest: coherentD)
    with Inr hit inv_shrink [OF i v _ hit(4)] show ?thesis by auto
  next
    case miss
    have fr: "valid d' \<and> rows d' = rows d" by (rule db.first_frame [OF v miss(1)])
    have row: "rows d i = Some a" using db.first_row [OF v miss(1)] qi by auto
    have "coherent key unmarshal strip (rows d) (view c')"
      if "coherent key unmarshal strip (rows d) (view c)"
      unfolding coherent_def
    proof (intro allI impI)
      fix k j assume "view c' (key k) = Some j"
      with miss(2) key_inj consider "view c (key k) = Some j" | "k = i" "j = marshal a"
        by (auto simp: inj_def)
      then show "\<exists>c. rows d k = Some c \<and> unmarshal j = Inr (strip c)"
        using coherentD [OF that] row json_live [OF db.rows_live [OF v row]] by cases auto
    qed
    then show ?thesis using i Inr fr row by (auto simp: table_inv_def)
  qed
qed

text \<open>A lookup that caches under a key of another kind.\<close>

lemma lookup_other:
  assumes i: "inv (d, c)" and k: "k \<notin> range key"
    and g: "read_through cache marshal unmarshal k nf (g_first api q) (d, c) = (x, (d', c'))"
  shows "inv (d', c') \<and> rows d' = rows d \<and>
    (case x of Inr a \<Rightarrow> (rows d (base_id a) = Some a \<and> sat_all sat q a) \<or>
        (\<exists>j. cache \<noteq> None \<and> view c k = Some j \<and> unmarshal j = Inr a)
     | Inl e \<Rightarrow> errors_Is e ErrRecordNotFound \<longrightarrow>
         (\<forall>i b. rows d i = Some b \<longrightarrow> \<not> sat_all sat q b) \<and> str_contains (err_msg e) nf)"
proof (cases x)
  case (Inl e)
  have v: "valid d" using i by (simp add: table_inv_def)
  from ch.read_through_error [OF g [unfolded Inl]] obtain e' where q: "g_first api q d = (Inl e', d')"
    and e: "e = wrap_not_found nf e'" and le: "view c' \<subseteq>\<^sub>m view c" by blast
  have fr: "valid d' \<and> rows d' = rows d" by (rule db.first_frame [OF v q])
  with Inl e inv_shrink [OF i _ _ le] db.first_none [OF v q] wrap_contains show ?thesis
    by (auto simp: wrap_not_found_def split: if_splits)
next
  case (Inr a)
  have v: "valid d" using i by (simp add: table_inv_def)
  from ch.read_through_hit_or_miss [OF g [unfolded Inr]]
  consider (hit) j where "view c k = Some j" "unmarshal j = Inr a" "d' = d"
      "view c' \<subseteq>\<^sub>m view c" "cache \<noteq> None"
    | (miss) "g_first api q d = (Inr a, d')"
        "\<forall>k' j. view c' k' = Some j \<longrightarrow> view c k' = Some j \<or> k' = k \<and> j = marshal a"
    by blast
  then show ?thesis
  proof cases
    case hit
    with Inr inv_shrink [OF i v _ hit(4)] show ?thesis by auto
  next
    case miss
    have fr: "valid d' \<and> rows d' = rows d" by (rule db.first_frame [OF v miss(1)])
    have "coherent key unmarshal strip (rows d) (view c')"
      if "coherent key unmarshal strip (rows d) (view c)"
      using that miss(2) k unfolding coherent_def by (metis rangeI)
    then show ?thesis
      using i Inr fr db.first_row [OF v miss(1)] by (auto simp: table_inv_def)
  qed
qed

text \<open>Whatever the cache holds, a lookup changes no row; a miss answers from the table.\<close>

lemma read_frame:
  assumes "valid d"
    and "read_through cache marshal unmarshal k nf (g_first api q) (d, c) = (x, (d', c'))"
  shows "valid d' \<and> rows d' = rows d"
proof (cases x)
  case (Inl e)
  from ch.read_through_error [OF assms(2) [unfolded Inl]] db.first_frame [OF assms(1)] show ?thesis by blast
next
  case (Inr a)
  from ch.read_through_hit_or_miss [OF assms(2) [unfolded Inr]] db.first_frame [OF assms(1)] assms(1)
  show ?thesis by blast
qed

lemma read_not_found:
  assumes "valid d"
    and "read_through cache marshal unmarshal k nf (g_first api q) (d, c) = (Inl e, (d', c'))"
    and "errors_Is e ErrRecordNotFound"
  shows "(\<forall>i b. rows d i = Some b \<longrightarrow> \<not> sat_all sat q b) \<and> (\<exists>m. err_msg e = nf @ '': '' @ m)"
proof -
  from ch.read_through_error [OF assms(2)] obtain e' where q: "g_first api q d = (Inl e', d')"
    and e: "e = wrap_not_found nf e'" by blast
  then have nf: "errors_Is e' ErrRecordNotFound" using assms(3) by (auto simp: wrap_not_found_def split: if_splits)
  with e have "err_msg e = nf @ '': '' @ err_msg e'" by (simp add: wrap_not_found_def errorf_wrap_def)
  with db.first_none [OF assms(1) q nf] show ?thesis by blast
qed

text \<open>The state after a write to row \<open>i\<close> whose key is among those invalidated.\<close>

lemma write_inv:
  assumes "inv (d, c)" "valid d'" "rows d' = (rows d)(i := x)" "key i \<in> set ks"
  shows "inv (d', invalidate_all cache ks c)"
proof -
  have "coherent key unmarshal strip ((rows d)(i := x)) (view (invalidate_all cache ks c))"
    if "cache \<noteq> None"
    using assms(1) that ch.invalidate_all_gone [OF that assms(4)]
    by (intro coherent_upd [OF key_inj _ ch.invalidate_all_frame]) (auto simp: table_inv_def)
  with assms(2,3) show ?thesis by (simp add: table_inv_def)
qed

lemma create_inv:
  assumes "inv (d, c)" "valid d'" "rows d i = None" "rows d' = (rows d)(i := Some x)"
  shows "inv (d', invalidate_all cache ks c)"
  using assms coherent_fresh [OF _ ch.invalidate_all_frame [of ks c]] by (auto simp: table_inv_def)

end

end
