(* ===== verification/CategoryBackend.thy ===== *)
theory CategoryBackend
  imports CategorySpec CachedTable
begin

text \<open>
  The repository of \<open>category.repo.go\<close> implements the contract the service relies on:
  \<open>category_backend\<close> joins the documented laws of the ORM, of the Redis client and of the
  UUID library, and the sublocale discharges every law of \<open>category_contract\<close> for
  \<open>NewCategoryRepository\<close>. The interpretation is on the list store with the map-backed cache.
\<close>

locale category_backend =
  cached_table "cdb_categories (crc_db r)" rows valid category_sat "crc_cache r" view
    "category_key (crc_uuid r)" marshal_category unmarshal_category "\<lambda>c. c"
  for r :: "('d, 'c) category_repo_conf"
    and rows :: "'d \<Rightarrow> category_map"
    and valid :: "'d \<Rightarrow> bool"
    and view :: "'c \<Rightarrow> string \<Rightarrow> json option" +
  assumes uuids: "uuid_laws (crc_uuid r)"
    and count_table_frame: "valid d \<Longrightarrow> cdb_count_table (crc_db r) t q d = (n, d') \<Longrightarrow>
      valid d' \<and> rows d' = rows d"

lemma category_key_inj: "uuid_laws ul \<Longrightarrow> inj (category_key ul)"
  by (simp add: inj_def category_keys_distinct)

lemma category_live_roundtrip:
  "deleted_at c = None \<Longrightarrow> unmarshal_category (marshal_category c) = Inr c"
  by (simp add: category_json_roundtrip)

context category_backend
begin

lemma not_id_key:
  "category_name_key n \<notin> range (category_key (crc_uuid r))"
  "category_list_key \<notin> range (category_key (crc_uuid r))"
  using category_keys_distinct [OF uuids] by (auto simp: image_iff) metis+

lemma GetByID_spec:
  assumes "inv s" "categoryRepository_GetByID r i s = (x, s')"
  shows "inv s' \<and> rows (fst s') = rows (fst s) \<and>
    (case x of Inr c \<Rightarrow> rows (fst s) i = Some c
     | Inl e \<Rightarrow> errors_Is e ErrRecordNotFound \<longrightarrow>
         rows (fst s) i = None \<and> str_contains (err_msg e) ErrCategoryNotFound)"
  using lookup_id [of "fst s" "snd s" "q_where ''id = ?'' [AUuid i] q_all" i ErrCategoryNotFound x
      "fst s'" "snd s'"] assms
  by (auto simp: categoryRepository_GetByID_def split: sum.splits)

lemma GetByName_spec:
  assumes "inv s" "categoryRepository_GetByName r n s = (x, s')"
  shows "inv s' \<and> rows (fst s') = rows (fst s) \<and>
    (case x of Inr c \<Rightarrow> (rows (fst s) (base_id c) = Some c \<and> cat_name c = n) \<or>
        (\<exists>j. view (snd s) (category_name_key n) = Some j \<and> unmarshal_category j = Inr c)
     | Inl e \<Rightarrow> errors_Is e ErrRecordNotFound \<longrightarrow> (\<forall>i c. rows (fst s) i = Some c \<longrightarrow> cat_name c \<noteq> n))"
  using lookup_other [of "fst s" "snd s" "category_name_key n" "''category with name '' @ n @ '' not found''"
      "q_where ''name = ?'' [AStr n] q_all" x "fst s'" "snd s'"] assms not_id_key(1)
  by (auto simp: categoryRepository_GetByName_def split: sum.splits)

lemma Create_spec:
  assumes "inv s" "categoryRepository_Create r c s = (x, s')"
  shows "case x of Inl e \<Rightarrow> inv s' \<and> rows (fst s') = rows (fst s)
    | Inr c' \<Rightarrow> base_id c \<noteq> uuid_Nil \<longrightarrow> deleted_at c = None \<longrightarrow> inv s' \<and> same_content c c' \<and>
        rows (fst s) (base_id c) = None \<and> rows (fst s') = (rows (fst s))(base_id c := Some c')"
proof -
  obtain d ca where s: "s = (d, ca)" by (cases s)
  have v: "valid d" using assms(1) s by (simp add: table_inv_def)
  obtain y d' where g: "g_create (cdb_categories (crc_db r)) c d = (y, d')"
    by (cases "g_create (cdb_categories (crc_db r)) c d")
  show ?thesis
  proof (cases y)
    case (Inl e)
    with db.create_err [OF v] g assms s query_frame [OF assms(1), of d'] show ?thesis
      by (auto simp: categoryRepository_Create_def)
  next
    case (Inr a)
    have "inv (d', invalidate (crc_cache r) category_list_key ca)"
      if "base_id c \<noteq> uuid_Nil" "deleted_at c = None"
      using db.create_ok [OF v that] g Inr create_inv [of d ca d' "base_id c" a "[category_list_key]"]
        assms(1) s by auto
    then show ?thesis
      using db.create_ok [OF v] g Inr assms(2) s by (auto simp: categoryRepository_Create_def)
  qed
qed

lemma Update_spec:
  assumes "inv s" "categoryRepository_Update r c s = (x, s')"
  shows "case x of Inl e \<Rightarrow> inv s' \<and> rows (fst s') = rows (fst s)
    | Inr c' \<Rightarrow> rows (fst s) (base_id c) \<noteq> None \<longrightarrow> deleted_at c = None \<longrightarrow> inv s' \<and> same_content c c' \<and>
        rows (fst s') = (rows (fst s))(base_id c := Some c')"
proof -
  obtain d ca where s: "s = (d, ca)" by (cases s)
  have v: "valid d" using assms(1) s by (simp add: table_inv_def)
  obtain y d' where g: "g_save (cdb_categories (crc_db r)) c d = (y, d')"
    by (cases "g_save (cdb_categories (crc_db r)) c d")
  show ?thesis
  proof (cases y)
    case (Inl e)
    with db.save_err [OF v] g assms s query_frame [OF assms(1), of d'] show ?thesis
      by (auto simp: categoryRepository_Update_def)
  next
    case (Inr a)
    let ?ks = "[category_key (crc_uuid r) (base_id a), category_name_key (cat_name a), category_list_key]"
    have "inv (d', invalidate_all (crc_cache r) ?ks ca)"
      if l: "rows d (base_id c) \<noteq> None" "deleted_at c = None"
    proof -
      have ok: "valid d' \<and> same_content c a \<and> rows d' = (rows d)(base_id c := Some a)"
        using db.save_ok [OF v l] g Inr by blast
      with same_content_id [of c a] show ?thesis
        using assms(1) s by (intro write_inv [of d ca d' "base_id c" "Some a"]) auto
    qed
    then show ?thesis
      using db.save_ok [OF v] g Inr assms(2) s by (auto simp: categoryRepository_Update_def)
  qed
qed

lemma HasBooks_frame:
  assumes "inv s" "categoryRepository_HasBooks r i s = (x, s')"
  shows "inv s' \<and> rows (fst s') = rows (fst s)"
proof -
  let ?q = "q_where ''category_id = ?'' [AUuid i] q_all"
  obtain y d' where g: "cdb_count_table (crc_db r) ''books_categories'' ?q (fst s) = (y, d')"
    by (cases "cdb_count_table (crc_db r) ''books_categories'' ?q (fst s)")
  with count_table_frame [OF inv_valid [OF assms(1)] g] assms query_frame [OF assms(1), of d'] show ?thesis
    by (auto simp: categoryRepository_HasBooks_def split: sum.splits if_splits)
qed

lemma List_frame:
  assumes "inv s" "categoryRepository_List r f s = (x, s')"
  shows "inv s' \<and> rows (fst s') = rows (fst s)"
proof -
  let ?w = "category_list_where (crc_uuid r) f" and ?q = "category_list_query (crc_uuid r) f"
  have v: "valid (fst s)" using assms(1) by (rule inv_valid)
  obtain y d1 where c: "g_count (cdb_categories (crc_db r)) ?w (fst s) = (y, d1)"
    by (cases "g_count (cdb_categories (crc_db r)) ?w (fst s)")
  have d1: "valid d1 \<and> rows d1 = rows (fst s)" by (rule db.count_frame [OF v c])
  obtain z d2 where f: "g_find (cdb_categories (crc_db r)) ?q d1 = (z, d2)"
    by (cases "g_find (cdb_categories (crc_db r)) ?q d1")
  have d2: "valid d2 \<and> rows d2 = rows d1" using db.find_frame f d1 by blast
  from assms c f d1 d2 query_frame [OF assms(1), of d1] query_frame [OF assms(1), of d2]
  show ?thesis by (auto simp: categoryRepository_List_def split: sum.splits)
qed

text \<open>The page of \<open>List\<close> holds live rows that satisfy the filter, at most \<open>Limit\<close> of them.\<close>

lemma List_ok:
  assumes "inv s" "categoryRepository_List r f s = (Inr (cs, n), s')" "0 < cf_limit f"
  shows "n = int (card {i. \<exists>c. rows (fst s) i = Some c \<and>
           sat_all category_sat (category_list_where (crc_uuid r) f) c})"
    and "\<forall>c \<in> set cs. rows (fst s) (base_id c) = Some c \<and>
           sat_all category_sat (category_list_where (crc_uuid r) f) c"
    and "distinct (map base_id cs)" and "int (length cs) \<le> cf_limit f"
proof -
  let ?w = "category_list_where (crc_uuid r) f" and ?q = "category_list_query (crc_uuid r) f"
  have v: "valid (fst s)" using assms(1) by (rule inv_valid)
  obtain d1 d2 where c: "g_count (cdb_categories (crc_db r)) ?w (fst s) = (Inr n, d1)"
    and f: "g_find (cdb_categories (crc_db r)) ?q d1 = (Inr cs, d2)"
    using assms(2) by (auto simp: categoryRepository_List_def split: prod.splits sum.splits)
  have d1: "valid d1" "rows d1 = rows (fst s)" using db.count_frame [OF v c] by auto
  have w: "sat_all category_sat ?q c = sat_all category_sat ?w c" for c
    by (simp add: category_list_query_def)
  show "n = int (card {i. \<exists>c. rows (fst s) i = Some c \<and> sat_all category_sat ?w c})"
    by (rule db.count_card [OF v c])
  show "\<forall>c \<in> set cs. rows (fst s) (base_id c) = Some c \<and> sat_all category_sat ?w c"
    using db.find_sound [OF d1(1) f] by (simp add: w d1(2))
  show "distinct (map base_id cs)" by (rule db.find_distinct [OF d1(1) f])
  show "int (length cs) \<le> cf_limit f"
    using db.find_limit [OF d1(1) f _ assms(3)] by (simp add: category_list_query_def)
qed

lemma GetChildren_spec:
  assumes "inv s" "categoryRepository_GetChildren r i s = (x, s')"
  shows "inv s' \<and> rows (fst s') = rows (fst s) \<and>
    (\<forall>cs. x = Inr cs \<longrightarrow> distinct (map base_id cs) \<and>
      (\<forall>c. c \<in> set cs \<longleftrightarrow> rows (fst s) (base_id c) = Some c \<and> cat_parent c = Some i))"
proof -
  let ?q = "q_where ''parent_id = ?'' [AUuid i] q_all"
  have v: "valid (fst s)" using assms(1) by (rule inv_valid)
  obtain y d where f: "g_find (cdb_categories (crc_db r)) ?q (fst s) = (y, d)"
    by (cases "g_find (cdb_categories (crc_db r)) ?q (fst s)")
  have fr: "valid d \<and> rows d = rows (fst s)" by (rule db.find_frame [OF v f])
  have x: "s' = (d, snd s)" "x = y"
    using assms(2) f by (auto simp: categoryRepository_GetChildren_def split: sum.splits)
  have "c \<in> set cs \<longleftrightarrow> rows (fst s) (base_id c) = Some c \<and> cat_parent c = Some i" if "y = Inr cs" for c cs
    using db.find_sound [OF v, of ?q cs d c] db.find_complete [OF v, of ?q cs d "base_id c" c] f that by auto
  moreover have "distinct (map base_id cs)" if "y = Inr cs" for cs
    using db.find_distinct [OF v] f that by blast
  ultimately show ?thesis using x fr query_frame [OF assms(1), of d] by auto
qed


lemma Delete_spec:
  assumes "inv s" "categoryRepository_Delete r i s = (x, s')"
  shows "inv s' \<and> (case x of Inl e \<Rightarrow> rows (fst s') = rows (fst s)
    | Inr _ \<Rightarrow> rows (fst s) i \<noteq> None \<and> (\<forall>j c. rows (fst s) j = Some c \<longrightarrow> cat_parent c \<noteq> Some i) \<and>
        rows (fst s') = (rows (fst s))(i := None))"
proof -
  let ?api = "cdb_categories (crc_db r)" and ?q = "q_where ''parent_id = ?'' [AUuid i] q_all"
  let ?d = "q_where ''id = ?'' [AUuid i] q_all"
  obtain y s1 where g: "categoryRepository_GetByID r i s = (y, s1)"
    by (cases "categoryRepository_GetByID r i s")
  have s1: "inv s1" "rows (fst s1) = rows (fst s)" using GetByID_spec [OF assms(1) g] by auto
  obtain n d2 where n: "g_count ?api ?q (fst s1) = (n, d2)" by (cases "g_count ?api ?q (fst s1)")
  have d2: "valid d2" "rows d2 = rows (fst s)"
    using db.count_frame [OF inv_valid [OF s1(1)] n] s1(2) by auto
  have s2: "inv (d2, snd s1)" using query_frame [OF s1(1) d2(1)] d2 s1 by simp
  obtain h s3 where h: "categoryRepository_HasBooks r i (d2, snd s1) = (h, s3)"
    by (cases "categoryRepository_HasBooks r i (d2, snd s1)")
  have s3: "inv s3" "rows (fst s3) = rows (fst s)" using HasBooks_frame [OF s2 h] d2 by auto
  obtain u d4 where d: "g_delete ?api ?d (fst s3) = (u, d4)" by (cases "g_delete ?api ?d (fst s3)")
  have v3: "valid (fst s3)" by (rule inv_valid [OF s3(1)])
  show ?thesis
  proof (cases "\<exists>c k v. y = Inr c \<and> n = Inr k \<and> \<not> k > 0 \<and> h = Inr False \<and> u = Inr v")
    case False
    have "inv (d4, snd s3) \<and> rows d4 = rows (fst s3)" if "u = Inl e" for e
      using db.delete_err [OF v3] d that query_frame [OF s3(1)] by auto
    with False assms(2) g n h d s1 s2 d2 s3 show ?thesis
      by (auto simp: categoryRepository_Delete_def split: sum.splits if_splits bool.splits)
  next
    case True
    then obtain c k v where o: "y = Inr c" "n = Inr k" "\<not> k > 0" "h = Inr False" "u = Inr v" by blast
    have c: "rows (fst s) i = Some c" using GetByID_spec [OF assms(1) g] o by auto
    have "\<not> (\<exists>j b. rows (fst s1) j = Some b \<and> sat_all category_sat ?q b)"
      using db.count_pos [OF inv_valid [OF s1(1)], of ?q k d2] n o by auto
    then have leaf: "\<forall>j b. rows (fst s) j = Some b \<longrightarrow> cat_parent b \<noteq> Some i" using s1(2) by auto
    have del: "valid d4 \<and> rows d4 = (\<lambda>j. case rows (fst s3) j of None \<Rightarrow> None
        | Some b \<Rightarrow> if sat_all category_sat ?d b then None else Some b)"
      using db.delete_ok [OF v3] d o by auto
    have upd: "rows d4 = (rows (fst s3))(i := None)"
    proof
      fix j
      show "rows d4 j = ((rows (fst s3))(i := None)) j"
        using del db.rows_id [OF v3, of j] by (cases "rows (fst s3) j") auto
    qed
    let ?ks = "[category_key (crc_uuid r) i, category_name_key (cat_name c), category_list_key]"
    have "inv (d4, invalidate_all (crc_cache r) ?ks (snd s3))"
      using s3(1) del upd by (intro write_inv [of "fst s3" "snd s3" d4 i None]) auto
    with o assms(2) g n h d c leaf upd s3 show ?thesis
      by (auto simp: categoryRepository_Delete_def)
  qed
qed

end

sublocale category_backend \<subseteq>
  svc: category_contract "NewCategoryRepository r" "\<lambda>s. rows (fst s)"
    "table_inv (crc_cache r) (category_key (crc_uuid r)) unmarshal_category (\<lambda>c. c) rows valid view"
proof (unfold_locales, goal_cases)
  case (1 s i c)
  then show ?case using inv_valid db.rows_id db.rows_live by blast
next
  case (2 s i x s')
  then show ?case using GetByID_spec by auto
next
  case (3 s i c s')
  then show ?case using GetByID_spec [of s i "Inr c" s'] by auto
next
  case (4 s i e s')
  then show ?case using GetByID_spec [of s i "Inl e" s'] by auto
next
  case (5 s n x s')
  then show ?case using GetByName_spec by auto
next
  case (6 s n e s' i c)
  then show ?case using GetByName_spec [of s n "Inl e" s'] by auto
next
  case (7 s c c' s')
  then show ?case using Create_spec [of s c "Inr c'" s'] by auto
next
  case (8 s c e s')
  then show ?case using Create_spec [of s c "Inl e" s'] by auto
next
  case (9 s c c' s')
  then show ?case using Update_spec [of s c "Inr c'" s'] by auto
next
  case (10 s c e s')
  then show ?case using Update_spec [of s c "Inl e" s'] by auto
next
  case (11 s i u s')
  then show ?case using Delete_spec [of s i "Inr u" s'] by auto
next
  case (12 s i e s')
  then show ?case using Delete_spec [of s i "Inl e" s'] by auto
next
  case (13 s f y s')
  then show ?case using List_frame by auto
next
  case (14 s i z s')
  then show ?case using GetChildren_spec by auto
next
  case (15 s i cs s')
  then show ?case using GetChildren_spec [of s i "Inr cs" s'] by auto
qed

context category_backend
begin

lemmas contract = svc.category_contract_axioms

end

section \<open>The concrete backend\<close>

text \<open>
  The list store for the table (unique names, foreign key not enforced), a books table that is
  empty, the map-backed cache and the unary UUIDs.
\<close>

definition mem_category_conf :: "(category list, string \<rightharpoonup> json) category_repo_conf" where
  "mem_category_conf =
     \<lparr>crc_uuid = unary_uuid,
      crc_db = \<lparr>cdb_categories = mem_api (\<lambda>a b. cat_name a = cat_name b) category_sat (\<lambda>_ c. c),
                cdb_count_table = (\<lambda>t q d. (Inr 0, d))\<rparr>,
      crc_cache = Some mem_redis\<rparr>"

lemma mem_category_conf_simps [simp]:
  "crc_uuid mem_category_conf = unary_uuid"
  "cdb_categories (crc_db mem_category_conf) = mem_api (\<lambda>a b. cat_name a = cat_name b) category_sat (\<lambda>_ c. c)"
  "cdb_count_table (crc_db mem_category_conf) t q d = (Inr 0, d)"
  "crc_cache mem_category_conf = Some mem_redis"
  by (simp_all add: mem_category_conf_def)

lemma mem_category_backend: "category_backend mem_category_conf mem_rows mem_valid (\<lambda>c. c)"
proof (intro category_backend.intro cached_table.intro)
  show "gorm_store (cdb_categories (crc_db mem_category_conf)) mem_rows mem_valid category_sat"
    using mem_gorm_store by simp
  show "reliable_cache (crc_cache mem_category_conf) (\<lambda>c. c)"
    using mem_redis_reliable by simp
  show "cached_table_axioms (category_key (crc_uuid mem_category_conf)) marshal_category
      unmarshal_category (\<lambda>c. c)"
    by unfold_locales
      (simp_all add: category_key_inj unary_uuid_laws category_live_roundtrip)
  show "category_backend_axioms mem_category_conf mem_rows mem_valid"
    by unfold_locales (simp_all add: unary_uuid_laws)
qed

interpretation memcat: category_backend mem_category_conf mem_rows mem_valid "\<lambda>c. c"
  by (rule mem_category_backend)

end
