(* ===== verification/CategorySystem.thy ===== *)
theory CategorySystem
  imports CategoryBackend
begin

text \<open>
  The category service as a running system: a request is one call of the service, a step runs
  one request to its end or lets the cache lose entries, and the properties of the service hold
  in every reachable state. The last section splits \<open>UpdateCategory\<close> at its only write to
  look at two requests that overlap.
\<close>

datatype category_call =
    CallCreate new_row_env category_create
  | CallUpdate uuid category_update
  | CallDelete uuid
  | CallGet uuid
  | CallGetByName string
  | CallList category_filter
  | CallChildren uuid

definition category_serve ::
  "uuid_lib \<Rightarrow> 's category_repository \<Rightarrow> category_call \<Rightarrow> 's \<Rightarrow> 's" where
  "category_serve ul repo call s =
     (case call of
        CallCreate env req \<Rightarrow> snd (CreateCategory ul repo env req s)
      | CallUpdate i req \<Rightarrow> snd (UpdateCategory ul repo i req s)
      | CallDelete i \<Rightarrow> snd (DeleteCategory repo i s)
      | CallGet i \<Rightarrow> snd (GetCategoryByID repo i s)
      | CallGetByName n \<Rightarrow> snd (GetCategoryByName repo n s)
      | CallList f \<Rightarrow> snd (ListCategories repo f s)
      | CallChildren i \<Rightarrow> snd (GetCategoryChildren repo i s))"

text \<open>\<open>uuid.New()\<close> never returns the nil UUID.\<close>

definition category_env_ok :: "category_call \<Rightarrow> bool" where
  "category_env_ok call = (case call of CallCreate env req \<Rightarrow> new_uuid env \<noteq> uuid_Nil | _ \<Rightarrow> True)"

inductive category_reach ::
  "('d, 'c) category_repo_conf \<Rightarrow> ('c \<Rightarrow> string \<Rightarrow> json option) \<Rightarrow> 'd \<times> 'c \<Rightarrow> 'd \<times> 'c \<Rightarrow> bool"
  for r view s where
  reach_start: "category_reach r view s s"
| reach_serve: "category_reach r view s t \<Longrightarrow> category_env_ok call \<Longrightarrow>
    category_reach r view s (category_serve (crc_uuid r) (NewCategoryRepository r) call t)"
| reach_expire: "category_reach r view s (d, c) \<Longrightarrow> view c' \<subseteq>\<^sub>m view c \<Longrightarrow> category_reach r view s (d, c')"

inductive_cases category_reach_cases: "category_reach r view s t"

context category_contract
begin

lemma serve_invariant:
  assumes "ok s" "forest (cats s)" "category_env_ok call"
  shows "ok (category_serve ul repo call s) \<and> forest (cats (category_serve ul repo call s))"
proof (cases call)
  case (CallCreate env req)
  with assms CreateCategory_spec [OF assms(1), of env ul req] CreateCategory_forest [OF assms(1) _ assms(2), of env ul req]
  show ?thesis by (cases "CreateCategory ul repo env req s") (auto simp: category_serve_def category_env_ok_def)
next
  case (CallUpdate i req)
  with assms UpdateCategory_spec [OF assms(1), of ul i req] UpdateCategory_forest [OF assms(1,2), of ul i req]
  show ?thesis by (cases "UpdateCategory ul repo i req s") (auto simp: category_serve_def)
next
  case (CallDelete i)
  with assms DeleteCategory_spec [OF assms(1), of i] DeleteCategory_forest [OF assms(1,2), of i]
  show ?thesis by (cases "DeleteCategory repo i s") (auto simp: category_serve_def)
next
  case (CallGet i)
  with assms GetCategoryByID_spec [OF assms(1), of i]
  show ?thesis by (cases "GetCategoryByID repo i s") (auto simp: category_serve_def)
next
  case (CallGetByName n)
  with assms GetCategoryByName_frame [OF assms(1), of n]
  show ?thesis by (cases "GetCategoryByName repo n s") (auto simp: category_serve_def)
next
  case (CallList f)
  with assms ListCategories_frame [OF assms(1), of f]
  show ?thesis by (cases "ListCategories repo f s") (auto simp: category_serve_def)
next
  case (CallChildren i)
  with assms GetCategoryChildren_spec [OF assms(1), of i]
  show ?thesis by (cases "GetCategoryChildren repo i s") (auto simp: category_serve_def)
qed

end

context category_backend
begin

lemma reach_invariant:
  assumes "category_reach r view s t" "inv s" "forest (rows (fst s))"
  shows "inv t \<and> forest (rows (fst t))"
  using assms(1)
proof (induction rule: category_reach.induct)
  case (reach_serve t call)
  then show ?case using svc.serve_invariant by blast
next
  case (reach_expire d c c')
  then have "inv (d, c')" using inv_shrink [of d c d c'] inv_valid by auto
  with reach_expire show ?case by simp
qed (use assms in simp)

end

section \<open>Overlapping updates\<close>

text \<open>
  \<open>UpdateCategory\<close> up to its write: every check is done by separate queries, outside a
  transaction, so another request may write between the checks and the write.
\<close>

definition update_prepare ::
  "uuid_lib \<Rightarrow> 's category_repository \<Rightarrow> uuid \<Rightarrow> category_update \<Rightarrow> 's \<Rightarrow> category result \<times> 's" where
  "update_prepare ul repo i req s =
     (case cr_GetByID repo i s of
        (Inl e, s1) \<Rightarrow> (Inl (lookup_error ErrCategoryNotFound ErrCategoryNotFound e), s1)
      | (Inr cat, s1) \<Rightarrow>
          (case update_name_check repo i (cu_name req) cat s1 of
             (Inl e, s2) \<Rightarrow> (Inl e, s2)
           | (Inr _, s2) \<Rightarrow>
               let cat1 = (case cu_name req of None \<Rightarrow> cat | Some n \<Rightarrow> cat\<lparr>cat_name := n\<rparr>);
                   cat2 = (case cu_description req of None \<Rightarrow> cat1 | Some ds \<Rightarrow> cat1\<lparr>cat_description := ds\<rparr>)
               in update_parent ul repo i (cu_parent req) cat2 s2))"

definition update_write :: "'s category_repository \<Rightarrow> category \<Rightarrow> 's \<Rightarrow> category_response result \<times> 's" where
  "update_write repo cat s =
     (case cr_Update repo cat s of
        (Inl e, s') \<Rightarrow> (Inl err_internal, s')
      | (Inr cat', s') \<Rightarrow> (Inr (NewCategoryResponse cat'), s'))"

lemma UpdateCategory_split:
  "UpdateCategory ul repo i req s =
     (case update_prepare ul repo i req s of
        (Inl e, s') \<Rightarrow> (Inl e, s')
      | (Inr cat, s') \<Rightarrow> update_write repo cat s')"
  by (auto simp: UpdateCategory_def update_prepare_def update_write_def Let_def split: prod.splits sum.splits)

text \<open>Two updates of which both check before either writes.\<close>

definition overlapping_updates ::
  "uuid_lib \<Rightarrow> 's category_repository \<Rightarrow> uuid \<Rightarrow> category_update \<Rightarrow> uuid \<Rightarrow> category_update \<Rightarrow> 's \<Rightarrow>
   (category_response result \<times> category_response result) \<times> 's" where
  "overlapping_updates ul repo i req i' req' s =
     (case update_prepare ul repo i req s of
        (Inl e, s1) \<Rightarrow> (case UpdateCategory ul repo i' req' s1 of (x, s2) \<Rightarrow> ((Inl e, x), s2))
      | (Inr cat, s1) \<Rightarrow>
          (case update_prepare ul repo i' req' s1 of
             (Inl e, s2) \<Rightarrow> (case update_write repo cat s2 of (x, s3) \<Rightarrow> ((x, Inl e), s3))
           | (Inr cat', s2) \<Rightarrow>
               (case update_write repo cat s2 of
                  (x, s3) \<Rightarrow> (case update_write repo cat' s3 of (y, s4) \<Rightarrow> ((x, y), s4)))))"

end
