(* ===== verification/CategoryProps.thy ===== *)
theory CategoryProps
  imports CategorySystem
begin

text \<open>
  The properties of the category service over its own repository: \<open>category_backend\<close> holds the
  documented laws of the ORM, the cache client and the UUID library, \<open>category_inv\<close> is the
  invariant of the database and the cache. The witnesses run the code on the list store.
\<close>

abbreviation category_inv ::
  "('d, 'c) category_repo_conf \<Rightarrow> ('d \<Rightarrow> category_map) \<Rightarrow> ('d \<Rightarrow> bool) \<Rightarrow>
   ('c \<Rightarrow> string \<Rightarrow> json option) \<Rightarrow> 'd \<times> 'c \<Rightarrow> bool" where
  "category_inv r rows valid view \<equiv>
     table_inv (crc_cache r) (category_key (crc_uuid r)) unmarshal_category (\<lambda>c. c) rows valid view"

section \<open>Example data\<close>

abbreviation demo_repo :: "(category list \<times> (string \<rightharpoonup> json)) category_repository" where
  "demo_repo \<equiv> NewCategoryRepository mem_category_conf"

definition demo_state :: "category list \<times> (string \<rightharpoonup> json)" where
  "demo_state = ([NewCategory 1 10 11 ''Fiction'' [] None, NewCategory 2 12 13 ''Science'' [] None,
     NewCategory 3 14 15 ''Physics'' [] (Some 2)], Map.empty)"

abbreviation demo_env :: new_row_env where
  "demo_env \<equiv> \<lparr>new_uuid = 4, now_created = 20, now_updated = 21\<rparr>"

abbreviation set_parent :: "string \<Rightarrow> category_update" where
  "set_parent p \<equiv> \<lparr>cu_name = None, cu_description = None, cu_parent = Some p\<rparr>"

abbreviation rename_to :: "string \<Rightarrow> category_update" where
  "rename_to n \<equiv> \<lparr>cu_name = Some n, cu_description = None, cu_parent = None\<rparr>"

abbreviation demo_inv :: "category list \<times> (string \<rightharpoonup> json) \<Rightarrow> bool" where
  "demo_inv \<equiv> category_inv mem_category_conf mem_rows mem_valid (\<lambda>c. c)"

lemma mem_rows_empty: "mem_rows [] = (\<lambda>_. None)"
  by (rule ext) simp

lemma empty_inv: "demo_inv ([], Map.empty)" and demo_state_inv: "demo_inv demo_state"
  by (auto simp: table_inv_def coherent_def mem_valid_def demo_state_def NewCategory_def)

lemma demo_state_forest: "forest (mem_rows (fst demo_state))"
proof -
  let ?a = "NewCategory 1 10 11 ''Fiction'' [] None" and ?b = "NewCategory 2 12 13 ''Science'' [] None"
  let ?c = "NewCategory 3 14 15 ''Physics'' [] (Some 2)"
  have 1: "forest ((\<lambda>_. None)(1 := Some ?a))"
    by (rule forest_upd) (simp_all add: NewCategory_def)
  have 2: "forest ((\<lambda>_. None)(1 := Some ?a, 2 := Some ?b))"
    by (rule forest_upd [OF 1]) (simp add: NewCategory_def)
  have "forest ((\<lambda>_. None)(1 := Some ?a, 2 := Some ?b, 3 := Some ?c))"
  proof (rule forest_upd [OF 2])
    fix p assume p: "cat_parent ?c = Some p"
    show "((\<lambda>_. None)(1 := Some ?a, 2 := Some ?b)) p \<noteq> None \<and>
        (p, 3) \<notin> (parent_rel ((\<lambda>_. None)(1 := Some ?a, 2 := Some ?b)))\<^sup>*"
      using p by (intro conjI no_path_to_fresh [OF 2]) (auto simp: NewCategory_def)
  qed
  moreover have "mem_rows (fst demo_state) = (\<lambda>_. None)(1 := Some ?a, 2 := Some ?b, 3 := Some ?c)"
    by (rule ext) (simp add: demo_state_def NewCategory_def)
  ultimately show ?thesis by simp
qed

section \<open>The hierarchy\<close>

text \<open>
  C1. The category hierarchy stays a forest: whatever sequence of requests the category service
  serves one after the other, and whatever the cache loses in between, no category ever becomes
  its own ancestor and every parent is a live category, provided this held at the start.
\<close>

theorem category_forest:
  assumes "category_backend r rows valid view"
    and "category_inv r rows valid view s" and "forest (rows (fst s))"
    and "category_reach r view s t"
  shows "forest (rows (fst t))"
  using category_backend.reach_invariant [OF assms(1,4,2,3)] by blast

lemma category_forest_witness:
  "forest (mem_rows (fst (category_serve unary_uuid demo_repo (CallUpdate 1 (set_parent ''aaa'')) demo_state))) \<and>
   map cat_parent (fst (category_serve unary_uuid demo_repo (CallUpdate 1 (set_parent ''aaa'')) demo_state))
     = [Some 3, None, Some 2]"
proof
  have "category_reach mem_category_conf (\<lambda>c. c) demo_state
      (category_serve (crc_uuid mem_category_conf) demo_repo (CallUpdate 1 (set_parent ''aaa'')) demo_state)"
    by (rule reach_serve [OF reach_start]) (simp add: category_env_ok_def)
  from category_forest [OF mem_category_backend demo_state_inv demo_state_forest this]
  show "forest (mem_rows (fst (category_serve unary_uuid demo_repo (CallUpdate 1 (set_parent ''aaa'')) demo_state)))"
    by simp
  show "map cat_parent (fst (category_serve unary_uuid demo_repo (CallUpdate 1 (set_parent ''aaa'')) demo_state))
     = [Some 3, None, Some 2]"
    by code_simp
qed

text \<open>
  C17. \<open>ensureNoCycle\<close> is exact on a forest: it accepts a new parent only if the category is not
  among the ancestors of that parent (nor the parent itself), and it answers with an error only
  if it is, or if a lookup of the repository failed with that error.
\<close>

theorem ensureNoCycle_exact:
  assumes "category_backend r rows valid view"
    and "category_inv r rows valid view s" and "forest (rows (fst s))"
    and "ensureNoCycle (NewCategoryRepository r) p ch s = (x, s')"
  shows "case x of
      Inr _ \<Rightarrow> (p, ch) \<notin> (parent_rel (rows (fst s)))\<^sup>*
    | Inl e \<Rightarrow> (p, ch) \<in> (parent_rel (rows (fst s)))\<^sup>* \<and> e = err_cycle \<or>
        (\<exists>j t t'. categoryRepository_GetByID r j t = (Inl e, t'))"
proof (cases x)
  note contract = category_backend.contract [OF assms(1)]
  case (Inl e)
  have "checkCycle (NewCategoryRepository r) ch {} p s = (Inl e, s')"
    using assms(4) Inl by (simp add: ensureNoCycle_def)
  from category_contract.checkCycle_error [OF contract assms(2) this] Inl show ?thesis by simp
next
  note contract = category_backend.contract [OF assms(1)]
  case (Inr u)
  with category_contract.ensureNoCycle_sound [OF contract assms(2)] assms(3,4) show ?thesis
    by (simp add: forest_def)
qed

lemma ensureNoCycle_exact_witness:
  "fst (ensureNoCycle demo_repo 3 2 demo_state) = Inl err_cycle \<and>
   (3, 2) \<in> (parent_rel (mem_rows (fst demo_state)))\<^sup>* \<and>
   fst (ensureNoCycle demo_repo 3 1 demo_state) = Inr () \<and>
   (3, 1) \<notin> (parent_rel (mem_rows (fst demo_state)))\<^sup>*"
proof -
  note exact = ensureNoCycle_exact [OF mem_category_backend demo_state_inv demo_state_forest surjective_pairing]
  have 1: "fst (ensureNoCycle demo_repo 3 2 demo_state) = Inl err_cycle"
    and 2: "fst (ensureNoCycle demo_repo 3 1 demo_state) = Inr ()"
    by code_simp+
  have "(3, 2) \<in> parent_rel (mem_rows (fst demo_state))"
    by (simp add: parent_rel_iff demo_state_def NewCategory_def)
  with 1 2 exact [of 3 1] show ?thesis by auto
qed


section \<open>The operations\<close>

text \<open>
  C21. \<open>CreateCategory\<close> either fails and changes no row, or adds exactly one row under the new
  UUID: it carries the name and description of the request, its parent is the one asked for (none
  when absent or empty) and a live category, and the response describes that row.
\<close>

theorem CreateCategory_effect:
  assumes "category_backend r rows valid view" and "category_inv r rows valid view s"
    and "new_uuid env \<noteq> uuid_Nil"
    and "CreateCategory ul (NewCategoryRepository r) env req s = (x, s')"
  shows "category_inv r rows valid view s' \<and> (case x of
      Inl e \<Rightarrow> rows (fst s') = rows (fst s)
    | Inr rsp \<Rightarrow> \<exists>c. rows (fst s) (new_uuid env) = None \<and>
        rows (fst s') = (rows (fst s))(new_uuid env := Some c) \<and>
        rsp = NewCategoryResponse c \<and> cat_name c = cc_name req \<and>
        cat_description c = cc_description req \<and>
        (case cat_parent c of
           None \<Rightarrow> cc_parent req = None \<or> cc_parent req = Some []
         | Some p \<Rightarrow> (\<exists>str. cc_parent req = Some str \<and> uuid_parse ul str = Some p) \<and>
             rows (fst s) p \<noteq> None))"
  by (rule category_contract.CreateCategory_spec [OF category_backend.contract [OF assms(1)] assms(2-4)])

lemma CreateCategory_effect_witness:
  "\<exists>c. mem_rows (fst (snd (CreateCategory unary_uuid demo_repo demo_env
       \<lparr>cc_name = ''Optics'', cc_description = ''light'', cc_parent = Some ''aaa''\<rparr> demo_state)))
     = (mem_rows (fst demo_state))(4 := Some c) \<and> cat_name c = ''Optics'' \<and> cat_parent c = Some 3"
proof -
  let ?req = "\<lparr>cc_name = ''Optics'', cc_description = ''light'', cc_parent = Some ''aaa''\<rparr>"
  let ?run = "CreateCategory unary_uuid demo_repo demo_env ?req demo_state"
  have n: "new_uuid demo_env \<noteq> uuid_Nil" by (simp add: uuid_Nil_def)
  have "\<not> isl (fst ?run)" by code_simp
  from run_answered [OF this] obtain rsp where run: "?run = (Inr rsp, snd ?run)" by blast
  have p: "uuid_parse unary_uuid ''aaa'' = Some 3" by code_simp
  from CreateCategory_effect [OF mem_category_backend demo_state_inv n run] p
  show ?thesis by (fastforce split: option.splits)
qed

text \<open>
  C22. \<open>UpdateCategory\<close> either fails and changes no row, or replaces exactly the row of the given
  category by the old one with the fields the request sets (time stamps apart, which the ORM
  sets): absent fields are kept, an empty parent clears the parent, and a newly set parent is
  another live category that has no path to the updated one.
\<close>

theorem UpdateCategory_effect:
  assumes "category_backend r rows valid view" and "category_inv r rows valid view s"
    and "UpdateCategory ul (NewCategoryRepository r) i req s = (x, s')"
  shows "category_inv r rows valid view s' \<and> (case x of
      Inl e \<Rightarrow> rows (fst s') = rows (fst s)
    | Inr rsp \<Rightarrow> \<exists>c0 c. rows (fst s) i = Some c0 \<and> same_content (requested_category ul req c0) c \<and>
        rows (fst s') = (rows (fst s))(i := Some c) \<and> rsp = NewCategoryResponse c \<and>
        (cu_parent req = None \<or> cat_parent c = None \<or>
         (\<exists>q. cat_parent c = Some q \<and> rows (fst s) q \<noteq> None \<and> q \<noteq> i \<and>
           (acyclic (parent_rel (rows (fst s))) \<longrightarrow> (q, i) \<notin> (parent_rel (rows (fst s)))\<^sup>*))))"
  by (rule category_contract.UpdateCategory_spec [OF category_backend.contract [OF assms(1)] assms(2,3)])

lemma UpdateCategory_effect_witness:
  "map_option cat_name (mem_rows (fst (snd (UpdateCategory unary_uuid demo_repo 3 (rename_to ''Optics'') demo_state))) 3)
     = Some ''Optics''"
proof -
  let ?run = "UpdateCategory unary_uuid demo_repo 3 (rename_to ''Optics'') demo_state"
  have "\<not> isl (fst ?run)" by code_simp
  from run_answered [OF this] obtain rsp where run: "?run = (Inr rsp, snd ?run)" by blast
  from UpdateCategory_effect [OF mem_category_backend demo_state_inv run]
  obtain c0 c where "same_content (requested_category unary_uuid (rename_to ''Optics'') c0) c"
    and "mem_rows (fst (snd ?run)) = (mem_rows (fst demo_state))(3 := Some c)" by auto
  moreover from this(1) have "cat_name c = ''Optics''"
    by (cases c0; cases c) (simp add: same_content_def requested_category_def)
  ultimately show ?thesis by simp
qed

text \<open>
  C23. \<open>DeleteCategory\<close> either fails and changes no row, or removes exactly the given category,
  which was live and had no live child.
\<close>

theorem DeleteCategory_leaf:
  assumes "category_backend r rows valid view" and "category_inv r rows valid view s"
    and "DeleteCategory (NewCategoryRepository r) i s = (x, s')"
  shows "category_inv r rows valid view s' \<and> (case x of
      Inl e \<Rightarrow> rows (fst s') = rows (fst s)
    | Inr _ \<Rightarrow> rows (fst s) i \<noteq> None \<and>
        (\<forall>j c. rows (fst s) j = Some c \<longrightarrow> cat_parent c \<noteq> Some i) \<and>
        rows (fst s') = (rows (fst s))(i := None))"
  by (rule category_contract.DeleteCategory_spec [OF category_backend.contract [OF assms(1)] assms(2,3)])

lemma DeleteCategory_leaf_witness:
  "fst (DeleteCategory demo_repo 2 demo_state)
     = Inl (errors_New ''cannot delete category with child categories'') \<and>
   mem_rows (fst (snd (DeleteCategory demo_repo 2 demo_state))) = mem_rows (fst demo_state) \<and>
   mem_rows (fst (snd (DeleteCategory demo_repo 3 demo_state))) = (mem_rows (fst demo_state))(3 := None)"
proof -
  note leaf = DeleteCategory_leaf [OF mem_category_backend demo_state_inv surjective_pairing]
  have 1: "fst (DeleteCategory demo_repo 2 demo_state)
      = Inl (errors_New ''cannot delete category with child categories'')"
    and 2: "fst (DeleteCategory demo_repo 3 demo_state) = Inr ()"
    by code_simp+
  from leaf [of 2] leaf [of 3] 1 2 show ?thesis by simp
qed

text \<open>
  C24. A category looked up by its ID is never stale: \<open>GetCategoryByID\<close> answers with the row the
  database holds at that moment, whether it came from the cache or from the query, and reports
  nothing else as found. The lookup changes no row.
\<close>

theorem GetCategoryByID_fresh:
  assumes "category_backend r rows valid view" and "category_inv r rows valid view s"
    and "GetCategoryByID (NewCategoryRepository r) i s = (x, s')"
  shows "category_inv r rows valid view s' \<and> rows (fst s') = rows (fst s) \<and>
    (\<forall>rsp. x = Inr rsp \<longrightarrow> (\<exists>c. rows (fst s) i = Some c \<and> rsp = NewCategoryResponse c))"
  by (rule category_contract.GetCategoryByID_spec [OF category_backend.contract [OF assms(1)] assms(2,3)])

lemma GetCategoryByID_fresh_witness:
  "\<exists>s1 rsp. snd (UpdateCategory unary_uuid demo_repo 3 (rename_to ''Optics'')
       (snd (GetCategoryByID demo_repo 3 demo_state))) = s1 \<and>
     fst (GetCategoryByID demo_repo 3 s1) = Inr rsp \<and> rsp_name rsp = ''Optics'' \<and>
     (\<exists>c. mem_rows (fst s1) 3 = Some c \<and> rsp = NewCategoryResponse c)"
proof -
  let ?s0 = "snd (GetCategoryByID demo_repo 3 demo_state)"
  let ?s1 = "snd (UpdateCategory unary_uuid demo_repo 3 (rename_to ''Optics'') ?s0)"
  note contract = category_backend.contract [OF mem_category_backend]
  have "demo_inv ?s0"
    using category_contract.GetCategoryByID_spec [OF contract demo_state_inv surjective_pairing] by blast
  then have inv1: "demo_inv ?s1"
    using category_contract.UpdateCategory_spec [OF contract _ surjective_pairing] by blast
  let ?run = "GetCategoryByID demo_repo 3 ?s1"
  have "\<not> isl (fst ?run)" by code_simp
  from run_answered [OF this] obtain rsp where run: "?run = (Inr rsp, snd ?run)" by blast
  have "rsp_name (projr (fst ?run)) = ''Optics''" by code_simp
  moreover have "fst ?run = Inr rsp" using run by (metis fst_conv)
  ultimately show ?thesis
    using GetCategoryByID_fresh [OF mem_category_backend inv1 run] by fastforce
qed

text \<open>
  A category looked up by its name can be stale: \<open>Update\<close> invalidates the cache entry of the
  new name only, so after a lookup of ''Physics'' and a rename of that category to ''Optics'' the
  old name still answers, with a category that no row of the table has.
\<close>

theorem GetCategoryByName_stale:
  "\<exists>rsp. fst (GetCategoryByName demo_repo ''Physics''
       (snd (UpdateCategory unary_uuid demo_repo 3 (rename_to ''Optics'')
         (snd (GetCategoryByName demo_repo ''Physics'' demo_state))))) = Inr rsp \<and>
     rsp_name rsp = ''Physics'' \<and>
     ''Physics'' \<notin> cat_name ` set (fst (snd (UpdateCategory unary_uuid demo_repo 3 (rename_to ''Optics'')
         (snd (GetCategoryByName demo_repo ''Physics'' demo_state)))))"
proof -
  let ?s1 = "snd (UpdateCategory unary_uuid demo_repo 3 (rename_to ''Optics'')
         (snd (GetCategoryByName demo_repo ''Physics'' demo_state)))"
  have "isl (fst (GetCategoryByName demo_repo ''Physics'' ?s1)) = False" by code_simp
  moreover have "rsp_name (projr (fst (GetCategoryByName demo_repo ''Physics'' ?s1))) = ''Physics''"
    by code_simp
  moreover have "''Physics'' \<notin> cat_name ` set (fst ?s1)" by code_simp
  ultimately show ?thesis by (metis isl_def sum.exhaust_sel sum.sel(2))
qed

text \<open>
  \<open>GetCategoryChildren\<close> answers with exactly the live categories whose parent is the given
  one, each once, and with their number as the total; the parent must be live.
\<close>

theorem GetCategoryChildren_exact:
  assumes "category_backend r rows valid view" and "category_inv r rows valid view s"
    and "GetCategoryChildren (NewCategoryRepository r) i s = (Inr l, s')"
  shows "rows (fst s) i \<noteq> None \<and>
    set (lr_items l) = NewCategoryResponse ` {c. rows (fst s) (base_id c) = Some c \<and> cat_parent c = Some i} \<and>
    distinct (map rsp_id (lr_items l)) \<and> lr_total_items l = int (length (lr_items l)) \<and>
    rows (fst s') = rows (fst s)"
  using category_contract.GetCategoryChildren_spec [OF category_backend.contract [OF assms(1)] assms(2,3)]
  by blast

lemma GetCategoryChildren_exact_witness:
  "\<exists>l. fst (GetCategoryChildren demo_repo 2 demo_state) = Inr l \<and>
     map rsp_id (lr_items l) = [3] \<and>
     set (lr_items l) = NewCategoryResponse `
       {c. mem_rows (fst demo_state) (base_id c) = Some c \<and> cat_parent c = Some 2}"
proof -
  let ?run = "GetCategoryChildren demo_repo 2 demo_state"
  have "\<not> isl (fst ?run)" by code_simp
  from run_answered [OF this] obtain l where run: "?run = (Inr l, snd ?run)" by blast
  then have l: "fst ?run = Inr l" by (metis fst_conv)
  have "map rsp_id (lr_items (projr (fst ?run))) = [3]" by code_simp
  with l GetCategoryChildren_exact [OF mem_category_backend demo_state_inv run]
  show ?thesis by auto
qed

text \<open>
  \<open>ListCategories\<close> answers with one page of the categories the filter selects: the total is
  the number of live categories that satisfy the filter, the items are such categories, each
  once, at most as many as the effective page size (between 1 and 100), and the page count is the
  ceiling of total over page size.
\<close>

theorem ListCategories_page:
  assumes "category_backend r rows valid view" and "category_inv r rows valid view s"
    and "ListCategories (NewCategoryRepository r) f s = (Inr l, s')"
    and "lr_total_items l \<le> 9223372036854775707"
  shows "lr_total_items l = int (card {i. \<exists>c. rows (fst s) i = Some c \<and>
           sat_all category_sat (category_list_where (crc_uuid r) f) c}) \<and>
    set (lr_items l) \<subseteq> NewCategoryResponse ` {c. rows (fst s) (base_id c) = Some c \<and>
           sat_all category_sat (category_list_where (crc_uuid r) f) c} \<and>
    distinct (map rsp_id (lr_items l)) \<and>
    lr_page_size l = clamp_limit (cf_limit f) \<and> int (length (lr_items l)) \<le> lr_page_size l \<and>
    lr_current_page l = clamp_page (cf_page f) \<and>
    lr_total_pages l = (lr_total_items l + lr_page_size l - 1) div lr_page_size l"
proof -
  let ?f = "CategoryFilter_Validate f"
  obtain cs n where rep: "categoryRepository_List r ?f s = (Inr (cs, n), s')"
    and l: "l = \<lparr>lr_items = map NewCategoryResponse cs, lr_total_items = n,
      lr_total_pages = total_pages n (cf_limit ?f), lr_current_page = cf_page ?f, lr_page_size = cf_limit ?f\<rparr>"
    using assms(3) by (auto simp: ListCategories_def Let_def split: prod.splits sum.splits)
  have f: "category_list_where ul ?f = category_list_where ul f" "cf_limit ?f = clamp_limit (cf_limit f)"
      "cf_page ?f = clamp_page (cf_page f)" for ul
    by (simp_all add: CategoryFilter_Validate_def category_list_where_def)
  note ok = category_backend.List_ok [OF assms(1,2) rep, unfolded f, OF clamp_limit_pos(1)]
  have "map rsp_id (map NewCategoryResponse cs) = map base_id cs"
    by (simp add: NewCategoryResponse_def)
  moreover have "total_pages n (clamp_limit (cf_limit f)) = (n + clamp_limit (cf_limit f) - 1) div clamp_limit (cf_limit f)"
    using assms(4) l ok(1) by (intro total_pages_exact) auto
  ultimately show ?thesis using ok by (auto simp: l f simp del: map_map)
qed

lemma ListCategories_page_witness:
  "\<exists>l. fst (ListCategories demo_repo
       \<lparr>cf_page = 0, cf_limit = 2, cf_sort_by = [], cf_desc = False, cf_parent = None\<rparr> demo_state) = Inr l \<and>
     lr_total_items l = 3 \<and> length (lr_items l) = 2 \<and> lr_total_pages l = (3 + 2 - 1) div 2"
proof -
  let ?f = "\<lparr>cf_page = 0, cf_limit = 2, cf_sort_by = [], cf_desc = False, cf_parent = None\<rparr>"
  let ?run = "ListCategories demo_repo ?f demo_state"
  have "\<not> isl (fst ?run)" by code_simp
  from run_answered [OF this] obtain l where run: "?run = (Inr l, snd ?run)" by blast
  then have l: "fst ?run = Inr l" by (metis fst_conv)
  have "lr_total_items (projr (fst ?run)) = 3" "length (lr_items (projr (fst ?run))) = 2"
    by code_simp+
  then have 1: "lr_total_items l = 3" "length (lr_items l) = 2" using l by simp_all
  from ListCategories_page [OF mem_category_backend demo_state_inv run] 1 l show ?thesis
    by (auto simp: clamp_limit_def DefaultPageSize_def MaxPageSize_def)
qed

end
