(* ===== verification/Helpers.thy ===== *)
theory Helpers
  imports Http Paging
begin

text \<open>
  \<open>pkg/utils/helpers.go\<close> and \<open>pkg/utils/hash.go\<close>. The random source is an argument (the values of
  \<open>rand.Intn\<close>); \<open>golang.org/x/crypto/bcrypt\<close> is the parameter \<open>bcrypt_lib\<close>, whose documented
  contract is that a generated hash compares equal to its password.
\<close>

section \<open>Slices\<close>

fun SliceContains :: "string list \<Rightarrow> string \<Rightarrow> bool" where
  "SliceContains [] s = False"
| "SliceContains (x # xs) s = (if x = s then True else SliceContains xs s)"

fun Contains :: "'a list \<Rightarrow> 'a \<Rightarrow> bool" where
  "Contains [] y = False"
| "Contains (x # xs) y = (if x = y then True else Contains xs y)"

text \<open>\<open>Unique\<close>: the loop over the slice with the set of keys seen so far.\<close>

fun unique_loop :: "'a set \<Rightarrow> 'a list \<Rightarrow> 'a list" where
  "unique_loop seen [] = []"
| "unique_loop seen (x # xs) = (if x \<in> seen then unique_loop seen xs else x # unique_loop (insert x seen) xs)"

definition Unique :: "'a list \<Rightarrow> 'a list" where
  "Unique xs = unique_loop {} xs"

lemma SliceContains_eq: "SliceContains xs s = Contains xs s"
  by (induction xs) auto

lemma Contains_iff: "Contains xs y \<longleftrightarrow> y \<in> set xs"
  by (induction xs) auto

lemma set_unique_loop: "set (unique_loop seen xs) = set xs - seen"
  by (induction xs arbitrary: seen) auto

lemma distinct_unique_loop: "distinct (unique_loop seen xs)"
  by (induction xs arbitrary: seen) (auto simp: set_unique_loop)

lemma remdups_snoc: "remdups (ys @ [x]) = filter (\<lambda>y. y \<noteq> x) (remdups ys) @ [x]"
  by (induction ys) auto

lemma unique_loop_filter: "unique_loop seen xs = filter (\<lambda>x. x \<notin> seen) (rev (remdups (rev xs)))"
proof (induction xs arbitrary: seen)
  case (Cons x xs)
  have "filter (\<lambda>y. y \<notin> insert x seen) ys = filter (\<lambda>y. y \<notin> seen) (filter (\<lambda>y. y \<noteq> x) ys)" for ys
    by (simp add: conj_commute)
  with Cons show ?case
    by (simp add: remdups_snoc rev_filter conj_commute) (metis (mono_tags, lifting) filter_cong)
qed simp

section \<open>Strings\<close>

definition ascii_lower :: "char \<Rightarrow> char" where
  "ascii_lower c = (let n = of_char c :: nat in if 65 \<le> n \<and> n \<le> 90 then char_of (n + 32) else c)"

text \<open>\<open>strings.ToLower(strings.TrimSpace(s))\<close> on ASCII text.\<close>

definition NormalizeString :: "string \<Rightarrow> string" where
  "NormalizeString s = map ascii_lower (trimSpace s)"

definition ParseInt :: "string \<Rightarrow> int option" where
  "ParseInt s = atoi s"

definition ParseBool :: "string \<Rightarrow> bool option" where
  "ParseBool s =
     (if s \<in> {''1'', ''t'', ''T'', ''true'', ''TRUE'', ''True''} then Some True
      else if s \<in> {''0'', ''f'', ''F'', ''false'', ''FALSE'', ''False''} then Some False
      else None)"

definition charset :: string where
  "charset = ''abcdefghijklmnopqrstuvwxyzABCDEFGHIJKLMNOPQRSTUVWXYZ0123456789''"

text \<open>\<open>intn i\<close> is the \<open>i\<close>-th value of \<open>rand.Intn(len(charset))\<close>, below its argument.\<close>

definition GenerateRandomString :: "(nat \<Rightarrow> nat) \<Rightarrow> nat \<Rightarrow> string" where
  "GenerateRandomString intn n = map (\<lambda>i. charset ! (intn i mod length charset)) [0..<n]"

lemma GenerateRandomString_length [simp]: "length (GenerateRandomString intn n) = n"
  by (simp add: GenerateRandomString_def)

text \<open>\<open>uuid.New().String()\<close>, the fresh UUID an argument; and the pointers, which are never \<open>nil\<close>.\<close>

definition GenerateUUID :: "uuid_lib \<Rightarrow> uuid \<Rightarrow> string" where
  "GenerateUUID ul fresh = uuid_string ul fresh"

definition StringPtr :: "string \<Rightarrow> string option" where
  "StringPtr s = Some s"

definition IntPtr :: "int \<Rightarrow> int option" where
  "IntPtr i = Some i"

definition BoolPtr :: "bool \<Rightarrow> bool option" where
  "BoolPtr b = Some b"

section \<open>Pages\<close>

text \<open>\<open>None\<close>: the panic of a division by a page size of zero, before anything is written.\<close>

definition RespondWithPagination :: "int \<Rightarrow> json \<Rightarrow> int \<Rightarrow> int \<Rightarrow> int \<Rightarrow> http_response option" where
  "RespondWithPagination st payload totalItems page pageSize =
     (case respond_total_pages totalItems pageSize of
        None \<Rightarrow> None
      | Some totalPages \<Rightarrow> Some (RespondWithJSON st (Inr (JObj
          [(''total_items'', JInt totalItems), (''total_pages'', JInt totalPages), (''current_page'', JInt page),
           (''page_size'', JInt pageSize), (''data'', payload)]))))"

text \<open>For a page size that the services accept, the response carries the page count of their own lists.\<close>

lemma RespondWithPagination_total:
  assumes "0 \<le> count" "count \<le> 9223372036854775707" "1 \<le> lm" "lm \<le> 100"
  shows "\<exists>rsp. RespondWithPagination st payload count page lm = Some rsp \<and> rs_status rsp = st \<and>
    json_field (rs_body rsp) ''total_pages'' = Some (JInt (total_pages count lm))"
  using respond_total_pages_eq [OF assms] by (simp add: RespondWithPagination_def RespondWithJSON_def)

section \<open>Passwords\<close>

text \<open>
  \<open>GenerateFromPassword(password, DefaultCost)\<close>, with the random salt as an argument, and
  \<open>CompareHashAndPassword\<close> (\<open>None\<close> when they match).
\<close>

record bcrypt_lib =
  bc_generate :: "nat \<Rightarrow> string \<Rightarrow> string result"
  bc_compare :: "string \<Rightarrow> string \<Rightarrow> go_error option"

definition bcrypt_laws :: "bcrypt_lib \<Rightarrow> bool" where
  "bcrypt_laws bc \<longleftrightarrow>
     (\<forall>salt pw h. bc_generate bc salt pw = Inr h \<longrightarrow> bc_compare bc h pw = None) \<and>
     (\<forall>pw. bc_compare bc [] pw \<noteq> None)"

definition HashPassword :: "bcrypt_lib \<Rightarrow> nat \<Rightarrow> string \<Rightarrow> string result" where
  "HashPassword bc salt pw =
     (case bc_generate bc salt pw of
        Inl e \<Rightarrow> Inl (errorf_wrap ''failed to hash password'' e)
      | Inr h \<Rightarrow> Inr h)"

definition CheckPasswordHash :: "bcrypt_lib \<Rightarrow> string \<Rightarrow> string \<Rightarrow> bool" where
  "CheckPasswordHash bc pw h = (bc_compare bc h pw = None)"

lemma hash_checks: "bcrypt_laws bc \<Longrightarrow> HashPassword bc salt pw = Inr h \<Longrightarrow> CheckPasswordHash bc pw h"
  by (auto simp: bcrypt_laws_def HashPassword_def CheckPasswordHash_def split: sum.splits)

lemma empty_hash_fails: "bcrypt_laws bc \<Longrightarrow> \<not> CheckPasswordHash bc pw []"
  by (simp add: bcrypt_laws_def CheckPasswordHash_def)

text \<open>A stand-in for the witnesses: the \<open>hash\<close> is the password with a mark in front.\<close>

definition plain_bcrypt :: bcrypt_lib where
  "plain_bcrypt = \<lparr>bc_generate = (\<lambda>salt pw. Inr (CHR ''#'' # pw)),
     bc_compare = (\<lambda>h pw. if h = CHR ''#'' # pw then None else Some (errors_New ''mismatch''))\<rparr>"

lemma plain_bcrypt_laws: "bcrypt_laws plain_bcrypt"
  by (simp add: bcrypt_laws_def plain_bcrypt_def)

section \<open>Properties\<close>

text \<open>
  \<open>Unique\<close> keeps exactly the first occurrence of every element, in order: its result has the
  same elements, none twice, and equals the list with later duplicates removed; \<open>Contains\<close> on it
  answers as on the argument.
\<close>

theorem Unique_first_occurrences:
  "Unique xs = rev (remdups (rev xs)) \<and> set (Unique xs) = set xs \<and> distinct (Unique xs) \<and>
   (\<forall>y. Contains (Unique xs) y = Contains xs y)"
  by (auto simp: Unique_def unique_loop_filter Contains_iff)

end
