(* ===== verification/UserModel.thy ===== *)
theory UserModel
  imports RedisCache Paging Constants Helpers
begin

text \<open>
  The data of the user service: \<open>model.User\<close> with its JSON form (password and refresh token have
  the tag \<open>json:"-"\<close>), the DTOs with their validation tags, the DAOs, and the meaning of the
  \<open>WHERE\<close> clauses and column maps of the user and auth repositories.
\<close>

record user = base +
  usr_email :: string
  usr_username :: string
  usr_password :: string
  usr_first :: string
  usr_last :: string
  usr_role :: string
  usr_status :: string
  usr_phone :: string
  usr_address :: string
  usr_last_login :: time
  usr_refresh :: string
  usr_refresh_exp :: time

definition NewUser :: "uuid \<Rightarrow> string \<Rightarrow> string \<Rightarrow> string \<Rightarrow> string \<Rightarrow> string \<Rightarrow> string \<Rightarrow> user" where
  "NewUser new_id email username password firstName lastName role =
     \<lparr>base_id = new_id, created_at = 0, updated_at = 0, deleted_at = None,
      usr_email = email, usr_username = username, usr_password = password,
      usr_first = firstName, usr_last = lastName,
      usr_role = (if role = [] then RoleMember else role), usr_status = UserStatusActive,
      usr_phone = [], usr_address = [], usr_last_login = 0, usr_refresh = [], usr_refresh_exp = 0\<rparr>"

section \<open>The JSON form\<close>

definition marshal_user :: "user \<Rightarrow> json" where
  "marshal_user u = JObj
     ([(''id'', JUuid (base_id u)), (''created_at'', JTime (created_at u)),
       (''updated_at'', JTime (updated_at u)), (''email'', JStr (usr_email u)),
       (''username'', JStr (usr_username u)), (''first_name'', JStr (usr_first u)),
       (''last_name'', JStr (usr_last u)), (''role'', JStr (usr_role u)), (''status'', JStr (usr_status u))]
      @ str_field ''phone'' (usr_phone u) @ str_field ''address'' (usr_address u)
      @ [(''last_login'', JTime (usr_last_login u))])"

definition unmarshal_user :: "json \<Rightarrow> user result" where
  "unmarshal_user = decode_struct (\<lambda>j.
     res_bind (get_uuid j ''id'') (\<lambda>i.
     res_bind (get_time j ''created_at'') (\<lambda>ca.
     res_bind (get_time j ''updated_at'') (\<lambda>ua.
     res_bind (get_str j ''email'') (\<lambda>em.
     res_bind (get_str j ''username'') (\<lambda>un.
     res_bind (get_str j ''first_name'') (\<lambda>fn.
     res_bind (get_str j ''last_name'') (\<lambda>ln.
     res_bind (get_str j ''role'') (\<lambda>ro.
     res_bind (get_str j ''status'') (\<lambda>st.
     res_bind (get_str j ''phone'') (\<lambda>ph.
     res_bind (get_str j ''address'') (\<lambda>ad.
     res_bind (get_time j ''last_login'') (\<lambda>ll.
       Inr \<lparr>base_id = i, created_at = ca, updated_at = ua, deleted_at = None,
            usr_email = em, usr_username = un, usr_password = [], usr_first = fn, usr_last = ln,
            usr_role = ro, usr_status = st, usr_phone = ph, usr_address = ad, usr_last_login = ll,
            usr_refresh = [], usr_refresh_exp = 0\<rparr>)))))))))))))"

text \<open>What a trip through the cache loses.\<close>

definition strip_user :: "user \<Rightarrow> user" where
  "strip_user u = u\<lparr>usr_password := [], usr_refresh := [], usr_refresh_exp := 0\<rparr>"

lemma user_json_roundtrip:
  "deleted_at u = None \<Longrightarrow> unmarshal_user (marshal_user u) = Inr (strip_user u)"
  by (cases u) (simp add: unmarshal_user_def decode_struct_def marshal_user_def strip_user_def
      str_field_def json_get_defs)

section \<open>dto\<close>

record user_create =
  uc_email :: string
  uc_username :: string
  uc_password :: string
  uc_first :: string
  uc_last :: string
  uc_role :: string
  uc_phone :: string
  uc_address :: string

definition decode_user_create :: "json \<Rightarrow> user_create result" where
  "decode_user_create = decode_struct (\<lambda>j.
     res_bind (get_str j ''email'') (\<lambda>em.
     res_bind (get_str j ''username'') (\<lambda>un.
     res_bind (get_str j ''password'') (\<lambda>pw.
     res_bind (get_str j ''first_name'') (\<lambda>fn.
     res_bind (get_str j ''last_name'') (\<lambda>ln.
     res_bind (get_str j ''role'') (\<lambda>ro.
     res_bind (get_str j ''phone'') (\<lambda>ph.
     res_bind (get_str j ''address'') (\<lambda>ad.
       Inr \<lparr>uc_email = em, uc_username = un, uc_password = pw, uc_first = fn, uc_last = ln,
            uc_role = ro, uc_phone = ph, uc_address = ad\<rparr>)))))))))"

definition user_create_tags :: "user_create \<Rightarrow> validate_field list" where
  "user_create_tags r =
     [(''email'', ''required,email'', JStr (uc_email r)),
      (''username'', ''required,min=3,max=30'', JStr (uc_username r)),
      (''password'', ''required,min=8'', JStr (uc_password r)),
      (''first_name'', ''required'', JStr (uc_first r)), (''last_name'', ''required'', JStr (uc_last r)),
      (''role'', ''required,oneof=admin librarian member guest'', JStr (uc_role r))]"

record user_update =
  uu_email :: "string option"
  uu_username :: "string option"
  uu_first :: "string option"
  uu_last :: "string option"
  uu_role :: "string option"
  uu_status :: "string option"
  uu_phone :: "string option"
  uu_address :: "string option"

definition decode_user_update :: "json \<Rightarrow> user_update result" where
  "decode_user_update = decode_struct (\<lambda>j.
     res_bind (get_str_ptr j ''email'') (\<lambda>em.
     res_bind (get_str_ptr j ''username'') (\<lambda>un.
     res_bind (get_str_ptr j ''first_name'') (\<lambda>fn.
     res_bind (get_str_ptr j ''last_name'') (\<lambda>ln.
     res_bind (get_str_ptr j ''role'') (\<lambda>ro.
     res_bind (get_str_ptr j ''status'') (\<lambda>st.
     res_bind (get_str_ptr j ''phone'') (\<lambda>ph.
     res_bind (get_str_ptr j ''address'') (\<lambda>ad.
       Inr \<lparr>uu_email = em, uu_username = un, uu_first = fn, uu_last = ln, uu_role = ro,
            uu_status = st, uu_phone = ph, uu_address = ad\<rparr>)))))))))"

definition json_ptr :: "string option \<Rightarrow> json" where
  "json_ptr x = (case x of None \<Rightarrow> JNull | Some s \<Rightarrow> JStr s)"

definition user_update_tags :: "user_update \<Rightarrow> validate_field list" where
  "user_update_tags r =
     [(''email'', ''omitempty,email'', json_ptr (uu_email r)),
      (''username'', ''omitempty,min=3,max=30'', json_ptr (uu_username r)),
      (''role'', ''omitempty,oneof=admin librarian member guest'', json_ptr (uu_role r)),
      (''status'', ''omitempty,oneof=active inactive pending blocked'', json_ptr (uu_status r))]"

record user_login =
  ul_name :: string
  ul_password :: string

definition decode_user_login :: "json \<Rightarrow> user_login result" where
  "decode_user_login = decode_struct (\<lambda>j.
     res_bind (get_str j ''username_or_email'') (\<lambda>n.
     res_bind (get_str j ''password'') (\<lambda>pw. Inr \<lparr>ul_name = n, ul_password = pw\<rparr>)))"

definition user_login_tags :: "user_login \<Rightarrow> validate_field list" where
  "user_login_tags r = [(''username_or_email'', ''required'', JStr (ul_name r)),
     (''password'', ''required'', JStr (ul_password r))]"

record change_password =
  cp_current :: string
  cp_new :: string

definition decode_change_password :: "json \<Rightarrow> change_password result" where
  "decode_change_password = decode_struct (\<lambda>j.
     res_bind (get_str j ''current_password'') (\<lambda>c.
     res_bind (get_str j ''new_password'') (\<lambda>n. Inr \<lparr>cp_current = c, cp_new = n\<rparr>)))"

definition change_password_tags :: "change_password \<Rightarrow> validate_field list" where
  "change_password_tags r = [(''current_password'', ''required'', JStr (cp_current r)),
     (''new_password'', ''required,min=8'', JStr (cp_new r))]"

definition decode_refresh_token :: "json \<Rightarrow> string result" where
  "decode_refresh_token = decode_struct (\<lambda>j. get_str j ''refresh_token'')"

record user_register =
  ug_email :: string
  ug_username :: string
  ug_password :: string
  ug_first :: string
  ug_last :: string
  ug_phone :: string
  ug_address :: string

definition decode_user_register :: "json \<Rightarrow> user_register result" where
  "decode_user_register = decode_struct (\<lambda>j.
     res_bind (get_str j ''email'') (\<lambda>em.
     res_bind (get_str j ''username'') (\<lambda>un.
     res_bind (get_str j ''password'') (\<lambda>pw.
     res_bind (get_str j ''first_name'') (\<lambda>fn.
     res_bind (get_str j ''last_name'') (\<lambda>ln.
     res_bind (get_str j ''phone'') (\<lambda>ph.
     res_bind (get_str j ''address'') (\<lambda>ad.
       Inr \<lparr>ug_email = em, ug_username = un, ug_password = pw, ug_first = fn, ug_last = ln,
            ug_phone = ph, ug_address = ad\<rparr>))))))))"

definition user_register_tags :: "user_register \<Rightarrow> validate_field list" where
  "user_register_tags r =
     [(''email'', ''required,email'', JStr (ug_email r)),
      (''username'', ''required,min=3,max=30'', JStr (ug_username r)),
      (''password'', ''required,min=8'', JStr (ug_password r)),
      (''first_name'', ''required'', JStr (ug_first r)), (''last_name'', ''required'', JStr (ug_last r))]"

record user_filter =
  uf_role :: string
  uf_status :: string
  uf_page :: int
  uf_limit :: int
  uf_sort_by :: string
  uf_desc :: bool

definition UserFilter_Validate :: "user_filter \<Rightarrow> user_filter" where
  "UserFilter_Validate f =
     f\<lparr>uf_page := clamp_page (uf_page f), uf_limit := clamp_limit (uf_limit f),
       uf_role := (if uf_role f \<noteq> [] \<and> uf_role f \<noteq> RoleAdmin \<and> uf_role f \<noteq> RoleLibrarian \<and>
                      uf_role f \<noteq> RoleMember \<and> uf_role f \<noteq> RoleGuest then [] else uf_role f),
       uf_status := (if uf_status f \<noteq> [] \<and> uf_status f \<noteq> UserStatusActive \<and>
                        uf_status f \<noteq> UserStatusInactive \<and> uf_status f \<noteq> UserStatusPending \<and>
                        uf_status f \<noteq> UserStatusBlocked then [] else uf_status f)\<rparr>"

definition UserFilter_GetOffset :: "user_filter \<Rightarrow> int" where
  "UserFilter_GetOffset f = page_offset (uf_page f) (uf_limit f)"

section \<open>dao\<close>

record user_response =
  ur_id :: uuid
  ur_email :: string
  ur_username :: string
  ur_first :: string
  ur_last :: string
  ur_role :: string
  ur_status :: string
  ur_phone :: string
  ur_address :: string
  ur_last_login :: "time option"
  ur_created :: time
  ur_updated :: time

definition NewUserResponse :: "user \<Rightarrow> user_response" where
  "NewUserResponse u =
     \<lparr>ur_id = base_id u, ur_email = usr_email u, ur_username = usr_username u,
      ur_first = usr_first u, ur_last = usr_last u, ur_role = usr_role u, ur_status = usr_status u,
      ur_phone = usr_phone u, ur_address = usr_address u,
      ur_last_login = (if usr_last_login u = 0 then None else Some (usr_last_login u)),
      ur_created = created_at u, ur_updated = updated_at u\<rparr>"

definition user_response_json :: "user_response \<Rightarrow> json" where
  "user_response_json r = JObj
     ([(''id'', JUuid (ur_id r)), (''email'', JStr (ur_email r)), (''username'', JStr (ur_username r)),
       (''first_name'', JStr (ur_first r)), (''last_name'', JStr (ur_last r)),
       (''role'', JStr (ur_role r)), (''status'', JStr (ur_status r))]
      @ str_field ''phone'' (ur_phone r) @ str_field ''address'' (ur_address r)
      @ opt_field ''last_login'' JTime (ur_last_login r)
      @ [(''created_at'', JTime (ur_created r)), (''updated_at'', JTime (ur_updated r))])"

record token_response =
  tr_access :: string
  tr_refresh :: string
  tr_type :: string
  tr_expires_in :: int
  tr_user :: "user_response option"

definition token_response_json :: "token_response \<Rightarrow> json" where
  "token_response_json t = JObj
     ([(''access_token'', JStr (tr_access t))] @ str_field ''refresh_token'' (tr_refresh t)
      @ [(''token_type'', JStr (tr_type t)), (''expires_in'', JInt (tr_expires_in t))]
      @ opt_field ''user'' user_response_json (tr_user t))"

text \<open>No response carries the password hash or the stored refresh token.\<close>

lemma response_hides_secrets: "NewUserResponse (strip_user u) = NewUserResponse u"
  by (simp add: NewUserResponse_def strip_user_def)

section \<open>The WHERE clauses and column maps of the repositories\<close>

fun user_sat :: "where_clause \<Rightarrow> user \<Rightarrow> bool" where
  "user_sat (Where sql [AUuid i]) u = (sql = ''id = ?'' \<and> base_id u = i)"
| "user_sat (Where sql [AStr s]) u =
     (sql = ''email = ?'' \<and> usr_email u = s \<or> sql = ''username = ?'' \<and> usr_username u = s \<or>
      sql = ''role = ?'' \<and> usr_role u = s \<or> sql = ''status = ?'' \<and> usr_status u = s)"
| "user_sat (Where sql [AStr s, AStr t]) u =
     (sql = ''username = ? OR email = ?'' \<and> (usr_username u = s \<or> usr_email u = t))"
| "user_sat (Where sql [AStr s, ATime t]) u =
     (sql = ''refresh_token = ? AND refresh_token_exp > ?'' \<and> usr_refresh u = s \<and> usr_refresh_exp u > t)"
| "user_sat (Where sql [ATime t]) u = (sql = ''refresh_token_exp < ?'' \<and> usr_refresh_exp u < t)"
| "user_sat _ u = False"

fun set_user_column :: "string \<times> sqlarg \<Rightarrow> user \<Rightarrow> user" where
  "set_user_column (c, AStr s) u = (if c = ''refresh_token'' then u\<lparr>usr_refresh := s\<rparr> else u)"
| "set_user_column (c, ATime t) u =
     (if c = ''refresh_token_exp'' then u\<lparr>usr_refresh_exp := t\<rparr>
      else if c = ''last_login'' then u\<lparr>usr_last_login := t\<rparr> else u)"
| "set_user_column _ u = u"

definition user_assign :: "(string \<times> sqlarg) list \<Rightarrow> user \<Rightarrow> user" where
  "user_assign cols u = fold set_user_column cols u"

lemma set_user_column_base [simp]:
  "base_id (set_user_column c u) = base_id u" "deleted_at (set_user_column c u) = deleted_at u"
  by (induction c u rule: set_user_column.induct) auto

lemma user_assign_base [simp]:
  "base_id (user_assign cols u) = base_id u" "deleted_at (user_assign cols u) = deleted_at u"
  unfolding user_assign_def by (induction cols arbitrary: u) simp_all

end
