(* ===== verification/UserRepo.thy ===== *)
theory UserRepo
  imports UserModel
begin

text \<open>
  \<open>services/user-service/internal/repository\<close>: the user repository and the auth repository over
  the ORM and the cache, one definition per method. Both work on the same table and the same
  cache; the readings of \<open>time.Now()\<close> are arguments.
\<close>

section \<open>The interfaces\<close>

record 's user_repository =
  ur_Create :: "user \<Rightarrow> 's \<Rightarrow> user result \<times> 's"
  ur_GetByID :: "uuid \<Rightarrow> 's \<Rightarrow> user result \<times> 's"
  ur_GetByEmail :: "string \<Rightarrow> 's \<Rightarrow> user result \<times> 's"
  ur_GetByUsername :: "string \<Rightarrow> 's \<Rightarrow> user result \<times> 's"
  ur_GetByUsernameOrEmail :: "string \<Rightarrow> 's \<Rightarrow> user result \<times> 's"
  ur_Update :: "user \<Rightarrow> 's \<Rightarrow> user result \<times> 's"
  ur_Delete :: "uuid \<Rightarrow> 's \<Rightarrow> unit result \<times> 's"
  ur_List :: "user_filter \<Rightarrow> 's \<Rightarrow> (user list \<times> int) result \<times> 's"
  ur_UpdateLastLogin :: "uuid \<Rightarrow> time \<Rightarrow> 's \<Rightarrow> unit result \<times> 's"

record 's auth_repository =
  ar_StoreRefreshToken :: "uuid \<Rightarrow> string \<Rightarrow> time \<Rightarrow> 's \<Rightarrow> unit result \<times> 's"
  ar_GetUserByRefreshToken :: "string \<Rightarrow> time \<Rightarrow> 's \<Rightarrow> user result \<times> 's"
  ar_RevokeRefreshToken :: "uuid \<Rightarrow> time \<Rightarrow> 's \<Rightarrow> unit result \<times> 's"
  ar_StoreTokenInBlacklist :: "string \<Rightarrow> duration \<Rightarrow> 's \<Rightarrow> unit result \<times> 's"
  ar_IsTokenBlacklisted :: "string \<Rightarrow> 's \<Rightarrow> bool result \<times> 's"
  ar_CleanupExpiredTokens :: "time \<Rightarrow> time \<Rightarrow> 's \<Rightarrow> unit result \<times> 's"

record ('d, 'c) user_repo_conf =
  urc_uuid :: uuid_lib
  urc_db :: "('d, user) gorm_api"
  urc_cache :: "'c redis_client option"

text \<open>
  The cache keys: ID, email and username share the prefix \<open>user:\<close>, so the three kinds are told
  apart only by the text that follows.
\<close>

definition user_key :: "string \<Rightarrow> string" where
  "user_key k = CacheKeyUser @ k"

definition user_id_key :: "uuid_lib \<Rightarrow> uuid \<Rightarrow> string" where
  "user_id_key ul i = user_key (uuid_string ul i)"

definition blacklist_key :: "string \<Rightarrow> string" where
  "blacklist_key tok = ''blacklist:'' @ tok"

lemma user_key_inj [simp]: "user_key a = user_key b \<longleftrightarrow> a = b"
  by (simp add: user_key_def)

lemma user_key_not_blacklist [simp]: "user_key a \<noteq> blacklist_key b" "blacklist_key b \<noteq> user_key a"
  by (simp_all add: user_key_def blacklist_key_def)

lemma users_key_not: "CacheKeyUsers \<noteq> user_key a" "CacheKeyUsers \<noteq> blacklist_key b"
  by (simp_all add: user_key_def blacklist_key_def)

section \<open>The user repository\<close>

definition userRepository_Create ::
  "('d, 'c) user_repo_conf \<Rightarrow> user \<Rightarrow> 'd \<times> 'c \<Rightarrow> user result \<times> ('d \<times> 'c)" where
  "userRepository_Create r u s =
     (case g_create (urc_db r) u (fst s) of
        (Inl e, d) \<Rightarrow> (Inl e, (d, snd s))
      | (Inr u', d) \<Rightarrow> (Inr u', (d, invalidate (urc_cache r) CacheKeyUsers (snd s))))"

definition userRepository_GetByID ::
  "('d, 'c) user_repo_conf \<Rightarrow> uuid \<Rightarrow> 'd \<times> 'c \<Rightarrow> user result \<times> ('d \<times> 'c)" where
  "userRepository_GetByID r i s =
     read_through (urc_cache r) marshal_user unmarshal_user (user_id_key (urc_uuid r) i)
       ErrUserNotFound (g_first (urc_db r) (q_where ''id = ?'' [AUuid i] q_all)) s"

definition userRepository_GetByEmail ::
  "('d, 'c) user_repo_conf \<Rightarrow> string \<Rightarrow> 'd \<times> 'c \<Rightarrow> user result \<times> ('d \<times> 'c)" where
  "userRepository_GetByEmail r email s =
     read_through (urc_cache r) marshal_user unmarshal_user (user_key email)
       ErrUserNotFound (g_first (urc_db r) (q_where ''email = ?'' [AStr email] q_all)) s"

definition userRepository_GetByUsername ::
  "('d, 'c) user_repo_conf \<Rightarrow> string \<Rightarrow> 'd \<times> 'c \<Rightarrow> user result \<times> ('d \<times> 'c)" where
  "userRepository_GetByUsername r username s =
     read_through (urc_cache r) marshal_user unmarshal_user (user_key username)
       ErrUserNotFound (g_first (urc_db r) (q_where ''username = ?'' [AStr username] q_all)) s"

definition userRepository_GetByUsernameOrEmail ::
  "('d, 'c) user_repo_conf \<Rightarrow> string \<Rightarrow> 'd \<times> 'c \<Rightarrow> user result \<times> ('d \<times> 'c)" where
  "userRepository_GetByUsernameOrEmail r n s =
     (case g_first (urc_db r) (q_where ''username = ? OR email = ?'' [AStr n, AStr n] q_all) (fst s) of
        (Inl e, d) \<Rightarrow> (Inl (wrap_not_found ErrUserNotFound e), (d, snd s))
      | (Inr u, d) \<Rightarrow> (Inr u, (d, snd s)))"

definition user_keys :: "uuid_lib \<Rightarrow> uuid \<Rightarrow> user \<Rightarrow> string list" where
  "user_keys ul i u = [user_id_key ul i, user_key (usr_email u), user_key (usr_username u), CacheKeyUsers]"

definition userRepository_Update ::
  "('d, 'c) user_repo_conf \<Rightarrow> user \<Rightarrow> 'd \<times> 'c \<Rightarrow> user result \<times> ('d \<times> 'c)" where
  "userRepository_Update r u s =
     (case g_save (urc_db r) u (fst s) of
        (Inl e, d) \<Rightarrow> (Inl e, (d, snd s))
      | (Inr u', d) \<Rightarrow>
          (Inr u', (d, invalidate_all (urc_cache r) (user_keys (urc_uuid r) (base_id u') u') (snd s))))"

definition userRepository_Delete ::
  "('d, 'c) user_repo_conf \<Rightarrow> uuid \<Rightarrow> 'd \<times> 'c \<Rightarrow> unit result \<times> ('d \<times> 'c)" where
  "userRepository_Delete r i s =
     (case userRepository_GetByID r i s of
        (Inl e, s1) \<Rightarrow> (Inl e, s1)
      | (Inr u, s1) \<Rightarrow>
          (case g_delete (urc_db r) (q_where ''id = ?'' [AUuid i] q_all) (fst s1) of
             (Inl e, d) \<Rightarrow> (Inl e, (d, snd s1))
           | (Inr _, d) \<Rightarrow>
               (Inr (), (d, invalidate_all (urc_cache r) (user_keys (urc_uuid r) i u) (snd s1)))))"

definition user_list_where :: "user_filter \<Rightarrow> stmt" where
  "user_list_where f =
     (let q1 = (if uf_role f \<noteq> [] then q_where ''role = ?'' [AStr (uf_role f)] q_all else q_all)
      in if uf_status f \<noteq> [] then q_where ''status = ?'' [AStr (uf_status f)] q1 else q1)"

definition user_list_query :: "user_filter \<Rightarrow> stmt" where
  "user_list_query f =
     q_limit (uf_limit f) (q_offset (UserFilter_GetOffset f)
       (if uf_sort_by f \<noteq> []
        then (if uf_desc f then q_order (uf_sort_by f @ '' DESC'') (user_list_where f)
              else q_order (uf_sort_by f) (user_list_where f))
        else q_order ''created_at DESC'' (user_list_where f)))"

definition userRepository_List ::
  "('d, 'c) user_repo_conf \<Rightarrow> user_filter \<Rightarrow> 'd \<times> 'c \<Rightarrow> (user list \<times> int) result \<times> ('d \<times> 'c)" where
  "userRepository_List r f s =
     (case g_count (urc_db r) (user_list_where f) (fst s) of
        (Inl e, d1) \<Rightarrow> (Inl e, (d1, snd s))
      | (Inr n, d1) \<Rightarrow>
          (case g_find (urc_db r) (user_list_query f) d1 of
             (Inl e, d2) \<Rightarrow> (Inl e, (d2, snd s))
           | (Inr us, d2) \<Rightarrow> (Inr (us, n), (d2, snd s))))"

definition userRepository_UpdateLastLogin ::
  "('d, 'c) user_repo_conf \<Rightarrow> uuid \<Rightarrow> time \<Rightarrow> 'd \<times> 'c \<Rightarrow> unit result \<times> ('d \<times> 'c)" where
  "userRepository_UpdateLastLogin r i now s =
     (case g_updates (urc_db r) (q_where ''id = ?'' [AUuid i] q_all) [(''last_login'', ATime now)] (fst s) of
        (Inl e, d) \<Rightarrow> (Inl e, (d, snd s))
      | (Inr _, d) \<Rightarrow> (Inr (), (d, invalidate (urc_cache r) (user_id_key (urc_uuid r) i) (snd s))))"

definition NewUserRepository :: "('d, 'c) user_repo_conf \<Rightarrow> ('d \<times> 'c) user_repository" where
  "NewUserRepository r =
     \<lparr>ur_Create = userRepository_Create r, ur_GetByID = userRepository_GetByID r,
      ur_GetByEmail = userRepository_GetByEmail r, ur_GetByUsername = userRepository_GetByUsername r,
      ur_GetByUsernameOrEmail = userRepository_GetByUsernameOrEmail r,
      ur_Update = userRepository_Update r, ur_Delete = userRepository_Delete r,
      ur_List = userRepository_List r, ur_UpdateLastLogin = userRepository_UpdateLastLogin r\<rparr>"

lemma NewUserRepository_simps [simp]:
  "ur_Create (NewUserRepository r) = userRepository_Create r"
  "ur_GetByID (NewUserRepository r) = userRepository_GetByID r"
  "ur_GetByEmail (NewUserRepository r) = userRepository_GetByEmail r"
  "ur_GetByUsername (NewUserRepository r) = userRepository_GetByUsername r"
  "ur_GetByUsernameOrEmail (NewUserRepository r) = userRepository_GetByUsernameOrEmail r"
  "ur_Update (NewUserRepository r) = userRepository_Update r"
  "ur_Delete (NewUserRepository r) = userRepository_Delete r"
  "ur_List (NewUserRepository r) = userRepository_List r"
  "ur_UpdateLastLogin (NewUserRepository r) = userRepository_UpdateLastLogin r"
  by (simp_all add: NewUserRepository_def)

section \<open>The auth repository\<close>

definition authRepository_StoreRefreshToken ::
  "('d, 'c) user_repo_conf \<Rightarrow> uuid \<Rightarrow> string \<Rightarrow> time \<Rightarrow> 'd \<times> 'c \<Rightarrow> unit result \<times> ('d \<times> 'c)" where
  "authRepository_StoreRefreshToken r i tok expiration s =
     (case g_updates (urc_db r) (q_where ''id = ?'' [AUuid i] q_all)
             [(''refresh_token'', AStr tok), (''refresh_token_exp'', ATime expiration)] (fst s) of
        (x, d) \<Rightarrow> (x, (d, snd s)))"

definition authRepository_GetUserByRefreshToken ::
  "('d, 'c) user_repo_conf \<Rightarrow> string \<Rightarrow> time \<Rightarrow> 'd \<times> 'c \<Rightarrow> user result \<times> ('d \<times> 'c)" where
  "authRepository_GetUserByRefreshToken r tok now s =
     (case g_first (urc_db r)
             (q_where ''refresh_token = ? AND refresh_token_exp > ?'' [AStr tok, ATime now] q_all) (fst s) of
        (x, d) \<Rightarrow> (x, (d, snd s)))"

definition authRepository_RevokeRefreshToken ::
  "('d, 'c) user_repo_conf \<Rightarrow> uuid \<Rightarrow> time \<Rightarrow> 'd \<times> 'c \<Rightarrow> unit result \<times> ('d \<times> 'c)" where
  "authRepository_RevokeRefreshToken r i now s =
     (case g_updates (urc_db r) (q_where ''id = ?'' [AUuid i] q_all)
             [(''refresh_token'', AStr []), (''refresh_token_exp'', ATime now)] (fst s) of
        (x, d) \<Rightarrow> (x, (d, snd s)))"

definition marshal_bool :: "bool \<Rightarrow> json" where
  "marshal_bool b = JBool b"

definition unmarshal_bool :: "json \<Rightarrow> bool result" where
  "unmarshal_bool j = (case j of JBool b \<Rightarrow> Inr b | JNull \<Rightarrow> Inr False | _ \<Rightarrow> Inl err_unmarshal)"

definition authRepository_StoreTokenInBlacklist ::
  "('d, 'c) user_repo_conf \<Rightarrow> string \<Rightarrow> duration \<Rightarrow> 'd \<times> 'c \<Rightarrow> unit result \<times> ('d \<times> 'c)" where
  "authRepository_StoreTokenInBlacklist r tok expiration s =
     (case urc_cache r of
        None \<Rightarrow> (Inr (), s)
      | Some cl \<Rightarrow>
          (case Redis_Set cl (\<lambda>b. Inr (marshal_bool b)) (blacklist_key tok) True expiration (snd s) of
             (x, c) \<Rightarrow> (x, (fst s, c))))"

definition authRepository_IsTokenBlacklisted ::
  "('d, 'c) user_repo_conf \<Rightarrow> string \<Rightarrow> 'd \<times> 'c \<Rightarrow> bool result \<times> ('d \<times> 'c)" where
  "authRepository_IsTokenBlacklisted r tok s =
     (case urc_cache r of
        None \<Rightarrow> (Inr False, s)
      | Some cl \<Rightarrow>
          (case Redis_Get cl unmarshal_bool (blacklist_key tok) (snd s) of
             (Inl _, c) \<Rightarrow> (Inr False, (fst s, c))
           | (Inr b, c) \<Rightarrow> (Inr b, (fst s, c))))"

definition authRepository_CleanupExpiredTokens ::
  "('d, 'c) user_repo_conf \<Rightarrow> time \<Rightarrow> time \<Rightarrow> 'd \<times> 'c \<Rightarrow> unit result \<times> ('d \<times> 'c)" where
  "authRepository_CleanupExpiredTokens r now1 now2 s =
     (case g_updates (urc_db r) (q_where ''refresh_token_exp < ?'' [ATime now1] q_all)
             [(''refresh_token'', AStr []), (''refresh_token_exp'', ATime now2)] (fst s) of
        (x, d) \<Rightarrow> (x, (d, snd s)))"

definition NewAuthRepository :: "('d, 'c) user_repo_conf \<Rightarrow> ('d \<times> 'c) auth_repository" where
  "NewAuthRepository r =
     \<lparr>ar_StoreRefreshToken = authRepository_StoreRefreshToken r,
      ar_GetUserByRefreshToken = authRepository_GetUserByRefreshToken r,
      ar_RevokeRefreshToken = authRepository_RevokeRefreshToken r,
      ar_StoreTokenInBlacklist = authRepository_StoreTokenInBlacklist r,
      ar_IsTokenBlacklisted = authRepository_IsTokenBlacklisted r,
      ar_CleanupExpiredTokens = authRepository_CleanupExpiredTokens r\<rparr>"

lemma NewAuthRepository_simps [simp]:
  "ar_StoreRefreshToken (NewAuthRepository r) = authRepository_StoreRefreshToken r"
  "ar_GetUserByRefreshToken (NewAuthRepository r) = authRepository_GetUserByRefreshToken r"
  "ar_RevokeRefreshToken (NewAuthRepository r) = authRepository_RevokeRefreshToken r"
  "ar_StoreTokenInBlacklist (NewAuthRepository r) = authRepository_StoreTokenInBlacklist r"
  "ar_IsTokenBlacklisted (NewAuthRepository r) = authRepository_IsTokenBlacklisted r"
  "ar_CleanupExpiredTokens (NewAuthRepository r) = authRepository_CleanupExpiredTokens r"
  by (simp_all add: NewAuthRepository_def)

end
