(* ===== verification/JwtAuth.thy ===== *)
theory JwtAuth
  imports Http Constants
begin

text \<open>
  Authentication: \<open>pkg/middleware/auth.go\<close>. The library \<open>github.com/golang-jwt/jwt\<close> is the
  parameter \<open>jwt_lib\<close>; \<open>jwt_laws\<close> states what its documentation promises: a token signed with
  HS256 parses back with its claims from its issue until it expires, and a token parses only if its
  signature checks under the key that the key function returns for its method. A failed check answers 401 (or \<open>Unauthenticated\<close>) without running
  the handler; the claims of a good token go into the request context.
\<close>

section \<open>The token library\<close>

record claims =
  cl_user_id :: string
  cl_email :: string
  cl_role :: string
  cl_username :: string
  cl_expires :: time
  cl_issued :: time

datatype sig_method = HMAC string | OtherMethod string

text \<open>
  \<open>NewWithClaims(HS256, c).SignedString(key)\<close>; and \<open>ParseWithClaims\<close>, which calls the key function
  with the method of the token and returns \<open>token.Valid\<close> and the claims as \<open>*Claims\<close>, if they
  are. \<open>jwt_verifies m key tok c\<close> says that the signature of \<open>tok\<close> over \<open>c\<close> checks under a method
  and a key; it only serves to state the laws.
\<close>

record jwt_lib =
  jwt_sign :: "string \<Rightarrow> claims \<Rightarrow> string result"
  jwt_parse :: "string \<Rightarrow> (sig_method \<Rightarrow> string result) \<Rightarrow> time \<Rightarrow> (bool \<times> claims option) result"
  jwt_verifies :: "sig_method \<Rightarrow> string \<Rightarrow> string \<Rightarrow> claims \<Rightarrow> bool"

record jwt_auth =
  ja_lib :: jwt_lib
  ja_secret :: string
  ja_duration :: duration

definition NewJWTAuth :: "jwt_lib \<Rightarrow> string \<Rightarrow> duration \<Rightarrow> jwt_auth" where
  "NewJWTAuth jl secretKey tokenDuration = \<lparr>ja_lib = jl, ja_secret = secretKey, ja_duration = tokenDuration\<rparr>"

lemma NewJWTAuth_sel [simp]:
  "ja_lib (NewJWTAuth jl k d) = jl" "ja_secret (NewJWTAuth jl k d) = k" "ja_duration (NewJWTAuth jl k d) = d"
  by (simp_all add: NewJWTAuth_def)

text \<open>\<open>jwt.NewNumericDate\<close>: whole seconds.\<close>

definition NumericDate :: "time \<Rightarrow> time" where
  "NumericDate t = t div 1000000000 * 1000000000"

definition token_claims ::
  "jwt_auth \<Rightarrow> string \<Rightarrow> string \<Rightarrow> string \<Rightarrow> string \<Rightarrow> time \<Rightarrow> time \<Rightarrow> claims" where
  "token_claims j userID email role username now1 now2 =
     \<lparr>cl_user_id = userID, cl_email = email, cl_role = role, cl_username = username,
      cl_expires = NumericDate (now1 + ja_duration j), cl_issued = NumericDate now2\<rparr>"

definition GenerateToken ::
  "jwt_auth \<Rightarrow> string \<Rightarrow> string \<Rightarrow> string \<Rightarrow> string \<Rightarrow> time \<Rightarrow> time \<Rightarrow> string result" where
  "GenerateToken j userID email role username now1 now2 =
     jwt_sign (ja_lib j) (ja_secret j) (token_claims j userID email role username now1 now2)"

definition token_keyfunc :: "jwt_auth \<Rightarrow> sig_method \<Rightarrow> string result" where
  "token_keyfunc j m =
     (case m of HMAC _ \<Rightarrow> Inr (ja_secret j)
      | OtherMethod _ \<Rightarrow> Inl (errors_New ''unexpected token signing method''))"

definition JWT_ValidateToken :: "jwt_auth \<Rightarrow> string \<Rightarrow> time \<Rightarrow> claims result" where
  "JWT_ValidateToken j tok now =
     (case jwt_parse (ja_lib j) tok (token_keyfunc j) now of
        Inl e \<Rightarrow> Inl e
      | Inr (valid, Some c) \<Rightarrow> if valid then Inr c else Inl (errors_New ''invalid token'')
      | Inr (valid, None) \<Rightarrow> Inl (errors_New ''invalid token''))"

definition whole_seconds :: "claims \<Rightarrow> bool" where
  "whole_seconds c \<longleftrightarrow> NumericDate (cl_expires c) = cl_expires c \<and> NumericDate (cl_issued c) = cl_issued c"

definition jwt_laws :: "jwt_lib \<Rightarrow> bool" where
  "jwt_laws jl \<longleftrightarrow>
     (\<forall>key c tok kf now. jwt_sign jl key c = Inr tok \<longrightarrow> whole_seconds c \<longrightarrow> kf (HMAC ''HS256'') = Inr key \<longrightarrow>
        CHR '' '' \<notin> set tok \<and>
        (if cl_issued c \<le> now \<and> now < cl_expires c then jwt_parse jl tok kf now = Inr (True, Some c)
         else isl (jwt_parse jl tok kf now))) \<and>
     (\<forall>tok kf now c. jwt_parse jl tok kf now = Inr (True, Some c) \<longrightarrow>
        (\<exists>m key. kf m = Inr key \<and> jwt_verifies jl m key tok c) \<and> now < cl_expires c)"

lemma NumericDate_idem [simp]: "NumericDate (NumericDate t) = NumericDate t"
  by (simp add: NumericDate_def)

lemma NumericDate_le: "NumericDate t \<le> t"
  by (simp add: NumericDate_def minus_mod_eq_div_mult [symmetric])

lemma token_claims_whole: "whole_seconds (token_claims j u e r n t1 t2)"
  by (simp add: whole_seconds_def token_claims_def)

lemma signed_parse:
  assumes "jwt_laws jl" "jwt_sign jl key c = Inr tok" "whole_seconds c" "kf (HMAC ''HS256'') = Inr key"
  shows "CHR '' '' \<notin> set tok"
    and "cl_issued c \<le> now \<Longrightarrow> now < cl_expires c \<Longrightarrow> jwt_parse jl tok kf now = Inr (True, Some c)"
    and "\<not> (cl_issued c \<le> now \<and> now < cl_expires c) \<Longrightarrow> isl (jwt_parse jl tok kf now)"
proof -
  have "CHR '' '' \<notin> set tok \<and>
      (if cl_issued c \<le> now \<and> now < cl_expires c then jwt_parse jl tok kf now = Inr (True, Some c)
       else isl (jwt_parse jl tok kf now))" for now
    using assms(1) [unfolded jwt_laws_def, THEN conjunct1,
        THEN spec [where x = key], THEN spec [where x = c], THEN spec [where x = tok],
        THEN spec [where x = kf], THEN spec [where x = now]] assms(2-4)
    by blast
  then show "CHR '' '' \<notin> set tok"
    and "cl_issued c \<le> now \<Longrightarrow> now < cl_expires c \<Longrightarrow> jwt_parse jl tok kf now = Inr (True, Some c)"
    and "\<not> (cl_issued c \<le> now \<and> now < cl_expires c) \<Longrightarrow> isl (jwt_parse jl tok kf now)"
    by simp_all
qed

lemma parse_sound:
  assumes "jwt_laws jl" "jwt_parse jl tok kf now = Inr (True, Some c)"
  shows "(\<exists>m key. kf m = Inr key \<and> jwt_verifies jl m key tok c) \<and> now < cl_expires c"
  by (rule assms(1) [unfolded jwt_laws_def, THEN conjunct2, rule_format, OF assms(2)])

lemma keyfunc_HS256: "token_keyfunc j (HMAC ''HS256'') = Inr (ja_secret j)"
  by (simp add: token_keyfunc_def)

lemma ValidateToken_signed:
  assumes "jwt_laws (ja_lib j)" "jwt_sign (ja_lib j) (ja_secret j) c = Inr tok" "whole_seconds c"
    "cl_issued c \<le> now" "now < cl_expires c"
  shows "JWT_ValidateToken j tok now = Inr c"
  by (simp add: JWT_ValidateToken_def signed_parse(2) [where kf = "token_keyfunc j", OF assms(1-3) keyfunc_HS256 assms(4,5)])

lemma ValidateToken_sound:
  assumes "jwt_laws (ja_lib j)" "JWT_ValidateToken j tok now = Inr c"
  shows "(\<exists>alg. jwt_verifies (ja_lib j) (HMAC alg) (ja_secret j) tok c) \<and> now < cl_expires c"
proof -
  have p: "jwt_parse (ja_lib j) tok (token_keyfunc j) now = Inr (True, Some c)"
    using assms(2) by (auto simp: JWT_ValidateToken_def split: sum.splits option.splits if_splits)
  from parse_sound [OF assms(1) p] obtain m key where
    m: "token_keyfunc j m = Inr key" "jwt_verifies (ja_lib j) m key tok c" "now < cl_expires c" by blast
  then show ?thesis by (cases m) (auto simp: token_keyfunc_def)
qed

section \<open>HTTP\<close>

text \<open>The token of an \<open>Authorization\<close> header: exactly two parts, the first \<open>Bearer\<close>.\<close>

definition bearer_token :: "string \<Rightarrow> string option" where
  "bearer_token h =
     (let parts = str_split (CHR '' '') h
      in if length parts \<noteq> 2 \<or> parts ! 0 \<noteq> TokenTypBearer then None else Some (parts ! 1))"

lemma bearer_token_iff:
  "bearer_token h = Some tok \<longleftrightarrow> str_split (CHR '' '') h = [TokenTypBearer, tok]"
  by (auto simp: bearer_token_def Let_def length_Suc_conv numeral_2_eq_2 split: if_splits)

definition HTTPMiddleware :: "jwt_auth \<Rightarrow> time \<Rightarrow> 's http_handler \<Rightarrow> 's http_handler" where
  "HTTPMiddleware j now handler rq s =
     (let authHeader = rq_header rq ''Authorization''
      in if authHeader = [] then (RespondWithError 401 ''authorization header is required'' None, s)
         else case bearer_token authHeader of
           None \<Rightarrow> (RespondWithError 401 ''invalid authorization header format'' None, s)
         | Some tok \<Rightarrow>
             (case JWT_ValidateToken j tok now of
                Inl e \<Rightarrow> (RespondWithError 401 ''invalid or expired token'' (Some e), s)
              | Inr c \<Rightarrow>
                  handler (rq\<lparr>rq_user_id := Some (cl_user_id c), rq_user_role := Some (cl_role c),
                              rq_user_email := Some (cl_email c), rq_auth_token := Some tok\<rparr>) s))"

text \<open>The request a handler behind the middleware sees, if it is run at all.\<close>

definition authenticated_as :: "jwt_auth \<Rightarrow> time \<Rightarrow> http_request \<Rightarrow> claims \<Rightarrow> http_request \<Rightarrow> bool" where
  "authenticated_as j now rq c rq' \<longleftrightarrow>
     (\<exists>tok. bearer_token (rq_header rq ''Authorization'') = Some tok \<and> JWT_ValidateToken j tok now = Inr c \<and>
        rq' = rq\<lparr>rq_user_id := Some (cl_user_id c), rq_user_role := Some (cl_role c),
                rq_user_email := Some (cl_email c), rq_auth_token := Some tok\<rparr>)"

lemma HTTPMiddleware_cases:
  obtains (refused) "rs_status (fst (HTTPMiddleware j now handler rq s)) = 401"
      "snd (HTTPMiddleware j now handler rq s) = s"
  | (passed) c rq' where "authenticated_as j now rq c rq'"
      "HTTPMiddleware j now handler rq s = handler rq' s"
proof -
  have "bearer_token [] = None" by (simp add: bearer_token_def)
  then show ?thesis
    using that
    by (cases "bearer_token (rq_header rq ''Authorization'')"; 
        cases "JWT_ValidateToken j (the (bearer_token (rq_header rq ''Authorization''))) now")
      (fastforce simp: HTTPMiddleware_def Let_def authenticated_as_def split: if_splits)+
qed

section \<open>gRPC\<close>

text \<open>
  The server context: the incoming metadata (\<open>None\<close> when absent, \<open>md.Get\<close> otherwise) and the
  values of the interceptors.
\<close>

record grpc_context =
  gc_metadata :: "(string \<Rightarrow> string list) option"
  gc_user_id :: "string option"
  gc_user_role :: "string option"
  gc_user_email :: "string option"
  gc_auth_token :: "string option"

type_synonym ('r, 's) grpc_handler = "grpc_context \<Rightarrow> 's \<Rightarrow> 'r grpc_result \<times> 's"

text \<open>The checks that \<open>UnaryInterceptor\<close> and \<open>StreamInterceptor\<close> both make.\<close>

definition grpc_authenticate :: "jwt_auth \<Rightarrow> time \<Rightarrow> grpc_context \<Rightarrow> grpc_context grpc_result" where
  "grpc_authenticate j now ctx =
     (case gc_metadata ctx of
        None \<Rightarrow> Inl (Unauthenticated, ''metadata is not provided'')
      | Some md \<Rightarrow>
          (case md ''Authorization'' of
             [] \<Rightarrow> Inl (Unauthenticated, ''authorization token is not provided'')
           | h # _ \<Rightarrow>
               (case bearer_token h of
                  None \<Rightarrow> Inl (Unauthenticated, ''invalid authorization header format'')
                | Some tok \<Rightarrow>
                    (case JWT_ValidateToken j tok now of
                       Inl e \<Rightarrow> Inl (Unauthenticated, ''invalid or expired token: '' @ err_msg e)
                     | Inr c \<Rightarrow>
                         Inr (ctx\<lparr>gc_user_id := Some (cl_user_id c), gc_user_role := Some (cl_role c),
                                  gc_user_email := Some (cl_email c), gc_auth_token := Some tok\<rparr>)))))"

definition UnaryInterceptor :: "jwt_auth \<Rightarrow> time \<Rightarrow> ('r, 's) grpc_handler \<Rightarrow> ('r, 's) grpc_handler" where
  "UnaryInterceptor j now handler ctx s =
     (case grpc_authenticate j now ctx of Inl e \<Rightarrow> (Inl e, s) | Inr ctx' \<Rightarrow> handler ctx' s)"

definition StreamInterceptor :: "jwt_auth \<Rightarrow> time \<Rightarrow> (unit, 's) grpc_handler \<Rightarrow> (unit, 's) grpc_handler" where
  "StreamInterceptor j now handler ctx s =
     (case grpc_authenticate j now ctx of Inl e \<Rightarrow> (Inl e, s) | Inr ctx' \<Rightarrow> handler ctx' s)"

section \<open>The other interceptors\<close>

text \<open>
  \<open>grpc.go\<close>: the request ID is \<open>uuid.New().String()\<close>; the interceptors pass it on in the metadata
  and log, the answer is the handler's. \<open>recovery.go\<close>: a panic of the handler (with the value
  printed) becomes an internal error; what the handler did before stays done.
\<close>

definition with_request_id :: "string \<Rightarrow> grpc_context \<Rightarrow> grpc_context" where
  "with_request_id request_id ctx =
     (let md = (case gc_metadata ctx of None \<Rightarrow> (\<lambda>_. []) | Some md \<Rightarrow> md)
      in ctx\<lparr>gc_metadata := Some (md(''x-request-id'' := [request_id]))\<rparr>)"

definition UnaryLoggingInterceptor :: "string \<Rightarrow> ('r, 's) grpc_handler \<Rightarrow> ('r, 's) grpc_handler" where
  "UnaryLoggingInterceptor request_id handler ctx s = handler (with_request_id request_id ctx) s"

definition StreamLoggingInterceptor :: "string \<Rightarrow> (unit, 's) grpc_handler \<Rightarrow> (unit, 's) grpc_handler" where
  "StreamLoggingInterceptor request_id handler ctx s = handler (with_request_id request_id ctx) s"

datatype 'a outcome = Panic string | Returns 'a

definition Recovery_Middleware ::
  "(http_request \<Rightarrow> 's \<Rightarrow> http_response outcome \<times> 's) \<Rightarrow> 's http_handler" where
  "Recovery_Middleware handler rq s =
     (case handler rq s of
        (Returns rsp, s') \<Rightarrow> (rsp, s')
      | (Panic v, s') \<Rightarrow>
          (RespondWithError 500 ''Internal server error'' (Some (errors_New (''panic: '' @ v))), s'))"

definition UnaryRecoveryInterceptor ::
  "(grpc_context \<Rightarrow> 's \<Rightarrow> 'r grpc_result outcome \<times> 's) \<Rightarrow> ('r, 's) grpc_handler" where
  "UnaryRecoveryInterceptor handler ctx s =
     (case handler ctx s of
        (Returns r, s') \<Rightarrow> (r, s')
      | (Panic v, s') \<Rightarrow> (Inl (Internal, ''internal error''), s'))"

definition StreamRecoveryInterceptor ::
  "(grpc_context \<Rightarrow> 's \<Rightarrow> unit grpc_result outcome \<times> 's) \<Rightarrow> (unit, 's) grpc_handler" where
  "StreamRecoveryInterceptor handler ctx s =
     (case handler ctx s of
        (Returns r, s') \<Rightarrow> (r, s')
      | (Panic v, s') \<Rightarrow> (Inl (Internal, ''internal error''), s'))"

section \<open>A concrete token library for the witnesses\<close>

text \<open>
  A token spells out the key and the claims, each field with its length in front; signing fails
  when a field holds a space.
\<close>

definition put_field :: "string \<Rightarrow> string" where
  "put_field s = replicate (length s) (CHR ''n'') @ CHR ''.'' # s"

definition take_field :: "string \<Rightarrow> (string \<times> string) option" where
  "take_field t =
     (let n = length (takeWhile (\<lambda>c. c = CHR ''n'') t); r = drop n t
      in if r = [] \<or> length r \<le> n then None else Some (take n (tl r), drop n (tl r)))"

definition put_time :: "time \<Rightarrow> string" where
  "put_time t = replicate (nat (t div 1000000000)) (CHR ''p'') @ replicate (nat (- (t div 1000000000))) (CHR ''m'')"

definition get_seconds :: "string \<Rightarrow> time" where
  "get_seconds s = (int (length (filter (\<lambda>c. c = CHR ''p'') s)) - int (length (filter (\<lambda>c. c = CHR ''m'') s))) * 1000000000"

definition plain_token :: "string \<Rightarrow> claims \<Rightarrow> string" where
  "plain_token key c = put_field key @ put_field (cl_user_id c) @ put_field (cl_email c) @
     put_field (cl_role c) @ put_field (cl_username c) @ put_field (put_time (cl_expires c)) @
     put_field (put_time (cl_issued c))"

fun take_fields_n :: "nat \<Rightarrow> string \<Rightarrow> string list option" where
  "take_fields_n 0 t = (if t = [] then Some [] else None)"
| "take_fields_n (Suc n) t =
     (case take_field t of None \<Rightarrow> None
      | Some (f, r) \<Rightarrow> (case take_fields_n n r of None \<Rightarrow> None | Some fs \<Rightarrow> Some (f # fs)))"

definition read_token :: "string \<Rightarrow> (string \<times> claims) option" where
  "read_token t =
     (case take_fields_n 7 t of
        Some [key, u, e, r, n, ex, iss] \<Rightarrow>
          Some (key, \<lparr>cl_user_id = u, cl_email = e, cl_role = r, cl_username = n,
                      cl_expires = get_seconds ex, cl_issued = get_seconds iss\<rparr>)
      | _ \<Rightarrow> None)"

definition plain_jwt :: jwt_lib where
  "plain_jwt =
     \<lparr>jwt_sign = (\<lambda>key c. let t = plain_token key c
        in if CHR '' '' \<in> set t then Inl (errors_New ''unsupported'') else Inr t),
      jwt_parse = (\<lambda>t kf now. case read_token t of
          None \<Rightarrow> Inl (errors_New ''token is malformed'')
        | Some (key, c) \<Rightarrow>
            (case kf (HMAC ''HS256'') of
               Inl e \<Rightarrow> Inl e
             | Inr k \<Rightarrow> if k \<noteq> key then Inl (errors_New ''signature is invalid'')
                 else if now < cl_issued c then Inl (errors_New ''token used before issued'')
                 else if cl_expires c \<le> now then Inl (errors_New ''token is expired'')
                 else Inr (True, Some c))),
      jwt_verifies = (\<lambda>m key t c. m = HMAC ''HS256'' \<and> read_token t = Some (key, c))\<rparr>"

lemma takeWhile_replicate_append: "takeWhile (\<lambda>c. c = x) (replicate n x @ y # r) =
    replicate n x @ (if y = x then x # takeWhile (\<lambda>c. c = x) r else [])"
  by (induction n) auto

lemma take_put_field: "take_field (put_field s @ r) = Some (s, r)"
proof -
  have "takeWhile (\<lambda>c. c = CHR ''n'') (put_field s @ r) = replicate (length s) (CHR ''n'')"
    by (simp add: put_field_def takeWhile_replicate_append)
  then show ?thesis by (simp add: take_field_def put_field_def)
qed

lemma take_put_field_last: "take_field (put_field s) = Some (s, [])"
  using take_put_field [of s "[]"] by simp

lemma get_put_time: "NumericDate t = t \<Longrightarrow> get_seconds (put_time t) = t"
  by (auto simp: get_seconds_def put_time_def NumericDate_def filter_replicate)

lemma read_plain_token: "whole_seconds c \<Longrightarrow> read_token (plain_token key c) = Some (key, c)"
  by (simp add: read_token_def plain_token_def take_put_field take_put_field_last numeral_eq_Suc
      whole_seconds_def get_put_time)

lemma plain_jwt_laws: "jwt_laws plain_jwt"
  unfolding jwt_laws_def plain_jwt_def
  by (auto simp: Let_def read_plain_token split: if_splits option.splits sum.splits)

abbreviation demo_auth :: jwt_auth where
  "demo_auth \<equiv> \<lparr>ja_lib = plain_jwt, ja_secret = ''secret'', ja_duration = 5000000000\<rparr>"

section \<open>Properties\<close>

text \<open>
  C4. A handler behind \<open>HTTPMiddleware\<close> runs only for a verified token: either the answer is 401
  and the state is unchanged, or the request carried \<open>Bearer\<close> and a token that the secret key
  verifies under an HMAC method and that has not expired, and the handler sees exactly the
  identity and the role of that token.
\<close>

theorem HTTPMiddleware_guard:
  assumes "jwt_laws (ja_lib j)"
  shows "rs_status (fst (HTTPMiddleware j now handler rq s)) = 401 \<and> snd (HTTPMiddleware j now handler rq s) = s \<or>
    (\<exists>tok c alg. bearer_token (rq_header rq ''Authorization'') = Some tok \<and>
       jwt_verifies (ja_lib j) (HMAC alg) (ja_secret j) tok c \<and> now < cl_expires c \<and>
       HTTPMiddleware j now handler rq s =
         handler (rq\<lparr>rq_user_id := Some (cl_user_id c), rq_user_role := Some (cl_role c),
                     rq_user_email := Some (cl_email c), rq_auth_token := Some tok\<rparr>) s)"
proof (cases rule: HTTPMiddleware_cases [of j now handler rq s])
  case refused
  then show ?thesis by blast
next
  case (passed c rq')
  then show ?thesis using ValidateToken_sound [OF assms] unfolding authenticated_as_def by metis
qed

abbreviation demo_request :: http_request where
  "demo_request \<equiv> \<lparr>rq_header = (\<lambda>_. []), rq_remote = ''10.0.0.1:5000'', rq_query = (\<lambda>_. []),
     rq_vars = (\<lambda>_. []), rq_body = Inr (JObj []), rq_user_id = None, rq_user_role = None,
     rq_user_email = None, rq_auth_token = None\<rparr>"

lemma HTTPMiddleware_guard_witness:
  "jwt_laws (ja_lib demo_auth) \<and>
   rs_status (fst (HTTPMiddleware demo_auth 0 (\<lambda>rq n. (RespondWithSuccess 200 [] None, n + 1))
     (demo_request\<lparr>rq_header := (\<lambda>_. ''Bearer forged'')\<rparr>) (0 :: int))) = 401 \<and>
   snd (HTTPMiddleware demo_auth 0 (\<lambda>rq n. (RespondWithSuccess 200 [] None, n + 1))
     (demo_request\<lparr>rq_header := (\<lambda>_. ''Bearer forged'')\<rparr>) (0 :: int)) = 0"
proof -
  have laws: "jwt_laws (ja_lib demo_auth)" using plain_jwt_laws by simp
  have "rs_status (fst (HTTPMiddleware demo_auth 0 (\<lambda>rq n. (RespondWithSuccess 200 [] None, n + 1))
     (demo_request\<lparr>rq_header := (\<lambda>_. ''Bearer forged'')\<rparr>) (0 :: int))) = 401"
    by code_simp
  moreover have "rs_status (fst (HTTPMiddleware demo_auth 0 (\<lambda>rq n. (RespondWithSuccess 200 [] None, n + 1))
     (demo_request\<lparr>rq_header := (\<lambda>_. ''Bearer forged'')\<rparr>) (0 :: int))) \<noteq> 200"
    using calculation by simp
  ultimately show ?thesis
    using laws HTTPMiddleware_guard [OF laws, of 0 "\<lambda>rq n. (RespondWithSuccess 200 [] None, n + 1)"
      "demo_request\<lparr>rq_header := (\<lambda>_. ''Bearer forged'')\<rparr>" "0 :: int"]
    by (metis fst_conv respond_status(2))
qed

text \<open>
  A generated token is accepted: from the second it was issued until its expiry (the token
  duration, rounded down to the second), a request with \<open>Bearer\<close> and the token reaches the handler
  with the user ID, role and email it was generated for.
\<close>

theorem GenerateToken_accepted:
  assumes "jwt_laws (ja_lib j)"
    and "GenerateToken j userID email role username t1 t2 = Inr tok"
    and "NumericDate t2 \<le> now" and "now < NumericDate (t1 + ja_duration j)"
    and "rq_header rq ''Authorization'' = ''Bearer '' @ tok"
  shows "HTTPMiddleware j now handler rq s =
    handler (rq\<lparr>rq_user_id := Some userID, rq_user_role := Some role, rq_user_email := Some email,
                rq_auth_token := Some tok\<rparr>) s"
proof -
  let ?c = "token_claims j userID email role username t1 t2"
  have sign: "jwt_sign (ja_lib j) (ja_secret j) ?c = Inr tok"
    using assms(2) by (simp add: GenerateToken_def)
  have ns: "CHR '' '' \<notin> set tok"
    by (rule signed_parse(1) [where kf = "token_keyfunc j", OF assms(1) sign token_claims_whole keyfunc_HS256])
  have v: "JWT_ValidateToken j tok now = Inr ?c"
    using ValidateToken_signed [OF assms(1) sign token_claims_whole] assms(3,4)
    by (simp add: token_claims_def)
  have "str_split (CHR '' '') (''Bearer'' @ CHR '' '' # tok) = [''Bearer'', tok]"
    by (rule str_split_two) (use ns in auto)
  then have "bearer_token (''Bearer '' @ tok) = Some tok" by (simp add: bearer_token_iff)
  with v assms(5) show ?thesis by (simp add: HTTPMiddleware_def token_claims_def)
qed

lemma GenerateToken_accepted_witness:
  "\<exists>tok. GenerateToken demo_auth ''u1'' ''a@b'' ''admin'' ''ann'' 3000000000 3000000000 = Inr tok \<and>
     HTTPMiddleware demo_auth 7000000000 (\<lambda>rq s. (RespondWithSuccess 200 [] None, rq_user_role rq))
       (demo_request\<lparr>rq_header := (\<lambda>_. ''Bearer '' @ tok)\<rparr>) None
     = (RespondWithSuccess 200 [] None, Some ''admin'')"
proof -
  let ?g = "GenerateToken demo_auth ''u1'' ''a@b'' ''admin'' ''ann'' 3000000000 3000000000"
  have "\<not> isl ?g" by code_simp
  then obtain tok where g: "?g = Inr tok" by (metis isl_def sum.exhaust_sel)
  have laws: "jwt_laws (ja_lib demo_auth)" using plain_jwt_laws by simp
  from GenerateToken_accepted [OF laws g, of 7000000000 "demo_request\<lparr>rq_header := (\<lambda>_. ''Bearer '' @ tok)\<rparr>"
      "\<lambda>rq s. (RespondWithSuccess 200 [] None, rq_user_role rq)" None] g
  show ?thesis by (simp add: NumericDate_def)
qed

end
