(* ===== verification/UserService.thy ===== *)
theory UserService
  imports UserRepo JwtAuth ServiceBase
begin

text \<open>
  \<open>services/user-service/internal/service\<close>: the user service and the auth service over the two
  repository interfaces, one definition per method. Password hashing, the random source, UUIDs and
  the clock are arguments; logging is left out.
\<close>

record user_env =
  ue_bcrypt :: bcrypt_lib
  ue_salt :: nat
  ue_new_uuid :: uuid
  ue_random :: "nat \<Rightarrow> nat"
  ue_now_login :: time
  ue_now_expires :: time
  ue_now_issued :: time
  ue_now_refresh :: time
  ue_now_check :: time
  ue_now_until :: time
  ue_now_revoke :: time

definition err_string :: "string \<Rightarrow> go_error" where
  "err_string m = errors_New m"

lemma err_msg_err_string [simp]: "err_msg (err_string m) = m"
  by (simp add: err_string_def)

section \<open>user.service.go\<close>

definition GetUserByID :: "'s user_repository \<Rightarrow> uuid \<Rightarrow> 's \<Rightarrow> user_response result \<times> 's" where
  "GetUserByID repo i s =
     (case ur_GetByID repo i s of
        (Inl e, s') \<Rightarrow>
          (Inl (if str_contains (err_msg e) ErrUserNotFound then err_string ErrUserNotFound
                else err_string ErrInternalServer), s')
      | (Inr u, s') \<Rightarrow> (Inr (NewUserResponse u), s'))"

definition GetUserByEmail :: "'s user_repository \<Rightarrow> string \<Rightarrow> 's \<Rightarrow> user_response result \<times> 's" where
  "GetUserByEmail repo email s =
     (case ur_GetByEmail repo email s of
        (Inl e, s') \<Rightarrow> (Inl e, s')
      | (Inr u, s') \<Rightarrow> (Inr (NewUserResponse u), s'))"

definition GetUserByUsername :: "'s user_repository \<Rightarrow> string \<Rightarrow> 's \<Rightarrow> user_response result \<times> 's" where
  "GetUserByUsername repo username s =
     (case ur_GetByUsername repo username s of
        (Inl e, s') \<Rightarrow> (Inl e, s')
      | (Inr u, s') \<Rightarrow> (Inr (NewUserResponse u), s'))"

text \<open>The uniqueness check of a changed email or username: \<open>get\<close> is the lookup.\<close>

definition taken_by_other ::
  "(string \<Rightarrow> 's \<Rightarrow> user result \<times> 's) \<Rightarrow> string option \<Rightarrow> string \<Rightarrow> uuid \<Rightarrow> 's \<Rightarrow> bool \<times> 's" where
  "taken_by_other get new old i s =
     (case new of
        None \<Rightarrow> (False, s)
      | Some x \<Rightarrow>
          if x = old then (False, s)
          else (case get x s of
                  (Inl _, s') \<Rightarrow> (False, s')
                | (Inr existing, s') \<Rightarrow> (base_id existing \<noteq> i, s')))"

definition apply_user_update :: "user_update \<Rightarrow> user \<Rightarrow> user" where
  "apply_user_update req u =
     upd (\<lambda>v u. u\<lparr>usr_address := v\<rparr>) (uu_address req)
     (upd (\<lambda>v u. u\<lparr>usr_phone := v\<rparr>) (uu_phone req)
     (upd (\<lambda>v u. u\<lparr>usr_status := v\<rparr>) (uu_status req)
     (upd (\<lambda>v u. u\<lparr>usr_role := v\<rparr>) (uu_role req)
     (upd (\<lambda>v u. u\<lparr>usr_last := v\<rparr>) (uu_last req)
     (upd (\<lambda>v u. u\<lparr>usr_first := v\<rparr>) (uu_first req)
     (upd (\<lambda>v u. u\<lparr>usr_username := v\<rparr>) (uu_username req)
     (upd (\<lambda>v u. u\<lparr>usr_email := v\<rparr>) (uu_email req) u)))))))"

definition UpdateUser ::
  "'s user_repository \<Rightarrow> uuid \<Rightarrow> user_update \<Rightarrow> 's \<Rightarrow> user_response result \<times> 's" where
  "UpdateUser repo i req s =
     (case ur_GetByID repo i s of
        (Inl e, s1) \<Rightarrow> (Inl e, s1)
      | (Inr u, s1) \<Rightarrow>
          (case taken_by_other (ur_GetByEmail repo) (uu_email req) (usr_email u) i s1 of
             (True, s2) \<Rightarrow> (Inl (err_string ErrEmailTaken), s2)
           | (False, s2) \<Rightarrow>
               (case taken_by_other (ur_GetByUsername repo) (uu_username req) (usr_username u) i s2 of
                  (True, s3) \<Rightarrow> (Inl (err_string ErrUsernameTaken), s3)
                | (False, s3) \<Rightarrow>
                    (case ur_Update repo (apply_user_update req u) s3 of
                       (Inl e, s4) \<Rightarrow> (Inl e, s4)
                     | (Inr u', s4) \<Rightarrow> (Inr (NewUserResponse u'), s4)))))"

definition DeleteUser :: "'s user_repository \<Rightarrow> uuid \<Rightarrow> 's \<Rightarrow> unit result \<times> 's" where
  "DeleteUser repo i s =
     (case ur_GetByID repo i s of
        (Inl e, s1) \<Rightarrow> (Inl e, s1)
      | (Inr _, s1) \<Rightarrow> ur_Delete repo i s1)"

definition ListUsers ::
  "'s user_repository \<Rightarrow> user_filter \<Rightarrow> 's \<Rightarrow> user_response list_response result \<times> 's" where
  "ListUsers repo f0 s =
     (let f = UserFilter_Validate f0
      in case ur_List repo f s of
           (Inl e, s') \<Rightarrow> (Inl e, s')
         | (Inr (us, count), s') \<Rightarrow>
             (Inr \<lparr>lr_items = map NewUserResponse us, lr_total_items = count,
                   lr_total_pages = total_pages count (uf_limit f),
                   lr_current_page = uf_page f, lr_page_size = uf_limit f\<rparr>, s'))"

definition ChangePassword ::
  "user_env \<Rightarrow> 's user_repository \<Rightarrow> uuid \<Rightarrow> change_password \<Rightarrow> 's \<Rightarrow> unit result \<times> 's" where
  "ChangePassword env repo i req s =
     (if cp_current req = [] \<or> cp_new req = [] then (Inl (err_string ErrRequiredField), s)
      else if length (cp_new req) < PasswordMinLength then (Inl (err_string ErrWeakPassword), s)
      else case ur_GetByID repo i s of
        (Inl e, s1) \<Rightarrow> (Inl e, s1)
      | (Inr u, s1) \<Rightarrow>
          if \<not> CheckPasswordHash (ue_bcrypt env) (cp_current req) (usr_password u)
          then (Inl (err_string ErrInvalidCredentials), s1)
          else (case HashPassword (ue_bcrypt env) (ue_salt env) (cp_new req) of
                  Inl e \<Rightarrow> (Inl e, s1)
                | Inr h \<Rightarrow>
                    (case ur_Update repo (u\<lparr>usr_password := h\<rparr>) s1 of
                       (Inl e, s2) \<Rightarrow> (Inl e, s2)
                     | (Inr _, s2) \<Rightarrow> (Inr (), s2))))"

text \<open>
  The part that \<open>CreateUser\<close> and \<open>Register\<close> share: both lookups must fail, then the row is built and
  stored; phone and address are set when not empty.
\<close>

definition add_user ::
  "user_env \<Rightarrow> 's user_repository \<Rightarrow> string \<Rightarrow> string \<Rightarrow> string \<Rightarrow> string \<Rightarrow> string \<Rightarrow> string \<Rightarrow>
   string \<Rightarrow> string \<Rightarrow> 's \<Rightarrow> user_response result \<times> 's" where
  "add_user env repo email username password fname lname role phone address s =
     (case ur_GetByEmail repo email s of
        (Inr _, s1) \<Rightarrow> (Inl (err_string ErrEmailTaken), s1)
      | (Inl _, s1) \<Rightarrow>
          (case ur_GetByUsername repo username s1 of
             (Inr _, s2) \<Rightarrow> (Inl (err_string ErrUsernameTaken), s2)
           | (Inl _, s2) \<Rightarrow>
               (case HashPassword (ue_bcrypt env) (ue_salt env) password of
                  Inl e \<Rightarrow> (Inl e, s2)
                | Inr h \<Rightarrow>
                    let u = NewUser (ue_new_uuid env) email username h fname lname role;
                        u1 = (if phone \<noteq> [] then u\<lparr>usr_phone := phone\<rparr> else u);
                        u2 = (if address \<noteq> [] then u1\<lparr>usr_address := address\<rparr> else u1)
                    in (case ur_Create repo u2 s2 of
                          (Inl e, s3) \<Rightarrow> (Inl e, s3)
                        | (Inr u3, s3) \<Rightarrow> (Inr (NewUserResponse u3), s3)))))"

definition CreateUser ::
  "user_env \<Rightarrow> 's user_repository \<Rightarrow> user_create \<Rightarrow> 's \<Rightarrow> user_response result \<times> 's" where
  "CreateUser env repo req s =
     (if uc_email req = [] \<or> uc_username req = [] \<or> uc_password req = []
      then (Inl (err_string ErrRequiredField), s)
      else add_user env repo (uc_email req) (uc_username req) (uc_password req) (uc_first req)
             (uc_last req) (uc_role req) (uc_phone req) (uc_address req) s)"

section \<open>auth.service.go\<close>

record 's auth_service_conf =
  as_userRepo :: "'s user_repository"
  as_authRepo :: "'s auth_repository"
  as_jwtAuth :: jwt_auth
  as_uuid :: uuid_lib
  as_accessExp :: duration
  as_refreshExp :: duration

definition expires_in :: "duration \<Rightarrow> int" where
  "expires_in d = d sdiv 1000000000"

definition user_token :: "user_env \<Rightarrow> 's auth_service_conf \<Rightarrow> user \<Rightarrow> string result" where
  "user_token env sv u =
     GenerateToken (as_jwtAuth sv) (uuid_string (as_uuid sv) (base_id u)) (usr_email u) (usr_role u)
       (usr_username u) (ue_now_expires env) (ue_now_issued env)"

definition Login ::
  "user_env \<Rightarrow> 's auth_service_conf \<Rightarrow> user_login \<Rightarrow> 's \<Rightarrow> token_response result \<times> 's" where
  "Login env sv req s =
     (case ur_GetByUsernameOrEmail (as_userRepo sv) (ul_name req) s of
        (Inl _, s1) \<Rightarrow> (Inl (err_string ErrInvalidCredentials), s1)
      | (Inr u, s1) \<Rightarrow>
          if \<not> CheckPasswordHash (ue_bcrypt env) (ul_password req) (usr_password u)
          then (Inl (err_string ErrInvalidCredentials), s1)
          else
            (case ur_UpdateLastLogin (as_userRepo sv) (base_id u) (ue_now_login env) s1 of
               (_, s2) \<Rightarrow>
                 (case user_token env sv u of
                    Inl e \<Rightarrow> (Inl e, s2)
                  | Inr access \<Rightarrow>
                      let refresh = GenerateRandomString (ue_random env) 32
                      in (case ar_StoreRefreshToken (as_authRepo sv) (base_id u) refresh
                                 (ue_now_refresh env + as_refreshExp sv) s2 of
                            (Inl e, s3) \<Rightarrow> (Inl e, s3)
                          | (Inr _, s3) \<Rightarrow>
                              (Inr \<lparr>tr_access = access, tr_refresh = refresh, tr_type = TokenTypBearer,
                                    tr_expires_in = expires_in (as_accessExp sv),
                                    tr_user = Some (NewUserResponse u)\<rparr>, s3)))))"

definition Register ::
  "user_env \<Rightarrow> 's auth_service_conf \<Rightarrow> user_register \<Rightarrow> 's \<Rightarrow> user_response result \<times> 's" where
  "Register env sv req s =
     add_user env (as_userRepo sv) (ug_email req) (ug_username req) (ug_password req) (ug_first req)
       (ug_last req) RoleMember (ug_phone req) (ug_address req) s"

definition RefreshToken ::
  "user_env \<Rightarrow> 's auth_service_conf \<Rightarrow> string \<Rightarrow> time \<Rightarrow> 's \<Rightarrow> token_response result \<times> 's" where
  "RefreshToken env sv tok now s =
     (case ar_GetUserByRefreshToken (as_authRepo sv) tok now s of
        (Inl _, s1) \<Rightarrow> (Inl (err_string ErrInvalidToken), s1)
      | (Inr u, s1) \<Rightarrow>
          (case user_token env sv u of
             Inl e \<Rightarrow> (Inl e, s1)
           | Inr access \<Rightarrow>
               let refresh = GenerateRandomString (ue_random env) 32
               in (case ar_StoreRefreshToken (as_authRepo sv) (base_id u) refresh
                          (ue_now_refresh env + as_refreshExp sv) s1 of
                     (Inl e, s2) \<Rightarrow>
                       (Inr \<lparr>tr_access = access, tr_refresh = [], tr_type = TokenTypBearer,
                             tr_expires_in = expires_in (as_accessExp sv), tr_user = None\<rparr>, s2)
                   | (Inr _, s2) \<Rightarrow>
                       (Inr \<lparr>tr_access = access, tr_refresh = refresh, tr_type = TokenTypBearer,
                             tr_expires_in = expires_in (as_accessExp sv), tr_user = None\<rparr>, s2))))"

text \<open>The clock is read three times: by the token check, by \<open>time.Until\<close>, by the revocation.\<close>

definition Logout ::
  "'s auth_service_conf \<Rightarrow> string \<Rightarrow> time \<Rightarrow> time \<Rightarrow> time \<Rightarrow> 's \<Rightarrow> unit result \<times> 's" where
  "Logout sv tok now1 now2 now3 s =
     (case JWT_ValidateToken (as_jwtAuth sv) tok now1 of
        Inl _ \<Rightarrow> (Inl (err_string ErrInvalidToken), s)
      | Inr c \<Rightarrow>
          let left = NumericDate (cl_expires c) - now2;
              s1 = (if left > 0 then snd (ar_StoreTokenInBlacklist (as_authRepo sv) tok left s) else s)
          in (case uuid_parse (as_uuid sv) (cl_user_id c) of
                None \<Rightarrow> (Inl (uuid_err (as_uuid sv) (cl_user_id c)), s1)
              | Some i \<Rightarrow> (Inr (), snd (ar_RevokeRefreshToken (as_authRepo sv) i now3 s1))))"

definition Auth_ValidateToken ::
  "'s auth_service_conf \<Rightarrow> string \<Rightarrow> time \<Rightarrow> 's \<Rightarrow> claims result \<times> 's" where
  "Auth_ValidateToken sv tok now s =
     (case ar_IsTokenBlacklisted (as_authRepo sv) tok s of
        (b, s1) \<Rightarrow>
          if b = Inr True then (Inl (err_string ErrInvalidToken), s1)
          else (case JWT_ValidateToken (as_jwtAuth sv) tok now of
                  Inl e \<Rightarrow>
                    (Inl (if str_contains (err_msg e) ''token has expired'' then err_string ErrExpiredToken
                          else err_string ErrInvalidToken), s1)
                | Inr c \<Rightarrow> (Inr c, s1)))"

end
