(* ===== verification/UserHandlers.thy ===== *)
theory UserHandlers
  imports UserService
begin

text \<open>
  The HTTP handlers (\<open>user.handler.go\<close>, \<open>auth.handler.go\<close>) and the gRPC server
  (\<open>grpc.handler.go\<close>) of the user service, one definition per handler, over the two service
  interfaces as records of functions.
\<close>

section \<open>The service interfaces\<close>

record 's user_service =
  us_Create :: "user_create \<Rightarrow> 's \<Rightarrow> user_response result \<times> 's"
  us_GetByID :: "uuid \<Rightarrow> 's \<Rightarrow> user_response result \<times> 's"
  us_GetByEmail :: "string \<Rightarrow> 's \<Rightarrow> user_response result \<times> 's"
  us_GetByUsername :: "string \<Rightarrow> 's \<Rightarrow> user_response result \<times> 's"
  us_Update :: "uuid \<Rightarrow> user_update \<Rightarrow> 's \<Rightarrow> user_response result \<times> 's"
  us_Delete :: "uuid \<Rightarrow> 's \<Rightarrow> unit result \<times> 's"
  us_List :: "user_filter \<Rightarrow> 's \<Rightarrow> user_response list_response result \<times> 's"
  us_ChangePassword :: "uuid \<Rightarrow> change_password \<Rightarrow> 's \<Rightarrow> unit result \<times> 's"

record 's auth_service =
  au_Login :: "user_login \<Rightarrow> 's \<Rightarrow> token_response result \<times> 's"
  au_Register :: "user_register \<Rightarrow> 's \<Rightarrow> user_response result \<times> 's"
  au_Refresh :: "string \<Rightarrow> 's \<Rightarrow> token_response result \<times> 's"
  au_Logout :: "string \<Rightarrow> 's \<Rightarrow> unit result \<times> 's"
  au_Validate :: "string \<Rightarrow> 's \<Rightarrow> claims result \<times> 's"

definition NewUserService :: "user_env \<Rightarrow> 's user_repository \<Rightarrow> 's user_service" where
  "NewUserService env repo =
     \<lparr>us_Create = CreateUser env repo, us_GetByID = GetUserByID repo,
      us_GetByEmail = GetUserByEmail repo, us_GetByUsername = GetUserByUsername repo,
      us_Update = UpdateUser repo, us_Delete = DeleteUser repo, us_List = ListUsers repo,
      us_ChangePassword = ChangePassword env repo\<rparr>"

definition NewAuthService :: "user_env \<Rightarrow> 's auth_service_conf \<Rightarrow> 's auth_service" where
  "NewAuthService env sv =
     \<lparr>au_Login = Login env sv, au_Register = Register env sv,
      au_Refresh = (\<lambda>tok. RefreshToken env sv tok (ue_now_check env)),
      au_Logout = (\<lambda>tok. Logout sv tok (ue_now_check env) (ue_now_until env) (ue_now_revoke env)),
      au_Validate = (\<lambda>tok. Auth_ValidateToken sv tok (ue_now_check env))\<rparr>"

lemma NewUserService_simps [simp]:
  "us_Create (NewUserService env repo) = CreateUser env repo"
  "us_GetByID (NewUserService env repo) = GetUserByID repo"
  "us_GetByEmail (NewUserService env repo) = GetUserByEmail repo"
  "us_GetByUsername (NewUserService env repo) = GetUserByUsername repo"
  "us_Update (NewUserService env repo) = UpdateUser repo"
  "us_Delete (NewUserService env repo) = DeleteUser repo"
  "us_List (NewUserService env repo) = ListUsers repo"
  "us_ChangePassword (NewUserService env repo) = ChangePassword env repo"
  by (simp_all add: NewUserService_def)

section \<open>user.handler.go\<close>

definition isAdmin :: "http_request \<Rightarrow> bool" where
  "isAdmin rq = (case rq_user_role rq of None \<Rightarrow> False | Some role \<Rightarrow> role = RoleAdmin)"

definition isSameUser :: "uuid_lib \<Rightarrow> http_request \<Rightarrow> uuid \<Rightarrow> bool" where
  "isSameUser ul rq i = (case rq_user_id rq of None \<Rightarrow> False | Some userID \<Rightarrow> userID = uuid_string ul i)"

definition isAdminOrSameUser :: "uuid_lib \<Rightarrow> http_request \<Rightarrow> uuid \<Rightarrow> bool" where
  "isAdminOrSameUser ul rq i \<longleftrightarrow> isAdmin rq \<or> isSameUser ul rq i"

definition internal_error :: "go_error \<Rightarrow> http_response" where
  "internal_error e = RespondWithError 500 ErrInternalServer (Some e)"

text \<open>The answers to the errors of a lookup and of a write.\<close>

definition user_lookup_error :: "go_error \<Rightarrow> http_response" where
  "user_lookup_error e =
     (if err_msg e = ErrUserNotFound then RespondWithError 404 ErrUserNotFound None else internal_error e)"

definition taken_error :: "go_error \<Rightarrow> http_response" where
  "taken_error e =
     (if err_msg e = ErrEmailTaken \<or> err_msg e = ErrUsernameTaken then RespondWithError 409 (err_msg e) None
      else internal_error e)"

definition HandleCreateUser :: "validator \<Rightarrow> 's user_service \<Rightarrow> 's http_handler" where
  "HandleCreateUser vd svc rq s =
     (case res_bind (rq_body rq) decode_user_create of
        Inl e \<Rightarrow> (RespondWithError 400 ErrInvalidRequest (Some e), s)
      | Inr req \<Rightarrow>
          (case Validate vd (user_create_tags req) of
             (_, Some e) \<Rightarrow> (RespondWithError 400 ErrInvalidField (Some e), s)
           | (_, None) \<Rightarrow>
               (case us_Create svc req s of
                  (Inl e, s') \<Rightarrow> (taken_error e, s')
                | (Inr u, s') \<Rightarrow>
                    (RespondWithSuccess 201 ''User created successfully'' (Some (user_response_json u)), s'))))"

definition HandleGetUser :: "uuid_lib \<Rightarrow> 's user_service \<Rightarrow> 's http_handler" where
  "HandleGetUser ul svc rq s =
     (case uuid_parse ul (rq_vars rq ''id'') of
        None \<Rightarrow> (RespondWithError 400 ''Invalid user ID'' (Some (uuid_err ul (rq_vars rq ''id''))), s)
      | Some i \<Rightarrow>
          (case us_GetByID svc i s of
             (Inl e, s') \<Rightarrow> (user_lookup_error e, s')
           | (Inr u, s') \<Rightarrow>
               (RespondWithSuccess 200 ''User retrieved successfully'' (Some (user_response_json u)), s')))"

definition HandleGetUserByEmail :: "'s user_service \<Rightarrow> 's http_handler" where
  "HandleGetUserByEmail svc rq s =
     (let email = rq_query rq ''email''
      in if email = [] then (RespondWithError 400 ''Email parameter is required'' None, s)
         else case us_GetByEmail svc email s of
           (Inl e, s') \<Rightarrow> (user_lookup_error e, s')
         | (Inr u, s') \<Rightarrow>
             (RespondWithSuccess 200 ''User retrieved successfully'' (Some (user_response_json u)), s'))"

definition HandleGetUserByUsername :: "'s user_service \<Rightarrow> 's http_handler" where
  "HandleGetUserByUsername svc rq s =
     (let username = rq_query rq ''username''
      in if username = [] then (RespondWithError 400 ''Username parameter is required'' None, s)
         else case us_GetByUsername svc username s of
           (Inl e, s') \<Rightarrow> (user_lookup_error e, s')
         | (Inr u, s') \<Rightarrow>
             (RespondWithSuccess 200 ''User retrieved successfully'' (Some (user_response_json u)), s'))"

definition HandleUpdateUser :: "uuid_lib \<Rightarrow> validator \<Rightarrow> 's user_service \<Rightarrow> 's http_handler" where
  "HandleUpdateUser ul vd svc rq s =
     (case uuid_parse ul (rq_vars rq ''id'') of
        None \<Rightarrow> (RespondWithError 400 ''Invalid user ID'' (Some (uuid_err ul (rq_vars rq ''id''))), s)
      | Some i \<Rightarrow>
          (case res_bind (rq_body rq) decode_user_update of
             Inl e \<Rightarrow> (RespondWithError 400 ErrInvalidRequest (Some e), s)
           | Inr req \<Rightarrow>
               (case Validate vd (user_update_tags req) of
                  (_, Some e) \<Rightarrow> (RespondWithError 400 ErrInvalidField (Some e), s)
                | (_, None) \<Rightarrow>
                    if \<not> isAdminOrSameUser ul rq i then (RespondWithError 403 ErrForbidden None, s)
                    else
                      (case us_Update svc i req s of
                         (Inl e, s') \<Rightarrow>
                           (if err_msg e = ErrUserNotFound then RespondWithError 404 ErrUserNotFound None
                            else taken_error e, s')
                       | (Inr u, s') \<Rightarrow>
                           (RespondWithSuccess 200 ''User updated successfully''
                              (Some (user_response_json u)), s')))))"

definition HandleDeleteUser :: "uuid_lib \<Rightarrow> 's user_service \<Rightarrow> 's http_handler" where
  "HandleDeleteUser ul svc rq s =
     (case uuid_parse ul (rq_vars rq ''id'') of
        None \<Rightarrow> (RespondWithError 400 ''Invalid user ID'' (Some (uuid_err ul (rq_vars rq ''id''))), s)
      | Some i \<Rightarrow>
          if \<not> isAdmin rq then (RespondWithError 403 ErrForbidden None, s)
          else
            (case us_Delete svc i s of
               (Inl e, s') \<Rightarrow> (user_lookup_error e, s')
             | (Inr _, s') \<Rightarrow> (RespondWithSuccess 200 ''User deleted successfully'' None, s')))"

definition user_filter_of_query :: "http_request \<Rightarrow> user_filter" where
  "user_filter_of_query rq =
     \<lparr>uf_role = rq_query rq ''role'', uf_status = rq_query rq ''status'',
      uf_page = query_int rq ''page'', uf_limit = query_int rq ''limit'',
      uf_sort_by = rq_query rq ''sort_by'', uf_desc = (rq_query rq ''desc'' = ''true'')\<rparr>"

definition HandleListUsers :: "'s user_service \<Rightarrow> 's http_handler" where
  "HandleListUsers svc rq s =
     (if \<not> isAdmin rq then (RespondWithError 403 ErrForbidden None, s)
      else case us_List svc (user_filter_of_query rq) s of
        (Inl e, s') \<Rightarrow> (internal_error e, s')
      | (Inr l, s') \<Rightarrow>
          (RespondWithSuccess 200 ''Users retrieved successfully''
             (Some (list_response_json ''users'' user_response_json l)), s'))"

definition HandleChangePassword :: "uuid_lib \<Rightarrow> validator \<Rightarrow> 's user_service \<Rightarrow> 's http_handler" where
  "HandleChangePassword ul vd svc rq s =
     (case uuid_parse ul (rq_vars rq ''id'') of
        None \<Rightarrow> (RespondWithError 400 ''Invalid user ID'' (Some (uuid_err ul (rq_vars rq ''id''))), s)
      | Some i \<Rightarrow>
          (case res_bind (rq_body rq) decode_change_password of
             Inl e \<Rightarrow> (RespondWithError 400 ErrInvalidRequest (Some e), s)
           | Inr req \<Rightarrow>
               (case Validate vd (change_password_tags req) of
                  (_, Some e) \<Rightarrow> (RespondWithError 400 ErrInvalidField (Some e), s)
                | (_, None) \<Rightarrow>
                    if \<not> isSameUser ul rq i then (RespondWithError 403 ErrForbidden None, s)
                    else
                      (case us_ChangePassword svc i req s of
                         (Inl e, s') \<Rightarrow>
                           (if err_msg e = ErrUserNotFound then RespondWithError 404 ErrUserNotFound None
                            else if err_msg e = ErrInvalidCredentials
                            then RespondWithError 401 ErrInvalidCredentials None
                            else if err_msg e = ErrWeakPassword then RespondWithError 400 ErrWeakPassword None
                            else internal_error e, s')
                       | (Inr _, s') \<Rightarrow> (RespondWithSuccess 200 ''Password changed successfully'' None, s')))))"

section \<open>auth.handler.go\<close>

definition HandleLogin :: "validator \<Rightarrow> 's auth_service \<Rightarrow> 's http_handler" where
  "HandleLogin vd svc rq s =
     (case res_bind (rq_body rq) decode_user_login of
        Inl e \<Rightarrow> (RespondWithError 400 ErrInvalidRequest (Some e), s)
      | Inr req \<Rightarrow>
          (case Validate vd (user_login_tags req) of
             (_, Some e) \<Rightarrow> (RespondWithError 400 ErrInvalidField (Some e), s)
           | (_, None) \<Rightarrow>
               (case au_Login svc req s of
                  (Inl e, s') \<Rightarrow>
                    (if err_msg e = ErrInvalidCredentials then RespondWithError 401 ErrInvalidCredentials None
                     else internal_error e, s')
                | (Inr t, s') \<Rightarrow> (RespondWithSuccess 200 ''Login successful'' (Some (token_response_json t)), s'))))"

definition HandleRegister :: "validator \<Rightarrow> 's auth_service \<Rightarrow> 's http_handler" where
  "HandleRegister vd svc rq s =
     (case res_bind (rq_body rq) decode_user_register of
        Inl e \<Rightarrow> (RespondWithError 400 ErrInvalidRequest (Some e), s)
      | Inr req \<Rightarrow>
          (case Validate vd (user_register_tags req) of
             (_, Some e) \<Rightarrow> (RespondWithError 400 ErrInvalidField (Some e), s)
           | (_, None) \<Rightarrow>
               (case au_Register svc req s of
                  (Inl e, s') \<Rightarrow> (taken_error e, s')
                | (Inr u, s') \<Rightarrow>
                    (RespondWithSuccess 201 ''User registered successfully'' (Some (user_response_json u)), s'))))"

definition HandleRefreshToken :: "validator \<Rightarrow> 's auth_service \<Rightarrow> 's http_handler" where
  "HandleRefreshToken vd svc rq s =
     (case res_bind (rq_body rq) decode_refresh_token of
        Inl e \<Rightarrow> (RespondWithError 400 ErrInvalidRequest (Some e), s)
      | Inr tok \<Rightarrow>
          (case Validate vd [(''refresh_token'', ''required'', JStr tok)] of
             (_, Some e) \<Rightarrow> (RespondWithError 400 ErrInvalidField (Some e), s)
           | (_, None) \<Rightarrow>
               (case au_Refresh svc tok s of
                  (Inl e, s') \<Rightarrow>
                    (if err_msg e = ErrInvalidToken then RespondWithError 401 ErrInvalidToken None
                     else internal_error e, s')
                | (Inr t, s') \<Rightarrow>
                    (RespondWithSuccess 200 ''Token refreshed successfully'' (Some (token_response_json t)), s'))))"

definition HandleLogout :: "'s auth_service \<Rightarrow> 's http_handler" where
  "HandleLogout svc rq s =
     (let authHeader = rq_header rq ''Authorization''
      in if authHeader = [] then (RespondWithError 400 ''No authorization header provided'' None, s)
         else case bearer_token authHeader of
           None \<Rightarrow> (RespondWithError 400 ''Invalid authorization header format'' None, s)
         | Some tok \<Rightarrow>
             (case au_Logout svc tok s of
                (Inl e, s') \<Rightarrow>
                  (if err_msg e = ErrInvalidToken then RespondWithError 401 ErrInvalidToken None
                   else internal_error e, s')
              | (Inr _, s') \<Rightarrow> (RespondWithSuccess 200 ''Logout successful'' None, s')))"

section \<open>grpc.handler.go\<close>

record proto_user =
  pu_id :: string
  pu_email :: string
  pu_username :: string
  pu_first :: string
  pu_last :: string
  pu_role :: string
  pu_status :: string
  pu_phone :: "string option"
  pu_address :: "string option"
  pu_last_login :: "time option"
  pu_created :: time
  pu_updated :: time

definition non_empty :: "string \<Rightarrow> string option" where
  "non_empty s = (if s = [] then None else Some s)"

definition convertDaoUserToProtoUser :: "uuid_lib \<Rightarrow> user_response \<Rightarrow> proto_user" where
  "convertDaoUserToProtoUser ul u =
     \<lparr>pu_id = uuid_string ul (ur_id u), pu_email = ur_email u, pu_username = ur_username u,
      pu_first = ur_first u, pu_last = ur_last u, pu_role = ur_role u, pu_status = ur_status u,
      pu_phone = non_empty (ur_phone u), pu_address = non_empty (ur_address u),
      pu_last_login = ur_last_login u, pu_created = ur_created u, pu_updated = ur_updated u\<rparr>"

definition grpc_lookup_error :: "go_error \<Rightarrow> grpc_code \<times> string" where
  "grpc_lookup_error e =
     (if str_contains (err_msg e) ErrUserNotFound then (NotFound, ErrUserNotFound)
      else (Internal, ErrInternalServer))"

definition GRPC_GetUser :: "uuid_lib \<Rightarrow> 's user_service \<Rightarrow> string \<Rightarrow> 's \<Rightarrow> proto_user grpc_result \<times> 's" where
  "GRPC_GetUser ul svc id_str s =
     (case uuid_parse ul id_str of
        None \<Rightarrow> (Inl (InvalidArgument, ''invalid user ID''), s)
      | Some i \<Rightarrow>
          (case us_GetByID svc i s of
             (Inl e, s') \<Rightarrow> (Inl (grpc_lookup_error e), s')
           | (Inr u, s') \<Rightarrow> (Inr (convertDaoUserToProtoUser ul u), s')))"

definition GRPC_GetUserByEmail ::
  "uuid_lib \<Rightarrow> 's user_service \<Rightarrow> string \<Rightarrow> 's \<Rightarrow> proto_user grpc_result \<times> 's" where
  "GRPC_GetUserByEmail ul svc email s =
     (if email = [] then (Inl (InvalidArgument, ''email is required''), s)
      else case us_GetByEmail svc email s of
        (Inl e, s') \<Rightarrow> (Inl (grpc_lookup_error e), s')
      | (Inr u, s') \<Rightarrow> (Inr (convertDaoUserToProtoUser ul u), s'))"

definition GRPC_GetUserByUsername ::
  "uuid_lib \<Rightarrow> 's user_service \<Rightarrow> string \<Rightarrow> 's \<Rightarrow> proto_user grpc_result \<times> 's" where
  "GRPC_GetUserByUsername ul svc username s =
     (if username = [] then (Inl (InvalidArgument, ''username is required''), s)
      else case us_GetByUsername svc username s of
        (Inl e, s') \<Rightarrow> (Inl (grpc_lookup_error e), s')
      | (Inr u, s') \<Rightarrow> (Inr (convertDaoUserToProtoUser ul u), s'))"

text \<open>Optional fields that are absent keep the zero value of the filter.\<close>

record list_users_request =
  lu_page :: int
  lu_page_size :: int
  lu_role :: "string option"
  lu_status :: "string option"
  lu_sort_by :: "string option"
  lu_sort_desc :: "bool option"

definition opt_str :: "string option \<Rightarrow> string" where
  "opt_str x = (case x of None \<Rightarrow> [] | Some s \<Rightarrow> s)"

definition GRPC_ListUsers ::
  "uuid_lib \<Rightarrow> 's user_service \<Rightarrow> list_users_request \<Rightarrow> 's \<Rightarrow> proto_user list_response grpc_result \<times> 's" where
  "GRPC_ListUsers ul svc req s =
     (case us_List svc \<lparr>uf_role = opt_str (lu_role req), uf_status = opt_str (lu_status req),
                         uf_page = lu_page req, uf_limit = lu_page_size req,
                         uf_sort_by = opt_str (lu_sort_by req), uf_desc = (lu_sort_desc req = Some True)\<rparr> s of
        (Inl e, s') \<Rightarrow> (Inl (Internal, ErrInternalServer), s')
      | (Inr l, s') \<Rightarrow> (Inr (proto_list (convertDaoUserToProtoUser ul) l), s'))"

record create_user_request =
  cq_email :: string
  cq_username :: string
  cq_password :: string
  cq_first :: string
  cq_last :: string
  cq_role :: string
  cq_phone :: "string option"
  cq_address :: "string option"

definition GRPC_CreateUser ::
  "uuid_lib \<Rightarrow> 's user_service \<Rightarrow> create_user_request \<Rightarrow> 's \<Rightarrow> proto_user grpc_result \<times> 's" where
  "GRPC_CreateUser ul svc req s =
     (case us_Create svc \<lparr>uc_email = cq_email req, uc_username = cq_username req,
                           uc_password = cq_password req, uc_first = cq_first req, uc_last = cq_last req,
                           uc_role = cq_role req, uc_phone = opt_str (cq_phone req),
                           uc_address = opt_str (cq_address req)\<rparr> s of
        (Inl e, s') \<Rightarrow>
          (Inl (if err_msg e = ErrEmailTaken \<or> err_msg e = ErrUsernameTaken then (AlreadyExists, err_msg e)
                else (Internal, ErrInternalServer)), s')
      | (Inr u, s') \<Rightarrow> (Inr (convertDaoUserToProtoUser ul u), s'))"

record update_user_request =
  vq_id :: string
  vq_email :: "string option"
  vq_username :: "string option"
  vq_first :: "string option"
  vq_last :: "string option"
  vq_role :: "string option"
  vq_status :: "string option"
  vq_phone :: "string option"
  vq_address :: "string option"

definition user_update_dto :: "update_user_request \<Rightarrow> user_update" where
  "user_update_dto req =
     \<lparr>uu_email = vq_email req, uu_username = vq_username req, uu_first = vq_first req,
      uu_last = vq_last req, uu_role = vq_role req, uu_status = vq_status req,
      uu_phone = vq_phone req, uu_address = vq_address req\<rparr>"

definition GRPC_UpdateUser ::
  "uuid_lib \<Rightarrow> 's user_service \<Rightarrow> update_user_request \<Rightarrow> 's \<Rightarrow> proto_user grpc_result \<times> 's" where
  "GRPC_UpdateUser ul svc req s =
     (case uuid_parse ul (vq_id req) of
        None \<Rightarrow> (Inl (InvalidArgument, ''invalid user ID''), s)
      | Some i \<Rightarrow>
          (case us_Update svc i (user_update_dto req) s of
             (Inl e, s') \<Rightarrow>
               (Inl (if str_contains (err_msg e) ErrUserNotFound then (NotFound, ErrUserNotFound)
                     else if err_msg e = ErrEmailTaken \<or> err_msg e = ErrUsernameTaken
                     then (AlreadyExists, err_msg e)
                     else (Internal, ErrInternalServer)), s')
           | (Inr u, s') \<Rightarrow> (Inr (convertDaoUserToProtoUser ul u), s')))"

definition GRPC_DeleteUser :: "uuid_lib \<Rightarrow> 's user_service \<Rightarrow> string \<Rightarrow> 's \<Rightarrow> unit grpc_result \<times> 's" where
  "GRPC_DeleteUser ul svc id_str s =
     (case uuid_parse ul id_str of
        None \<Rightarrow> (Inl (InvalidArgument, ''invalid user ID''), s)
      | Some i \<Rightarrow>
          (case us_Delete svc i s of
             (Inl e, s') \<Rightarrow> (Inl (grpc_lookup_error e), s')
           | (Inr _, s') \<Rightarrow> (Inr (), s')))"

definition GRPC_ChangePassword ::
  "uuid_lib \<Rightarrow> 's user_service \<Rightarrow> string \<Rightarrow> change_password \<Rightarrow> 's \<Rightarrow> unit grpc_result \<times> 's" where
  "GRPC_ChangePassword ul svc id_str req s =
     (case uuid_parse ul id_str of
        None \<Rightarrow> (Inl (InvalidArgument, ''invalid user ID''), s)
      | Some i \<Rightarrow>
          (case us_ChangePassword svc i req s of
             (Inl e, s') \<Rightarrow>
               (Inl (if str_contains (err_msg e) ErrUserNotFound then (NotFound, ErrUserNotFound)
                     else if err_msg e = ErrInvalidCredentials then (Unauthenticated, ErrInvalidCredentials)
                     else if err_msg e = ErrWeakPassword then (InvalidArgument, ErrWeakPassword)
                     else (Internal, ErrInternalServer)), s')
           | (Inr _, s') \<Rightarrow> (Inr (), s')))"

text \<open>The login answer carries the token fields and the converted user apart; a nil user would panic.
  The refresh answer has no user.\<close>

definition GRPC_Login ::
  "uuid_lib \<Rightarrow> 's auth_service \<Rightarrow> user_login \<Rightarrow> 's \<Rightarrow>
   (token_response \<times> proto_user) grpc_result outcome \<times> 's" where
  "GRPC_Login ul svc req s =
     (case au_Login svc req s of
        (Inl e, s') \<Rightarrow>
          (Returns (Inl (if err_msg e = ErrInvalidCredentials then (Unauthenticated, ErrInvalidCredentials)
                         else (Internal, ErrInternalServer))), s')
      | (Inr t, s') \<Rightarrow>
          (case tr_user t of
             None \<Rightarrow> (Panic ''nil pointer dereference'', s')
           | Some u \<Rightarrow> (Returns (Inr (t\<lparr>tr_user := None\<rparr>, convertDaoUserToProtoUser ul u)), s')))"

definition GRPC_RefreshToken ::
  "'s auth_service \<Rightarrow> string \<Rightarrow> 's \<Rightarrow> token_response grpc_result \<times> 's" where
  "GRPC_RefreshToken svc tok s =
     (case au_Refresh svc tok s of
        (Inl e, s') \<Rightarrow>
          (Inl (if err_msg e = ErrInvalidToken then (Unauthenticated, ErrInvalidToken)
                else (Internal, ErrInternalServer)), s')
      | (Inr t, s') \<Rightarrow> (Inr (t\<lparr>tr_user := None\<rparr>), s'))"

text \<open>\<open>Logout\<close> of the gRPC server hands the refresh token of the request to a service that expects an access token.\<close>

definition GRPC_Logout :: "'s auth_service \<Rightarrow> string \<Rightarrow> 's \<Rightarrow> unit grpc_result \<times> 's" where
  "GRPC_Logout svc refresh_token s =
     (case au_Logout svc refresh_token s of
        (Inl e, s') \<Rightarrow>
          (Inl (if err_msg e = ErrInvalidToken then (Unauthenticated, ErrInvalidToken)
                else (Internal, ErrInternalServer)), s')
      | (Inr _, s') \<Rightarrow> (Inr (), s'))"

end
