(* ===== verification/UserBackend.thy ===== *)
theory UserBackend
  imports UserHandlers CachedTable
begin

text \<open>
  The user and auth repositories over the laws of the ORM and of the cache: \<open>user_backend\<close>. A user
  read through the cache comes back without its secrets (\<open>strip_user\<close>); the lemmas carry both
  cases. The invariant \<open>user_inv\<close> is what the session bookkeeping leaves true of the cache.
  The interpretation is on the list store.
\<close>

type_synonym user_map = "uuid \<Rightarrow> user option"

lemma user_id_key_inj: "uuid_laws ul \<Longrightarrow> inj (user_id_key ul)"
  by (auto simp: inj_def user_id_key_def uuid_string_inj)

section \<open>The invariant of the cached users\<close>

text \<open>
  What is cached under an ID is the live row of that ID as JSON gives it back, up to the two time
  stamps: the session bookkeeping writes single columns, which sets \<open>updated_at\<close> and does not
  invalidate.
\<close>

definition user_cached :: "uuid_lib \<Rightarrow> user_map \<Rightarrow> (string \<Rightarrow> json option) \<Rightarrow> bool" where
  "user_cached ul m v \<longleftrightarrow>
     (\<forall>i j. v (user_id_key ul i) = Some j \<longrightarrow>
        (\<exists>b a. m i = Some b \<and> unmarshal_user j = Inr a \<and> same_content (strip_user b) a))"

definition user_inv ::
  "('d, 'c) user_repo_conf \<Rightarrow> ('d \<Rightarrow> user_map) \<Rightarrow> ('d \<Rightarrow> bool) \<Rightarrow> ('c \<Rightarrow> string \<Rightarrow> json option) \<Rightarrow>
   'd \<times> 'c \<Rightarrow> bool" where
  "user_inv r rows valid view s \<longleftrightarrow>
     valid (fst s) \<and> (urc_cache r \<noteq> None \<longrightarrow> user_cached (urc_uuid r) (rows (fst s)) (view (snd s)))"

lemma same_content_strip: "same_content a b \<Longrightarrow> same_content (strip_user a) (strip_user b)"
  by (cases a; cases b) (auto simp: same_content_def strip_user_def)

lemma strip_session [simp]:
  "strip_user (u\<lparr>usr_refresh := t, usr_refresh_exp := e\<rparr>) = strip_user u"
  by (cases u) (simp add: strip_user_def)

lemma user_cachedD:
  "user_cached ul m v \<Longrightarrow> v (user_id_key ul i) = Some j \<Longrightarrow>
   \<exists>b a. m i = Some b \<and> unmarshal_user j = Inr a \<and> same_content (strip_user b) a"
  by (simp add: user_cached_def)

text \<open>What the owner and the administrators set of an account.\<close>

definition user_profile :: "user \<Rightarrow> string list" where
  "user_profile u = [usr_email u, usr_username u, usr_first u, usr_last u, usr_role u, usr_status u,
     usr_phone u, usr_address u]"

lemma profile_same_content: "same_content a b \<Longrightarrow> user_profile b = user_profile a"
  by (cases a; cases b) (auto simp: same_content_def user_profile_def)

lemma profile_strip [simp]: "user_profile (strip_user u) = user_profile u"
  by (simp add: strip_user_def user_profile_def)

lemma profile_same_strip: "same_content (strip_user a) (strip_user b) \<Longrightarrow> user_profile b = user_profile a"
  using profile_same_content [of "strip_user a" "strip_user b"] by simp

text \<open>A write keeps the cache in step when every row that stays cached keeps its content, secrets apart.\<close>

lemma user_cached_step:
  assumes "user_cached ul m v" "v' \<subseteq>\<^sub>m v"
    and "\<And>i b. v' (user_id_key ul i) \<noteq> None \<Longrightarrow> m i = Some b \<Longrightarrow>
      \<exists>b'. m' i = Some b' \<and> same_content (strip_user b) (strip_user b')"
  shows "user_cached ul m' v'"
  unfolding user_cached_def
proof (intro allI impI)
  fix i j assume j: "v' (user_id_key ul i) = Some j"
  with assms(2) have "v (user_id_key ul i) = Some j" by (auto simp: map_le_def dom_def)
  from user_cachedD [OF assms(1) this] obtain b a where
    b: "m i = Some b" "unmarshal_user j = Inr a" "same_content (strip_user b) a" by blast
  from assms(3) [OF _ b(1)] j obtain b' where
    "m' i = Some b'" "same_content (strip_user b) (strip_user b')" by auto
  with b same_content_sym same_content_trans
  show "\<exists>b a. m' i = Some b \<and> unmarshal_user j = Inr a \<and> same_content (strip_user b) a" by blast
qed

lemma user_cached_fill:
  assumes "user_cached ul m v"
    and "\<And>k j. v' k = Some j \<Longrightarrow> v k = Some j \<or> k = key \<and> j = marshal_user b"
    and "key \<notin> range (user_id_key ul) \<or> key = user_id_key ul i \<and> uuid_laws ul"
    and "m i = Some b" "deleted_at b = None"
  shows "user_cached ul m v'"
  unfolding user_cached_def
proof (intro allI impI)
  fix k j assume "v' (user_id_key ul k) = Some j"
  from assms(2) [OF this] assms(3) user_id_key_inj
  consider "v (user_id_key ul k) = Some j" | "k = i" "j = marshal_user b"
    by (auto simp: inj_def)
  then show "\<exists>b a. m k = Some b \<and> unmarshal_user j = Inr a \<and> same_content (strip_user b) a"
    using user_cachedD [OF assms(1)] assms(4) user_json_roundtrip [OF assms(5)] by cases auto
qed

section \<open>The repositories over the laws\<close>

locale user_backend =
  cached_table "urc_db r" rows valid user_sat "urc_cache r" view
    "user_id_key (urc_uuid r)" marshal_user unmarshal_user strip_user +
  upd: gorm_update_store "urc_db r" rows valid user_sat user_assign
  for r :: "('d, 'c) user_repo_conf"
    and rows :: "'d \<Rightarrow> user_map"
    and valid :: "'d \<Rightarrow> bool"
    and view :: "'c \<Rightarrow> string \<Rightarrow> json option" +
  assumes uuids: "uuid_laws (urc_uuid r)"
begin

lemma GetByID_frame:
  "valid (fst s) \<Longrightarrow> userRepository_GetByID r i s = (x, s') \<Longrightarrow> valid (fst s') \<and> rows (fst s') = rows (fst s)"
  using read_frame [of "fst s"] by (cases s; cases s') (auto simp: userRepository_GetByID_def)

lemma GetByEmail_frame:
  "valid (fst s) \<Longrightarrow> userRepository_GetByEmail r n s = (x, s') \<Longrightarrow> valid (fst s') \<and> rows (fst s') = rows (fst s)"
  using read_frame [of "fst s"] by (cases s; cases s') (auto simp: userRepository_GetByEmail_def)

lemma GetByUsername_frame:
  "valid (fst s) \<Longrightarrow> userRepository_GetByUsername r n s = (x, s') \<Longrightarrow> valid (fst s') \<and> rows (fst s') = rows (fst s)"
  using read_frame [of "fst s"] by (cases s; cases s') (auto simp: userRepository_GetByUsername_def)

abbreviation uinv :: "'d \<times> 'c \<Rightarrow> bool" where
  "uinv \<equiv> user_inv r rows valid view"

lemma uinv_valid: "uinv s \<Longrightarrow> valid (fst s)"
  by (simp add: user_inv_def)

lemma uinv_frame:
  "uinv (d, c) \<Longrightarrow> valid d' \<Longrightarrow> rows d' = rows d \<Longrightarrow> view c' \<subseteq>\<^sub>m view c \<Longrightarrow> uinv (d', c')"
  unfolding user_inv_def by (auto intro!: user_cached_step [of _ "rows d" "view c"])

lemma inv_uinv: "inv s \<Longrightarrow> uinv s"
  by (fastforce simp: user_inv_def table_inv_def user_cached_def coherent_def)

text \<open>The read-through under any key: what a hit and a miss give, and what they leave.\<close>

lemma uread:
  assumes i: "uinv (d, c)"
    and k: "key \<notin> range (user_id_key (urc_uuid r)) \<or>
      (\<exists>i. key = user_id_key (urc_uuid r) i \<and> (\<forall>x. sat_all user_sat q x \<longrightarrow> base_id x = i))"
    and g: "read_through (urc_cache r) marshal_user unmarshal_user key nf (g_first (urc_db r) q) (d, c) = (x, (d', c'))"
  shows "uinv (d', c') \<and> rows d' = rows d \<and>
    (case x of Inr a \<Rightarrow> (rows d (base_id a) = Some a \<and> sat_all user_sat q a) \<or>
        (\<exists>j. urc_cache r \<noteq> None \<and> view c key = Some j \<and> unmarshal_user j = Inr a)
     | Inl e \<Rightarrow> errors_Is e ErrRecordNotFound \<longrightarrow> (\<forall>i b. rows d i = Some b \<longrightarrow> \<not> sat_all user_sat q b))"
proof -
  have v: "valid d" using uinv_valid [OF i] by simp
  show ?thesis
  proof (cases x)
    case (Inl e)
    from ch.read_through_error [OF g [unfolded Inl]] have le: "view c' \<subseteq>\<^sub>m view c" by blast
    from Inl read_frame [OF v g] uinv_frame [OF i _ _ le] read_not_found [OF v g [unfolded Inl]]
    show ?thesis by auto
  next
    case (Inr a)
    from ch.read_through_hit_or_miss [OF g [unfolded Inr]]
    consider (hit) j where "view c key = Some j" "unmarshal_user j = Inr a" "d' = d"
        "view c' \<subseteq>\<^sub>m view c" "urc_cache r \<noteq> None"
      | (miss) "g_first (urc_db r) q d = (Inr a, d')"
          "\<forall>k j. view c' k = Some j \<longrightarrow> view c k = Some j \<or> k = key \<and> j = marshal_user a"
      by blast
    then show ?thesis
    proof cases
      case hit
      with Inr uinv_frame [OF i v _ hit(4)] show ?thesis by auto
    next
      case miss
      have row: "rows d (base_id a) = Some a" "sat_all user_sat q a" using db.first_row [OF v miss(1)] by auto
      have "user_cached (urc_uuid r) (rows d) (view c')" if "user_cached (urc_uuid r) (rows d) (view c)"
        using user_cached_fill [OF that _ _ row(1) db.rows_live [OF v row(1)], of "view c'" key] miss(2) k row(2) uuids
        by blast
      with i Inr row db.first_frame [OF v miss(1)] show ?thesis by (auto simp: user_inv_def)
    qed
  qed
qed

lemma GetByID_spec:
  assumes "uinv s" "userRepository_GetByID r i s = (x, s')"
  shows "uinv s' \<and> rows (fst s') = rows (fst s) \<and>
    (case x of Inr a \<Rightarrow> \<exists>b. rows (fst s) i = Some b \<and> (a = b \<or> urc_cache r \<noteq> None \<and> same_content (strip_user b) a)
     | Inl e \<Rightarrow> errors_Is e ErrRecordNotFound \<longrightarrow> rows (fst s) i = None)"
proof -
  let ?q = "q_where ''id = ?'' [AUuid i] q_all"
  have q: "sat_all user_sat ?q x \<longleftrightarrow> base_id x = i" for x by simp
  have g: "read_through (urc_cache r) marshal_user unmarshal_user (user_id_key (urc_uuid r) i) ErrUserNotFound
      (g_first (urc_db r) ?q) (fst s, snd s) = (x, (fst s', snd s'))"
    using assms(2) by (simp add: userRepository_GetByID_def)
  have i: "uinv (fst s, snd s)" using assms(1) by simp
  note u = uread [OF i _ g]
  have h: "\<exists>b. rows (fst s) i = Some b \<and> same_content (strip_user b) a"
    if "urc_cache r \<noteq> None" "view (snd s) (user_id_key (urc_uuid r) i) = Some j" "unmarshal_user j = Inr a" for j a
    using user_cachedD [of "urc_uuid r" "rows (fst s)" "view (snd s)" i j] that assms(1) by (auto simp: user_inv_def)
  have n: "rows (fst s) i = None" if "\<forall>k b. rows (fst s) k = Some b \<longrightarrow> base_id b \<noteq> i"
    using that db.rows_id [OF uinv_valid [OF assms(1)], of i] by (cases "rows (fst s) i") auto
  show ?thesis using u q h n by (cases x) (auto, blast+)
qed

text \<open>No e-mail address or username that a call names is the text of a UUID.\<close>

abbreviation not_id :: "string \<Rightarrow> bool" where
  "not_id n \<equiv> n \<notin> range (uuid_string (urc_uuid r))"

lemma not_id_key: "not_id n \<Longrightarrow> user_key n \<notin> range (user_id_key (urc_uuid r))"
  by (auto simp: user_id_key_def)

lemma GetByEmail_uinv:
  assumes "uinv s" "not_id n" "userRepository_GetByEmail r n s = (x, s')"
  shows "uinv s' \<and> rows (fst s') = rows (fst s)"
  using uread [of "fst s" "snd s" "user_key n" "q_where ''email = ?'' [AStr n] q_all" ErrUserNotFound x
      "fst s'" "snd s'"] assms not_id_key
  by (auto simp: userRepository_GetByEmail_def)

lemma GetByUsername_uinv:
  assumes "uinv s" "not_id n" "userRepository_GetByUsername r n s = (x, s')"
  shows "uinv s' \<and> rows (fst s') = rows (fst s)"
  using uread [of "fst s" "snd s" "user_key n" "q_where ''username = ?'' [AStr n] q_all" ErrUserNotFound x
      "fst s'" "snd s'"] assms not_id_key
  by (auto simp: userRepository_GetByUsername_def)

lemma uinv_write:
  assumes "uinv (d, c)" "valid d'" "rows d' = (rows d)(i := x)" "user_id_key (urc_uuid r) i \<in> set ks"
  shows "uinv (d', invalidate_all (urc_cache r) ks c)"
proof -
  have "user_cached (urc_uuid r) (rows d') (view (invalidate_all (urc_cache r) ks c))"
    if c: "urc_cache r \<noteq> None"
  proof (rule user_cached_step)
    show "user_cached (urc_uuid r) (rows d) (view c)" using assms(1) c by (simp add: user_inv_def)
  next
    fix k b
    assume "view (invalidate_all (urc_cache r) ks c) (user_id_key (urc_uuid r) k) \<noteq> None" "rows d k = Some b"
    moreover from this have "k \<noteq> i" using ch.invalidate_all_gone [OF c assms(4)] by auto
    ultimately show "\<exists>b'. rows d' k = Some b' \<and> same_content (strip_user b) (strip_user b')"
      using assms(3) by simp
  qed (rule ch.invalidate_all_frame)
  with assms(2) show ?thesis by (simp add: user_inv_def)
qed

lemma Create_uinv:
  assumes "uinv s" "base_id u \<noteq> uuid_Nil" "deleted_at u = None" "userRepository_Create r u s = (x, s')"
  shows "uinv s'"
proof -
  obtain y d where g: "g_create (urc_db r) u (fst s) = (y, d)" by (cases "g_create (urc_db r) u (fst s)")
  show ?thesis
  proof (cases y)
    case (Inl e)
    with assms g uinv_frame [of "fst s" "snd s"] db.create_err [OF uinv_valid] show ?thesis
      by (fastforce simp: userRepository_Create_def)
  next
    case (Inr u')
    have ok: "valid d" "rows (fst s) (base_id u) = None" "rows d = (rows (fst s))(base_id u := Some u')"
      using db.create_ok [OF uinv_valid [OF assms(1)] assms(2,3)] g Inr by auto
    have "user_cached (urc_uuid r) (rows d) (view (invalidate (urc_cache r) CacheKeyUsers (snd s)))"
      if "urc_cache r \<noteq> None"
      using assms(1) that ok by (intro user_cached_step [OF _ ch.invalidate_frame]) (auto simp: user_inv_def)
    with assms(4) g Inr ok show ?thesis by (auto simp: userRepository_Create_def user_inv_def)
  qed
qed

lemma Update_uinv:
  assumes "uinv s" "rows (fst s) (base_id u) \<noteq> None" "deleted_at u = None" "userRepository_Update r u s = (x, s')"
  shows "uinv s'"
proof -
  obtain y d where g: "g_save (urc_db r) u (fst s) = (y, d)" by (cases "g_save (urc_db r) u (fst s)")
  show ?thesis
  proof (cases y)
    case (Inl e)
    with assms g uinv_frame [of "fst s" "snd s"] db.save_err [OF uinv_valid] show ?thesis
      by (fastforce simp: userRepository_Update_def)
  next
    case (Inr u')
    then have ok: "valid d" "same_content u u'" "rows d = (rows (fst s))(base_id u := Some u')"
      using db.save_ok [OF uinv_valid [OF assms(1)] assms(2,3)] g by auto
    have "uinv (d, invalidate_all (urc_cache r) (user_keys (urc_uuid r) (base_id u') u') (snd s))"
      using assms(1) ok same_content_id [OF ok(2)]
      by (intro uinv_write [of "fst s" "snd s" _ "base_id u"]) (auto simp: user_keys_def)
    with assms(4) g Inr show ?thesis by (auto simp: userRepository_Update_def)
  qed
qed

text \<open>The column updates of the session bookkeeping change what the cached form does not hold.\<close>

lemma uinv_session:
  assumes "uinv (d, c)" "valid d'" "dom (rows d') = dom (rows d)"
    and "\<And>i b b'. rows d i = Some b \<Longrightarrow> rows d' i = Some b' \<Longrightarrow> same_content (strip_user b) (strip_user b')"
  shows "uinv (d', c)"
proof -
  have "user_cached (urc_uuid r) (rows d') (view c)" if "user_cached (urc_uuid r) (rows d) (view c)"
  proof (rule user_cached_step [OF that])
    fix i b assume b: "rows d i = Some b"
    with assms(3) obtain b' where "rows d' i = Some b'" by (metis domD domI)
    with assms(4) b show "\<exists>b'. rows d' i = Some b' \<and> same_content (strip_user b) (strip_user b')" by blast
  qed simp
  with assms(1,2) show ?thesis by (auto simp: user_inv_def)
qed

lemma same_row:
  assumes "valid d" "rows d i = Some b" "a = b \<or> same_content (strip_user b) a"
  shows "base_id a = i \<and> deleted_at a = None \<and> user_profile a = user_profile b"
  using assms(3) db.rows_id [OF assms(1,2)] db.rows_live [OF assms(1,2)] same_content_id [of "strip_user b" a]
    same_content_deleted [of "strip_user b" a] profile_same_content [of "strip_user b" a] profile_strip [of b]
  by (auto simp: strip_user_def)

lemma GetByID_missing:
  assumes "valid (fst s)" "userRepository_GetByID r i s = (Inl e, s')" "errors_Is e ErrRecordNotFound"
  shows "\<exists>m. err_msg e = ErrUserNotFound @ '': '' @ m"
proof -
  let ?q = "q_where ''id = ?'' [AUuid i] q_all"
  have "read_through (urc_cache r) marshal_user unmarshal_user (user_id_key (urc_uuid r) i) ErrUserNotFound
      (g_first (urc_db r) ?q) (fst s, snd s) = (Inl e, (fst s', snd s'))"
    using assms(2) by (simp add: userRepository_GetByID_def)
  from read_not_found [OF assms(1) this assms(3)] show ?thesis by blast
qed

lemma Create_rows:
  assumes "valid (fst s)" "base_id u \<noteq> uuid_Nil" "deleted_at u = None"
    "userRepository_Create r u s = (x, s')"
  shows "valid (fst s') \<and> (case x of Inl e \<Rightarrow> rows (fst s') = rows (fst s)
    | Inr u' \<Rightarrow> same_content u u' \<and> rows (fst s) (base_id u) = None \<and>
        rows (fst s') = (rows (fst s))(base_id u := Some u'))"
proof -
  obtain y d where g: "g_create (urc_db r) u (fst s) = (y, d)" by (cases "g_create (urc_db r) u (fst s)")
  show ?thesis
    using db.create_ok [OF assms(1-3)] db.create_err [OF assms(1)] g assms(4)
    by (cases y) (auto simp: userRepository_Create_def)
qed

lemma Update_rows:
  assumes "valid (fst s)" "rows (fst s) (base_id u) \<noteq> None" "deleted_at u = None"
    "userRepository_Update r u s = (x, s')"
  shows "valid (fst s') \<and> (case x of Inl e \<Rightarrow> rows (fst s') = rows (fst s)
    | Inr u' \<Rightarrow> same_content u u' \<and> rows (fst s') = (rows (fst s))(base_id u := Some u'))"
proof -
  obtain y d where g: "g_save (urc_db r) u (fst s) = (y, d)" by (cases "g_save (urc_db r) u (fst s)")
  show ?thesis
    using db.save_ok [OF assms(1-3)] db.save_err [OF assms(1)] g assms(4)
    by (cases y) (auto simp: userRepository_Update_def)
qed

text \<open>A column update by ID touches one row.\<close>

lemma updates_by_id:
  assumes "valid d" "g_updates (urc_db r) (q_where ''id = ?'' [AUuid i] q_all) cols d = (x, d')"
  shows "valid d' \<and> (case x of Inl e \<Rightarrow> rows d' = rows d
    | Inr _ \<Rightarrow> (\<forall>j. j \<noteq> i \<longrightarrow> rows d' j = rows d j) \<and>
        (\<forall>u. rows d i = Some u \<longrightarrow> (\<exists>u'. rows d' i = Some u' \<and> same_content (user_assign cols u) u')))"
proof (cases x)
  case (Inl e)
  with upd.updates_err assms show ?thesis by auto
next
  case (Inr y)
  let ?q = "q_where ''id = ?'' [AUuid i] q_all"
  have ok: "valid d' \<and> dom (rows d') = dom (rows d) \<and>
      (\<forall>j u. rows d j = Some u \<longrightarrow> (\<exists>u'. rows d' j = Some u' \<and>
         (if sat_all user_sat ?q u then same_content (user_assign cols u) u' else u' = u)))"
    by (rule upd.updates_ok [OF assms(1)]) (use assms(2) Inr in simp)
  have sat: "sat_all user_sat ?q u \<longleftrightarrow> j = i" if "rows d j = Some u" for j u
    using db.rows_id [OF assms(1) that] by auto
  have "rows d' j = rows d j" if "j \<noteq> i" for j
  proof (cases "rows d j")
    case None
    then have "j \<notin> dom (rows d')" using ok by auto
    with None show ?thesis by (simp add: domIff)
  next
    case (Some u)
    with ok sat [OF Some] that show ?thesis by fastforce
  qed
  moreover have "\<exists>u'. rows d' i = Some u' \<and> same_content (user_assign cols u) u'" if "rows d i = Some u" for u
    using ok that sat [OF that] by fastforce
  ultimately show ?thesis using ok Inr by auto
qed

lemma UpdateLastLogin_rows:
  assumes "valid (fst s)" "userRepository_UpdateLastLogin r i now s = (x, s')"
  shows "valid (fst s') \<and> (\<forall>j. j \<noteq> i \<longrightarrow> rows (fst s') j = rows (fst s) j) \<and>
    (\<forall>u. rows (fst s) i = Some u \<longrightarrow> (\<exists>u'. rows (fst s') i = Some u' \<and>
       (u' = u \<or> same_content (u\<lparr>usr_last_login := now\<rparr>) u')))"
proof -
  obtain y d where g: "g_updates (urc_db r) (q_where ''id = ?'' [AUuid i] q_all)
      [(''last_login'', ATime now)] (fst s) = (y, d)"
    by (cases "g_updates (urc_db r) (q_where ''id = ?'' [AUuid i] q_all) [(''last_login'', ATime now)] (fst s)")
  from updates_by_id [OF assms(1) g] g assms(2) show ?thesis
    by (cases y) (fastforce simp: userRepository_UpdateLastLogin_def user_assign_def)+
qed

lemma StoreRefreshToken_rows:
  assumes "valid (fst s)" "authRepository_StoreRefreshToken r i tok ex s = (x, s')"
  shows "valid (fst s') \<and> snd s' = snd s \<and> (case x of Inl e \<Rightarrow> rows (fst s') = rows (fst s)
    | Inr _ \<Rightarrow> (\<forall>j. j \<noteq> i \<longrightarrow> rows (fst s') j = rows (fst s) j) \<and>
        (\<forall>u. rows (fst s) i = Some u \<longrightarrow> (\<exists>u'. rows (fst s') i = Some u' \<and>
           same_content (u\<lparr>usr_refresh := tok, usr_refresh_exp := ex\<rparr>) u')))"
proof -
  let ?q = "q_where ''id = ?'' [AUuid i] q_all" and ?cols = "[(''refresh_token'', AStr tok), (''refresh_token_exp'', ATime ex)]"
  obtain y d where g: "g_updates (urc_db r) ?q ?cols (fst s) = (y, d)"
    by (cases "g_updates (urc_db r) ?q ?cols (fst s)")
  from updates_by_id [OF assms(1) g] g assms(2) show ?thesis
    by (auto simp: authRepository_StoreRefreshToken_def user_assign_def split: sum.splits)
qed

lemma ByRefreshToken_spec:
  assumes "valid (fst s)" "authRepository_GetUserByRefreshToken r tok now s = (x, s')"
  shows "valid (fst s') \<and> rows (fst s') = rows (fst s) \<and> (case x of
      Inr u \<Rightarrow> rows (fst s) (base_id u) = Some u \<and> usr_refresh u = tok \<and> now < usr_refresh_exp u
    | Inl e \<Rightarrow> errors_Is e ErrRecordNotFound \<longrightarrow>
        (\<forall>i u. rows (fst s) i = Some u \<longrightarrow> \<not> (usr_refresh u = tok \<and> now < usr_refresh_exp u)))"
proof -
  let ?q = "q_where ''refresh_token = ? AND refresh_token_exp > ?'' [AStr tok, ATime now] q_all"
  obtain y d where g: "g_first (urc_db r) ?q (fst s) = (y, d)" by (cases "g_first (urc_db r) ?q (fst s)")
  from db.first_frame [OF assms(1) g] db.first_row [OF assms(1), of ?q _ d] db.first_none [OF assms(1), of ?q _ d]
    g assms(2) show ?thesis
    by (cases y) (fastforce simp: authRepository_GetUserByRefreshToken_def)+
qed

lemma ByUsernameOrEmail_spec:
  assumes "valid (fst s)" "userRepository_GetByUsernameOrEmail r n s = (x, s')"
  shows "valid (fst s') \<and> rows (fst s') = rows (fst s) \<and> snd s' = snd s \<and> (case x of
      Inr u \<Rightarrow> rows (fst s) (base_id u) = Some u \<and> (usr_username u = n \<or> usr_email u = n)
    | Inl e \<Rightarrow> True)"
proof -
  let ?q = "q_where ''username = ? OR email = ?'' [AStr n, AStr n] q_all"
  obtain y d where g: "g_first (urc_db r) ?q (fst s) = (y, d)" by (cases "g_first (urc_db r) ?q (fst s)")
  from db.first_frame [OF assms(1) g] db.first_row [OF assms(1), of ?q _ d] g assms(2) show ?thesis
    by (cases y) (fastforce simp: userRepository_GetByUsernameOrEmail_def)+
qed

end

text \<open>The wiring of \<open>module.New\<close>: one secret and one duration for the tokens, both repositories on one store.\<close>

definition user_module ::
  "('d, 'c) user_repo_conf \<Rightarrow> jwt_lib \<Rightarrow> string \<Rightarrow> duration \<Rightarrow> duration \<Rightarrow> ('d \<times> 'c) auth_service_conf" where
  "user_module r jl jwtSecret accessTokenExpiry refreshTokenExpiry =
     \<lparr>as_userRepo = NewUserRepository r, as_authRepo = NewAuthRepository r,
      as_jwtAuth = \<lparr>ja_lib = jl, ja_secret = jwtSecret, ja_duration = accessTokenExpiry\<rparr>,
      as_uuid = urc_uuid r, as_accessExp = accessTokenExpiry, as_refreshExp = refreshTokenExpiry\<rparr>"

lemma user_module_simps [simp]:
  "as_userRepo (user_module r jl k a b) = NewUserRepository r"
  "as_authRepo (user_module r jl k a b) = NewAuthRepository r"
  "as_jwtAuth (user_module r jl k a b) = \<lparr>ja_lib = jl, ja_secret = k, ja_duration = a\<rparr>"
  "as_uuid (user_module r jl k a b) = urc_uuid r"
  "as_accessExp (user_module r jl k a b) = a" "as_refreshExp (user_module r jl k a b) = b"
  by (simp_all add: user_module_def)

context user_backend
begin

lemma add_user_spec:
  assumes "valid (fst s)" "ue_new_uuid env \<noteq> uuid_Nil" "bcrypt_laws (ue_bcrypt env)"
    "add_user env (NewUserRepository r) email username pw fname lname role phone address s = (x, s')"
  shows "valid (fst s') \<and> (case x of
      Inl e \<Rightarrow> rows (fst s') = rows (fst s)
    | Inr rsp \<Rightarrow> \<exists>u. rows (fst s) (ue_new_uuid env) = None \<and>
        rows (fst s') = (rows (fst s))(ue_new_uuid env := Some u) \<and> rsp = NewUserResponse u \<and>
        usr_email u = email \<and> usr_username u = username \<and> usr_first u = fname \<and> usr_last u = lname \<and>
        usr_phone u = phone \<and> usr_address u = address \<and> usr_status u = UserStatusActive \<and>
        usr_role u = (if role = [] then RoleMember else role) \<and>
        CheckPasswordHash (ue_bcrypt env) pw (usr_password u) \<and> usr_refresh u = [])"
proof -
  obtain y s1 where g1: "userRepository_GetByEmail r email s = (y, s1)" by (cases "userRepository_GetByEmail r email s")
  have s1: "valid (fst s1)" "rows (fst s1) = rows (fst s)" using GetByEmail_frame [OF assms(1) g1] by auto
  obtain z s2 where g2: "userRepository_GetByUsername r username s1 = (z, s2)" by (cases "userRepository_GetByUsername r username s1")
  have s2: "valid (fst s2)" "rows (fst s2) = rows (fst s)" using GetByUsername_frame [OF s1(1) g2] s1 by auto
  let ?h = "HashPassword (ue_bcrypt env) (ue_salt env) pw"
  show ?thesis
  proof (cases "\<exists>e e' h. y = Inl e \<and> z = Inl e' \<and> ?h = Inr h")
    case False
    with assms(4) g1 g2 s1 s2 show ?thesis by (auto simp: add_user_def split: sum.splits)
  next
    case True
    then obtain e e' h where h: "y = Inl e" "z = Inl e'" "?h = Inr h" by blast
    define u where "u = (NewUser (ue_new_uuid env) email username h fname lname role)
      \<lparr>usr_phone := phone, usr_address := address\<rparr>"
    have u: "base_id u = ue_new_uuid env" "deleted_at u = None" by (simp_all add: u_def NewUser_def)
    have shape: "(let u = NewUser (ue_new_uuid env) email username h fname lname role;
          u1 = (if phone \<noteq> [] then u\<lparr>usr_phone := phone\<rparr> else u)
        in if address \<noteq> [] then u1\<lparr>usr_address := address\<rparr> else u1) = u"
      by (simp add: u_def NewUser_def Let_def)
    obtain w s3 where c: "userRepository_Create r u s2 = (w, s3)" by (cases "userRepository_Create r u s2")
    note cr = Create_rows [OF s2(1) _ u(2) c, unfolded u(1), OF assms(2)]
    have run: "x = map_sum id NewUserResponse w" "s' = s3"
      using assms(4) g1 g2 h c shape by (auto simp: add_user_def Let_def split: sum.splits if_splits)
    show ?thesis
    proof (cases w)
      case (Inl e2)
      with run cr s2 show ?thesis by auto
    next
      case (Inr u')
      with cr have "same_content u u'" by simp
      then have "usr_email u' = email \<and> usr_username u' = username \<and> usr_first u' = fname \<and>
          usr_last u' = lname \<and> usr_phone u' = phone \<and> usr_address u' = address \<and>
          usr_status u' = UserStatusActive \<and> usr_role u' = (if role = [] then RoleMember else role) \<and>
          usr_password u' = h \<and> usr_refresh u' = []"
        by (cases u') (auto simp: same_content_def u_def NewUser_def)
      with run Inr cr s2 hash_checks [OF assms(3) h(3)] show ?thesis by auto
    qed
  qed
qed

lemma taken_frame:
  assumes "valid (fst s)"
    "\<And>n t x t'. valid (fst t) \<Longrightarrow> get n t = (x, t') \<Longrightarrow> valid (fst t') \<and> rows (fst t') = rows (fst t)"
    "taken_by_other get nw old i s = (b, s')"
  shows "valid (fst s') \<and> rows (fst s') = rows (fst s)"
proof (cases "\<exists>n. nw = Some n \<and> n \<noteq> old")
  case True
  then obtain n where n: "nw = Some n" "n \<noteq> old" by blast
  obtain y t where g: "get n s = (y, t)" by (cases "get n s")
  with n assms(2) [OF assms(1) g] assms(3) show ?thesis
    by (auto simp: taken_by_other_def split: sum.splits)
next
  case False
  with assms(1,3) show ?thesis by (auto simp: taken_by_other_def split: option.splits)
qed

lemma apply_user_update_base [simp]:
  "base_id (apply_user_update req u) = base_id u" "deleted_at (apply_user_update req u) = deleted_at u"
  "usr_password (apply_user_update req u) = usr_password u"
  "usr_refresh (apply_user_update req u) = usr_refresh u"
  by (simp_all add: apply_user_update_def upd_def split: option.split)

lemma apply_same_content:
  "same_content a b \<Longrightarrow> same_content (apply_user_update req a) (apply_user_update req b)"
  by (cases a; cases b) (auto simp: same_content_def apply_user_update_def upd_def split: option.splits)

lemma UpdateUser_spec:
  assumes "uinv s" "UpdateUser (NewUserRepository r) i req s = (x, s')"
  shows "valid (fst s') \<and> (case x of
      Inl e \<Rightarrow> rows (fst s') = rows (fst s)
    | Inr rsp \<Rightarrow> \<exists>b a u. rows (fst s) i = Some b \<and> (a = b \<or> urc_cache r \<noteq> None \<and> a = strip_user b) \<and>
        same_content (apply_user_update req a) u \<and> rows (fst s') = (rows (fst s))(i := Some u) \<and>
        rsp = NewUserResponse u)"
proof -
  have v: "valid (fst s)" by (rule uinv_valid [OF assms(1)])
  obtain y s1 where g: "userRepository_GetByID r i s = (y, s1)" by (cases "userRepository_GetByID r i s")
  have s1: "valid (fst s1)" "rows (fst s1) = rows (fst s)" using GetByID_frame [OF v g] by auto
  show ?thesis
  proof (cases y)
    case (Inl e)
    with assms(2) g s1 show ?thesis by (auto simp: UpdateUser_def)
  next
    case (Inr a)
    with GetByID_spec [OF assms(1) g] obtain b where
      b: "rows (fst s) i = Some b" "a = b \<or> urc_cache r \<noteq> None \<and> same_content (strip_user b) a" by auto
    from b(2) have a: "base_id a = i" "deleted_at a = None"
      using same_row [OF v b(1), of a] by auto
    obtain t1 s2 where t1: "taken_by_other (userRepository_GetByEmail r) (uu_email req) (usr_email a) i s1 = (t1, s2)"
      by (cases "taken_by_other (userRepository_GetByEmail r) (uu_email req) (usr_email a) i s1")
    have s2: "valid (fst s2)" "rows (fst s2) = rows (fst s)"
      using taken_frame [OF s1(1) GetByEmail_frame t1] s1 by auto
    obtain t2 s3 where t2: "taken_by_other (userRepository_GetByUsername r) (uu_username req) (usr_username a) i s2 = (t2, s3)"
      by (cases "taken_by_other (userRepository_GetByUsername r) (uu_username req) (usr_username a) i s2")
    have s3: "valid (fst s3)" "rows (fst s3) = rows (fst s)"
      using taken_frame [OF s2(1) GetByUsername_frame t2] s2 by auto
    obtain w s4 where u: "userRepository_Update r (apply_user_update req a) s3 = (w, s4)"
      by (cases "userRepository_Update r (apply_user_update req a) s3")
    have up: "valid (fst s4) \<and> (case w of Inl e \<Rightarrow> rows (fst s4) = rows (fst s3)
      | Inr u' \<Rightarrow> same_content (apply_user_update req a) u' \<and> rows (fst s4) = (rows (fst s3))(i := Some u'))"
      using Update_rows [OF s3(1) _ _ u] a b s3(2) by (cases w) simp_all
    show ?thesis
    proof (cases "t1 \<or> t2")
      case True
      with assms(2) g Inr t1 t2 s2 s3 show ?thesis by (cases t1; cases t2) (auto simp: UpdateUser_def)
    next
      case False
      then have run: "x = map_sum id NewUserResponse w" "s' = s4"
        using assms(2) g Inr t1 t2 u by (auto simp: UpdateUser_def split: sum.splits)
      show ?thesis
      proof (cases w)
        case (Inl e)
        with run up s3 show ?thesis by auto
      next
        case (Inr u')
        with up s3(2) have "valid (fst s4)" "same_content (apply_user_update req a) u'"
          "rows (fst s4) = (rows (fst s))(i := Some u')" by simp_all
        moreover have "x = Inr (NewUserResponse u')" using run Inr by simp
        moreover obtain a' where "a' = b \<or> urc_cache r \<noteq> None \<and> a' = strip_user b" "same_content a' a"
          using b(2) by (metis same_content_refl)
        moreover from this(2) have "same_content (apply_user_update req a') (apply_user_update req a)"
          by (rule apply_same_content)
        ultimately show ?thesis using b(1) run(2) same_content_trans by (auto split: sum.splits) blast+
      qed
    qed
  qed
qed

lemma ChangePassword_spec:
  assumes "uinv s" "bcrypt_laws (ue_bcrypt env)"
    "ChangePassword env (NewUserRepository r) i req s = (x, s')"
  shows "valid (fst s') \<and> (case x of
      Inl e \<Rightarrow> rows (fst s') = rows (fst s)
    | Inr _ \<Rightarrow> \<exists>b u. rows (fst s) i = Some b \<and> CheckPasswordHash (ue_bcrypt env) (cp_current req) (usr_password b) \<and>
        CheckPasswordHash (ue_bcrypt env) (cp_new req) (usr_password u) \<and> 8 \<le> length (cp_new req) \<and>
        same_content (b\<lparr>usr_password := usr_password u\<rparr>) u \<and> rows (fst s') = (rows (fst s))(i := Some u))"
proof -
  have v: "valid (fst s)" by (rule uinv_valid [OF assms(1)])
  show ?thesis
  proof (cases "cp_current req = [] \<or> cp_new req = [] \<or> length (cp_new req) < PasswordMinLength")
    case True
    with assms(3) v show ?thesis by (auto simp: ChangePassword_def split: if_splits)
  next
    case ok: False
    obtain y s1 where g: "userRepository_GetByID r i s = (y, s1)" by (cases "userRepository_GetByID r i s")
    have s1: "valid (fst s1)" "rows (fst s1) = rows (fst s)" using GetByID_frame [OF v g] by auto
    show ?thesis
    proof (cases "\<exists>a h. y = Inr a \<and> CheckPasswordHash (ue_bcrypt env) (cp_current req) (usr_password a) \<and>
        HashPassword (ue_bcrypt env) (ue_salt env) (cp_new req) = Inr h")
      case False
      with assms(3) ok g s1 show ?thesis by (auto simp: ChangePassword_def split: sum.splits if_splits)
    next
      case True
      then obtain a h where a: "y = Inr a" and c: "CheckPasswordHash (ue_bcrypt env) (cp_current req) (usr_password a)"
        and h: "HashPassword (ue_bcrypt env) (ue_salt env) (cp_new req) = Inr h" by blast
      with GetByID_spec [OF assms(1) g] obtain b where
        b: "rows (fst s) i = Some b" "a = b \<or> same_content (strip_user b) a" by auto
      have "\<not> same_content (strip_user b) a"
        using c empty_hash_fails [OF assms(2)] by (cases a; cases b) (auto simp: strip_user_def same_content_def)
      with b have a2: "a = b" by blast
      obtain w s2 where u: "userRepository_Update r (b\<lparr>usr_password := h\<rparr>) s1 = (w, s2)"
        by (cases "userRepository_Update r (b\<lparr>usr_password := h\<rparr>) s1")
      have up: "valid (fst s2) \<and> (case w of Inl e \<Rightarrow> rows (fst s2) = rows (fst s1)
        | Inr u' \<Rightarrow> same_content (b\<lparr>usr_password := h\<rparr>) u' \<and> rows (fst s2) = (rows (fst s1))(i := Some u'))"
        using Update_rows [OF s1(1) _ _ u] b s1(2) db.rows_id [OF v b(1)] db.rows_live [OF v b(1)]
        by (cases w) simp_all
      have run: "x = map_sum id (\<lambda>_. ()) w" "s' = s2"
        using assms(3) ok g a a2 c h u by (auto simp: ChangePassword_def split: sum.splits)
      show ?thesis
      proof (cases w)
        case (Inl e)
        with run up s1 show ?thesis by auto
      next
        case (Inr u')
        have "usr_password u' = h"
          using up Inr by (cases u'; cases b) (auto simp: same_content_def)
        with run up Inr s1(2) b c a2 hash_checks [OF assms(2) h] ok show ?thesis by auto
      qed
    qed
  qed
qed

lemma DeleteUser_spec:
  assumes "uinv s" "DeleteUser (NewUserRepository r) i s = (x, s')"
  shows "valid (fst s') \<and> (case x of
      Inl e \<Rightarrow> rows (fst s') = rows (fst s)
    | Inr _ \<Rightarrow> rows (fst s) i \<noteq> None \<and> rows (fst s') = (rows (fst s))(i := None))"
proof -
  have v: "valid (fst s)" by (rule uinv_valid [OF assms(1)])
  obtain y s1 where g: "userRepository_GetByID r i s = (y, s1)" by (cases "userRepository_GetByID r i s")
  have s1: "valid (fst s1)" "rows (fst s1) = rows (fst s)" using GetByID_frame [OF v g] by auto
  obtain z s2 where g2: "userRepository_GetByID r i s1 = (z, s2)" by (cases "userRepository_GetByID r i s1")
  have s2: "valid (fst s2)" "rows (fst s2) = rows (fst s)" using GetByID_frame [OF s1(1) g2] s1 by auto
  let ?q = "q_where ''id = ?'' [AUuid i] q_all"
  obtain w d where d: "g_delete (urc_db r) ?q (fst s2) = (w, d)" by (cases "g_delete (urc_db r) ?q (fst s2)")
  have del: "valid d \<and> (case w of Inl e \<Rightarrow> rows d = rows (fst s2) | Inr _ \<Rightarrow> rows d = (rows (fst s2))(i := None))"
  proof (cases w)
    case (Inl e)
    with db.delete_err [OF s2(1)] d show ?thesis by auto
  next
    case (Inr u)
    with db.delete_ok [OF s2(1)] d have ok: "valid d" "rows d = (\<lambda>j. case rows (fst s2) j of None \<Rightarrow> None
        | Some b \<Rightarrow> if sat_all user_sat ?q b then None else Some b)" by auto
    have "rows d j = ((rows (fst s2))(i := None)) j" for j
      using ok(2) db.rows_id [OF s2(1), of j] by (cases "rows (fst s2) j") auto
    with ok Inr show ?thesis by auto
  qed
  have "rows (fst s) i \<noteq> None" if "y = Inr a" for a
    using GetByID_spec [OF assms(1) g] that by auto
  with assms(2) g g2 d del s1 s2 show ?thesis
    by (auto simp: DeleteUser_def userRepository_Delete_def split: sum.splits)
qed

lemma Login_spec:
  assumes "valid (fst s)" "Login env (user_module r jl k ae re) req s = (x, s')"
  shows "valid (fst s') \<and> dom (rows (fst s')) = dom (rows (fst s)) \<and> (case x of
      Inl e \<Rightarrow> True
    | Inr t \<Rightarrow> \<exists>u u'. rows (fst s) (base_id u) = Some u \<and>
        (usr_username u = ul_name req \<or> usr_email u = ul_name req) \<and>
        CheckPasswordHash (ue_bcrypt env) (ul_password req) (usr_password u) \<and>
        user_token env (user_module r jl k ae re) u = Inr (tr_access t) \<and>
        tr_refresh t = GenerateRandomString (ue_random env) 32 \<and> tr_user t = Some (NewUserResponse u) \<and>
        rows (fst s') = (rows (fst s))(base_id u := Some u') \<and>
        usr_refresh u' = tr_refresh t \<and> usr_refresh_exp u' = ue_now_refresh env + re \<and>
        usr_password u' = usr_password u \<and> usr_role u' = usr_role u)"
proof -
  let ?sv = "user_module r jl k ae re" and ?tok = "GenerateRandomString (ue_random env) 32"
  let ?ex = "ue_now_refresh env + re"
  obtain y s1 where g: "userRepository_GetByUsernameOrEmail r (ul_name req) s = (y, s1)"
    by (cases "userRepository_GetByUsernameOrEmail r (ul_name req) s")
  note g1 = ByUsernameOrEmail_spec [OF assms(1) g]
  show ?thesis
  proof (cases "\<exists>u. y = Inr u \<and> CheckPasswordHash (ue_bcrypt env) (ul_password req) (usr_password u)")
    case False
    with assms(2) g g1 show ?thesis by (auto simp: Login_def split: sum.splits if_splits)
  next
    case True
    then obtain u where u: "y = Inr u" "CheckPasswordHash (ue_bcrypt env) (ul_password req) (usr_password u)" by blast
    have row: "rows (fst s1) (base_id u) = Some u" and nm: "usr_username u = ul_name req \<or> usr_email u = ul_name req"
      and s1: "valid (fst s1)" "rows (fst s1) = rows (fst s)" using g1 u by auto
    obtain l s2 where l: "userRepository_UpdateLastLogin r (base_id u) (ue_now_login env) s1 = (l, s2)"
      by (cases "userRepository_UpdateLastLogin r (base_id u) (ue_now_login env) s1")
    obtain u2 where s2: "valid (fst s2)" "\<forall>j. j \<noteq> base_id u \<longrightarrow> rows (fst s2) j = rows (fst s) j"
      "rows (fst s2) (base_id u) = Some u2" "u2 = u \<or> same_content (u\<lparr>usr_last_login := ue_now_login env\<rparr>) u2"
      using UpdateLastLogin_rows [OF s1(1) l] row s1(2) by auto
    have keep: "usr_password u2 = usr_password u \<and> usr_role u2 = usr_role u"
      using s2(4) by (cases u2; cases u) (auto simp: same_content_def)
    have dom2: "dom (rows (fst s2)) = dom (rows (fst s))"
      using s2(2,3) row s1(2) by (auto simp: dom_def) metis+
    show ?thesis
    proof (cases "user_token env ?sv u")
      case (Inl e)
      with assms(2) g u l s2 dom2 show ?thesis by (auto simp: Login_def)
    next
      case tok: (Inr access)
      obtain w s3 where st: "authRepository_StoreRefreshToken r (base_id u) ?tok ?ex s2 = (w, s3)"
        by (cases "authRepository_StoreRefreshToken r (base_id u) ?tok ?ex s2")
      note s3 = StoreRefreshToken_rows [OF s2(1) st]
      show ?thesis
      proof (cases w)
        case (Inl e)
        with assms(2) g u l tok st s3 dom2 show ?thesis by (auto simp: Login_def Let_def)
      next
        case (Inr v)
        with s3 s2(3) obtain u3 where u3: "rows (fst s3) (base_id u) = Some u3"
          "same_content (u2\<lparr>usr_refresh := ?tok, usr_refresh_exp := ?ex\<rparr>) u3"
          and other: "\<forall>j. j \<noteq> base_id u \<longrightarrow> rows (fst s3) j = rows (fst s) j"
          using s2(2) by auto
        have f: "usr_refresh u3 = ?tok \<and> usr_refresh_exp u3 = ?ex \<and> usr_password u3 = usr_password u2 \<and>
            usr_role u3 = usr_role u2"
          using u3(2) by (cases u3; cases u2) (auto simp: same_content_def)
        have upd: "rows (fst s3) = (rows (fst s))(base_id u := Some u3)"
          using u3(1) other by (auto simp: fun_eq_iff)
        then have "dom (rows (fst s3)) = dom (rows (fst s))" using row s1(2) by auto
        moreover have "x = Inr \<lparr>tr_access = access, tr_refresh = ?tok, tr_type = TokenTypBearer,
            tr_expires_in = expires_in ae, tr_user = Some (NewUserResponse u)\<rparr>" "s' = s3"
          using assms(2) g u l tok st Inr by (auto simp: Login_def Let_def)
        ultimately show ?thesis
          using s3 upd f keep row s1(2) nm u(2) tok by (simp, intro exI [of _ u] conjI exI [of _ u3]) auto
      qed
    qed
  qed
qed

lemma RefreshToken_spec:
  assumes "valid (fst s)" "RefreshToken env (user_module r jl k ae re) tok now s = (x, s')"
  shows "valid (fst s') \<and> (case x of
      Inl e \<Rightarrow> rows (fst s') = rows (fst s)
    | Inr t \<Rightarrow> \<exists>u. rows (fst s) (base_id u) = Some u \<and> usr_refresh u = tok \<and> now < usr_refresh_exp u \<and>
        user_token env (user_module r jl k ae re) u = Inr (tr_access t) \<and>
        (tr_refresh t = [] \<and> rows (fst s') = rows (fst s) \<or>
         tr_refresh t = GenerateRandomString (ue_random env) 32 \<and>
         (\<exists>u'. rows (fst s') = (rows (fst s))(base_id u := Some u') \<and> usr_refresh u' = tr_refresh t \<and>
            usr_refresh_exp u' = ue_now_refresh env + re \<and> usr_password u' = usr_password u)))"
proof -
  let ?sv = "user_module r jl k ae re" and ?tok = "GenerateRandomString (ue_random env) 32"
  let ?ex = "ue_now_refresh env + re"
  obtain y s1 where g: "authRepository_GetUserByRefreshToken r tok now s = (y, s1)"
    by (cases "authRepository_GetUserByRefreshToken r tok now s")
  note g1 = ByRefreshToken_spec [OF assms(1) g]
  show ?thesis
  proof (cases "\<exists>u a. y = Inr u \<and> user_token env ?sv u = Inr a")
    case False
    with assms(2) g g1 show ?thesis by (auto simp: RefreshToken_def split: sum.splits)
  next
    case True
    then obtain u a where u: "y = Inr u" "user_token env ?sv u = Inr a" by blast
    have row: "rows (fst s) (base_id u) = Some u" "usr_refresh u = tok" "now < usr_refresh_exp u"
      and s1: "valid (fst s1)" "rows (fst s1) = rows (fst s)" using g1 u by auto
    obtain w s2 where st: "authRepository_StoreRefreshToken r (base_id u) ?tok ?ex s1 = (w, s2)"
      by (cases "authRepository_StoreRefreshToken r (base_id u) ?tok ?ex s1")
    note s2 = StoreRefreshToken_rows [OF s1(1) st]
    show ?thesis
    proof (cases w)
      case (Inl e)
      with assms(2) g u st s2 s1 row show ?thesis
        by (auto simp: RefreshToken_def Let_def intro!: exI [of _ u])
    next
      case (Inr v)
      with s2 row s1(2) obtain u' where u': "rows (fst s2) (base_id u) = Some u'"
        "same_content (u\<lparr>usr_refresh := ?tok, usr_refresh_exp := ?ex\<rparr>) u'"
        and other: "\<forall>j. j \<noteq> base_id u \<longrightarrow> rows (fst s2) j = rows (fst s) j" by auto
      have f: "usr_refresh u' = ?tok \<and> usr_refresh_exp u' = ?ex \<and> usr_password u' = usr_password u"
        using u'(2) by (cases u'; cases u) (auto simp: same_content_def)
      have upd: "rows (fst s2) = (rows (fst s))(base_id u := Some u')"
        using u'(1) other by (auto simp: fun_eq_iff)
      have x: "x = Inr \<lparr>tr_access = a, tr_refresh = ?tok, tr_type = TokenTypBearer,
          tr_expires_in = expires_in ae, tr_user = None\<rparr>" "s' = s2"
        using assms(2) g u st Inr by (auto simp: RefreshToken_def Let_def)
      show ?thesis using upd f row u(2) s2 x by (simp, intro exI [of _ u]) auto
    qed
  qed
qed

end

section \<open>The concrete backend\<close>

definition mem_user_conf :: "(user list, string \<rightharpoonup> json) user_repo_conf" where
  "mem_user_conf =
     \<lparr>urc_uuid = unary_uuid,
      urc_db = mem_api (\<lambda>a b. usr_email a = usr_email b \<or> usr_username a = usr_username b) user_sat user_assign,
      urc_cache = Some mem_redis\<rparr>"

lemma mem_user_conf_simps [simp]:
  "urc_uuid mem_user_conf = unary_uuid"
  "urc_db mem_user_conf =
     mem_api (\<lambda>a b. usr_email a = usr_email b \<or> usr_username a = usr_username b) user_sat user_assign"
  "urc_cache mem_user_conf = Some mem_redis"
  by (simp_all add: mem_user_conf_def)

lemma mem_user_backend: "user_backend mem_user_conf mem_rows mem_valid (\<lambda>c. c)"
proof (intro user_backend.intro cached_table.intro)
  show "gorm_store (urc_db mem_user_conf) mem_rows mem_valid user_sat"
    using mem_gorm_store by simp
  show "reliable_cache (urc_cache mem_user_conf) (\<lambda>c. c)"
    using mem_redis_reliable by simp
  show "cached_table_axioms (user_id_key (urc_uuid mem_user_conf)) marshal_user unmarshal_user strip_user"
    by unfold_locales (simp_all add: user_id_key_inj unary_uuid_laws user_json_roundtrip)
  show "gorm_update_store (urc_db mem_user_conf) mem_rows mem_valid user_sat user_assign"
    using mem_update_store [of user_assign] by simp
  show "user_backend_axioms mem_user_conf"
    by unfold_locales (simp add: unary_uuid_laws)
qed

interpretation memuser: user_backend mem_user_conf mem_rows mem_valid "\<lambda>c. c"
  by (rule mem_user_backend)

end
