(* ===== verification/UserSteps.thy ===== *)
theory UserSteps
  imports UserBackend
begin

text \<open>
  What each operation of the user and auth services leaves of the invariant \<open>user_inv\<close> and of the
  accounts: the relation \<open>keeps\<close>. First the repository methods, then the services.
\<close>

section \<open>The repositories\<close>

text \<open>Every account of the second table is one of the first with its profile, or an active member.\<close>

definition accounts_kept :: "user_map \<Rightarrow> user_map \<Rightarrow> bool" where
  "accounts_kept m m' \<longleftrightarrow> (\<forall>i u'. m' i = Some u' \<longrightarrow>
     (\<exists>u. m i = Some u \<and> user_profile u' = user_profile u) \<or>
     usr_role u' = RoleMember \<and> usr_status u' = UserStatusActive)"

lemma accounts_kept_refl [simp]: "accounts_kept m m"
  by (simp add: accounts_kept_def)

lemma accounts_kept_trans:
  assumes "accounts_kept m m'" "accounts_kept m' m''"
  shows "accounts_kept m m''"
  unfolding accounts_kept_def
proof (intro allI impI)
  fix i u assume u: "m'' i = Some u"
  show "(\<exists>b. m i = Some b \<and> user_profile u = user_profile b) \<or>
      usr_role u = RoleMember \<and> usr_status u = UserStatusActive"
  proof (cases "usr_role u = RoleMember \<and> usr_status u = UserStatusActive")
    case False
    with assms(2) u obtain u1 where u1: "m' i = Some u1" "user_profile u = user_profile u1"
      unfolding accounts_kept_def by blast
    from this(2) have "usr_role u = usr_role u1" "usr_status u = usr_status u1"
      by (simp_all add: user_profile_def)
    with False assms(1) u1 show ?thesis unfolding accounts_kept_def by metis
  qed simp
qed

lemma accounts_kept_update:
  assumes "m i = Some b" "user_profile u = user_profile b"
  shows "accounts_kept m (m(i := Some u))"
  using assms by (auto simp: accounts_kept_def)

lemma accounts_kept_delete: "accounts_kept m (m(i := None))"
  by (auto simp: accounts_kept_def)

lemma accounts_kept_member:
  "usr_role u = RoleMember \<Longrightarrow> usr_status u = UserStatusActive \<Longrightarrow> accounts_kept m (m(i := Some u))"
  by (auto simp: accounts_kept_def)

text \<open>Column maps of the session bookkeeping: nothing changes that the cached form shows.\<close>

definition session_cols :: "(string \<times> sqlarg) list \<Rightarrow> bool" where
  "session_cols cols \<longleftrightarrow> (\<forall>u. strip_user (user_assign cols u) = strip_user u)"

lemma session_cols_refresh:
  "session_cols [(''refresh_token'', AStr t), (''refresh_token_exp'', ATime e)]"
  by (simp add: session_cols_def user_assign_def)

context user_backend
begin

lemma updates_uinv:
  assumes "uinv (d, c)" "session_cols cols" "g_updates (urc_db r) q cols d = (x, d')"
  shows "uinv (d', c) \<and> accounts_kept (rows d) (rows d')"
proof (cases x)
  case (Inl e)
  have "valid d' \<and> rows d' = rows d"
    by (rule upd.updates_err [of _ q cols e]) (use assms Inl in \<open>auto simp: user_inv_def\<close>)
  with uinv_frame [OF assms(1)] show ?thesis by simp
next
  case (Inr y)
  have ok: "valid d'" "dom (rows d') = dom (rows d)"
    and all: "\<And>i b. rows d i = Some b \<Longrightarrow> \<exists>b'. rows d' i = Some b' \<and>
         (if sat_all user_sat q b then same_content (user_assign cols b) b' else b' = b)"
    using upd.updates_ok [of d q cols y d'] assms Inr by (auto simp: user_inv_def)
  have same: "same_content (strip_user b) (strip_user b')" if "rows d i = Some b" "rows d' i = Some b'" for i b b'
    using all [OF that(1)] that(2) same_content_strip [of "user_assign cols b" b'] assms(2)
    by (auto simp: session_cols_def split: if_splits)
  have "accounts_kept (rows d) (rows d')"
    unfolding accounts_kept_def
  proof (intro allI impI disjI1)
    fix i u' assume u': "rows d' i = Some u'"
    with ok(2) obtain u where "rows d i = Some u" by (metis domD domI)
    with same u' profile_same_strip show "\<exists>u. rows d i = Some u \<and> user_profile u' = user_profile u" by blast
  qed
  with uinv_session [OF assms(1) ok same] show ?thesis by simp
qed

lemma refresh_cols_uinv:
  assumes "uinv s" "g_updates (urc_db r) q [(''refresh_token'', AStr t), (''refresh_token_exp'', ATime e)] (fst s) = (x, d')"
  shows "uinv (d', snd s) \<and> accounts_kept (rows (fst s)) (rows d')"
  using updates_uinv [OF _ session_cols_refresh assms(2), of "snd s"] assms(1) by simp

lemma StoreRefreshToken_uinv:
  "uinv s \<Longrightarrow> authRepository_StoreRefreshToken r i tok ex s = (x, s') \<Longrightarrow>
   uinv s' \<and> accounts_kept (rows (fst s)) (rows (fst s'))"
  by (auto simp: authRepository_StoreRefreshToken_def dest: refresh_cols_uinv split: prod.splits)

lemma RevokeRefreshToken_uinv:
  "uinv s \<Longrightarrow> authRepository_RevokeRefreshToken r i now s = (x, s') \<Longrightarrow>
   uinv s' \<and> accounts_kept (rows (fst s)) (rows (fst s'))"
  by (auto simp: authRepository_RevokeRefreshToken_def dest: refresh_cols_uinv split: prod.splits)

lemma CleanupExpiredTokens_uinv:
  "uinv s \<Longrightarrow> authRepository_CleanupExpiredTokens r now1 now2 s = (x, s') \<Longrightarrow>
   uinv s' \<and> accounts_kept (rows (fst s)) (rows (fst s'))"
  by (auto simp: authRepository_CleanupExpiredTokens_def dest: refresh_cols_uinv split: prod.splits)

lemma UpdateLastLogin_uinv:
  assumes "uinv s" "userRepository_UpdateLastLogin r i now s = (x, s')"
  shows "uinv s' \<and> accounts_kept (rows (fst s)) (rows (fst s'))"
proof -
  let ?q = "q_where ''id = ?'' [AUuid i] q_all" and ?cols = "[(''last_login'', ATime now)]"
  have v: "valid (fst s)" by (rule uinv_valid [OF assms(1)])
  obtain y d where g: "g_updates (urc_db r) ?q ?cols (fst s) = (y, d)"
    by (cases "g_updates (urc_db r) ?q ?cols (fst s)")
  note up = updates_by_id [OF v g]
  show ?thesis
  proof (cases y)
    case (Inl e)
    with up assms g uinv_frame [of "fst s" "snd s"] show ?thesis
      by (auto simp: userRepository_UpdateLastLogin_def)
  next
    case (Inr z)
    with up have ok: "valid d" "\<forall>j. j \<noteq> i \<longrightarrow> rows d j = rows (fst s) j" by auto
    have x: "x = Inr ()" and s': "s' = (d, invalidate_all (urc_cache r) [user_id_key (urc_uuid r) i] (snd s))"
      using assms(2) g Inr by (auto simp: userRepository_UpdateLastLogin_def)
    have upd: "rows d = (rows (fst s))(i := rows d i)" using ok(2) by (auto simp: fun_eq_iff)
    have kept: "accounts_kept (rows (fst s)) (rows d)"
      unfolding accounts_kept_def
    proof (intro allI impI disjI1)
      fix j u' assume u': "rows d j = Some u'"
      show "\<exists>u. rows (fst s) j = Some u \<and> user_profile u' = user_profile u"
      proof (cases "j = i")
        case False
        with ok(2) u' show ?thesis by auto
      next
        case True
        have dm: "dom (rows d) = dom (rows (fst s))" using upd.updates_ok [OF v] g Inr by blast
        then obtain u where u: "rows (fst s) i = Some u" using u' True by (metis domD domI)
        with up Inr u' True have "same_content (user_assign ?cols u) u'" by fastforce
        then have "user_profile u' = user_profile u"
          using profile_same_content by (fastforce simp: user_assign_def user_profile_def)
        with u True show ?thesis by blast
      qed
    qed
    have "uinv s'" unfolding s' by (rule uinv_write [of "fst s" "snd s", OF _ ok(1) upd]) (use assms(1) in auto)
    with kept s' show ?thesis by simp
  qed
qed

text \<open>A step that keeps the invariant and the accounts.\<close>

definition keeps :: "'d \<times> 'c \<Rightarrow> 'd \<times> 'c \<Rightarrow> bool" where
  "keeps s s' \<longleftrightarrow> uinv s' \<and> accounts_kept (rows (fst s)) (rows (fst s'))"

lemma keeps_refl: "uinv s \<Longrightarrow> keeps s s"
  by (simp add: keeps_def)

lemma keeps_trans: "keeps s t \<Longrightarrow> keeps t u \<Longrightarrow> keeps s u"
  unfolding keeps_def using accounts_kept_trans by blast

lemma keeps_uinv: "keeps s s' \<Longrightarrow> uinv s'"
  by (simp add: keeps_def)

lemma GetByID_keeps: "uinv s \<Longrightarrow> userRepository_GetByID r i s = (x, s') \<Longrightarrow> keeps s s'"
  using GetByID_spec by (simp add: keeps_def)

lemma GetByEmail_keeps: "uinv s \<Longrightarrow> not_id n \<Longrightarrow> userRepository_GetByEmail r n s = (x, s') \<Longrightarrow> keeps s s'"
  using GetByEmail_uinv by (simp add: keeps_def)

lemma GetByUsername_keeps: "uinv s \<Longrightarrow> not_id n \<Longrightarrow> userRepository_GetByUsername r n s = (x, s') \<Longrightarrow> keeps s s'"
  using GetByUsername_uinv by (simp add: keeps_def)

lemma keeps_frame:
  "uinv s \<Longrightarrow> valid d' \<Longrightarrow> rows d' = rows (fst s) \<Longrightarrow> view c' \<subseteq>\<^sub>m view (snd s) \<Longrightarrow> keeps s (d', c')"
  using uinv_frame [of "fst s" "snd s"] by (simp add: keeps_def)

lemma ByUsernameOrEmail_keeps:
  "uinv s \<Longrightarrow> userRepository_GetByUsernameOrEmail r n s = (x, s') \<Longrightarrow> keeps s s'"
  using ByUsernameOrEmail_spec [OF uinv_valid] keeps_frame by (cases s') fastforce

lemma ByRefreshToken_keeps:
  assumes "uinv s" "authRepository_GetUserByRefreshToken r tok now s = (x, s')"
  shows "keeps s s'"
proof -
  have "snd s' = snd s" using assms(2) by (auto simp: authRepository_GetUserByRefreshToken_def split: prod.splits)
  with ByRefreshToken_spec [OF uinv_valid [OF assms(1)] assms(2)] keeps_frame [OF assms(1), of "fst s'" "snd s'"]
  show ?thesis by (metis map_le_refl prod.collapse)
qed

lemma List_keeps:
  assumes "uinv s" "userRepository_List r f s = (x, s')"
  shows "keeps s s'"
proof -
  obtain n d1 where c: "g_count (urc_db r) (user_list_where f) (fst s) = (n, d1)"
    by (cases "g_count (urc_db r) (user_list_where f) (fst s)")
  obtain us d2 where f: "g_find (urc_db r) (user_list_query f) d1 = (us, d2)"
    by (cases "g_find (urc_db r) (user_list_query f) d1")
  note v = uinv_valid [OF assms(1)]
  note c1 = db.count_frame [OF v c] and f1 = db.find_frame [OF _ f]
  with keeps_frame [OF assms(1)] c f assms(2) show ?thesis
    by (auto simp: userRepository_List_def split: sum.splits)
qed

lemma StoreRefreshToken_keeps:
  "uinv s \<Longrightarrow> authRepository_StoreRefreshToken r i tok ex s = (x, s') \<Longrightarrow> keeps s s'"
  using StoreRefreshToken_uinv by (simp add: keeps_def)

lemma RevokeRefreshToken_keeps:
  "uinv s \<Longrightarrow> authRepository_RevokeRefreshToken r i now s = (x, s') \<Longrightarrow> keeps s s'"
  unfolding keeps_def by (rule RevokeRefreshToken_uinv)

lemma CleanupExpiredTokens_keeps:
  "uinv s \<Longrightarrow> authRepository_CleanupExpiredTokens r now1 now2 s = (x, s') \<Longrightarrow> keeps s s'"
  unfolding keeps_def by (rule CleanupExpiredTokens_uinv)

lemma UpdateLastLogin_keeps:
  "uinv s \<Longrightarrow> userRepository_UpdateLastLogin r i now s = (x, s') \<Longrightarrow> keeps s s'"
  using UpdateLastLogin_uinv by (simp add: keeps_def)

text \<open>The blacklist lives under keys of its own.\<close>

lemma StoreTokenInBlacklist_keeps:
  assumes "uinv s" "authRepository_StoreTokenInBlacklist r tok left s = (x, s')"
  shows "keeps s s'"
proof (cases "urc_cache r")
  case None
  with assms show ?thesis by (simp add: authRepository_StoreTokenInBlacklist_def keeps_def)
next
  case (Some cl)
  obtain y c where g: "rc_set cl (blacklist_key tok) (marshal_bool True) left (snd s) = (y, c)"
    by (cases "rc_set cl (blacklist_key tok) (marshal_bool True) left (snd s)")
  have s': "s' = (fst s, c)"
    using assms(2) Some g
    by (auto simp: authRepository_StoreTokenInBlacklist_def Redis_Set_def wrap_err_def split: prod.splits sum.splits)
  have "user_cached (urc_uuid r) (rows (fst s)) (view c)"
    using assms(1) Some ch.set_frame [OF Some g]
    by (fastforce simp: user_inv_def user_cached_def user_id_key_def)
  with assms(1) Some s' show ?thesis by (simp add: keeps_def user_inv_def)
qed

lemma IsTokenBlacklisted_keeps:
  assumes "uinv s" "authRepository_IsTokenBlacklisted r tok s = (x, s')"
  shows "keeps s s'"
proof (cases "urc_cache r")
  case None
  with assms show ?thesis by (auto simp: authRepository_IsTokenBlacklisted_def keeps_def)
next
  case (Some cl)
  obtain y c where g: "rc_get cl (blacklist_key tok) (snd s) = (y, c)" by (cases "rc_get cl (blacklist_key tok) (snd s)")
  have "s' = (fst s, c)"
    using assms(2) Some g
    by (auto simp: authRepository_IsTokenBlacklisted_def Redis_Get_def split: sum.splits if_splits)
  with keeps_frame [OF assms(1) uinv_valid [OF assms(1)] refl ch.get_frame [OF Some g]] show ?thesis by simp
qed

section \<open>The services\<close>

lemma add_user_uinv:
  assumes "uinv s" "ue_new_uuid env \<noteq> uuid_Nil" "not_id email" "not_id username"
    "add_user env (NewUserRepository r) email username pw fname lname role phone address s = (x, s')"
  shows "uinv s' \<and> (role = RoleMember \<longrightarrow> keeps s s')"
proof -
  obtain y s1 where g1: "userRepository_GetByEmail r email s = (y, s1)" by (cases "userRepository_GetByEmail r email s")
  note k1 = GetByEmail_keeps [OF assms(1,3) g1]
  obtain z s2 where g2: "userRepository_GetByUsername r username s1 = (z, s2)" by (cases "userRepository_GetByUsername r username s1")
  note k2 = keeps_trans [OF k1 GetByUsername_keeps [OF keeps_uinv [OF k1] assms(4) g2]]
  let ?h = "HashPassword (ue_bcrypt env) (ue_salt env) pw"
  show ?thesis
  proof (cases "\<exists>e e' h. y = Inl e \<and> z = Inl e' \<and> ?h = Inr h")
    case False
    with assms(5) g1 g2 k1 k2 keeps_uinv show ?thesis by (auto simp: add_user_def split: sum.splits)
  next
    case True
    then obtain e e' h where h: "y = Inl e" "z = Inl e'" "?h = Inr h" by blast
    define u where "u = (NewUser (ue_new_uuid env) email username h fname lname role)
      \<lparr>usr_phone := phone, usr_address := address\<rparr>"
    have u: "base_id u = ue_new_uuid env" "deleted_at u = None" "usr_status u = UserStatusActive"
      "usr_role u = (if role = [] then RoleMember else role)" by (simp_all add: u_def NewUser_def)
    have shape: "(let u = NewUser (ue_new_uuid env) email username h fname lname role;
          u1 = (if phone \<noteq> [] then u\<lparr>usr_phone := phone\<rparr> else u)
        in if address \<noteq> [] then u1\<lparr>usr_address := address\<rparr> else u1) = u"
      by (simp add: u_def NewUser_def Let_def)
    obtain w s3 where c: "userRepository_Create r u s2 = (w, s3)" by (cases "userRepository_Create r u s2")
    have s3: "s' = s3"
      using assms(5) g1 g2 h c shape by (auto simp: add_user_def Let_def split: sum.splits if_splits)
    have nil: "base_id u \<noteq> uuid_Nil" using assms(2) u by simp
    note cu = Create_uinv [OF keeps_uinv [OF k2] nil u(2) c]
    have "keeps s2 s3" if "role = RoleMember"
    proof (cases w)
      case (Inl e)
      with Create_rows [OF uinv_valid [OF keeps_uinv [OF k2]] nil u(2) c] cu show ?thesis by (simp add: keeps_def)
    next
      case (Inr u')
      with Create_rows [OF uinv_valid [OF keeps_uinv [OF k2]] nil u(2) c]
      have cr: "same_content u u'" "rows (fst s3) = (rows (fst s2))(base_id u := Some u')" by auto
      have "usr_role u' = RoleMember" "usr_status u' = UserStatusActive"
        using profile_same_content [OF cr(1)] u(3,4) that by (auto simp: user_profile_def)
      with cr cu show ?thesis by (simp add: keeps_def accounts_kept_member)
    qed
    with cu s3 keeps_trans [OF k2] show ?thesis by blast
  qed
qed

lemma taken_uinv:
  assumes "uinv s" "\<And>n. nw = Some n \<Longrightarrow> not_id n"
    "\<And>n t x t'. uinv t \<Longrightarrow> not_id n \<Longrightarrow> get n t = (x, t') \<Longrightarrow> uinv t' \<and> rows (fst t') = rows (fst t)"
    "taken_by_other get nw old i s = (b, s')"
  shows "uinv s' \<and> rows (fst s') = rows (fst s)"
proof (cases "\<exists>n. nw = Some n \<and> n \<noteq> old")
  case True
  then obtain n where n: "nw = Some n" "n \<noteq> old" by blast
  obtain y t where g: "get n s = (y, t)" by (cases "get n s")
  with n assms(3) [OF assms(1) assms(2) [OF n(1)] g] assms(4) show ?thesis
    by (auto simp: taken_by_other_def split: sum.splits)
next
  case False
  with assms(1,4) show ?thesis by (auto simp: taken_by_other_def split: option.splits)
qed

lemma UpdateUser_uinv:
  assumes "uinv s" "\<And>n. uu_email req = Some n \<Longrightarrow> not_id n" "\<And>n. uu_username req = Some n \<Longrightarrow> not_id n"
    "UpdateUser (NewUserRepository r) i req s = (x, s')"
  shows "uinv s'"
proof -
  have v: "valid (fst s)" by (rule uinv_valid [OF assms(1)])
  obtain y s1 where g: "userRepository_GetByID r i s = (y, s1)" by (cases "userRepository_GetByID r i s")
  note gs = GetByID_spec [OF assms(1) g]
  show ?thesis
  proof (cases y)
    case (Inl e)
    with assms(4) g gs show ?thesis by (auto simp: UpdateUser_def)
  next
    case (Inr a)
    with gs obtain b where s1: "uinv s1" "rows (fst s1) = rows (fst s)"
      and b: "rows (fst s) i = Some b" "a = b \<or> same_content (strip_user b) a" by auto
    have a: "base_id a = i" "deleted_at a = None"
      using same_row [OF v b] by auto
    obtain t1 s2 where t1: "taken_by_other (userRepository_GetByEmail r) (uu_email req) (usr_email a) i s1 = (t1, s2)"
      by (cases "taken_by_other (userRepository_GetByEmail r) (uu_email req) (usr_email a) i s1")
    note s2 = taken_uinv [OF s1(1) assms(2) GetByEmail_uinv t1]
    obtain t2 s3 where t2: "taken_by_other (userRepository_GetByUsername r) (uu_username req) (usr_username a) i s2 = (t2, s3)"
      by (cases "taken_by_other (userRepository_GetByUsername r) (uu_username req) (usr_username a) i s2")
    note s3 = taken_uinv [OF conjunct1 [OF s2] assms(3) GetByUsername_uinv t2]
    obtain w s4 where u: "userRepository_Update r (apply_user_update req a) s3 = (w, s4)"
      by (cases "userRepository_Update r (apply_user_update req a) s3")
    have "uinv s4" by (rule Update_uinv [OF conjunct1 [OF s3] _ _ u]) (use a b s1 s2 s3 in auto)
    with assms(4) g Inr t1 t2 u s2 s3 show ?thesis
      by (auto simp: UpdateUser_def split: sum.splits bool.splits)
  qed
qed

lemma ChangePassword_keeps:
  assumes "uinv s" "ChangePassword env (NewUserRepository r) i req s = (x, s')"
  shows "keeps s s'"
proof -
  have v: "valid (fst s)" by (rule uinv_valid [OF assms(1)])
  obtain y s1 where g: "userRepository_GetByID r i s = (y, s1)" by (cases "userRepository_GetByID r i s")
  note k1 = GetByID_keeps [OF assms(1) g] and gs = GetByID_spec [OF assms(1) g]
  show ?thesis
  proof (cases "\<exists>a h. y = Inr a \<and> HashPassword (ue_bcrypt env) (ue_salt env) (cp_new req) = Inr h")
    case False
    with assms g k1 keeps_refl [OF assms(1)] show ?thesis
      by (auto simp: ChangePassword_def split: sum.splits if_splits)
  next
    case True
    then obtain a h where a: "y = Inr a" and h: "HashPassword (ue_bcrypt env) (ue_salt env) (cp_new req) = Inr h" by blast
    with gs obtain b where s1: "uinv s1" "rows (fst s1) = rows (fst s)"
      and b: "rows (fst s) i = Some b" "a = b \<or> same_content (strip_user b) a" by auto
    let ?u = "a\<lparr>usr_password := h\<rparr>"
    have u: "base_id ?u = i" "deleted_at ?u = None" "user_profile ?u = user_profile b"
      using same_row [OF v b] by (auto simp: user_profile_def)
    obtain w s2 where w: "userRepository_Update r ?u s1 = (w, s2)" by (cases "userRepository_Update r ?u s1")
    have row: "rows (fst s1) (base_id ?u) \<noteq> None" using s1(2) b(1) u(1) by simp
    note up = Update_rows [OF uinv_valid [OF s1(1)] row u(2) w]
    have "accounts_kept (rows (fst s1)) (rows (fst s2))"
    proof (cases w)
      case (Inl e)
      with up show ?thesis by simp
    next
      case (Inr u')
      with up have "same_content ?u u'" "rows (fst s2) = (rows (fst s1))(i := Some u')" using u(1) by auto
      with profile_same_content u(3) b(1) s1(2) show ?thesis
        by (metis accounts_kept_update)
    qed
    then have "keeps s1 s2" using Update_uinv [OF s1(1) row u(2) w] by (simp add: keeps_def)
    with assms(2) g a h w k1 keeps_refl [OF assms(1)] keeps_trans [OF k1] show ?thesis
      by (auto simp: ChangePassword_def split: sum.splits if_splits)
  qed
qed

lemma Delete_keeps:
  assumes "uinv s" "userRepository_Delete r i s = (x, s')"
  shows "keeps s s'"
proof -
  obtain y s1 where g: "userRepository_GetByID r i s = (y, s1)" by (cases "userRepository_GetByID r i s")
  note k = GetByID_keeps [OF assms(1) g]
  note i1 = keeps_uinv [OF k]
  let ?q = "q_where ''id = ?'' [AUuid i] q_all"
  obtain w d where d: "g_delete (urc_db r) ?q (fst s1) = (w, d)" by (cases "g_delete (urc_db r) ?q (fst s1)")
  show ?thesis
  proof (cases "\<exists>u. y = Inr u \<and> w = Inr ()")
    case False
    with db.delete_err [OF uinv_valid [OF i1]] keeps_frame [OF i1] keeps_trans [OF k] k assms(2) g d show ?thesis
      by (cases y; cases w) (auto simp: userRepository_Delete_def)
  next
    case True
    then obtain u where u: "y = Inr u" "w = Inr ()" by blast
    have ok: "valid d" "rows d = (\<lambda>j. case rows (fst s1) j of None \<Rightarrow> None
        | Some b \<Rightarrow> if sat_all user_sat ?q b then None else Some b)"
      using db.delete_ok [OF uinv_valid [OF i1], of ?q] d u(2) by auto
    have "rows d j = ((rows (fst s1))(i := None)) j" for j
      using ok(2) db.rows_id [OF uinv_valid [OF i1], of j] by (cases "rows (fst s1) j") auto
    then have upd: "rows d = (rows (fst s1))(i := None)" by blast
    have s': "s' = (d, invalidate_all (urc_cache r) (user_keys (urc_uuid r) i u) (snd s1))"
      using assms(2) g d u by (simp add: userRepository_Delete_def)
    have "uinv s'" unfolding s'
      by (rule uinv_write [of "fst s1" "snd s1", OF _ ok(1) upd]) (use i1 in \<open>auto simp: user_keys_def\<close>)
    then have "keeps s1 s'" using upd s' accounts_kept_delete by (simp add: keeps_def)
    then show ?thesis by (rule keeps_trans [OF k])
  qed
qed

lemma DeleteUser_keeps:
  assumes "uinv s" "DeleteUser (NewUserRepository r) i s = (x, s')"
  shows "keeps s s'"
proof -
  obtain y s1 where g: "userRepository_GetByID r i s = (y, s1)" by (cases "userRepository_GetByID r i s")
  note k = GetByID_keeps [OF assms(1) g]
  from k Delete_keeps [OF keeps_uinv [OF k]] keeps_trans [OF k] assms(2) g show ?thesis
    by (auto simp: DeleteUser_def split: sum.splits)
qed

lemma Login_keeps:
  assumes "uinv s" "Login env (user_module r jl k ae re) req s = (x, s')"
  shows "keeps s s'"
proof -
  let ?tok = "GenerateRandomString (ue_random env) 32" and ?ex = "ue_now_refresh env + re"
  obtain y s1 where g: "userRepository_GetByUsernameOrEmail r (ul_name req) s = (y, s1)"
    by (cases "userRepository_GetByUsernameOrEmail r (ul_name req) s")
  note k1 = ByUsernameOrEmail_keeps [OF assms(1) g]
  show ?thesis
  proof (cases y)
    case (Inl e)
    with assms(2) g k1 show ?thesis by (auto simp: Login_def)
  next
    case (Inr u)
    obtain l s2 where l: "userRepository_UpdateLastLogin r (base_id u) (ue_now_login env) s1 = (l, s2)"
      by (cases "userRepository_UpdateLastLogin r (base_id u) (ue_now_login env) s1")
    note k2 = keeps_trans [OF k1 UpdateLastLogin_keeps [OF keeps_uinv [OF k1] l]]
    obtain w s3 where st: "authRepository_StoreRefreshToken r (base_id u) ?tok ?ex s2 = (w, s3)"
      by (cases "authRepository_StoreRefreshToken r (base_id u) ?tok ?ex s2")
    note k3 = keeps_trans [OF k2 StoreRefreshToken_keeps [OF keeps_uinv [OF k2] st]]
    have "s' = s1 \<or> s' = s2 \<or> s' = s3"
      using assms(2) g Inr l st by (auto simp: Login_def Let_def split: if_splits sum.splits)
    with k1 k2 k3 show ?thesis by blast
  qed
qed

lemma RefreshToken_keeps:
  assumes "uinv s" "RefreshToken env (user_module r jl k ae re) tok now s = (x, s')"
  shows "keeps s s'"
proof -
  let ?tok = "GenerateRandomString (ue_random env) 32" and ?ex = "ue_now_refresh env + re"
  obtain y s1 where g: "authRepository_GetUserByRefreshToken r tok now s = (y, s1)"
    by (cases "authRepository_GetUserByRefreshToken r tok now s")
  note k1 = ByRefreshToken_keeps [OF assms(1) g]
  show ?thesis
  proof (cases y)
    case (Inl e)
    with assms(2) g k1 show ?thesis by (auto simp: RefreshToken_def)
  next
    case (Inr u)
    obtain w s2 where st: "authRepository_StoreRefreshToken r (base_id u) ?tok ?ex s1 = (w, s2)"
      by (cases "authRepository_StoreRefreshToken r (base_id u) ?tok ?ex s1")
    note k2 = keeps_trans [OF k1 StoreRefreshToken_keeps [OF keeps_uinv [OF k1] st]]
    have "s' = s1 \<or> s' = s2"
      using assms(2) g Inr st by (auto simp: RefreshToken_def Let_def split: sum.splits)
    with k1 k2 show ?thesis by blast
  qed
qed

lemma Logout_keeps:
  assumes "uinv s" "Logout (user_module r jl k ae re) tok now1 now2 now3 s = (x, s')"
  shows "keeps s s'"
proof (cases "JWT_ValidateToken (as_jwtAuth (user_module r jl k ae re)) tok now1")
  case (Inl e)
  with assms keeps_refl show ?thesis by (auto simp: Logout_def)
next
  case (Inr c)
  let ?left = "NumericDate (cl_expires c) - now2"
  define s1 where "s1 = (if 0 < ?left then snd (authRepository_StoreTokenInBlacklist r tok ?left s) else s)"
  have k1: "keeps s s1"
    using StoreTokenInBlacklist_keeps [OF assms(1), of tok ?left] keeps_refl [OF assms(1)]
    by (cases "authRepository_StoreTokenInBlacklist r tok ?left s") (auto simp: s1_def)
  have s': "s' = s1 \<or> (\<exists>i. s' = snd (authRepository_RevokeRefreshToken r i now3 s1))"
    using assms(2) Inr by (auto simp: Logout_def Let_def s1_def split: option.splits if_splits)
  have "keeps s (snd (authRepository_RevokeRefreshToken r i now3 s1))" for i
    by (cases "authRepository_RevokeRefreshToken r i now3 s1")
      (simp add: keeps_trans [OF k1 RevokeRefreshToken_keeps [OF keeps_uinv [OF k1]]])
  with k1 s' show ?thesis by blast
qed

lemma Auth_ValidateToken_keeps:
  "uinv s \<Longrightarrow> Auth_ValidateToken (user_module r jl k ae re) tok now s = (x, s') \<Longrightarrow> keeps s s'"
  by (cases "authRepository_IsTokenBlacklisted r tok s")
    (auto simp: Auth_ValidateToken_def dest: IsTokenBlacklisted_keeps split: if_splits sum.splits)

end

end
