(* ===== verification/UserProps.thy ===== *)
theory UserProps
  imports UserBackend
begin

text \<open>
  The properties of the user and auth services over their own repositories. The witnesses and the
  closed statements run the code on the list store with two users, the plain token library and
  the plain password stand-in.
\<close>

section \<open>Example data\<close>

definition demo_users :: "user list \<times> (string \<rightharpoonup> json)" where
  "demo_users =
     ([NewUser 1 ''ann@x.io'' ''ann'' ''#secret-one'' ''Ann'' ''Lee'' ''admin'',
       (NewUser 2 ''bob@x.io'' ''bob'' ''#secret-two'' ''Bob'' ''Ray'' ''member'')
         \<lparr>usr_status := UserStatusBlocked, usr_refresh := ''old-token'', usr_refresh_exp := 9000000000\<rparr>],
      Map.empty)"

definition demo_user_env :: user_env where
  "demo_user_env =
     \<lparr>ue_bcrypt = plain_bcrypt, ue_salt = 0, ue_new_uuid = 3, ue_random = (\<lambda>i. i), ue_now_login = 2000000000,
      ue_now_expires = 2000000000, ue_now_issued = 2000000000, ue_now_refresh = 2000000000,
      ue_now_check = 3000000000, ue_now_until = 3000000000, ue_now_revoke = 3000000000\<rparr>"

abbreviation demo_user_repo :: "(user list \<times> (string \<rightharpoonup> json)) user_repository" where
  "demo_user_repo \<equiv> NewUserRepository mem_user_conf"

abbreviation demo_module :: "(user list \<times> (string \<rightharpoonup> json)) auth_service_conf" where
  "demo_module \<equiv> user_module mem_user_conf plain_jwt ''secret'' 5000000000 60000000000"

abbreviation no_change :: user_update where
  "no_change \<equiv> \<lparr>uu_email = None, uu_username = None, uu_first = None, uu_last = None, uu_role = None,
     uu_status = None, uu_phone = None, uu_address = None\<rparr>"

abbreviation no_validation :: validator where
  "no_validation \<equiv> (\<lambda>_. None)"

lemma demo_users_inv: "user_inv mem_user_conf mem_rows mem_valid (\<lambda>c. c) demo_users"
  by (simp add: user_inv_def user_cached_def mem_valid_def demo_users_def NewUser_def)

lemma demo_users_valid: "mem_valid (fst demo_users)"
  by (simp add: mem_valid_def demo_users_def NewUser_def)

lemma demo_env_ok:
  "ue_new_uuid demo_user_env \<noteq> uuid_Nil" "bcrypt_laws (ue_bcrypt demo_user_env)"
  by (simp_all add: demo_user_env_def uuid_Nil_def plain_bcrypt_laws)

section \<open>Accounts\<close>


abbreviation demo_register :: user_register where
  "demo_register \<equiv> \<lparr>ug_email = ''eve@x.io'', ug_username = ''eve'', ug_password = ''long-enough'',
     ug_first = ''Eve'', ug_last = ''Poe'', ug_phone = [], ug_address = []\<rparr>"


text \<open>
  C7. \<open>Login\<close> succeeds only with the password: a token response means that a live account has the
  given username or email and that its stored hash checks against the given password; the access
  token is generated for that account, the new refresh token is stored with it together with its
  expiry, no other row changes, and password and role stay.
\<close>

theorem Login_sound:
  assumes "user_backend r rows valid view" and "valid (fst s)"
    and "Login env (user_module r jl k ae re) req s = (Inr t, s')"
  shows "\<exists>u u'. rows (fst s) (base_id u) = Some u \<and>
     (usr_username u = ul_name req \<or> usr_email u = ul_name req) \<and>
     CheckPasswordHash (ue_bcrypt env) (ul_password req) (usr_password u) \<and>
     user_token env (user_module r jl k ae re) u = Inr (tr_access t) \<and>
     tr_refresh t = GenerateRandomString (ue_random env) 32 \<and> tr_user t = Some (NewUserResponse u) \<and>
     rows (fst s') = (rows (fst s))(base_id u := Some u') \<and>
     usr_refresh u' = tr_refresh t \<and> usr_refresh_exp u' = ue_now_refresh env + re \<and>
     usr_password u' = usr_password u \<and> usr_role u' = usr_role u"
  using user_backend.Login_spec [OF assms] by simp

lemma Login_sound_witness:
  "\<exists>t u. fst (Login demo_user_env demo_module \<lparr>ul_name = ''ann'', ul_password = ''secret-one''\<rparr> demo_users) = Inr t \<and>
     mem_rows (fst demo_users) (base_id u) = Some u \<and> usr_password u = ''#secret-one''"
proof -
  let ?run = "Login demo_user_env demo_module \<lparr>ul_name = ''ann'', ul_password = ''secret-one''\<rparr> demo_users"
  have "\<not> isl (fst ?run)" by code_simp
  from run_answered [OF this] obtain t where run: "?run = (Inr t, snd ?run)" by blast
  then have "fst ?run = Inr t" by (metis fst_conv)
  moreover have "CheckPasswordHash (ue_bcrypt demo_user_env) ''secret-one'' h \<Longrightarrow> h = ''#secret-one''" for h
    by (simp add: CheckPasswordHash_def demo_user_env_def plain_bcrypt_def split: if_splits)
  ultimately show ?thesis using Login_sound [OF mem_user_backend demo_users_valid run] by auto
qed

text \<open>
  The account status is not consulted: an account with the status blocked logs in.
\<close>

theorem Login_ignores_status:
  "\<exists>u t s'. u \<in> set (fst demo_users) \<and> usr_username u = ''bob'' \<and> usr_status u = UserStatusBlocked \<and>
     Login demo_user_env demo_module \<lparr>ul_name = ''bob'', ul_password = ''secret-two''\<rparr> demo_users = (Inr t, s')"
proof -
  let ?run = "Login demo_user_env demo_module \<lparr>ul_name = ''bob'', ul_password = ''secret-two''\<rparr> demo_users"
  have "\<not> isl (fst ?run)" by code_simp
  from run_answered [OF this] obtain t where run: "?run = (Inr t, snd ?run)" by blast
  have "\<exists>u \<in> set (fst demo_users). usr_username u = ''bob'' \<and> usr_status u = UserStatusBlocked"
    by (simp add: demo_users_def NewUser_def)
  with run show ?thesis by metis
qed

text \<open>
  C28. Refresh tokens rotate: \<open>RefreshToken\<close> answers only for a live account that holds the token
  and whose token has not expired; either the store of the new token failed, no new refresh token
  is handed out and no row changes, or the account now holds the new one. In the second case the
  account no longer answers to the old token (the new one being different).
\<close>

theorem RefreshToken_rotates:
  assumes "user_backend r rows valid view" and "valid (fst s)"
    and "RefreshToken env (user_module r jl k ae re) tok now s = (Inr t, s')"
    and "tok \<noteq> GenerateRandomString (ue_random env) 32"
  shows "\<exists>u. rows (fst s) (base_id u) = Some u \<and> usr_refresh u = tok \<and> now < usr_refresh_exp u \<and>
     user_token env (user_module r jl k ae re) u = Inr (tr_access t) \<and>
     (tr_refresh t = [] \<and> rows (fst s') = rows (fst s) \<or>
      (\<forall>v. rows (fst s') (base_id u) = Some v \<longrightarrow> usr_refresh v = tr_refresh t \<and> usr_refresh v \<noteq> tok \<and>
         usr_refresh_exp v = ue_now_refresh env + re))"
proof -
  obtain u where "rows (fst s) (base_id u) = Some u" "usr_refresh u = tok" "now < usr_refresh_exp u"
    "user_token env (user_module r jl k ae re) u = Inr (tr_access t)"
    "tr_refresh t = [] \<and> rows (fst s') = rows (fst s) \<or>
         tr_refresh t = GenerateRandomString (ue_random env) 32 \<and>
         (\<exists>u'. rows (fst s') = (rows (fst s))(base_id u := Some u') \<and> usr_refresh u' = tr_refresh t \<and>
            usr_refresh_exp u' = ue_now_refresh env + re \<and> usr_password u' = usr_password u)"
    using user_backend.RefreshToken_spec [OF assms(1-3)] by auto
  with assms(4) show ?thesis by (intro exI [of _ u]) auto
qed

lemma RefreshToken_rotates_witness:
  "\<exists>t. fst (RefreshToken demo_user_env demo_module ''old-token'' 3000000000 demo_users) = Inr t \<and>
     fst (RefreshToken demo_user_env demo_module ''old-token'' 3000000000
       (snd (RefreshToken demo_user_env demo_module ''old-token'' 3000000000 demo_users)))
     = Inl (err_string ErrInvalidToken) \<and>
     (\<exists>u. mem_rows (fst demo_users) (base_id u) = Some u \<and> usr_refresh u = ''old-token'')"
proof -
  let ?run = "RefreshToken demo_user_env demo_module ''old-token'' 3000000000 demo_users"
  have "\<not> isl (fst ?run)" by code_simp
  from run_answered [OF this] obtain t where run: "?run = (Inr t, snd ?run)" by blast
  have ne: "''old-token'' \<noteq> GenerateRandomString (ue_random demo_user_env) 32" by code_simp
  have "fst (RefreshToken demo_user_env demo_module ''old-token'' 3000000000 (snd ?run))
      = Inl (err_string ErrInvalidToken)" by code_simp
  with RefreshToken_rotates [OF mem_user_backend demo_users_valid run ne] run show ?thesis
    by (metis fst_conv)
qed

section \<open>Changes\<close>




text \<open>
  C30. \<open>ChangePassword\<close> either fails and changes no row, or the current password checked against
  the stored hash, the new one has at least eight characters, and exactly the row of the user
  changes, to the same row with a hash that the new password checks against.
\<close>

theorem ChangePassword_effect:
  assumes "user_backend r rows valid view" and "user_inv r rows valid view s"
    and "bcrypt_laws (ue_bcrypt env)"
    and "ChangePassword env (NewUserRepository r) i req s = (x, s')"
  shows "valid (fst s') \<and> (case x of
      Inl e \<Rightarrow> rows (fst s') = rows (fst s)
    | Inr _ \<Rightarrow> \<exists>b u. rows (fst s) i = Some b \<and>
        CheckPasswordHash (ue_bcrypt env) (cp_current req) (usr_password b) \<and>
        CheckPasswordHash (ue_bcrypt env) (cp_new req) (usr_password u) \<and> 8 \<le> length (cp_new req) \<and>
        same_content (b\<lparr>usr_password := usr_password u\<rparr>) u \<and> rows (fst s') = (rows (fst s))(i := Some u))"
  by (rule user_backend.ChangePassword_spec [OF assms])

abbreviation demo_change :: change_password where
  "demo_change \<equiv> \<lparr>cp_current = ''secret-one'', cp_new = ''better-one''\<rparr>"

lemma ChangePassword_effect_witness:
  "fst (ChangePassword demo_user_env demo_user_repo 1 demo_change demo_users) = Inr () \<and>
   (\<exists>u. mem_rows (fst (snd (ChangePassword demo_user_env demo_user_repo 1 demo_change demo_users))) 1 = Some u \<and>
     CheckPasswordHash (ue_bcrypt demo_user_env) ''better-one'' (usr_password u))"
proof -
  let ?run = "ChangePassword demo_user_env demo_user_repo 1 demo_change demo_users"
  have 1: "fst ?run = Inr ()" by code_simp
  then have run: "?run = (Inr (), snd ?run)" by (metis prod.collapse)
  from ChangePassword_effect [OF mem_user_backend demo_users_inv demo_env_ok(2) run] 1 show ?thesis
    by auto
qed

text \<open>
  A cached user cannot change the password: once the user has been read through the cache, the
  correct current password is refused as invalid credentials.
\<close>

theorem ChangePassword_refused_when_cached:
  "fst (ChangePassword demo_user_env demo_user_repo 1 demo_change demo_users) = Inr () \<and>
   fst (ChangePassword demo_user_env demo_user_repo 1 demo_change
     (snd (GetUserByID demo_user_repo 1 demo_users))) = Inl (err_string ErrInvalidCredentials)"
  by (intro conjI; code_simp)

section \<open>Sessions and access\<close>

text \<open>
  Logout is only half enforced: after a successful logout the auth service refuses the access
  token, but the HTTP middleware, which guards the routes, still lets it through.
\<close>

theorem Logout_not_enforced:
  "\<exists>tok s'. user_token demo_user_env demo_module (hd (fst demo_users)) = Inr tok \<and>
     Logout demo_module tok 3000000000 3000000000 3000000000 demo_users = (Inr (), s') \<and>
     fst (Auth_ValidateToken demo_module tok 3000000000 demo_users) \<noteq> Inl (err_string ErrInvalidToken) \<and>
     fst (Auth_ValidateToken demo_module tok 3000000000 s') = Inl (err_string ErrInvalidToken) \<and>
     rs_status (fst (HTTPMiddleware (as_jwtAuth demo_module) 3000000000
       (\<lambda>rq s. (RespondWithSuccess 200 [] None, s)) (demo_request\<lparr>rq_header := (\<lambda>_. ''Bearer '' @ tok)\<rparr>) s')) = 200"
proof -
  let ?t = "user_token demo_user_env demo_module (hd (fst demo_users))"
  let ?out = "Logout demo_module (projr ?t) 3000000000 3000000000 3000000000 demo_users"
  have t: "\<not> isl ?t" by code_simp
  have "fst ?out = Inr ()"
    and "fst (Auth_ValidateToken demo_module (projr ?t) 3000000000 demo_users) \<noteq> Inl (err_string ErrInvalidToken)"
    and "fst (Auth_ValidateToken demo_module (projr ?t) 3000000000 (snd ?out)) = Inl (err_string ErrInvalidToken)"
    and "rs_status (fst (HTTPMiddleware (as_jwtAuth demo_module) 3000000000
       (\<lambda>rq s. (RespondWithSuccess 200 [] None, s)) (demo_request\<lparr>rq_header := (\<lambda>_. ''Bearer '' @ projr ?t)\<rparr>)
       (snd ?out))) = 200"
    by code_simp+
  moreover have "?t = Inr (projr ?t)" using t by (metis sum.collapse(2))
  ultimately show ?thesis by (metis prod.collapse)
qed


abbreviation member_request :: http_request where
  "member_request \<equiv> demo_request\<lparr>rq_user_id := Some ''aa'', rq_user_role := Some ''member'',
     rq_vars := (\<lambda>_. ''a'')\<rparr>"


text \<open>
  A member can promote itself: an update of the own account may set the role, so a member that
  sends the role admin for its own ID becomes an admin.
\<close>

theorem member_becomes_admin:
  "\<exists>rq. rq_user_role rq = Some RoleMember \<and>
     map_option usr_role (mem_rows (fst demo_users) 2) = Some RoleMember \<and>
     map_option usr_role (mem_rows (fst (snd (HandleUpdateUser unary_uuid no_validation
       (NewUserService demo_user_env demo_user_repo) rq demo_users))) 2) = Some RoleAdmin"
proof -
  let ?rq = "demo_request\<lparr>rq_user_id := Some ''aa'', rq_user_role := Some ''member'',
     rq_vars := (\<lambda>_. ''aa''), rq_body := Inr (JObj [(''role'', JStr ''admin'')])\<rparr>"
  have "rq_user_role ?rq = Some RoleMember" by simp
  moreover have "map_option usr_role (mem_rows (fst demo_users) 2) = Some RoleMember" by code_simp
  moreover have "map_option usr_role (mem_rows (fst (snd (HandleUpdateUser unary_uuid no_validation
       (NewUserService demo_user_env demo_user_repo) ?rq demo_users))) 2) = Some RoleAdmin"
    by code_simp
  ultimately show ?thesis by blast
qed

text \<open>
  A missing user is an internal error: \<open>HandleDeleteUser\<close> compares the message with
  \<open>ErrUserNotFound\<close>, but the repository appends the cause, so deleting a user that the database
  does not find answers 500 and never 404.
\<close>

theorem delete_missing_user_500:
  assumes "user_backend r rows valid view" and "valid (fst s)"
    and "isAdmin rq" and "uuid_parse ul (rq_vars rq ''id'') = Some i"
    and "userRepository_GetByID r i s = (Inl e, s1)" and "errors_Is e ErrRecordNotFound"
  shows "rs_status (fst (HandleDeleteUser ul (NewUserService env (NewUserRepository r)) rq s)) = 500"
proof -
  obtain m where "err_msg e = ErrUserNotFound @ '': '' @ m"
    using user_backend.GetByID_missing [OF assms(1,2,5,6)] by blast
  then have "err_msg e \<noteq> ErrUserNotFound" by simp
  with assms(3-5) show ?thesis
    by (simp add: HandleDeleteUser_def DeleteUser_def user_lookup_error_def internal_error_def)
qed

abbreviation admin_request :: http_request where
  "admin_request \<equiv> demo_request\<lparr>rq_user_id := Some ''a'', rq_user_role := Some ''admin'',
     rq_vars := (\<lambda>_. ''aaaaa'')\<rparr>"

lemma delete_missing_user_500_witness:
  "rs_status (fst (HandleDeleteUser unary_uuid (NewUserService demo_user_env demo_user_repo) admin_request demo_users)) = 500"
proof -
  have a: "isAdmin admin_request" by (simp add: isAdmin_def)
  have p: "uuid_parse unary_uuid (rq_vars admin_request ''id'') = Some 5" by code_simp
  let ?run = "userRepository_GetByID mem_user_conf 5 demo_users"
  have nf: "isl (fst ?run) \<and> errors_Is (projl (fst ?run)) ErrRecordNotFound" by code_simp
  then have "?run = (Inl (projl (fst ?run)), snd ?run)" by (metis prod.collapse sum.collapse(1))
  from delete_missing_user_500 [OF mem_user_backend demo_users_valid a p this conjunct2 [OF nf]]
  show ?thesis .
qed

text \<open>
  The cache confuses usernames and emails: both are cached under the same prefix, so after a
  user whose username is another user's email address has been looked up by username, the lookup
  by that email answers with the wrong account.
\<close>

theorem GetUserByEmail_confused:
  "\<exists>d rsp. mem_valid d \<and> (\<exists>u \<in> set d. usr_email u = ''ann@x.io'') \<and>
     fst (GetUserByEmail demo_user_repo ''ann@x.io''
       (snd (GetUserByUsername demo_user_repo ''ann@x.io'' (d, Map.empty)))) = Inr rsp \<and>
     ur_email rsp = ''eve@x.io''"
proof -
  let ?d = "fst demo_users @ [NewUser 3 ''eve@x.io'' ''ann@x.io'' ''#x'' ''Eve'' ''Poe'' ''member'']"
  let ?run = "GetUserByEmail demo_user_repo ''ann@x.io''
       (snd (GetUserByUsername demo_user_repo ''ann@x.io'' (?d, Map.empty)))"
  have "mem_valid ?d" "\<exists>u \<in> set ?d. usr_email u = ''ann@x.io''"
    by (simp_all add: mem_valid_def demo_users_def NewUser_def)
  moreover have "\<not> isl (fst ?run)" and "ur_email (projr (fst ?run)) = ''eve@x.io''"
    by code_simp+
  ultimately show ?thesis by (metis sum.collapse(2))
qed

end
