(* ===== verification/UserSystem.thy ===== *)
theory UserSystem
  imports UserSteps UserProps
begin

text \<open>
  The user service as a running system: a step runs one call of the services to its end, lets the
  background task of \<open>module.go\<close> tick, or lets the cache lose entries. The properties hold in every
  reachable state, for calls whose e-mail addresses and usernames are not the text of a UUID; the
  last section shows what happens without that.
\<close>

section \<open>The calls\<close>

datatype user_call =
    UserCreate user_env user_create
  | UserGet uuid
  | UserGetByEmail string
  | UserGetByUsername string
  | UserUpdate uuid user_update
  | UserDelete uuid
  | UserList user_filter
  | UserChangePassword user_env uuid change_password
  | UserLogin user_env user_login
  | UserRegister user_env user_register
  | UserRefresh user_env string time
  | UserLogout string time time time
  | UserValidate string time
  | UserTick time time

text \<open>One tick of the background task \<open>startTokenCleanupTask\<close>; its error is only logged.\<close>

definition token_cleanup_tick :: "'s auth_service_conf \<Rightarrow> time \<Rightarrow> time \<Rightarrow> 's \<Rightarrow> 's" where
  "token_cleanup_tick sv now1 now2 s = snd (ar_CleanupExpiredTokens (as_authRepo sv) now1 now2 s)"

definition user_serve :: "'s auth_service_conf \<Rightarrow> user_call \<Rightarrow> 's \<Rightarrow> 's" where
  "user_serve sv call s =
     (case call of
        UserCreate env req \<Rightarrow> snd (CreateUser env (as_userRepo sv) req s)
      | UserGet i \<Rightarrow> snd (GetUserByID (as_userRepo sv) i s)
      | UserGetByEmail n \<Rightarrow> snd (GetUserByEmail (as_userRepo sv) n s)
      | UserGetByUsername n \<Rightarrow> snd (GetUserByUsername (as_userRepo sv) n s)
      | UserUpdate i req \<Rightarrow> snd (UpdateUser (as_userRepo sv) i req s)
      | UserDelete i \<Rightarrow> snd (DeleteUser (as_userRepo sv) i s)
      | UserList f \<Rightarrow> snd (ListUsers (as_userRepo sv) f s)
      | UserChangePassword env i req \<Rightarrow> snd (ChangePassword env (as_userRepo sv) i req s)
      | UserLogin env req \<Rightarrow> snd (Login env sv req s)
      | UserRegister env req \<Rightarrow> snd (Register env sv req s)
      | UserRefresh env tok now \<Rightarrow> snd (RefreshToken env sv tok now s)
      | UserLogout tok now1 now2 now3 \<Rightarrow> snd (Logout sv tok now1 now2 now3 s)
      | UserValidate tok now \<Rightarrow> snd (Auth_ValidateToken sv tok now s)
      | UserTick now1 now2 \<Rightarrow> token_cleanup_tick sv now1 now2 s)"

text \<open>
  What a call may name: \<open>uuid.New()\<close> never returns the nil UUID, and no e-mail address or username
  is the text of a UUID, as their cache keys share the prefix.
\<close>

definition opt_list :: "'a option \<Rightarrow> 'a list" where
  "opt_list x = (case x of None \<Rightarrow> [] | Some a \<Rightarrow> [a])"

fun call_names :: "user_call \<Rightarrow> string list" where
  "call_names (UserCreate env req) = [uc_email req, uc_username req]"
| "call_names (UserGetByEmail n) = [n]"
| "call_names (UserGetByUsername n) = [n]"
| "call_names (UserUpdate i req) = opt_list (uu_email req) @ opt_list (uu_username req)"
| "call_names (UserRegister env req) = [ug_email req, ug_username req]"
| "call_names _ = []"

fun call_new_uuid :: "user_call \<Rightarrow> uuid option" where
  "call_new_uuid (UserCreate env req) = Some (ue_new_uuid env)"
| "call_new_uuid (UserRegister env req) = Some (ue_new_uuid env)"
| "call_new_uuid _ = None"

definition user_call_ok :: "uuid_lib \<Rightarrow> user_call \<Rightarrow> bool" where
  "user_call_ok ul call \<longleftrightarrow>
     call_new_uuid call \<noteq> Some uuid_Nil \<and> (\<forall>n \<in> set (call_names call). n \<notin> range (uuid_string ul))"

text \<open>The calls that do not carry a role: all but the creation and the update of an account.\<close>

fun roleless :: "user_call \<Rightarrow> bool" where
  "roleless (UserCreate env req) = False"
| "roleless (UserUpdate i req) = False"
| "roleless _ = True"

inductive user_reach ::
  "('d \<times> 'c) auth_service_conf \<Rightarrow> ('c \<Rightarrow> string \<Rightarrow> json option) \<Rightarrow> (user_call \<Rightarrow> bool) \<Rightarrow>
   'd \<times> 'c \<Rightarrow> 'd \<times> 'c \<Rightarrow> bool"
  for sv view P s where
  user_start: "user_reach sv view P s s"
| user_step: "user_reach sv view P s t \<Longrightarrow> P call \<Longrightarrow> user_reach sv view P s (user_serve sv call t)"
| user_expire: "user_reach sv view P s (d, c) \<Longrightarrow> view c' \<subseteq>\<^sub>m view c \<Longrightarrow> user_reach sv view P s (d, c')"

context user_backend
begin

lemma keeps_both: "keeps s t \<Longrightarrow> uinv t \<and> (b \<longrightarrow> keeps s t)"
  by (simp add: keeps_def)

lemma serve_keeps:
  assumes "uinv s" "user_call_ok (urc_uuid r) call"
  shows "uinv (user_serve (user_module r jl k ae re) call s) \<and>
    (roleless call \<longrightarrow> keeps s (user_serve (user_module r jl k ae re) call s))"
proof (cases call)
  case (UserCreate env req)
  with assms add_user_uinv [OF assms(1), of env "uc_email req" "uc_username req"] show ?thesis
    by (cases "CreateUser env (NewUserRepository r) req s")
      (auto simp: user_serve_def user_call_ok_def CreateUser_def split: if_splits)
next
  case (UserGet i)
  show ?thesis
    by (rule keeps_both, use UserGet GetByID_keeps [OF assms(1)] in \<open>cases "userRepository_GetByID r i s"\<close>)
      (auto simp: user_serve_def GetUserByID_def split: sum.splits)
next
  case (UserGetByEmail n)
  show ?thesis
    by (rule keeps_both, use UserGetByEmail assms(2) GetByEmail_keeps [OF assms(1)] in \<open>cases "userRepository_GetByEmail r n s"\<close>)
      (auto simp: user_serve_def GetUserByEmail_def user_call_ok_def split: sum.splits)
next
  case (UserGetByUsername n)
  show ?thesis
    by (rule keeps_both, use UserGetByUsername assms(2) GetByUsername_keeps [OF assms(1)] in \<open>cases "userRepository_GetByUsername r n s"\<close>)
      (auto simp: user_serve_def GetUserByUsername_def user_call_ok_def split: sum.splits)
next
  case (UserUpdate i req)
  with assms UpdateUser_uinv [OF assms(1), of req i] show ?thesis
    by (cases "UpdateUser (NewUserRepository r) i req s")
      (auto simp: user_serve_def user_call_ok_def opt_list_def)
next
  case (UserDelete i)
  show ?thesis
    by (rule keeps_both, use UserDelete DeleteUser_keeps [OF assms(1)] in \<open>cases "DeleteUser (NewUserRepository r) i s"\<close>)
      (auto simp: user_serve_def)
next
  case (UserList f)
  show ?thesis
    by (rule keeps_both, use UserList List_keeps [OF assms(1)] in \<open>cases "userRepository_List r (UserFilter_Validate f) s"\<close>)
      (auto simp: user_serve_def ListUsers_def Let_def split: sum.splits)
next
  case (UserChangePassword env i req)
  show ?thesis
    by (rule keeps_both, use UserChangePassword ChangePassword_keeps [OF assms(1)] in \<open>cases "ChangePassword env (NewUserRepository r) i req s"\<close>)
      (auto simp: user_serve_def)
next
  case (UserLogin env req)
  show ?thesis
    by (rule keeps_both, use UserLogin Login_keeps [OF assms(1)] in \<open>cases "Login env (user_module r jl k ae re) req s"\<close>)
      (auto simp: user_serve_def)
next
  case (UserRegister env req)
  with assms add_user_uinv [OF assms(1), of env "ug_email req" "ug_username req"] show ?thesis
    by (cases "Register env (user_module r jl k ae re) req s")
      (auto simp: user_serve_def user_call_ok_def Register_def)
next
  case (UserRefresh env tok now)
  show ?thesis
    by (rule keeps_both, use UserRefresh RefreshToken_keeps [OF assms(1)] in \<open>cases "RefreshToken env (user_module r jl k ae re) tok now s"\<close>)
      (auto simp: user_serve_def)
next
  case (UserLogout tok now1 now2 now3)
  show ?thesis
    by (rule keeps_both, use UserLogout Logout_keeps [OF assms(1)] in \<open>cases "Logout (user_module r jl k ae re) tok now1 now2 now3 s"\<close>)
      (auto simp: user_serve_def)
next
  case (UserValidate tok now)
  show ?thesis
    by (rule keeps_both, use UserValidate Auth_ValidateToken_keeps [OF assms(1)] in \<open>cases "Auth_ValidateToken (user_module r jl k ae re) tok now s"\<close>)
      (auto simp: user_serve_def)
next
  case (UserTick now1 now2)
  show ?thesis
    by (rule keeps_both, use UserTick CleanupExpiredTokens_keeps [OF assms(1)] in \<open>cases "authRepository_CleanupExpiredTokens r now1 now2 s"\<close>)
      (auto simp: user_serve_def token_cleanup_tick_def)
qed

lemma user_reach_uinv:
  assumes "user_reach (user_module r jl k ae re) view P s t" "uinv s"
    and "\<And>call. P call \<Longrightarrow> user_call_ok (urc_uuid r) call"
  shows "uinv t \<and> ((\<forall>call. P call \<longrightarrow> roleless call) \<longrightarrow> accounts_kept (rows (fst s)) (rows (fst t)))"
  using assms(1)
proof (induction rule: user_reach.induct)
  case (user_step t call)
  with serve_keeps [OF _ assms(3), of t call] accounts_kept_trans show ?case
    unfolding keeps_def by blast
next
  case (user_expire d c c')
  then have "uinv (d, c')" using uinv_frame [of d c d c'] uinv_valid by auto
  with user_expire show ?case by simp
qed (use assms(2) in simp)

end

section \<open>Reachable states\<close>


text \<open>The account of Bob is cached, then its refresh token is used, which writes its row.\<close>

definition demo_cached_refresh :: "user list \<times> (string \<rightharpoonup> json)" where
  "demo_cached_refresh = user_serve demo_module (UserRefresh demo_user_env ''old-token'' 3000000000)
     (user_serve demo_module (UserGet 2) demo_users)"

lemma demo_cached_refresh_reached:
  "user_reach demo_module (\<lambda>c. c) (\<lambda>call. user_call_ok unary_uuid call \<and> roleless call) demo_users demo_cached_refresh"
  unfolding demo_cached_refresh_def
  by (intro user_step user_start) (simp_all add: user_call_ok_def)




section \<open>Names that meet other keys\<close>

abbreviation squat :: "string \<Rightarrow> string \<Rightarrow> user_call" where
  "squat email username \<equiv> UserRegister demo_user_env (demo_register\<lparr>ug_email := email, ug_username := username\<rparr>)"

text \<open>
  A username blocks an e-mail address: after two registrations with the username
  \<open>zoe@x.io\<close>, of which the second is refused, the registration of the e-mail address \<open>zoe@x.io\<close>
  is refused as taken, although no account has it; without the second attempt it succeeds.
\<close>

theorem username_blocks_email:
  "\<exists>s1 s2. user_serve demo_module (squat ''eve@x.io'' ''zoe@x.io'') demo_users = s1 \<and>
     user_serve demo_module (squat ''eva@x.io'' ''zoe@x.io'') s1 = s2 \<and>
     ''zoe@x.io'' \<notin> usr_email ` set (fst s2) \<and>
     fst (Register (demo_user_env\<lparr>ue_new_uuid := 4\<rparr>) demo_module
       (demo_register\<lparr>ug_email := ''zoe@x.io'', ug_username := ''zoe''\<rparr>) s2) = Inl (err_string ErrEmailTaken) \<and>
     \<not> isl (fst (Register (demo_user_env\<lparr>ue_new_uuid := 4\<rparr>) demo_module
       (demo_register\<lparr>ug_email := ''zoe@x.io'', ug_username := ''zoe''\<rparr>) s1))"
proof -
  let ?s1 = "user_serve demo_module (squat ''eve@x.io'' ''zoe@x.io'') demo_users"
  let ?s2 = "user_serve demo_module (squat ''eva@x.io'' ''zoe@x.io'') ?s1"
  have "list_all (\<lambda>u. usr_email u \<noteq> ''zoe@x.io'') (fst ?s2)"
    and "fst (Register (demo_user_env\<lparr>ue_new_uuid := 4\<rparr>) demo_module
       (demo_register\<lparr>ug_email := ''zoe@x.io'', ug_username := ''zoe''\<rparr>) ?s2) = Inl (err_string ErrEmailTaken)"
    and "\<not> isl (fst (Register (demo_user_env\<lparr>ue_new_uuid := 4\<rparr>) demo_module
       (demo_register\<lparr>ug_email := ''zoe@x.io'', ug_username := ''zoe''\<rparr>) ?s1))"
    by code_simp+
  then show ?thesis unfolding list_all_iff image_iff by metis
qed

text \<open>
  Over gRPC, which does not validate, a username may be the text of another user's ID: after two
  attempts to create such an account the lookup of that ID answers with the wrong account, and an
  update of that ID changes the wrong row.
\<close>

theorem username_takes_over_id:
  "\<exists>s1 s2 rsp. GRPC_CreateUser unary_uuid (NewUserService demo_user_env demo_user_repo)
       \<lparr>cq_email = ''eve@x.io'', cq_username = ''a'', cq_password = ''long-enough'', cq_first = [], cq_last = [],
        cq_role = [], cq_phone = None, cq_address = None\<rparr> demo_users = s1 \<and>
     GRPC_CreateUser unary_uuid (NewUserService demo_user_env demo_user_repo)
       \<lparr>cq_email = ''eva@x.io'', cq_username = ''a'', cq_password = ''long-enough'', cq_first = [], cq_last = [],
        cq_role = [], cq_phone = None, cq_address = None\<rparr> (snd s1) = s2 \<and>
     fst s2 = Inl (AlreadyExists, ErrUsernameTaken) \<and>
     uuid_string unary_uuid 1 = ''a'' \<and> map_option usr_email (mem_rows (fst (snd s2)) 1) = Some ''ann@x.io'' \<and>
     fst (GetUserByID demo_user_repo 1 (snd s2)) = Inr rsp \<and> ur_email rsp = ''eve@x.io'' \<and>
     map_option usr_phone (mem_rows (fst (snd (UpdateUser demo_user_repo 1
       (no_change\<lparr>uu_phone := Some ''555''\<rparr>) (snd s2)))) 1) = Some [] \<and>
     map_option usr_phone (mem_rows (fst (snd (UpdateUser demo_user_repo 1
       (no_change\<lparr>uu_phone := Some ''555''\<rparr>) (snd s2)))) 3) = Some ''555''"
proof -
  let ?req = "\<lambda>e. \<lparr>cq_email = e, cq_username = ''a'', cq_password = ''long-enough'', cq_first = [], cq_last = [],
        cq_role = [], cq_phone = None, cq_address = None\<rparr>"
  let ?create = "\<lambda>e. GRPC_CreateUser unary_uuid (NewUserService demo_user_env demo_user_repo) (?req e)"
  let ?s2 = "?create ''eva@x.io'' (snd (?create ''eve@x.io'' demo_users))"
  let ?get = "GetUserByID demo_user_repo 1 (snd ?s2)"
  let ?upd = "UpdateUser demo_user_repo 1 (no_change\<lparr>uu_phone := Some ''555''\<rparr>) (snd ?s2)"
  have "fst ?s2 = Inl (AlreadyExists, ErrUsernameTaken)"
    and "uuid_string unary_uuid 1 = ''a''"
    and "map_option usr_email (mem_rows (fst (snd ?s2)) 1) = Some ''ann@x.io''"
    and "\<not> isl (fst ?get)" and "ur_email (projr (fst ?get)) = ''eve@x.io''"
    and "map_option usr_phone (mem_rows (fst (snd ?upd)) 1) = Some []"
    and "map_option usr_phone (mem_rows (fst (snd ?upd)) 3) = Some ''555''"
    by code_simp+
  then show ?thesis by (metis sum.collapse(2))
qed

end
