(* ===== verification/BookModel.thy ===== *)
theory BookModel
  imports RedisCache Paging Helpers
begin

text \<open>
  The data of the book service: \<open>model.Book\<close> and \<open>model.BookCategory\<close>, the DTOs with their
  validation tags, the DAOs, and the meaning of the \<open>WHERE\<close> clauses of the repository.

  \<open>CategoryIDs\<close> has the tag \<open>gorm:"-"\<close>: the columns of the table are \<open>book_cols\<close>, the Go struct
  is the extension \<open>book\<close>. What the ORM stores and loads is \<open>book_cols.truncate\<close>. Ratings are
  \<open>float64\<close> in Go and rationals here; the code only ever writes zero.
\<close>

record book_cols = base +
  bk_title :: string
  bk_author :: string
  bk_isbn :: string
  bk_year :: int
  bk_publisher :: string
  bk_description :: string
  bk_language :: string
  bk_pages :: int
  bk_status :: string
  bk_cover :: string
  bk_rating :: rat
  bk_quantity :: int
  bk_available :: int

record book = book_cols +
  bk_categories :: "string list"

abbreviation cols :: "book \<Rightarrow> book_cols" where
  "cols \<equiv> book_cols.truncate"

definition with_categories :: "book_cols \<Rightarrow> string list \<Rightarrow> book" where
  "with_categories b cs = book_cols.extend b \<lparr>bk_categories = cs\<rparr>"

lemma cols_with_categories [simp]: "cols (with_categories b cs) = b"
  by (cases b) (simp add: with_categories_def book_cols.defs)

lemma with_categories_cols [simp]: "with_categories (cols b) (bk_categories b) = b"
  by (cases b) (simp add: with_categories_def book_cols.defs)

lemma categories_with [simp]: "bk_categories (with_categories b cs) = cs"
  by (simp add: with_categories_def book_cols.defs)

lemma cols_sel [simp]:
  "base_id (cols b) = base_id b" "deleted_at (cols b) = deleted_at b" "created_at (cols b) = created_at b"
  "updated_at (cols b) = updated_at b" "bk_title (cols b) = bk_title b" "bk_author (cols b) = bk_author b"
  "bk_isbn (cols b) = bk_isbn b" "bk_year (cols b) = bk_year b" "bk_publisher (cols b) = bk_publisher b"
  "bk_description (cols b) = bk_description b" "bk_language (cols b) = bk_language b"
  "bk_pages (cols b) = bk_pages b" "bk_status (cols b) = bk_status b" "bk_cover (cols b) = bk_cover b"
  "bk_rating (cols b) = bk_rating b" "bk_quantity (cols b) = bk_quantity b"
  "bk_available (cols b) = bk_available b"
  by (simp_all add: book_cols.defs)

lemma cols_with_upd [simp]: "cols (b\<lparr>bk_categories := cs\<rparr>) = cols b"
  by (simp add: book_cols.defs)

text \<open>\<open>NewBook\<close>; the arguments are \<open>uuid.New()\<close> and the two readings of \<open>time.Now()\<close>.\<close>

definition NewBook ::
  "uuid \<Rightarrow> time \<Rightarrow> time \<Rightarrow> string \<Rightarrow> string \<Rightarrow> string \<Rightarrow> int \<Rightarrow> string \<Rightarrow> string \<Rightarrow> string \<Rightarrow> int \<Rightarrow>
   string list \<Rightarrow> book" where
  "NewBook new_id now1 now2 title author isbn year publisher descr lang pages cats =
     \<lparr>base_id = new_id, created_at = now1, updated_at = now2, deleted_at = None,
      bk_title = title, bk_author = author, bk_isbn = isbn, bk_year = year, bk_publisher = publisher,
      bk_description = descr, bk_language = lang, bk_pages = pages, bk_status = ''available'',
      bk_cover = [], bk_rating = 0, bk_quantity = 1, bk_available = 1, bk_categories = cats\<rparr>"

text \<open>A row of \<open>books_categories\<close>.\<close>

record book_category = base +
  bc_book :: uuid
  bc_category :: uuid

section \<open>The JSON form\<close>

definition get_num :: "json \<Rightarrow> string \<Rightarrow> rat result" where
  "get_num j k = (case json_field j k of None \<Rightarrow> Inr 0 | Some JNull \<Rightarrow> Inr 0
     | Some (JNum x) \<Rightarrow> Inr x | Some (JInt n) \<Rightarrow> Inr (of_int n) | _ \<Rightarrow> Inl err_unmarshal)"

definition strs_field :: "string \<Rightarrow> string list \<Rightarrow> (string \<times> json) list" where
  "strs_field k ss = (if ss = [] then [] else [(k, JArr (map JStr ss))])"

definition marshal_book :: "book \<Rightarrow> json" where
  "marshal_book b = JObj
     ([(''id'', JUuid (base_id b)), (''created_at'', JTime (created_at b)),
       (''updated_at'', JTime (updated_at b)), (''title'', JStr (bk_title b)),
       (''author'', JStr (bk_author b)), (''isbn'', JStr (bk_isbn b)),
       (''published_year'', JInt (bk_year b)), (''publisher'', JStr (bk_publisher b)),
       (''description'', JStr (bk_description b)), (''language'', JStr (bk_language b)),
       (''page_count'', JInt (bk_pages b)), (''status'', JStr (bk_status b))]
      @ str_field ''cover_image'' (bk_cover b)
      @ [(''average_rating'', JNum (bk_rating b)), (''quantity'', JInt (bk_quantity b)),
         (''available_quantity'', JInt (bk_available b))]
      @ strs_field ''category_ids'' (bk_categories b))"

definition slice :: "'a list option \<Rightarrow> 'a list" where
  "slice x = (case x of None \<Rightarrow> [] | Some xs \<Rightarrow> xs)"

definition unmarshal_book :: "json \<Rightarrow> book result" where
  "unmarshal_book = decode_struct (\<lambda>j.
     res_bind (get_uuid j ''id'') (\<lambda>i.
     res_bind (get_time j ''created_at'') (\<lambda>ca.
     res_bind (get_time j ''updated_at'') (\<lambda>ua.
     res_bind (get_str j ''title'') (\<lambda>ti.
     res_bind (get_str j ''author'') (\<lambda>au.
     res_bind (get_str j ''isbn'') (\<lambda>isb.
     res_bind (get_int j ''published_year'') (\<lambda>py.
     res_bind (get_str j ''publisher'') (\<lambda>pu.
     res_bind (get_str j ''description'') (\<lambda>ds.
     res_bind (get_str j ''language'') (\<lambda>la.
     res_bind (get_int j ''page_count'') (\<lambda>pc.
     res_bind (get_str j ''status'') (\<lambda>st.
     res_bind (get_str j ''cover_image'') (\<lambda>co.
     res_bind (get_num j ''average_rating'') (\<lambda>ar.
     res_bind (get_int j ''quantity'') (\<lambda>qu.
     res_bind (get_int j ''available_quantity'') (\<lambda>av.
     res_bind (get_strs j ''category_ids'') (\<lambda>cs.
       Inr \<lparr>base_id = i, created_at = ca, updated_at = ua, deleted_at = None,
            bk_title = ti, bk_author = au, bk_isbn = isb, bk_year = py, bk_publisher = pu,
            bk_description = ds, bk_language = la, bk_pages = pc, bk_status = st, bk_cover = co,
            bk_rating = ar, bk_quantity = qu, bk_available = av, bk_categories = slice cs\<rparr>))))))))))))))))))"

lemma json_strs_map [simp]: "json_strs (map JStr ss) = Inr ss"
  by (induction ss) auto

lemma get_strs_field:
  "json_field j k = (if ss = [] then None else Some (JArr (map JStr ss))) \<Longrightarrow>
   \<exists>cs. get_strs j k = Inr cs \<and> slice cs = ss"
  by (auto simp: get_strs_def slice_def split: if_splits)

definition book_ints_ok :: "'a book_cols_scheme \<Rightarrow> bool" where
  "book_ints_ok b \<longleftrightarrow> in_int64 (bk_year b) \<and> in_int64 (bk_pages b) \<and> in_int64 (bk_quantity b) \<and> in_int64 (bk_available b)"

text \<open>The JSON of a live book decodes to that book, or (for no 64-bit integer) not at all.\<close>

lemma book_json_roundtrip:
  assumes "deleted_at b = None" "book_ints_ok b"
  shows "unmarshal_book (marshal_book b) = Inr b"
  using assms
  by (cases b) (auto simp: unmarshal_book_def decode_struct_def marshal_book_def book_ints_ok_def
      str_field_def strs_field_def json_get_defs get_num_def slice_def)

lemma book_json_partial:
  assumes "deleted_at b = None" "unmarshal_book (marshal_book b) = Inr a"
  shows "a = b"
  using assms
  by (cases b) (auto simp: unmarshal_book_def decode_struct_def marshal_book_def
      str_field_def strs_field_def json_get_defs get_num_def slice_def res_bind_def split: if_splits)

section \<open>dto\<close>

record book_create =
  bq_title :: string
  bq_author :: string
  bq_isbn :: string
  bq_year :: int
  bq_publisher :: string
  bq_description :: string
  bq_categories :: "string list"
  bq_language :: string
  bq_pages :: int
  bq_cover :: string
  bq_quantity :: int

definition decode_book_create :: "json \<Rightarrow> book_create result" where
  "decode_book_create = decode_struct (\<lambda>j.
     res_bind (get_str j ''title'') (\<lambda>ti.
     res_bind (get_str j ''author'') (\<lambda>au.
     res_bind (get_str j ''isbn'') (\<lambda>isb.
     res_bind (get_int j ''published_year'') (\<lambda>py.
     res_bind (get_str j ''publisher'') (\<lambda>pu.
     res_bind (get_str j ''description'') (\<lambda>ds.
     res_bind (get_strs j ''category_ids'') (\<lambda>cs.
     res_bind (get_str j ''language'') (\<lambda>la.
     res_bind (get_int j ''page_count'') (\<lambda>pc.
     res_bind (get_str j ''cover_image'') (\<lambda>co.
     res_bind (get_int j ''quantity'') (\<lambda>qu.
       Inr \<lparr>bq_title = ti, bq_author = au, bq_isbn = isb, bq_year = py, bq_publisher = pu,
            bq_description = ds, bq_categories = slice cs, bq_language = la, bq_pages = pc,
            bq_cover = co, bq_quantity = qu\<rparr>))))))))))))"

definition book_create_tags :: "book_create \<Rightarrow> validate_field list" where
  "book_create_tags r =
     [(''title'', ''required'', JStr (bq_title r)), (''author'', ''required'', JStr (bq_author r)),
      (''isbn'', ''required'', JStr (bq_isbn r)),
      (''published_year'', ''required,gt=0'', JInt (bq_year r)),
      (''publisher'', ''required'', JStr (bq_publisher r)),
      (''language'', ''required'', JStr (bq_language r)),
      (''page_count'', ''required,gt=0'', JInt (bq_pages r)),
      (''quantity'', ''omitempty,gt=0'', JInt (bq_quantity r))]"

record book_update =
  bu_title :: "string option"
  bu_author :: "string option"
  bu_isbn :: "string option"
  bu_year :: "int option"
  bu_publisher :: "string option"
  bu_description :: "string option"
  bu_categories :: "string list"
  bu_language :: "string option"
  bu_pages :: "int option"
  bu_status :: "string option"
  bu_cover :: "string option"
  bu_quantity :: "int option"
  bu_available :: "int option"

definition decode_book_update :: "json \<Rightarrow> book_update result" where
  "decode_book_update = decode_struct (\<lambda>j.
     res_bind (get_str_ptr j ''title'') (\<lambda>ti.
     res_bind (get_str_ptr j ''author'') (\<lambda>au.
     res_bind (get_str_ptr j ''isbn'') (\<lambda>isb.
     res_bind (get_int_ptr j ''published_year'') (\<lambda>py.
     res_bind (get_str_ptr j ''publisher'') (\<lambda>pu.
     res_bind (get_str_ptr j ''description'') (\<lambda>ds.
     res_bind (get_strs j ''category_ids'') (\<lambda>cs.
     res_bind (get_str_ptr j ''language'') (\<lambda>la.
     res_bind (get_int_ptr j ''page_count'') (\<lambda>pc.
     res_bind (get_str_ptr j ''status'') (\<lambda>st.
     res_bind (get_str_ptr j ''cover_image'') (\<lambda>co.
     res_bind (get_int_ptr j ''quantity'') (\<lambda>qu.
     res_bind (get_int_ptr j ''available_quantity'') (\<lambda>av.
       Inr \<lparr>bu_title = ti, bu_author = au, bu_isbn = isb, bu_year = py, bu_publisher = pu,
            bu_description = ds, bu_categories = slice cs, bu_language = la, bu_pages = pc,
            bu_status = st, bu_cover = co, bu_quantity = qu, bu_available = av\<rparr>))))))))))))))"

definition json_int_ptr :: "int option \<Rightarrow> json" where
  "json_int_ptr x = (case x of None \<Rightarrow> JNull | Some n \<Rightarrow> JInt n)"

definition book_update_tags :: "book_update \<Rightarrow> validate_field list" where
  "book_update_tags r =
     [(''published_year'', ''omitempty,gt=0'', json_int_ptr (bu_year r)),
      (''page_count'', ''omitempty,gt=0'', json_int_ptr (bu_pages r)),
      (''status'', ''omitempty,oneof=available borrowed reserved maintenance'',
         (case bu_status r of None \<Rightarrow> JNull | Some s \<Rightarrow> JStr s)),
      (''quantity'', ''omitempty,gt=0'', json_int_ptr (bu_quantity r)),
      (''available_quantity'', ''omitempty,gte=0'', json_int_ptr (bu_available r))]"

record book_filter =
  bf_page :: int
  bf_limit :: int
  bf_sort_by :: string
  bf_desc :: bool
  bf_status :: string
  bf_category :: string
  bf_author :: string
  bf_language :: string

definition BookFilter_Validate :: "book_filter \<Rightarrow> book_filter" where
  "BookFilter_Validate f =
     f\<lparr>bf_page := clamp_page (bf_page f), bf_limit := clamp_limit (bf_limit f),
       bf_status := (if bf_status f \<noteq> [] \<and> bf_status f \<noteq> BookStatusAvailable \<and>
                        bf_status f \<noteq> BookStatusBorrowed \<and> bf_status f \<noteq> BookStatusReserved \<and>
                        bf_status f \<noteq> BookStatusMaintenance then [] else bf_status f)\<rparr>"

definition BookFilter_GetOffset :: "book_filter \<Rightarrow> int" where
  "BookFilter_GetOffset f = page_offset (bf_page f) (bf_limit f)"

record book_search =
  bs_query :: string
  bs_field :: string
  bs_page :: int
  bs_limit :: int

section \<open>dao\<close>

record book_response =
  br_id :: uuid
  br_title :: string
  br_author :: string
  br_isbn :: string
  br_year :: int
  br_publisher :: string
  br_description :: string
  br_categories :: "string list"
  br_language :: string
  br_pages :: int
  br_status :: string
  br_cover :: string
  br_rating :: rat
  br_quantity :: int
  br_available :: int
  br_created :: time
  br_updated :: time

definition NewBookResponse :: "book \<Rightarrow> book_response" where
  "NewBookResponse b =
     \<lparr>br_id = base_id b, br_title = bk_title b, br_author = bk_author b, br_isbn = bk_isbn b,
      br_year = bk_year b, br_publisher = bk_publisher b, br_description = bk_description b,
      br_categories = bk_categories b, br_language = bk_language b, br_pages = bk_pages b,
      br_status = bk_status b, br_cover = bk_cover b, br_rating = bk_rating b,
      br_quantity = bk_quantity b, br_available = bk_available b,
      br_created = created_at b, br_updated = updated_at b\<rparr>"

definition book_response_json :: "book_response \<Rightarrow> json" where
  "book_response_json r = JObj
     ([(''id'', JUuid (br_id r)), (''title'', JStr (br_title r)), (''author'', JStr (br_author r)),
       (''isbn'', JStr (br_isbn r)), (''published_year'', JInt (br_year r)),
       (''publisher'', JStr (br_publisher r)), (''description'', JStr (br_description r))]
      @ strs_field ''category_ids'' (br_categories r)
      @ [(''language'', JStr (br_language r)), (''page_count'', JInt (br_pages r)),
         (''status'', JStr (br_status r))]
      @ str_field ''cover_image'' (br_cover r)
      @ [(''average_rating'', JNum (br_rating r)), (''quantity'', JInt (br_quantity r)),
         (''available_quantity'', JInt (br_available r)),
         (''created_at'', JTime (br_created r)), (''updated_at'', JTime (br_updated r))])"

section \<open>SQL patterns\<close>

text \<open>\<open>LIKE\<close> of PostgreSQL (\<open>\\<close> escapes) and \<open>ILIKE\<close> on ASCII text.\<close>

fun sql_like :: "string \<Rightarrow> string \<Rightarrow> bool" where
  "sql_like [] s = (s = [])"
| "sql_like (p # ps) [] = (p = CHR ''%'' \<and> sql_like ps [])"
| "sql_like (p # ps) (c # cs) =
     (if p = CHR ''%'' then sql_like ps (c # cs) \<or> sql_like (p # ps) cs
      else if p = CHR 0x5C then (case ps of [] \<Rightarrow> False | q # qs \<Rightarrow> q = c \<and> sql_like qs cs)
      else (p = CHR ''_'' \<or> p = c) \<and> sql_like ps cs)"

definition sql_lower :: "string \<Rightarrow> string" where
  "sql_lower s = map ascii_lower s"

definition sql_ilike :: "string \<Rightarrow> string \<Rightarrow> bool" where
  "sql_ilike p s = sql_like (sql_lower p) (sql_lower s)"

definition plain_pattern :: "string \<Rightarrow> bool" where
  "plain_pattern q \<longleftrightarrow> CHR ''%'' \<notin> set q \<and> CHR ''_'' \<notin> set q \<and> CHR 0x5C \<notin> set q"

lemma like_any: "sql_like [CHR ''%''] s"
  by (induction s) auto

lemma like_prefix: "plain_pattern q \<Longrightarrow> sql_like (q @ [CHR ''%'']) s \<longleftrightarrow> hasPrefix s q"
  by (induction s q rule: hasPrefix.induct) (auto simp: like_any plain_pattern_def)

text \<open>A term without pattern characters between two \<open>%\<close> is a substring test.\<close>

lemma like_contains:
  assumes "plain_pattern q"
  shows "sql_like (CHR ''%'' # q @ [CHR ''%'']) s \<longleftrightarrow> str_contains s q"
proof (induction s)
  case Nil
  show ?case using like_prefix [OF assms, of "[]"] by (cases q) auto
next
  case (Cons c s)
  then show ?case using like_prefix [OF assms, of "c # s"] by simp
qed

section \<open>The WHERE clauses of the repository\<close>

text \<open>
  Rows of \<open>books_categories\<close>: a category given as text is cast by the database, whose reading of
  a UUID is the parameter \<open>pg\<close>.
\<close>

fun link_sat :: "(string \<Rightarrow> uuid option) \<Rightarrow> where_clause \<Rightarrow> book_category \<Rightarrow> bool" where
  "link_sat pg (Where sql [AUuid i]) l =
     (sql = ''book_id = ?'' \<and> bc_book l = i \<or> sql = ''category_id = ?'' \<and> bc_category l = i)"
| "link_sat pg (Where sql [AStr s]) l = (sql = ''category_id = ?'' \<and> pg s = Some (bc_category l))"
| "link_sat pg _ l = False"

text \<open>
  Rows of \<open>books\<close>. The argument \<open>sub\<close> answers whether the sub-query on \<open>books_categories\<close>
  with these conditions selects a book.
\<close>

fun book_sat :: "(where_clause list \<Rightarrow> uuid \<Rightarrow> bool) \<Rightarrow> where_clause \<Rightarrow> book_cols \<Rightarrow> bool" where
  "book_sat sub (Where sql [AUuid i]) b = (sql = ''id = ?'' \<and> base_id b = i)"
| "book_sat sub (Where sql [AStr s]) b =
     (sql = ''isbn = ?'' \<and> bk_isbn b = s \<or> sql = ''status = ?'' \<and> bk_status b = s \<or>
      sql = ''language = ?'' \<and> bk_language b = s \<or> sql = ''author ILIKE ?'' \<and> sql_ilike s (bk_author b) \<or>
      sql = ''title ILIKE ?'' \<and> sql_ilike s (bk_title b) \<or> sql = ''isbn LIKE ?'' \<and> sql_like s (bk_isbn b) \<or>
      sql = ''publisher ILIKE ?'' \<and> sql_ilike s (bk_publisher b) \<or>
      sql = ''description ILIKE ?'' \<and> sql_ilike s (bk_description b))"
| "book_sat sub (Where sql [AStr s1, AStr s2, AStr s3, AStr s4, AStr s5]) b =
     (sql = ''title ILIKE ? OR author ILIKE ? OR isbn LIKE ? OR publisher ILIKE ? OR description ILIKE ?'' \<and>
      (sql_ilike s1 (bk_title b) \<or> sql_ilike s2 (bk_author b) \<or> sql_like s3 (bk_isbn b) \<or>
       sql_ilike s4 (bk_publisher b) \<or> sql_ilike s5 (bk_description b)))"
| "book_sat sub (Where sql [ASub tab col cs]) b =
     (sql = ''id IN (?)'' \<and> tab = ''books_categories'' \<and> col = ''book_id'' \<and> sub cs (base_id b))"
| "book_sat sub _ b = False"

end
