(* ===== verification/BookRepo.thy ===== *)
theory BookRepo
  imports BookModel
begin

text \<open>
  \<open>services/book-service/internal/repository/book.repository.go\<close>: the repository interface and its
  implementation over the ORM and the cache, one definition per method. \<open>book_db\<close> is the database
  handle: the two tables through the connection pool (\<open>r.db\<close>), \<open>Begin\<close>, and the same tables
  through a transaction. A call on \<open>r.db\<close> while a transaction is open works outside of it, as in
  the source. The UUIDs that the \<open>BeforeCreate\<close> hook gives to new links are the argument \<open>fresh\<close>.
\<close>

record ('d, 't) book_db =
  bdb_books :: "('d, book_cols) gorm_api"
  bdb_links :: "('d, book_category) gorm_api"
  bdb_begin :: "'d \<Rightarrow> 't \<times> 'd"
  bdb_tx_books :: "'t \<Rightarrow> ('d, book_cols) gorm_api"
  bdb_tx_links :: "'t \<Rightarrow> ('d, book_category) gorm_api"
  bdb_commit :: "'t \<Rightarrow> 'd \<Rightarrow> unit result \<times> 'd"
  bdb_rollback :: "'t \<Rightarrow> 'd \<Rightarrow> 'd"

record ('d, 't, 'c) book_repo_conf =
  brc_uuid :: uuid_lib
  brc_db :: "('d, 't) book_db"
  brc_cache :: "'c redis_client option"

record 's book_repository =
  bkr_Create :: "(nat \<Rightarrow> uuid) \<Rightarrow> book \<Rightarrow> 's \<Rightarrow> book result \<times> 's"
  bkr_GetByID :: "uuid \<Rightarrow> 's \<Rightarrow> book result \<times> 's"
  bkr_GetByISBN :: "string \<Rightarrow> 's \<Rightarrow> book result \<times> 's"
  bkr_Update :: "(nat \<Rightarrow> uuid) \<Rightarrow> book \<Rightarrow> 's \<Rightarrow> book result \<times> 's"
  bkr_Delete :: "uuid \<Rightarrow> 's \<Rightarrow> unit result \<times> 's"
  bkr_List :: "book_filter \<Rightarrow> 's \<Rightarrow> (book list \<times> int) result \<times> 's"
  bkr_Search :: "book_search \<Rightarrow> 's \<Rightarrow> (book list \<times> int) result \<times> 's"
  bkr_GetByCategory :: "string \<Rightarrow> int \<Rightarrow> int \<Rightarrow> 's \<Rightarrow> (book list \<times> int) result \<times> 's"
  bkr_AddCategories :: "(nat \<Rightarrow> uuid) \<Rightarrow> uuid \<Rightarrow> string list \<Rightarrow> 's \<Rightarrow> unit result \<times> 's"
  bkr_RemoveCategories :: "uuid \<Rightarrow> 's \<Rightarrow> unit result \<times> 's"
  bkr_GetBookCategories :: "uuid \<Rightarrow> 's \<Rightarrow> string list result \<times> 's"

section \<open>Cache keys\<close>

definition book_key :: "uuid_lib \<Rightarrow> uuid \<Rightarrow> string" where
  "book_key ul i = CacheKeyBook @ uuid_string ul i"

definition book_isbn_key :: "string \<Rightarrow> string" where
  "book_isbn_key n = CacheKeyBook @ ''isbn:'' @ n"

definition book_list_key :: string where
  "book_list_key = CacheKeyBooks @ ''list''"

definition book_keys :: "uuid_lib \<Rightarrow> uuid \<Rightarrow> string \<Rightarrow> string list" where
  "book_keys ul i isbn = [book_key ul i, book_isbn_key isbn, book_list_key]"

lemma book_keys_distinct:
  assumes "uuid_laws ul"
  shows "book_key ul i \<noteq> book_isbn_key n" "book_key ul i = book_key ul j \<longleftrightarrow> i = j"
proof -
  have "CHR '':'' \<notin> set (uuid_string ul i)" using assms by (simp add: uuid_laws_def)
  then show "book_key ul i \<noteq> book_isbn_key n" by (auto simp: book_key_def book_isbn_key_def)
  show "book_key ul i = book_key ul j \<longleftrightarrow> i = j"
    using uuid_string_inj [OF assms] by (simp add: book_key_def)
qed

section \<open>The links to categories\<close>

definition bookRepository_GetBookCategories ::
  "('d, 't, 'c) book_repo_conf \<Rightarrow> uuid \<Rightarrow> 'd \<times> 'c \<Rightarrow> string list result \<times> ('d \<times> 'c)" where
  "bookRepository_GetBookCategories r i s =
     (case g_find (bdb_links (brc_db r)) (q_where ''book_id = ?'' [AUuid i] q_all) (fst s) of
        (Inl e, d) \<Rightarrow> (Inl e, (d, snd s))
      | (Inr ls, d) \<Rightarrow> (Inr (map (\<lambda>l. uuid_string (brc_uuid r) (bc_category l)) ls), (d, snd s)))"

definition bookRepository_RemoveCategories ::
  "('d, 't, 'c) book_repo_conf \<Rightarrow> uuid \<Rightarrow> 'd \<times> 'c \<Rightarrow> unit result \<times> ('d \<times> 'c)" where
  "bookRepository_RemoveCategories r i s =
     (case g_delete (bdb_links (brc_db r)) (q_where ''book_id = ?'' [AUuid i] q_all) (fst s) of
        (x, d) \<Rightarrow> (x, (d, snd s)))"

text \<open>
  \<open>addBookCategories\<close> on the handle \<open>api\<close>: empty and malformed IDs are skipped, an error whose
  text holds \<open>duplicate key\<close> is ignored.
\<close>

fun addBookCategories ::
  "uuid_lib \<Rightarrow> ('d, book_category) gorm_api \<Rightarrow> (nat \<Rightarrow> uuid) \<Rightarrow> uuid \<Rightarrow> string list \<Rightarrow> 'd \<Rightarrow>
   unit result \<times> 'd" where
  "addBookCategories ul api fresh bookID [] d = (Inr (), d)"
| "addBookCategories ul api fresh bookID (catID # rest) d =
     (if catID = [] then addBookCategories ul api fresh bookID rest d
      else case uuid_parse ul (trimSpace catID) of
        None \<Rightarrow> addBookCategories ul api fresh bookID rest d
      | Some u \<Rightarrow>
          (case g_create api (BeforeCreate (fresh 0)
                  \<lparr>base_id = uuid_Nil, created_at = 0, updated_at = 0, deleted_at = None,
                   bc_book = bookID, bc_category = u\<rparr>) d of
             (Inl e, d') \<Rightarrow>
               if \<not> str_contains (err_msg e) ''duplicate key'' then (Inl e, d')
               else addBookCategories ul api (\<lambda>k. fresh (Suc k)) bookID rest d'
           | (Inr _, d') \<Rightarrow> addBookCategories ul api (\<lambda>k. fresh (Suc k)) bookID rest d'))"

definition bookRepository_AddCategories ::
  "('d, 't, 'c) book_repo_conf \<Rightarrow> (nat \<Rightarrow> uuid) \<Rightarrow> uuid \<Rightarrow> string list \<Rightarrow> 'd \<times> 'c \<Rightarrow>
   unit result \<times> ('d \<times> 'c)" where
  "bookRepository_AddCategories r fresh i cs s =
     (case addBookCategories (brc_uuid r) (bdb_links (brc_db r)) fresh i cs (fst s) of
        (x, d) \<Rightarrow> (x, (d, snd s)))"

text \<open>The category IDs of a book; an error (which is only logged) leaves them nil.\<close>

definition categories_or_nil ::
  "('d, 't, 'c) book_repo_conf \<Rightarrow> uuid \<Rightarrow> 'd \<times> 'c \<Rightarrow> string list \<times> ('d \<times> 'c)" where
  "categories_or_nil r i s =
     (case bookRepository_GetBookCategories r i s of
        (Inl _, s') \<Rightarrow> ([], s')
      | (Inr cs, s') \<Rightarrow> (cs, s'))"

section \<open>Lookups\<close>

text \<open>
  The shape of \<open>GetByID\<close> and \<open>GetByISBN\<close>: a cache hit takes its category IDs from the database; a
  miss runs the query, then reads the category IDs, then stores the book in the cache.
\<close>

definition book_read_through ::
  "('d, 't, 'c) book_repo_conf \<Rightarrow> string \<Rightarrow> string \<Rightarrow> (book_cols \<Rightarrow> uuid) \<Rightarrow> stmt \<Rightarrow> 'd \<times> 'c \<Rightarrow>
   book result \<times> ('d \<times> 'c)" where
  "book_read_through r key nf owner q s =
     (let miss = (\<lambda>s1.
        (case g_first (bdb_books (brc_db r)) q (fst s1) of
           (Inl e, d) \<Rightarrow> (Inl (wrap_not_found nf e), (d, snd s1))
         | (Inr row, d) \<Rightarrow>
             (case categories_or_nil r (owner row) (d, snd s1) of
                (cs, s2) \<Rightarrow>
                  let b = with_categories row cs
                  in (case brc_cache r of
                        None \<Rightarrow> (Inr b, s2)
                      | Some cl \<Rightarrow>
                          (Inr b, (fst s2, snd (Redis_Set cl (\<lambda>x. Inr (marshal_book x)) key b CacheDefaultTTL (snd s2))))))))
      in (case brc_cache r of
            None \<Rightarrow> miss s
          | Some cl \<Rightarrow>
              (case Redis_Get cl unmarshal_book key (snd s) of
                 (Inr b, c) \<Rightarrow>
                   (case categories_or_nil r (owner (cols b)) (fst s, c) of
                      (cs, s2) \<Rightarrow> (Inr (b\<lparr>bk_categories := cs\<rparr>), s2))
               | (Inl _, c) \<Rightarrow> miss (fst s, c))))"

definition bookRepository_GetByID ::
  "('d, 't, 'c) book_repo_conf \<Rightarrow> uuid \<Rightarrow> 'd \<times> 'c \<Rightarrow> book result \<times> ('d \<times> 'c)" where
  "bookRepository_GetByID r i s =
     book_read_through r (book_key (brc_uuid r) i) ErrBookNotFound (\<lambda>_. i)
       (q_where ''id = ?'' [AUuid i] q_all) s"

definition bookRepository_GetByISBN ::
  "('d, 't, 'c) book_repo_conf \<Rightarrow> string \<Rightarrow> 'd \<times> 'c \<Rightarrow> book result \<times> ('d \<times> 'c)" where
  "bookRepository_GetByISBN r n s =
     book_read_through r (book_isbn_key n) (''book with ISBN '' @ n @ '' not found'') base_id
       (q_where ''isbn = ?'' [AStr n] q_all) s"

section \<open>Writes\<close>

text \<open>The end of a transaction: \<open>Commit\<close>, then the invalidation of the cache keys.\<close>

definition commit_and_invalidate ::
  "('d, 't, 'c) book_repo_conf \<Rightarrow> 't \<Rightarrow> string list \<Rightarrow> 'a \<Rightarrow> 'd \<times> 'c \<Rightarrow> 'a result \<times> ('d \<times> 'c)" where
  "commit_and_invalidate r tx keys x s =
     (case bdb_commit (brc_db r) tx (fst s) of
        (Inl e, d) \<Rightarrow> (Inl e, (d, snd s))
      | (Inr _, d) \<Rightarrow> (Inr x, (d, invalidate_all (brc_cache r) keys (snd s))))"

text \<open>\<open>if len(CategoryIDs) > 0\<close>, the links are added within the transaction.\<close>

definition link_categories ::
  "('d, 't, 'c) book_repo_conf \<Rightarrow> 't \<Rightarrow> (nat \<Rightarrow> uuid) \<Rightarrow> uuid \<Rightarrow> string list \<Rightarrow> 'd \<Rightarrow> unit result \<times> 'd" where
  "link_categories r tx fresh i cs d =
     (if cs = [] then (Inr (), d)
      else addBookCategories (brc_uuid r) (bdb_tx_links (brc_db r) tx) fresh i cs d)"

definition bookRepository_Create ::
  "('d, 't, 'c) book_repo_conf \<Rightarrow> (nat \<Rightarrow> uuid) \<Rightarrow> book \<Rightarrow> 'd \<times> 'c \<Rightarrow> book result \<times> ('d \<times> 'c)" where
  "bookRepository_Create r fresh b s =
     (case bdb_begin (brc_db r) (fst s) of
        (tx, d1) \<Rightarrow>
          (case g_create (bdb_tx_books (brc_db r) tx) (cols b) d1 of
             (Inl e, d2) \<Rightarrow> (Inl e, (bdb_rollback (brc_db r) tx d2, snd s))
           | (Inr row, d2) \<Rightarrow>
               (case link_categories r tx fresh (base_id row) (bk_categories b) d2 of
                  (Inl e, d3) \<Rightarrow> (Inl e, (bdb_rollback (brc_db r) tx d3, snd s))
                | (Inr _, d3) \<Rightarrow>
                    commit_and_invalidate r tx [book_list_key] (with_categories row (bk_categories b)) (d3, snd s))))"

definition bookRepository_Update ::
  "('d, 't, 'c) book_repo_conf \<Rightarrow> (nat \<Rightarrow> uuid) \<Rightarrow> book \<Rightarrow> 'd \<times> 'c \<Rightarrow> book result \<times> ('d \<times> 'c)" where
  "bookRepository_Update r fresh b s =
     (case bdb_begin (brc_db r) (fst s) of
        (tx, d1) \<Rightarrow>
          (case g_save (bdb_tx_books (brc_db r) tx) (cols b) d1 of
             (Inl e, d2) \<Rightarrow> (Inl e, (bdb_rollback (brc_db r) tx d2, snd s))
           | (Inr row, d2) \<Rightarrow>
               (case bookRepository_RemoveCategories r (base_id row) (d2, snd s) of
                  (Inl e, s3) \<Rightarrow> (Inl e, (bdb_rollback (brc_db r) tx (fst s3), snd s3))
                | (Inr _, s3) \<Rightarrow>
                    (case link_categories r tx fresh (base_id row) (bk_categories b) (fst s3) of
                       (Inl e, d4) \<Rightarrow> (Inl e, (bdb_rollback (brc_db r) tx d4, snd s3))
                     | (Inr _, d4) \<Rightarrow>
                         commit_and_invalidate r tx (book_keys (brc_uuid r) (base_id row) (bk_isbn row))
                           (with_categories row (bk_categories b)) (d4, snd s3)))))"

definition bookRepository_Delete ::
  "('d, 't, 'c) book_repo_conf \<Rightarrow> uuid \<Rightarrow> 'd \<times> 'c \<Rightarrow> unit result \<times> ('d \<times> 'c)" where
  "bookRepository_Delete r i s =
     (case bookRepository_GetByID r i s of
        (Inl e, s1) \<Rightarrow> (Inl e, s1)
      | (Inr b, s1) \<Rightarrow>
          (case bdb_begin (brc_db r) (fst s1) of
             (tx, d2) \<Rightarrow>
               (case bookRepository_RemoveCategories r i (d2, snd s1) of
                  (Inl e, s3) \<Rightarrow> (Inl e, (bdb_rollback (brc_db r) tx (fst s3), snd s3))
                | (Inr _, s3) \<Rightarrow>
                    (case g_delete (bdb_tx_books (brc_db r) tx) (q_where ''id = ?'' [AUuid i] q_all) (fst s3) of
                       (Inl e, d4) \<Rightarrow> (Inl e, (bdb_rollback (brc_db r) tx d4, snd s3))
                     | (Inr _, d4) \<Rightarrow>
                         commit_and_invalidate r tx (book_keys (brc_uuid r) i (bk_isbn b)) () (d4, snd s3)))))"

section \<open>Listings\<close>

text \<open>\<open>for _, book := range books\<close>: the category IDs of every book of the page.\<close>

fun load_categories ::
  "('d, 't, 'c) book_repo_conf \<Rightarrow> book_cols list \<Rightarrow> 'd \<times> 'c \<Rightarrow> book list \<times> ('d \<times> 'c)" where
  "load_categories r [] s = ([], s)"
| "load_categories r (row # rows) s =
     (case categories_or_nil r (base_id row) s of
        (cs, s1) \<Rightarrow>
          (case load_categories r rows s1 of
             (bs, s2) \<Rightarrow> (with_categories row cs # bs, s2)))"

text \<open>\<open>Count\<close> on the filtered query, \<open>Find\<close> on its window, then the categories.\<close>

definition count_and_find ::
  "('d, 't, 'c) book_repo_conf \<Rightarrow> stmt \<Rightarrow> stmt \<Rightarrow> 'd \<times> 'c \<Rightarrow> (book list \<times> int) result \<times> ('d \<times> 'c)" where
  "count_and_find r q window s =
     (case g_count (bdb_books (brc_db r)) q (fst s) of
        (Inl e, d1) \<Rightarrow> (Inl e, (d1, snd s))
      | (Inr n, d1) \<Rightarrow>
          (case g_find (bdb_books (brc_db r)) window d1 of
             (Inl e, d2) \<Rightarrow> (Inl e, (d2, snd s))
           | (Inr rows, d2) \<Rightarrow>
               (case load_categories r rows (d2, snd s) of (bs, s3) \<Rightarrow> (Inr (bs, n), s3))))"

definition q_if :: "bool \<Rightarrow> (stmt \<Rightarrow> stmt) \<Rightarrow> stmt \<Rightarrow> stmt" where
  "q_if c f q = (if c then f q else q)"

definition book_list_where :: "book_filter \<Rightarrow> stmt" where
  "book_list_where f =
     q_if (bf_category f \<noteq> [])
       (q_where ''id IN (?)'' [ASub ''books_categories'' ''book_id''
          [Where ''category_id = ?'' [AStr (bf_category f)]]])
     (q_if (bf_language f \<noteq> []) (q_where ''language = ?'' [AStr (bf_language f)])
     (q_if (bf_author f \<noteq> []) (q_where ''author ILIKE ?'' [AStr (''%'' @ bf_author f @ ''%'')])
     (q_if (bf_status f \<noteq> []) (q_where ''status = ?'' [AStr (bf_status f)]) q_all)))"

definition book_list_query :: "book_filter \<Rightarrow> stmt" where
  "book_list_query f =
     q_limit (bf_limit f) (q_offset (BookFilter_GetOffset f)
       (if bf_sort_by f \<noteq> []
        then (if bf_desc f then q_order (bf_sort_by f @ '' DESC'') (book_list_where f)
              else q_order (bf_sort_by f) (book_list_where f))
        else q_order ''created_at DESC'' (book_list_where f)))"

definition bookRepository_List ::
  "('d, 't, 'c) book_repo_conf \<Rightarrow> book_filter \<Rightarrow> 'd \<times> 'c \<Rightarrow> (book list \<times> int) result \<times> ('d \<times> 'c)" where
  "bookRepository_List r f s = count_and_find r (book_list_where f) (book_list_query f) s"

definition book_search_where :: "book_search \<Rightarrow> stmt" where
  "book_search_where f =
     (let t = AStr (''%'' @ bs_query f @ ''%'')
      in if bs_field f = ''title'' then q_where ''title ILIKE ?'' [t] q_all
         else if bs_field f = ''author'' then q_where ''author ILIKE ?'' [t] q_all
         else if bs_field f = ''isbn'' then q_where ''isbn LIKE ?'' [t] q_all
         else if bs_field f = ''publisher'' then q_where ''publisher ILIKE ?'' [t] q_all
         else if bs_field f = ''description'' then q_where ''description ILIKE ?'' [t] q_all
         else q_where ''title ILIKE ? OR author ILIKE ? OR isbn LIKE ? OR publisher ILIKE ? OR description ILIKE ?''
                [t, t, t, t, t] q_all)"

definition bookRepository_Search ::
  "('d, 't, 'c) book_repo_conf \<Rightarrow> book_search \<Rightarrow> 'd \<times> 'c \<Rightarrow> (book list \<times> int) result \<times> ('d \<times> 'c)" where
  "bookRepository_Search r f s =
     count_and_find r (book_search_where f)
       (q_limit (bs_limit f) (q_offset (page_offset (bs_page f) (bs_limit f)) (book_search_where f))) s"

definition bookRepository_GetByCategory ::
  "('d, 't, 'c) book_repo_conf \<Rightarrow> string \<Rightarrow> int \<Rightarrow> int \<Rightarrow> 'd \<times> 'c \<Rightarrow>
   (book list \<times> int) result \<times> ('d \<times> 'c)" where
  "bookRepository_GetByCategory r categoryID page lm s =
     (case uuid_parse (brc_uuid r) categoryID of
        None \<Rightarrow> (Inl (uuid_err (brc_uuid r) categoryID), s)
      | Some u \<Rightarrow>
          let q = q_where ''id IN (?)''
                    [ASub ''books_categories'' ''book_id'' [Where ''category_id = ?'' [AUuid u]]] q_all
          in count_and_find r q (q_limit lm (q_offset (page_offset page lm) q)) s)"

definition NewBookRepository :: "('d, 't, 'c) book_repo_conf \<Rightarrow> ('d \<times> 'c) book_repository" where
  "NewBookRepository r =
     \<lparr>bkr_Create = bookRepository_Create r, bkr_GetByID = bookRepository_GetByID r,
      bkr_GetByISBN = bookRepository_GetByISBN r, bkr_Update = bookRepository_Update r,
      bkr_Delete = bookRepository_Delete r, bkr_List = bookRepository_List r,
      bkr_Search = bookRepository_Search r, bkr_GetByCategory = bookRepository_GetByCategory r,
      bkr_AddCategories = bookRepository_AddCategories r,
      bkr_RemoveCategories = bookRepository_RemoveCategories r,
      bkr_GetBookCategories = bookRepository_GetBookCategories r\<rparr>"

lemma NewBookRepository_simps [simp]:
  "bkr_Create (NewBookRepository r) = bookRepository_Create r"
  "bkr_GetByID (NewBookRepository r) = bookRepository_GetByID r"
  "bkr_GetByISBN (NewBookRepository r) = bookRepository_GetByISBN r"
  "bkr_Update (NewBookRepository r) = bookRepository_Update r"
  "bkr_Delete (NewBookRepository r) = bookRepository_Delete r"
  "bkr_List (NewBookRepository r) = bookRepository_List r"
  "bkr_Search (NewBookRepository r) = bookRepository_Search r"
  "bkr_GetByCategory (NewBookRepository r) = bookRepository_GetByCategory r"
  by (simp_all add: NewBookRepository_def)

end
