(* ===== verification/BookService.thy ===== *)
theory BookService
  imports BookRepo ServiceBase
begin

text \<open>
  \<open>services/book-service/internal/service\<close>: the client of the category service with its mock, and
  the business logic of books over the repository interface, one definition per method. The answers
  of the category service are functions of the ID, the same for the whole of a request.
\<close>

section \<open>The category client\<close>

record category_client =
  cc_CategoryExists :: "string \<Rightarrow> bool result"
  cc_GetCategoryName :: "string \<Rightarrow> string result"

text \<open>The generated stub of the category service: the two calls the client makes.\<close>

record category_stub =
  st_CheckCategoryExists :: "string \<Rightarrow> bool result"
  st_GetCategory_name :: "string \<Rightarrow> string result"

definition grpcCategoryClient_CategoryExists :: "category_stub \<Rightarrow> string \<Rightarrow> bool result" where
  "grpcCategoryClient_CategoryExists stub categoryID =
     (case st_CheckCategoryExists stub categoryID of Inl e \<Rightarrow> Inl e | Inr ex \<Rightarrow> Inr ex)"

definition grpcCategoryClient_GetCategoryName :: "category_stub \<Rightarrow> string \<Rightarrow> string result" where
  "grpcCategoryClient_GetCategoryName stub categoryID =
     (case st_GetCategory_name stub categoryID of Inl e \<Rightarrow> Inl e | Inr n \<Rightarrow> Inr n)"

definition mockCategoryClient_CategoryExists :: "string \<Rightarrow> bool result" where
  "mockCategoryClient_CategoryExists categoryID = Inr True"

definition mockCategoryClient_GetCategoryName :: "string \<Rightarrow> string result" where
  "mockCategoryClient_GetCategoryName categoryID = Inr ''Unknown Category''"

definition mockCategoryClient :: category_client where
  "mockCategoryClient =
     \<lparr>cc_CategoryExists = mockCategoryClient_CategoryExists,
      cc_GetCategoryName = mockCategoryClient_GetCategoryName\<rparr>"

text \<open>\<open>NewCategoryClient\<close>: \<open>dial\<close> is the outcome of connecting to the URL.\<close>

definition NewCategoryClient :: "(string \<Rightarrow> category_stub result) \<Rightarrow> string \<Rightarrow> category_client" where
  "NewCategoryClient dial serviceURL =
     (if serviceURL = [] then mockCategoryClient
      else case dial serviceURL of
        Inl _ \<Rightarrow> mockCategoryClient
      | Inr stub \<Rightarrow> \<lparr>cc_CategoryExists = grpcCategoryClient_CategoryExists stub,
                     cc_GetCategoryName = grpcCategoryClient_GetCategoryName stub\<rparr>)"

section \<open>The service\<close>

text \<open>\<open>bookService\<close>: the category client may be nil.\<close>

record 's book_service_conf =
  bsc_uuid :: uuid_lib
  bsc_repo :: "'s book_repository"
  bsc_client :: "category_client option"

text \<open>The readings of a request: the new row, and the UUIDs of new links.\<close>

record book_env = new_row_env +
  link_uuids :: "nat \<Rightarrow> uuid"

definition err_isbn_exists :: "string \<Rightarrow> go_error" where
  "err_isbn_exists n = errors_New (''book with ISBN '' @ n @ '' already exists'')"

definition err_category_format :: "string \<Rightarrow> go_error" where
  "err_category_format c = errors_New (''invalid category ID format: '' @ c)"

definition err_no_category :: "string \<Rightarrow> go_error" where
  "err_no_category c = errors_New (''category with ID '' @ c @ '' does not exist'')"

text \<open>
  The validation loop over the category IDs: empty IDs are skipped, an error of the category
  service is only logged.
\<close>

fun validate_categories :: "uuid_lib \<Rightarrow> category_client \<Rightarrow> string list \<Rightarrow> go_error option" where
  "validate_categories ul cl [] = None"
| "validate_categories ul cl (catID # rest) =
     (if catID = [] then validate_categories ul cl rest
      else case uuid_parse ul catID of
        None \<Rightarrow> Some (err_category_format catID)
      | Some _ \<Rightarrow>
          (case cc_CategoryExists cl catID of
             Inl _ \<Rightarrow> validate_categories ul cl rest
           | Inr ex \<Rightarrow> if ex then validate_categories ul cl rest else Some (err_no_category catID)))"

definition check_categories :: "'s book_service_conf \<Rightarrow> string list \<Rightarrow> go_error option" where
  "check_categories sv cs =
     (case bsc_client sv of
        None \<Rightarrow> None
      | Some cl \<Rightarrow> if cs = [] then None else validate_categories (bsc_uuid sv) cl cs)"

text \<open>\<open>err == nil && existingBook != nil\<close> after the lookup of an ISBN.\<close>

definition isbn_taken :: "'s book_service_conf \<Rightarrow> string \<Rightarrow> (book \<Rightarrow> bool) \<Rightarrow> 's \<Rightarrow> bool \<times> 's" where
  "isbn_taken sv n other s =
     (case bkr_GetByISBN (bsc_repo sv) n s of
        (Inl _, s') \<Rightarrow> (False, s')
      | (Inr existing, s') \<Rightarrow> (other existing, s'))"

definition new_book :: "book_env \<Rightarrow> book_create \<Rightarrow> book" where
  "new_book env req =
     (let b = NewBook (new_uuid env) (now_created env) (now_updated env) (bq_title req) (bq_author req)
                (bq_isbn req) (bq_year req) (bq_publisher req) (bq_description req) (bq_language req)
                (bq_pages req) (bq_categories req);
          b1 = (if bq_cover req \<noteq> [] then b\<lparr>bk_cover := bq_cover req\<rparr> else b)
      in if bq_quantity req > 0 then b1\<lparr>bk_quantity := bq_quantity req, bk_available := bq_quantity req\<rparr>
         else b1)"

definition CreateBook ::
  "'s book_service_conf \<Rightarrow> book_env \<Rightarrow> book_create \<Rightarrow> 's \<Rightarrow> book_response result \<times> 's" where
  "CreateBook sv env req s =
     (case (if bq_isbn req \<noteq> [] then isbn_taken sv (bq_isbn req) (\<lambda>_. True) s else (False, s)) of
        (True, s1) \<Rightarrow> (Inl (err_isbn_exists (bq_isbn req)), s1)
      | (False, s1) \<Rightarrow>
          (case check_categories sv (bq_categories req) of
             Some e \<Rightarrow> (Inl e, s1)
           | None \<Rightarrow>
               (case bkr_Create (bsc_repo sv) (link_uuids env) (new_book env req) s1 of
                  (Inl e, s2) \<Rightarrow> (Inl err_internal, s2)
                | (Inr b, s2) \<Rightarrow> (Inr (NewBookResponse b), s2))))"

definition DeleteBook :: "'s book_service_conf \<Rightarrow> uuid \<Rightarrow> 's \<Rightarrow> unit result \<times> 's" where
  "DeleteBook sv i s =
     (case bkr_GetByID (bsc_repo sv) i s of
        (Inl e, s1) \<Rightarrow> (Inl (lookup_error ErrBookNotFound ErrBookNotFound e), s1)
      | (Inr _, s1) \<Rightarrow>
          (case bkr_Delete (bsc_repo sv) i s1 of
             (Inl e, s2) \<Rightarrow> (Inl err_internal, s2)
           | (Inr _, s2) \<Rightarrow> (Inr (), s2)))"

text \<open>The list response of a page: the page count is computed from the count and the limit.\<close>

definition book_page :: "int \<Rightarrow> int \<Rightarrow> (book list \<times> int) result \<times> 's \<Rightarrow> book_response list_response result \<times> 's" where
  "book_page page lm p =
     (case p of
        (Inl e, s') \<Rightarrow> (Inl err_internal, s')
      | (Inr (bs, n), s') \<Rightarrow>
          (Inr \<lparr>lr_items = map NewBookResponse bs, lr_total_items = n, lr_total_pages = total_pages n lm,
                lr_current_page = page, lr_page_size = lm\<rparr>, s'))"

definition ListBooks ::
  "'s book_service_conf \<Rightarrow> book_filter \<Rightarrow> 's \<Rightarrow> book_response list_response result \<times> 's" where
  "ListBooks sv f s =
     (let f' = BookFilter_Validate f
      in book_page (bf_page f') (bf_limit f') (bkr_List (bsc_repo sv) f' s))"

definition SearchBooks ::
  "'s book_service_conf \<Rightarrow> book_search \<Rightarrow> 's \<Rightarrow> book_response list_response result \<times> 's" where
  "SearchBooks sv f s =
     (let f' = f\<lparr>bs_page := clamp_page (bs_page f), bs_limit := clamp_limit (bs_limit f)\<rparr>
      in book_page (bs_page f') (bs_limit f') (bkr_Search (bsc_repo sv) f' s))"

definition GetBooksByCategory ::
  "'s book_service_conf \<Rightarrow> string \<Rightarrow> int \<Rightarrow> int \<Rightarrow> 's \<Rightarrow> book_response list_response result \<times> 's" where
  "GetBooksByCategory sv categoryID page lm s =
     (let page' = clamp_page page; lm' = clamp_limit lm
      in case uuid_parse (bsc_uuid sv) categoryID of
           None \<Rightarrow> (Inl (err_category_format categoryID), s)
         | Some _ \<Rightarrow>
             if (case bsc_client sv of None \<Rightarrow> False | Some cl \<Rightarrow> cc_CategoryExists cl categoryID = Inr False)
             then (Inl (err_no_category categoryID), s)
             else book_page page' lm' (bkr_GetByCategory (bsc_repo sv) categoryID page' lm' s))"

definition GetBookByID :: "'s book_service_conf \<Rightarrow> uuid \<Rightarrow> 's \<Rightarrow> book_response result \<times> 's" where
  "GetBookByID sv i s =
     (case bkr_GetByID (bsc_repo sv) i s of
        (Inl e, s') \<Rightarrow> (Inl (lookup_error ErrBookNotFound ErrBookNotFound e), s')
      | (Inr b, s') \<Rightarrow> (Inr (NewBookResponse b), s'))"

definition GetBookByISBN :: "'s book_service_conf \<Rightarrow> string \<Rightarrow> 's \<Rightarrow> book_response result \<times> 's" where
  "GetBookByISBN sv n s =
     (case bkr_GetByISBN (bsc_repo sv) n s of
        (Inl e, s') \<Rightarrow> (Inl (lookup_error ''not found'' (''book with ISBN '' @ n @ '' not found'') e), s')
      | (Inr b, s') \<Rightarrow> (Inr (NewBookResponse b), s'))"

section \<open>UpdateBook\<close>

text \<open>The plain fields of the request.\<close>

definition update_fields :: "book_update \<Rightarrow> book \<Rightarrow> book" where
  "update_fields req b =
     upd (\<lambda>v b. b\<lparr>bk_cover := v\<rparr>) (bu_cover req)
     (upd (\<lambda>v b. b\<lparr>bk_status := v\<rparr>) (bu_status req)
     (upd (\<lambda>v b. b\<lparr>bk_pages := v\<rparr>) (bu_pages req)
     (upd (\<lambda>v b. b\<lparr>bk_language := v\<rparr>) (bu_language req)
     (upd (\<lambda>v b. b\<lparr>bk_description := v\<rparr>) (bu_description req)
     (upd (\<lambda>v b. b\<lparr>bk_publisher := v\<rparr>) (bu_publisher req)
     (upd (\<lambda>v b. b\<lparr>bk_year := v\<rparr>) (bu_year req)
     (upd (\<lambda>v b. b\<lparr>bk_isbn := v\<rparr>) (bu_isbn req)
     (upd (\<lambda>v b. b\<lparr>bk_author := v\<rparr>) (bu_author req)
     (upd (\<lambda>v b. b\<lparr>bk_title := v\<rparr>) (bu_title req) b)))))))))"

text \<open>
  The quantity block as written: \<open>book.Quantity\<close> is assigned first, so the difference is taken
  with the new quantity itself.
\<close>

definition update_quantity :: "book_update \<Rightarrow> book \<Rightarrow> book" where
  "update_quantity req b =
     (case bu_quantity req of
        None \<Rightarrow> b
      | Some q \<Rightarrow>
          let b1 = b\<lparr>bk_quantity := q\<rparr>
          in (case bu_available req of
                Some _ \<Rightarrow> b1
              | None \<Rightarrow>
                  let difference = wrap64 (q - bk_quantity b1);
                      b2 = b1\<lparr>bk_available := wrap64 (bk_available b1 + difference)\<rparr>
                  in if bk_available b2 < 0 then b2\<lparr>bk_available := 0\<rparr> else b2))"

definition update_available :: "book_update \<Rightarrow> book \<Rightarrow> book result" where
  "update_available req b =
     (case bu_available req of
        None \<Rightarrow> Inr b
      | Some a \<Rightarrow>
          if a > bk_quantity b then Inl (errors_New ''available quantity cannot exceed total quantity'')
          else Inr (b\<lparr>bk_available := a\<rparr>))"

definition UpdateBook ::
  "'s book_service_conf \<Rightarrow> book_env \<Rightarrow> uuid \<Rightarrow> book_update \<Rightarrow> 's \<Rightarrow> book_response result \<times> 's" where
  "UpdateBook sv env i req s =
     (case bkr_GetByID (bsc_repo sv) i s of
        (Inl e, s1) \<Rightarrow> (Inl (lookup_error ErrBookNotFound ErrBookNotFound e), s1)
      | (Inr b, s1) \<Rightarrow>
          (case (case bu_isbn req of
                   None \<Rightarrow> (False, s1)
                 | Some n \<Rightarrow> if n = bk_isbn b then (False, s1)
                             else isbn_taken sv n (\<lambda>existing. base_id existing \<noteq> i) s1) of
             (True, s2) \<Rightarrow> (Inl (err_isbn_exists (the (bu_isbn req))), s2)
           | (False, s2) \<Rightarrow>
               (case update_available req (update_quantity req (update_fields req b)) of
                  Inl e \<Rightarrow> (Inl e, s2)
                | Inr b1 \<Rightarrow>
                    (case check_categories sv (bu_categories req) of
                       Some e \<Rightarrow> (Inl e, s2)
                     | None \<Rightarrow>
                         let b2 = (if bu_categories req = [] then b1
                                   else b1\<lparr>bk_categories := bu_categories req\<rparr>)
                         in (case bkr_Update (bsc_repo sv) (link_uuids env) b2 s2 of
                               (Inl e, s3) \<Rightarrow> (Inl err_internal, s3)
                             | (Inr b3, s3) \<Rightarrow> (Inr (NewBookResponse b3), s3))))))"

end
