(* ===== verification/BookHandlers.thy ===== *)
theory BookHandlers
  imports BookService
begin

text \<open>
  The HTTP and gRPC handlers of the book service (\<open>services/book-service/internal/handler\<close>), one
  definition per handler, over the service interface as a record of functions. In the protobuf
  messages 64-bit integers narrow to \<open>int32\<close>; the rating, only ever zero, stays as it is.
\<close>

section \<open>The service interface\<close>

record 's book_service =
  bsv_Create :: "book_env \<Rightarrow> book_create \<Rightarrow> 's \<Rightarrow> book_response result \<times> 's"
  bsv_GetByID :: "uuid \<Rightarrow> 's \<Rightarrow> book_response result \<times> 's"
  bsv_GetByISBN :: "string \<Rightarrow> 's \<Rightarrow> book_response result \<times> 's"
  bsv_Update :: "book_env \<Rightarrow> uuid \<Rightarrow> book_update \<Rightarrow> 's \<Rightarrow> book_response result \<times> 's"
  bsv_Delete :: "uuid \<Rightarrow> 's \<Rightarrow> unit result \<times> 's"
  bsv_List :: "book_filter \<Rightarrow> 's \<Rightarrow> book_response list_response result \<times> 's"
  bsv_Search :: "book_search \<Rightarrow> 's \<Rightarrow> book_response list_response result \<times> 's"
  bsv_GetByCategory :: "string \<Rightarrow> int \<Rightarrow> int \<Rightarrow> 's \<Rightarrow> book_response list_response result \<times> 's"

definition NewBookService :: "'s book_service_conf \<Rightarrow> 's book_service" where
  "NewBookService sv =
     \<lparr>bsv_Create = CreateBook sv, bsv_GetByID = GetBookByID sv, bsv_GetByISBN = GetBookByISBN sv,
      bsv_Update = UpdateBook sv, bsv_Delete = DeleteBook sv, bsv_List = ListBooks sv,
      bsv_Search = SearchBooks sv, bsv_GetByCategory = GetBooksByCategory sv\<rparr>"

lemma NewBookService_simps [simp]:
  "bsv_Create (NewBookService sv) = CreateBook sv" "bsv_GetByID (NewBookService sv) = GetBookByID sv"
  "bsv_GetByISBN (NewBookService sv) = GetBookByISBN sv" "bsv_Update (NewBookService sv) = UpdateBook sv"
  "bsv_Delete (NewBookService sv) = DeleteBook sv" "bsv_List (NewBookService sv) = ListBooks sv"
  "bsv_Search (NewBookService sv) = SearchBooks sv"
  "bsv_GetByCategory (NewBookService sv) = GetBooksByCategory sv"
  by (simp_all add: NewBookService_def)

section \<open>HTTP\<close>

definition invalid_book_id :: "uuid_lib \<Rightarrow> http_request \<Rightarrow> http_response" where
  "invalid_book_id ul rq = RespondWithError 400 ''Invalid book ID'' (Some (uuid_err ul (rq_vars rq ''id'')))"

definition HandleCreateBook :: "validator \<Rightarrow> 's book_service \<Rightarrow> book_env \<Rightarrow> 's http_handler" where
  "HandleCreateBook vd svc env rq s =
     (if \<not> isAdminOrLibrarian rq then (RespondWithError 403 ErrForbidden None, s)
      else case res_bind (rq_body rq) decode_book_create of
        Inl e \<Rightarrow> (RespondWithError 400 ErrInvalidRequest (Some e), s)
      | Inr req \<Rightarrow>
          (case Validate vd (book_create_tags req) of
             (_, Some e) \<Rightarrow> (RespondWithError 400 ErrInvalidField (Some e), s)
           | (_, None) \<Rightarrow>
               (case bsv_Create svc env req s of
                  (Inl e, s') \<Rightarrow> (write_error e, s')
                | (Inr b, s') \<Rightarrow>
                    (RespondWithSuccess 201 ''Book created successfully'' (Some (book_response_json b)), s'))))"

definition HandleGetBook :: "uuid_lib \<Rightarrow> 's book_service \<Rightarrow> 's http_handler" where
  "HandleGetBook ul svc rq s =
     (case uuid_parse ul (rq_vars rq ''id'') of
        None \<Rightarrow> (invalid_book_id ul rq, s)
      | Some i \<Rightarrow>
          (case bsv_GetByID svc i s of
             (Inl e, s') \<Rightarrow>
               (if err_msg e = ErrBookNotFound then RespondWithError 404 ErrBookNotFound None
                else RespondWithError 500 ErrInternalServer None, s')
           | (Inr b, s') \<Rightarrow>
               (RespondWithSuccess 200 ''Book retrieved successfully'' (Some (book_response_json b)), s')))"

definition HandleGetBookByISBN :: "'s book_service \<Rightarrow> 's http_handler" where
  "HandleGetBookByISBN svc rq s =
     (let isbn = rq_query rq ''isbn''
      in if isbn = [] then (RespondWithError 400 ''ISBN parameter is required'' None, s)
         else case bsv_GetByISBN svc isbn s of
           (Inl e, s') \<Rightarrow>
             (if err_msg e = ''book with ISBN '' @ isbn @ '' not found'' then RespondWithError 404 (err_msg e) None
              else RespondWithError 500 ErrInternalServer None, s')
         | (Inr b, s') \<Rightarrow>
             (RespondWithSuccess 200 ''Book retrieved successfully'' (Some (book_response_json b)), s'))"

definition HandleUpdateBook :: "uuid_lib \<Rightarrow> validator \<Rightarrow> 's book_service \<Rightarrow> book_env \<Rightarrow> 's http_handler" where
  "HandleUpdateBook ul vd svc env rq s =
     (if \<not> isAdminOrLibrarian rq then (RespondWithError 403 ErrForbidden None, s)
      else case uuid_parse ul (rq_vars rq ''id'') of
        None \<Rightarrow> (invalid_book_id ul rq, s)
      | Some i \<Rightarrow>
          (case res_bind (rq_body rq) decode_book_update of
             Inl e \<Rightarrow> (RespondWithError 400 ErrInvalidRequest (Some e), s)
           | Inr req \<Rightarrow>
               (case Validate vd (book_update_tags req) of
                  (_, Some e) \<Rightarrow> (RespondWithError 400 ErrInvalidField (Some e), s)
                | (_, None) \<Rightarrow>
                    (case bsv_Update svc env i req s of
                       (Inl e, s') \<Rightarrow>
                         (if err_msg e = ErrBookNotFound then RespondWithError 404 ErrBookNotFound None
                          else write_error e, s')
                     | (Inr b, s') \<Rightarrow>
                         (RespondWithSuccess 200 ''Book updated successfully'' (Some (book_response_json b)), s')))))"

definition HandleDeleteBook :: "uuid_lib \<Rightarrow> 's book_service \<Rightarrow> 's http_handler" where
  "HandleDeleteBook ul svc rq s =
     (if \<not> isAdminOrLibrarian rq then (RespondWithError 403 ErrForbidden None, s)
      else case uuid_parse ul (rq_vars rq ''id'') of
        None \<Rightarrow> (invalid_book_id ul rq, s)
      | Some i \<Rightarrow>
          (case bsv_Delete svc i s of
             (Inl e, s') \<Rightarrow>
               (if err_msg e = ErrBookNotFound then RespondWithError 404 ErrBookNotFound None
                else RespondWithError 500 ErrInternalServer None, s')
           | (Inr _, s') \<Rightarrow> (RespondWithSuccess 200 ''Book deleted successfully'' None, s')))"

definition book_filter_of_query :: "http_request \<Rightarrow> book_filter" where
  "book_filter_of_query rq =
     \<lparr>bf_page = query_int rq ''page'', bf_limit = query_int rq ''limit'',
      bf_sort_by = rq_query rq ''sort_by'', bf_desc = (rq_query rq ''desc'' = ''true''),
      bf_status = rq_query rq ''status'', bf_category = rq_query rq ''category_id'',
      bf_author = rq_query rq ''author'', bf_language = rq_query rq ''language''\<rparr>"

definition respond_books ::
  "string \<Rightarrow> (go_error \<Rightarrow> http_response) \<Rightarrow> book_response list_response result \<times> 's \<Rightarrow> http_response \<times> 's" where
  "respond_books msg err p =
     (case p of
        (Inl e, s') \<Rightarrow> (err e, s')
      | (Inr l, s') \<Rightarrow>
          (RespondWithSuccess 200 msg (Some (list_response_json ''books'' book_response_json l)), s'))"

definition HandleListBooks :: "'s book_service \<Rightarrow> 's http_handler" where
  "HandleListBooks svc rq s =
     respond_books ''Books retrieved successfully'' (\<lambda>_. RespondWithError 500 ErrInternalServer None)
       (bsv_List svc (book_filter_of_query rq) s)"

definition HandleSearchBooks :: "'s book_service \<Rightarrow> 's http_handler" where
  "HandleSearchBooks svc rq s =
     (if rq_query rq ''query'' = [] then (RespondWithError 400 ''Query parameter is required'' None, s)
      else respond_books ''Search results retrieved successfully''
             (\<lambda>_. RespondWithError 500 ErrInternalServer None)
             (bsv_Search svc \<lparr>bs_query = rq_query rq ''query'', bs_field = rq_query rq ''field'',
                              bs_page = query_int rq ''page'', bs_limit = query_int rq ''limit''\<rparr> s))"

text \<open>A query parameter that is a positive number, else the default.\<close>

definition query_pos :: "http_request \<Rightarrow> string \<Rightarrow> int \<Rightarrow> int" where
  "query_pos rq k dflt = (case atoi (rq_query rq k) of None \<Rightarrow> dflt | Some n \<Rightarrow> if n > 0 then n else dflt)"

definition HandleGetBooksByCategory :: "'s book_service \<Rightarrow> 's http_handler" where
  "HandleGetBooksByCategory svc rq s =
     (let categoryID = rq_vars rq ''categoryId''
      in if categoryID = [] then (RespondWithError 400 ''Category ID parameter is required'' None, s)
         else respond_books ''Books by category retrieved successfully'' write_error
                (bsv_GetByCategory svc categoryID (query_pos rq ''page'' 1)
                   (query_pos rq ''limit'' DefaultPageSize) s))"

section \<open>gRPC\<close>

record proto_book =
  pb_id :: string
  pb_title :: string
  pb_author :: string
  pb_isbn :: string
  pb_year :: int
  pb_publisher :: string
  pb_description :: string
  pb_categories :: "string list"
  pb_language :: string
  pb_pages :: int
  pb_status :: string
  pb_created :: time
  pb_updated :: time
  pb_cover :: string
  pb_rating :: rat
  pb_quantity :: int
  pb_available :: int

definition convertBookResponseToProtoBook :: "uuid_lib \<Rightarrow> book_response \<Rightarrow> proto_book" where
  "convertBookResponseToProtoBook ul b =
     \<lparr>pb_id = uuid_string ul (br_id b), pb_title = br_title b, pb_author = br_author b,
      pb_isbn = br_isbn b, pb_year = wrap32 (br_year b), pb_publisher = br_publisher b,
      pb_description = br_description b, pb_categories = br_categories b, pb_language = br_language b,
      pb_pages = wrap32 (br_pages b), pb_status = br_status b, pb_created = br_created b,
      pb_updated = br_updated b, pb_cover = br_cover b, pb_rating = br_rating b,
      pb_quantity = wrap32 (br_quantity b), pb_available = wrap32 (br_available b)\<rparr>"

text \<open>The type switch on a \<open>*dao.BookResponse\<close>; every caller passes one.\<close>

definition convertDaoBookToProtoBook :: "uuid_lib \<Rightarrow> book_response \<Rightarrow> proto_book" where
  "convertDaoBookToProtoBook ul b =
     \<lparr>pb_id = uuid_string ul (br_id b), pb_title = br_title b, pb_author = br_author b,
      pb_isbn = br_isbn b, pb_year = wrap32 (br_year b), pb_publisher = br_publisher b,
      pb_description = br_description b, pb_categories = br_categories b, pb_language = br_language b,
      pb_pages = wrap32 (br_pages b), pb_status = br_status b, pb_created = br_created b,
      pb_updated = br_updated b, pb_cover = br_cover b, pb_rating = br_rating b,
      pb_quantity = wrap32 (br_quantity b), pb_available = wrap32 (br_available b)\<rparr>"

lemma proto_book_conversions_agree: "convertDaoBookToProtoBook = convertBookResponseToProtoBook"
  by (intro ext) (simp add: convertDaoBookToProtoBook_def convertBookResponseToProtoBook_def)

definition GRPC_GetBook :: "uuid_lib \<Rightarrow> 's book_service \<Rightarrow> string \<Rightarrow> 's \<Rightarrow> proto_book grpc_result \<times> 's" where
  "GRPC_GetBook ul svc id_str s =
     (case uuid_parse ul id_str of
        None \<Rightarrow> (Inl (InvalidArgument, ''invalid book ID''), s)
      | Some i \<Rightarrow>
          (case bsv_GetByID svc i s of
             (Inl e, s') \<Rightarrow>
               (Inl (if str_contains (err_msg e) ErrBookNotFound then (NotFound, ErrBookNotFound)
                     else (Internal, ErrInternalServer)), s')
           | (Inr b, s') \<Rightarrow> (Inr (convertDaoBookToProtoBook ul b), s')))"

text \<open>The fields \<open>status\<close>, \<open>author\<close> and \<open>language\<close> of the request are not read.\<close>

record list_books_request =
  lb_page :: int
  lb_page_size :: int
  lb_sort_by :: "string option"
  lb_sort_desc :: "bool option"
  lb_status :: "string option"
  lb_author :: "string option"
  lb_language :: "string option"

definition GRPC_ListBooks ::
  "uuid_lib \<Rightarrow> 's book_service \<Rightarrow> list_books_request \<Rightarrow> 's \<Rightarrow> proto_book list_response grpc_result \<times> 's" where
  "GRPC_ListBooks ul svc req s =
     (case bsv_List svc \<lparr>bf_page = lb_page req, bf_limit = lb_page_size req,
                         bf_sort_by = (case lb_sort_by req of None \<Rightarrow> [] | Some x \<Rightarrow> x),
                         bf_desc = (case lb_sort_desc req of None \<Rightarrow> False | Some x \<Rightarrow> x),
                         bf_status = [], bf_category = [], bf_author = [], bf_language = []\<rparr> s of
        (Inl e, s') \<Rightarrow> (Inl (Internal, ErrInternalServer), s')
      | (Inr l, s') \<Rightarrow> (Inr (proto_list (convertBookResponseToProtoBook ul) l), s'))"

record create_book_request =
  cb_title :: string
  cb_author :: string
  cb_isbn :: string
  cb_year :: int
  cb_publisher :: string
  cb_description :: string
  cb_categories :: "string list"
  cb_language :: string
  cb_pages :: int
  cb_cover :: "string option"
  cb_quantity :: "int option"

definition book_write_error :: "go_error \<Rightarrow> grpc_code \<times> string" where
  "book_write_error e =
     (if str_contains (err_msg e) ''already exists'' then (AlreadyExists, err_msg e)
      else if str_contains (err_msg e) ''invalid category ID'' then (InvalidArgument, err_msg e)
      else (Internal, ErrInternalServer))"

definition GRPC_CreateBook ::
  "uuid_lib \<Rightarrow> 's book_service \<Rightarrow> book_env \<Rightarrow> create_book_request \<Rightarrow> 's \<Rightarrow> proto_book grpc_result \<times> 's" where
  "GRPC_CreateBook ul svc env req s =
     (let quantity = (case cb_quantity req of None \<Rightarrow> 0 | Some q \<Rightarrow> q)
      in case bsv_Create svc env
                \<lparr>bq_title = cb_title req, bq_author = cb_author req, bq_isbn = cb_isbn req,
                 bq_year = cb_year req, bq_publisher = cb_publisher req,
                 bq_description = cb_description req, bq_categories = cb_categories req,
                 bq_language = cb_language req, bq_pages = cb_pages req,
                 bq_cover = (case cb_cover req of None \<Rightarrow> [] | Some x \<Rightarrow> x),
                 bq_quantity = (if quantity > 0 then quantity else 0)\<rparr> s of
           (Inl e, s') \<Rightarrow> (Inl (book_write_error e), s')
         | (Inr b, s') \<Rightarrow> (Inr (convertDaoBookToProtoBook ul b), s'))"

text \<open>The optional fields of the message; \<open>int(x)\<close> widens an \<open>int32\<close>.\<close>

record update_book_request =
  ub_id :: string
  ub_title :: "string option"
  ub_author :: "string option"
  ub_isbn :: "string option"
  ub_year :: "int option"
  ub_publisher :: "string option"
  ub_description :: "string option"
  ub_categories :: "string list"
  ub_language :: "string option"
  ub_pages :: "int option"
  ub_status :: "string option"
  ub_cover :: "string option"
  ub_quantity :: "int option"
  ub_available :: "int option"

definition update_dto :: "update_book_request \<Rightarrow> book_update" where
  "update_dto req =
     \<lparr>bu_title = ub_title req, bu_author = ub_author req, bu_isbn = ub_isbn req, bu_year = ub_year req,
      bu_publisher = ub_publisher req, bu_description = ub_description req,
      bu_categories = (if ub_categories req \<noteq> [] then ub_categories req else []),
      bu_language = ub_language req, bu_pages = ub_pages req, bu_status = ub_status req,
      bu_cover = ub_cover req, bu_quantity = ub_quantity req, bu_available = ub_available req\<rparr>"

definition GRPC_UpdateBook ::
  "uuid_lib \<Rightarrow> 's book_service \<Rightarrow> book_env \<Rightarrow> update_book_request \<Rightarrow> 's \<Rightarrow> proto_book grpc_result \<times> 's" where
  "GRPC_UpdateBook ul svc env req s =
     (case uuid_parse ul (ub_id req) of
        None \<Rightarrow> (Inl (InvalidArgument, ''invalid book ID''), s)
      | Some i \<Rightarrow>
          (case bsv_Update svc env i (update_dto req) s of
             (Inl e, s') \<Rightarrow>
               (Inl (if str_contains (err_msg e) ErrBookNotFound then (NotFound, ErrBookNotFound)
                     else book_write_error e), s')
           | (Inr b, s') \<Rightarrow> (Inr (convertDaoBookToProtoBook ul b), s')))"

definition GRPC_DeleteBook :: "uuid_lib \<Rightarrow> 's book_service \<Rightarrow> string \<Rightarrow> 's \<Rightarrow> unit grpc_result \<times> 's" where
  "GRPC_DeleteBook ul svc id_str s =
     (case uuid_parse ul id_str of
        None \<Rightarrow> (Inl (InvalidArgument, ''invalid book ID''), s)
      | Some i \<Rightarrow>
          (case bsv_Delete svc i s of
             (Inl e, s') \<Rightarrow>
               (Inl (if str_contains (err_msg e) ErrBookNotFound then (NotFound, ErrBookNotFound)
                     else (Internal, ErrInternalServer)), s')
           | (Inr _, s') \<Rightarrow> (Inr (), s')))"

definition GRPC_SearchBooks ::
  "uuid_lib \<Rightarrow> 's book_service \<Rightarrow> string \<Rightarrow> string option \<Rightarrow> int \<Rightarrow> int \<Rightarrow> 's \<Rightarrow>
   proto_book list_response grpc_result \<times> 's" where
  "GRPC_SearchBooks ul svc query field page psize s =
     (case bsv_Search svc \<lparr>bs_query = query, bs_field = (case field of None \<Rightarrow> [] | Some x \<Rightarrow> x),
                           bs_page = page, bs_limit = psize\<rparr> s of
        (Inl e, s') \<Rightarrow> (Inl (Internal, ErrInternalServer), s')
      | (Inr l, s') \<Rightarrow> (Inr (proto_list (convertBookResponseToProtoBook ul) l), s'))"

definition GRPC_GetBooksByCategory ::
  "uuid_lib \<Rightarrow> 's book_service \<Rightarrow> string \<Rightarrow> int \<Rightarrow> int \<Rightarrow> 's \<Rightarrow> proto_book list_response grpc_result \<times> 's" where
  "GRPC_GetBooksByCategory ul svc categoryID page psize s =
     (case bsv_GetByCategory svc categoryID page psize s of
        (Inl e, s') \<Rightarrow>
          (Inl (if str_contains (err_msg e) ''invalid category ID'' then (InvalidArgument, err_msg e)
                else if str_contains (err_msg e) ''does not exist'' then (NotFound, err_msg e)
                else (Internal, ErrInternalServer)), s')
      | (Inr l, s') \<Rightarrow> (Inr (proto_list (convertBookResponseToProtoBook ul) l), s'))"

end
