(* ===== verification/BookBackend.thy ===== *)
theory BookBackend
  imports BookHandlers CachedTable
begin

text \<open>
  What the book repository relies on: \<open>book_store\<close> states the documented behaviour of the database,
  the two tables through the pool and through a transaction, \<open>book_backend\<close> adds the cache and the
  UUID library. A transaction has its own view of the tables, which \<open>Commit\<close> makes the tables; an
  error inside a transaction aborts it, and an aborted transaction cannot commit.
\<close>

type_synonym book_map = "uuid \<Rightarrow> book_cols option"
type_synonym link_map = "uuid \<Rightarrow> book_category option"

text \<open>
  The sub-query on \<open>books_categories\<close> over the live links, and the relation between books and
  categories. GORM deletes a link by setting \<open>deleted_at\<close>, and a sub-query on a bare \<open>Table\<close> sees
  deleted rows too: what it answers is the parameter \<open>sub\<close>, which holds at least for the live links.
\<close>

definition linked :: "(string \<Rightarrow> uuid option) \<Rightarrow> link_map \<Rightarrow> where_clause list \<Rightarrow> uuid \<Rightarrow> bool" where
  "linked pg L cs i \<longleftrightarrow> (\<exists>k l. L k = Some l \<and> bc_book l = i \<and> (\<forall>c \<in> set cs. link_sat pg c l))"

definition categories_of :: "link_map \<Rightarrow> uuid \<Rightarrow> uuid set" where
  "categories_of L i = {c. \<exists>k l. L k = Some l \<and> bc_book l = i \<and> bc_category l = c}"

text \<open>The categories a request names: the well-formed IDs.\<close>

definition requested :: "uuid_lib \<Rightarrow> string list \<Rightarrow> uuid set" where
  "requested ul cs = {u. \<exists>c \<in> set cs. c \<noteq> [] \<and> uuid_parse ul (trimSpace c) = Some u}"

lemma requested_simps [simp]:
  "requested ul [] = {}"
  "requested ul (c # cs) =
     (if c = [] then {} else case uuid_parse ul (trimSpace c) of None \<Rightarrow> {} | Some u \<Rightarrow> {u}) \<union> requested ul cs"
  by (auto simp: requested_def split: option.splits)

lemma categories_of_insert:
  assumes "L k = None"
  shows "categories_of (L(k := Some l)) i =
    (if bc_book l = i then insert (bc_category l) (categories_of L i) else categories_of L i)"
proof -
  have "(L(k := Some l)) m = Some x \<longleftrightarrow> m = k \<and> x = l \<or> L m = Some x" for m x
    using assms by auto
  then show ?thesis unfolding categories_of_def by auto
qed

lemma linked_category:
  "linked pg L [Where ''category_id = ?'' [AUuid c]] i \<longleftrightarrow> c \<in> categories_of L i"
  by (auto simp: linked_def categories_of_def)

locale book_store =
  fixes db :: "('d, 't) book_db"
    and books :: "'d \<Rightarrow> book_map"
    and links :: "'d \<Rightarrow> link_map"
    and valid :: "'d \<Rightarrow> bool"
    and opened :: "'t \<Rightarrow> 'd \<Rightarrow> bool"
    and usable :: "'t \<Rightarrow> 'd \<Rightarrow> bool"
    and tbooks :: "'t \<Rightarrow> 'd \<Rightarrow> book_map"
    and tlinks :: "'t \<Rightarrow> 'd \<Rightarrow> link_map"
    and pg :: "string \<Rightarrow> uuid option"
    and sub :: "'t option \<Rightarrow> 'd \<Rightarrow> where_clause list \<Rightarrow> uuid \<Rightarrow> bool"
  assumes pool_books: "gorm_store (bdb_books db) books (\<lambda>d. valid d \<and> links d = L \<and> sub None d = S) (book_sat S)"
    and pool_links: "gorm_store (bdb_links db) links (\<lambda>d. valid d \<and> books d = B) (link_sat pg)"
    and tx_books: "gorm_store (bdb_tx_books db tx) (tbooks tx)
      (\<lambda>d. valid d \<and> opened tx d \<and> books d = B \<and> links d = L \<and> tlinks tx d = T \<and> sub (Some tx) d = S) (book_sat S)"
    and tx_links: "gorm_store (bdb_tx_links db tx) (tlinks tx)
      (\<lambda>d. valid d \<and> opened tx d \<and> books d = B \<and> links d = L \<and> tbooks tx d = U) (link_sat pg)"
    and sub_live: "valid d \<Longrightarrow> linked pg (links d) cs i \<Longrightarrow> sub None d cs i"
    and begin_ok: "valid d \<Longrightarrow> bdb_begin db d = (tx, d') \<Longrightarrow> valid d' \<and> opened tx d' \<and>
      books d' = books d \<and> links d' = links d \<and> tbooks tx d' = books d \<and> tlinks tx d' = links d"
    and commit_ok: "valid d \<Longrightarrow> opened tx d \<Longrightarrow> bdb_commit db tx d = (Inr u, d') \<Longrightarrow>
      usable tx d \<and> valid d' \<and> books d' = tbooks tx d \<and> links d' = tlinks tx d"
    and commit_err: "valid d \<Longrightarrow> opened tx d \<Longrightarrow> bdb_commit db tx d = (Inl e, d') \<Longrightarrow>
      valid d' \<and> books d' = books d \<and> links d' = links d"
    and rollback_ok: "valid d \<Longrightarrow> opened tx d \<Longrightarrow>
      valid (bdb_rollback db tx d) \<and> books (bdb_rollback db tx d) = books d \<and> links (bdb_rollback db tx d) = links d"
    and error_aborts: "valid d \<Longrightarrow> opened tx d \<Longrightarrow> g_create (bdb_tx_links db tx) l d = (Inl e, d') \<Longrightarrow>
      \<not> usable tx d'"
    and aborted_stays: "valid d \<Longrightarrow> opened tx d \<Longrightarrow> \<not> usable tx d \<Longrightarrow>
      g_create (bdb_tx_links db tx) l d = (x, d') \<Longrightarrow> \<not> usable tx d'"
    and pool_delete_seen: "valid d \<Longrightarrow> opened tx d \<Longrightarrow> tlinks tx d = links d \<Longrightarrow>
      g_delete (bdb_links db) q d = (z, d') \<Longrightarrow> opened tx d' \<and> tbooks tx d' = tbooks tx d \<and> tlinks tx d' = links d'"
begin

lemma book_row: "valid d \<Longrightarrow> books d i = Some r \<Longrightarrow> base_id r = i \<and> deleted_at r = None"
  using gorm_store.rows_id [OF pool_books] gorm_store.rows_live [OF pool_books] by blast

lemma first_spec:
  assumes "valid d" "g_first (bdb_books db) q d = (x, d')"
  shows "valid d' \<and> books d' = books d \<and> links d' = links d \<and> sub None d' = sub None d \<and> (case x of
      Inr r \<Rightarrow> books d (base_id r) = Some r \<and> sat_all (book_sat (sub None d)) q r
    | Inl e \<Rightarrow> errors_Is e ErrRecordNotFound \<longrightarrow>
        (\<forall>i r. books d i = Some r \<longrightarrow> \<not> sat_all (book_sat (sub None d)) q r))"
proof -
  let ?P = "valid d \<and> links d = links d \<and> sub None d = sub None d"
  have f: "valid d' \<and> books d' = books d \<and> links d' = links d \<and> sub None d' = sub None d"
    using gorm_store.first_frame [OF pool_books] assms by fastforce
  show ?thesis
  proof (cases x)
    case (Inr r)
    have g: "?P" "g_first (bdb_books db) q d = (Inr r, d')" using assms Inr by auto
    show ?thesis using f Inr gorm_store.first_row [OF pool_books g] by simp
  next
    case (Inl e)
    have g: "?P" "g_first (bdb_books db) q d = (Inl e, d')" using assms Inl by auto
    show ?thesis using f Inl gorm_store.first_none [OF pool_books g] by auto
  qed
qed

lemma count_spec:
  assumes "valid d" "g_count (bdb_books db) q d = (x, d')"
  shows "valid d' \<and> books d' = books d \<and> links d' = links d \<and> sub None d' = sub None d \<and> (case x of
      Inr n \<Rightarrow> n = int (card {i. \<exists>r. books d i = Some r \<and> sat_all (book_sat (sub None d)) q r})
    | Inl e \<Rightarrow> True)"
proof -
  let ?P = "valid d \<and> links d = links d \<and> sub None d = sub None d"
  have f: "valid d' \<and> books d' = books d \<and> links d' = links d \<and> sub None d' = sub None d"
    using gorm_store.count_frame [OF pool_books] assms by fastforce
  show ?thesis
  proof (cases x)
    case (Inr n)
    have g: "?P" "g_count (bdb_books db) q d = (Inr n, d')" using assms Inr by auto
    show ?thesis using f Inr gorm_store.count_card [OF pool_books g] by simp
  qed (use f in simp)
qed

lemma find_spec:
  assumes "valid d" "g_find (bdb_books db) q d = (x, d')"
  shows "valid d' \<and> books d' = books d \<and> links d' = links d \<and> sub None d' = sub None d \<and> (case x of
      Inr rs \<Rightarrow> distinct (map base_id rs) \<and>
        (\<forall>r \<in> set rs. books d (base_id r) = Some r \<and> sat_all (book_sat (sub None d)) q r) \<and>
        (\<forall>n. limit q = Some n \<and> 0 < n \<longrightarrow> int (length rs) \<le> n)
    | Inl e \<Rightarrow> True)"
proof -
  let ?P = "valid d \<and> links d = links d \<and> sub None d = sub None d"
  have f: "valid d' \<and> books d' = books d \<and> links d' = links d \<and> sub None d' = sub None d"
    using gorm_store.find_frame [OF pool_books] assms by fastforce
  show ?thesis
  proof (cases x)
    case (Inr rs)
    have g: "?P" "g_find (bdb_books db) q d = (Inr rs, d')" using assms Inr by auto
    show ?thesis
      using f Inr gorm_store.find_sound [OF pool_books g] gorm_store.find_distinct [OF pool_books g]
        gorm_store.find_limit [OF pool_books g] by simp
  qed (use f in simp)
qed

lemma links_of_spec:
  assumes "valid d" "g_find (bdb_links db) (q_where ''book_id = ?'' [AUuid i] q_all) d = (x, d')"
  shows "valid d' \<and> books d' = books d \<and> links d' = links d \<and> (case x of
      Inr ls \<Rightarrow> bc_category ` set ls = categories_of (links d) i | Inl e \<Rightarrow> True)"
proof (cases x)
  case (Inl e)
  with gorm_store.find_frame [OF pool_links] assms show ?thesis by fastforce
next
  case (Inr ls)
  let ?q = "q_where ''book_id = ?'' [AUuid i] q_all"
  have f: "valid d' \<and> books d' = books d \<and> links d' = links d"
    using gorm_store.find_frame [OF pool_links] assms by fastforce
  have "links d (base_id l) = Some l \<and> bc_book l = i" if "l \<in> set ls" for l
    using gorm_store.find_sound [OF pool_links, of d "books d" ?q ls d' l] assms Inr that by simp
  moreover have "l \<in> set ls" if "links d k = Some l" "bc_book l = i" for k l
    using gorm_store.find_complete [OF pool_links, of d "books d" ?q ls d' k l] assms Inr that by simp
  ultimately show ?thesis using f Inr by (auto simp: categories_of_def image_def)
qed

text \<open>Removing the links of a book through the pool, while a transaction is open.\<close>

lemma remove_spec:
  assumes "valid d" "opened tx d" "tlinks tx d = links d"
    "g_delete (bdb_links db) (q_where ''book_id = ?'' [AUuid i] q_all) d = (x, d')"
  shows "valid d' \<and> opened tx d' \<and> books d' = books d \<and> tbooks tx d' = tbooks tx d \<and> tlinks tx d' = links d' \<and>
    (case x of Inl e \<Rightarrow> links d' = links d
     | Inr _ \<Rightarrow> \<forall>j. categories_of (links d') j = (if j = i then {} else categories_of (links d) j))"
proof -
  note t = pool_delete_seen [OF assms]
  show ?thesis
  proof (cases x)
    case (Inl e)
    with gorm_store.delete_err [OF pool_links] assms t show ?thesis by fastforce
  next
    case (Inr u)
    have l: "valid d' \<and> books d' = books d \<and> links d' = (\<lambda>k. case links d k of None \<Rightarrow> None
        | Some r \<Rightarrow> if sat_all (link_sat pg) (q_where ''book_id = ?'' [AUuid i] q_all) r then None else Some r)"
      using gorm_store.delete_ok [OF pool_links] assms Inr by fastforce
    have row: "links d' k = Some r \<longleftrightarrow> links d k = Some r \<and> bc_book r \<noteq> i" for k r
      using l by (auto split: option.splits if_splits)
    have "categories_of (links d') j = (if j = i then {} else categories_of (links d) j)" for j
      by (auto simp: categories_of_def row)
    with t Inr l show ?thesis by auto
  qed
qed

text \<open>The writes to \<open>books\<close> within a transaction.\<close>

lemma tx_create_spec:
  assumes "valid d" "opened tx d" "base_id b \<noteq> uuid_Nil" "deleted_at b = None"
    "g_create (bdb_tx_books db tx) b d = (y, d')"
  shows "valid d' \<and> opened tx d' \<and> books d' = books d \<and> links d' = links d \<and> tlinks tx d' = tlinks tx d \<and>
    (case y of Inl e \<Rightarrow> tbooks tx d' = tbooks tx d
     | Inr b' \<Rightarrow> same_content b b' \<and> tbooks tx d (base_id b) = None \<and>
         tbooks tx d' = (tbooks tx d)(base_id b := Some b'))"
proof (cases y)
  case (Inl e)
  have "(valid d' \<and> opened tx d' \<and> books d' = books d \<and> links d' = links d \<and> tlinks tx d' = tlinks tx d \<and>
      sub (Some tx) d' = sub (Some tx) d) \<and>
      tbooks tx d' = tbooks tx d"
    by (rule gorm_store.create_err [OF tx_books]) (use assms Inl in auto)
  with Inl show ?thesis by simp
next
  case (Inr b')
  have "(valid d' \<and> opened tx d' \<and> books d' = books d \<and> links d' = links d \<and> tlinks tx d' = tlinks tx d \<and>
      sub (Some tx) d' = sub (Some tx) d) \<and>
      same_content b b' \<and> tbooks tx d (base_id b) = None \<and> tbooks tx d' = (tbooks tx d)(base_id b := Some b')"
    by (rule gorm_store.create_ok [OF tx_books _ assms(3,4)]) (use assms Inr in auto)
  with Inr show ?thesis by simp
qed

lemma tx_save_spec:
  assumes "valid d" "opened tx d" "tbooks tx d (base_id b) \<noteq> None" "deleted_at b = None"
    "g_save (bdb_tx_books db tx) b d = (y, d')"
  shows "valid d' \<and> opened tx d' \<and> books d' = books d \<and> links d' = links d \<and> tlinks tx d' = tlinks tx d \<and>
    (case y of Inl e \<Rightarrow> tbooks tx d' = tbooks tx d
     | Inr b' \<Rightarrow> same_content b b' \<and> tbooks tx d' = (tbooks tx d)(base_id b := Some b'))"
proof (cases y)
  case (Inl e)
  have "(valid d' \<and> opened tx d' \<and> books d' = books d \<and> links d' = links d \<and> tlinks tx d' = tlinks tx d \<and>
      sub (Some tx) d' = sub (Some tx) d) \<and>
      tbooks tx d' = tbooks tx d"
    by (rule gorm_store.save_err [OF tx_books]) (use assms Inl in auto)
  with Inl show ?thesis by simp
next
  case (Inr b')
  have "(valid d' \<and> opened tx d' \<and> books d' = books d \<and> links d' = links d \<and> tlinks tx d' = tlinks tx d \<and>
      sub (Some tx) d' = sub (Some tx) d) \<and>
      same_content b b' \<and> tbooks tx d' = (tbooks tx d)(base_id b := Some b')"
    by (rule gorm_store.save_ok [OF tx_books _ assms(3,4)]) (use assms Inr in auto)
  with Inr show ?thesis by simp
qed

lemma tx_delete_spec:
  assumes "valid d" "opened tx d" "tbooks tx d = books d"
    "g_delete (bdb_tx_books db tx) (q_where ''id = ?'' [AUuid i] q_all) d = (y, d')"
  shows "valid d' \<and> opened tx d' \<and> books d' = books d \<and> links d' = links d \<and> tlinks tx d' = tlinks tx d \<and>
    (case y of Inl e \<Rightarrow> True | Inr _ \<Rightarrow> tbooks tx d' = (books d)(i := None))"
proof (cases y)
  case (Inl e)
  have "(valid d' \<and> opened tx d' \<and> books d' = books d \<and> links d' = links d \<and> tlinks tx d' = tlinks tx d \<and>
      sub (Some tx) d' = sub (Some tx) d) \<and>
      tbooks tx d' = tbooks tx d"
    by (rule gorm_store.delete_err [OF tx_books]) (use assms Inl in auto)
  with Inl show ?thesis by simp
next
  case (Inr u)
  let ?q = "q_where ''id = ?'' [AUuid i] q_all"
  have g: "(valid d' \<and> opened tx d' \<and> books d' = books d \<and> links d' = links d \<and> tlinks tx d' = tlinks tx d \<and>
      sub (Some tx) d' = sub (Some tx) d) \<and>
      tbooks tx d' = (\<lambda>k. case tbooks tx d k of None \<Rightarrow> None
        | Some r \<Rightarrow> if sat_all (book_sat (sub (Some tx) d)) ?q r then None else Some r)"
    by (rule gorm_store.delete_ok [OF tx_books]) (use assms Inr in auto)
  have "tbooks tx d' k = ((books d)(i := None)) k" for k
    using g assms(3) book_row [OF assms(1), of k] by (auto split: option.splits)
  with g Inr show ?thesis by auto
qed

text \<open>\<open>addBookCategories\<close> in a transaction: if that can still commit, every well-formed ID is linked.\<close>

lemma add_links_spec:
  assumes "valid d" "opened tx d" "\<forall>k. fresh k \<noteq> uuid_Nil"
    "addBookCategories ul (bdb_tx_links db tx) fresh i cs d = (x, d')"
  shows "valid d' \<and> opened tx d' \<and> books d' = books d \<and> links d' = links d \<and> tbooks tx d' = tbooks tx d \<and>
    (usable tx d' \<longrightarrow> usable tx d) \<and>
    (x = Inr () \<and> usable tx d' \<longrightarrow> (\<forall>j. categories_of (tlinks tx d') j =
       (if j = i then categories_of (tlinks tx d) i \<union> requested ul cs else categories_of (tlinks tx d) j)))"
  using assms
proof (induction cs arbitrary: d fresh)
  case Nil
  then show ?case by auto
next
  case (Cons c cs)
  show ?case
  proof (cases "c = [] \<or> uuid_parse ul (trimSpace c) = None")
    case True
    then have "addBookCategories ul (bdb_tx_links db tx) fresh i cs d = (x, d')"
      using Cons.prems(4) by (cases "c = []") auto
    from Cons.IH [OF Cons.prems(1-3) this] True show ?thesis by auto
  next
    case False
    then obtain u where u: "c \<noteq> []" "uuid_parse ul (trimSpace c) = Some u" by auto
    define l where "l = BeforeCreate (fresh 0)
      \<lparr>base_id = uuid_Nil, created_at = 0, updated_at = 0, deleted_at = None, bc_book = i, bc_category = u\<rparr>"
    have l: "base_id l \<noteq> uuid_Nil" "deleted_at l = None" "bc_book l = i" "bc_category l = u"
      using Cons.prems(3) by (simp_all add: l_def BeforeCreate_def)
    obtain y d1 where g: "g_create (bdb_tx_links db tx) l d = (y, d1)"
      by (cases "g_create (bdb_tx_links db tx) l d")
    have f: "\<forall>k. fresh (Suc k) \<noteq> uuid_Nil" using Cons.prems(3) by simp
    show ?thesis
    proof (cases y)
      case (Inr l')
      have cr: "(valid d1 \<and> opened tx d1 \<and> books d1 = books d \<and> links d1 = links d \<and> tbooks tx d1 = tbooks tx d) \<and>
          same_content l l' \<and> tlinks tx d (base_id l) = None \<and>
          tlinks tx d1 = (tlinks tx d)(base_id l := Some l')"
        by (rule gorm_store.create_ok [OF tx_links _ l(1,2)]) (use Cons.prems Inr g in auto)
      have l': "bc_book l' = i" "bc_category l' = u"
        using cr l(3,4) by (cases l'; auto simp: same_content_def l_def BeforeCreate_def)+
      have run: "addBookCategories ul (bdb_tx_links db tx) (\<lambda>k. fresh (Suc k)) i cs d1 = (x, d')"
        using Cons.prems(4) u g Inr by (simp add: l_def)
      have us: "usable tx d1 \<longrightarrow> usable tx d" using aborted_stays [OF Cons.prems(1,2) _ g] by blast
      have c1: "categories_of (tlinks tx d1) j =
          (if i = j then insert u (categories_of (tlinks tx d) j) else categories_of (tlinks tx d) j)" for j
        using cr categories_of_insert [of "tlinks tx d" "base_id l" l' j] l' by simp
      from Cons.IH [OF _ _ f run] cr us u c1 show ?thesis by auto
    next
      case (Inl e)
      have fr: "(valid d1 \<and> opened tx d1 \<and> books d1 = books d \<and> links d1 = links d \<and> tbooks tx d1 = tbooks tx d) \<and>
          tlinks tx d1 = tlinks tx d"
        by (rule gorm_store.create_err [OF tx_links]) (use Cons.prems Inl g in auto)
      have no: "\<not> usable tx d1" using error_aborts [OF Cons.prems(1,2)] g Inl by blast
      show ?thesis
      proof (cases "str_contains (err_msg e) ''duplicate key''")
        case True
        then have run: "addBookCategories ul (bdb_tx_links db tx) (\<lambda>k. fresh (Suc k)) i cs d1 = (x, d')"
          using Cons.prems(4) u g Inl by (simp add: l_def)
        from Cons.IH [OF _ _ f run] fr no show ?thesis by auto
      next
        case False
        with Cons.prems(4) u g Inl fr no show ?thesis by (auto simp: l_def)
      qed
    qed
  qed
qed

end

section \<open>With the cache\<close>

text \<open>A cached book is the live row of its key; the cached category IDs are never used.\<close>

definition book_coherent :: "uuid_lib \<Rightarrow> book_map \<Rightarrow> (string \<Rightarrow> json option) \<Rightarrow> bool" where
  "book_coherent ul m v \<longleftrightarrow>
     (\<forall>i j a. v (book_key ul i) = Some j \<longrightarrow> unmarshal_book j = Inr a \<longrightarrow> m i = Some (cols a))"

definition book_inv ::
  "('d, 't, 'c) book_repo_conf \<Rightarrow> ('d \<Rightarrow> book_map) \<Rightarrow> ('d \<Rightarrow> bool) \<Rightarrow> ('c \<Rightarrow> string \<Rightarrow> json option) \<Rightarrow>
   'd \<times> 'c \<Rightarrow> bool" where
  "book_inv r books valid view s \<longleftrightarrow>
     valid (fst s) \<and> (brc_cache r \<noteq> None \<longrightarrow> book_coherent (brc_uuid r) (books (fst s)) (view (snd s)))"

lemma map_le_SomeD: "v' \<subseteq>\<^sub>m v \<Longrightarrow> v' k = Some j \<Longrightarrow> v k = Some j"
  by (auto simp: map_le_def dom_def)

lemma book_coherentD:
  "book_coherent ul m v \<Longrightarrow> v (book_key ul i) = Some j \<Longrightarrow> unmarshal_book j = Inr a \<Longrightarrow> m i = Some (cols a)"
  by (simp add: book_coherent_def)

lemma book_coherent_mono: "book_coherent ul m v \<Longrightarrow> v' \<subseteq>\<^sub>m v \<Longrightarrow> book_coherent ul m v'"
  unfolding book_coherent_def map_le_def dom_def by fastforce

lemma book_coherent_upd:
  assumes "book_coherent ul m v" "v' \<subseteq>\<^sub>m v" "v' (book_key ul i) = None \<or> m i = None"
  shows "book_coherent ul (m(i := x)) v'"
  unfolding book_coherent_def
proof (intro allI impI)
  fix k j a assume k: "v' (book_key ul k) = Some j" and u: "unmarshal_book j = Inr a"
  then have m: "m k = Some (cols a)"
    using assms(1,2) map_le_SomeD [of v' v "book_key ul k" j] by (simp add: book_coherentD)
  with assms(3) k have "k \<noteq> i" by auto
  with m show "(m(i := x)) k = Some (cols a)" by simp
qed

text \<open>What a printed UUID looks like, beyond \<open>uuid_laws\<close>: not empty and without white space.\<close>

definition uuid_prints_ok :: "uuid_lib \<Rightarrow> bool" where
  "uuid_prints_ok ul \<longleftrightarrow> (\<forall>u. uuid_string ul u \<noteq> [] \<and> (\<forall>c \<in> set (uuid_string ul u). \<not> is_space c))"

lemma trimSpace_id: "\<forall>c \<in> set s. \<not> is_space c \<Longrightarrow> trimSpace s = s"
proof -
  have t: "dropWhile is_space t = t" if "\<forall>c \<in> set t. \<not> is_space c" for t
    using that by (cases t) auto
  from t [of s] t [of "rev s"]
  show "\<forall>c \<in> set s. \<not> is_space c \<Longrightarrow> trimSpace s = s" by (simp add: trimSpace_def)
qed

lemma requested_printed:
  assumes "uuid_laws ul" "uuid_prints_ok ul" "set cs = uuid_string ul ` A"
  shows "requested ul cs = A"
proof -
  have t: "uuid_parse ul (trimSpace (uuid_string ul u)) = Some u \<and> uuid_string ul u \<noteq> []" for u
    using assms(1,2) trimSpace_id [of "uuid_string ul u"] by (simp add: uuid_laws_def uuid_prints_ok_def)
  show ?thesis unfolding requested_def assms(3) using t by auto
qed

locale book_backend =
  st: book_store "brc_db r" books links valid opened usable tbooks tlinks pg sub +
  ch: reliable_cache "brc_cache r" view
  for r :: "('d, 't, 'c) book_repo_conf"
    and books :: "'d \<Rightarrow> book_map"
    and links :: "'d \<Rightarrow> link_map"
    and valid :: "'d \<Rightarrow> bool"
    and opened :: "'t \<Rightarrow> 'd \<Rightarrow> bool"
    and usable :: "'t \<Rightarrow> 'd \<Rightarrow> bool"
    and tbooks :: "'t \<Rightarrow> 'd \<Rightarrow> book_map"
    and tlinks :: "'t \<Rightarrow> 'd \<Rightarrow> link_map"
    and pg :: "string \<Rightarrow> uuid option"
    and sub :: "'t option \<Rightarrow> 'd \<Rightarrow> where_clause list \<Rightarrow> uuid \<Rightarrow> bool"
    and view :: "'c \<Rightarrow> string \<Rightarrow> json option" +
  assumes uuids: "uuid_laws (brc_uuid r)"
    and prints: "uuid_prints_ok (brc_uuid r)"
begin

abbreviation inv :: "'d \<times> 'c \<Rightarrow> bool" where
  "inv \<equiv> book_inv r books valid view"

abbreviation names :: "'d \<Rightarrow> uuid \<Rightarrow> string set" where
  "names d i \<equiv> uuid_string (brc_uuid r) ` categories_of (links d) i"

lemma inv_valid: "inv s \<Longrightarrow> valid (fst s)"
  by (simp add: book_inv_def)

lemma inv_shrink:
  "inv s \<Longrightarrow> valid (fst s') \<Longrightarrow> books (fst s') = books (fst s) \<Longrightarrow> view (snd s') \<subseteq>\<^sub>m view (snd s) \<Longrightarrow> inv s'"
  by (auto simp: book_inv_def intro: book_coherent_mono)

lemma categories_spec:
  assumes "valid (fst s)" "categories_or_nil r i s = (cs, s')"
  shows "valid (fst s') \<and> books (fst s') = books (fst s) \<and> links (fst s') = links (fst s) \<and> snd s' = snd s \<and>
    (cs = [] \<or> set cs = names (fst s) i)"
proof -
  obtain y d where g: "g_find (bdb_links (brc_db r)) (q_where ''book_id = ?'' [AUuid i] q_all) (fst s) = (y, d)"
    by (cases "g_find (bdb_links (brc_db r)) (q_where ''book_id = ?'' [AUuid i] q_all) (fst s)")
  note l = st.links_of_spec [OF assms(1) g]
  show ?thesis
  proof (cases y)
    case (Inr ls)
    then have "cs = map (\<lambda>l. uuid_string (brc_uuid r) (bc_category l)) ls" "s' = (d, snd s)"
      using assms(2) g by (auto simp: categories_or_nil_def bookRepository_GetBookCategories_def)
    with l Inr show ?thesis by (auto simp: image_image [symmetric])
  qed (use l assms(2) g in \<open>auto simp: categories_or_nil_def bookRepository_GetBookCategories_def\<close>)
qed

text \<open>The miss of a lookup, and the lookup as a whole.\<close>

lemma read_through_spec:
  assumes "valid (fst s)" "book_read_through r key nf owner q s = (x, s')"
  shows "valid (fst s') \<and> books (fst s') = books (fst s) \<and> links (fst s') = links (fst s) \<and> (case x of
      Inl e \<Rightarrow> view (snd s') \<subseteq>\<^sub>m view (snd s) \<and> (errors_Is e ErrRecordNotFound \<longrightarrow>
        (\<forall>i b. books (fst s) i = Some b \<longrightarrow> \<not> sat_all (book_sat (sub None (fst s))) q b) \<and>
        (\<exists>m. err_msg e = nf @ '': '' @ m))
    | Inr b \<Rightarrow> (bk_categories b = [] \<or> set (bk_categories b) = names (fst s) (owner (cols b))) \<and>
        ((\<exists>j a. brc_cache r \<noteq> None \<and> view (snd s) key = Some j \<and> unmarshal_book j = Inr a \<and> cols b = cols a \<and>
            view (snd s') \<subseteq>\<^sub>m view (snd s)) \<or>
         books (fst s) (base_id b) = Some (cols b) \<and> sat_all (book_sat (sub None (fst s))) q (cols b) \<and>
         (\<forall>k j. view (snd s') k = Some j \<longrightarrow> view (snd s) k = Some j \<or> k = key \<and> j = marshal_book b)))"
proof -
  define store where "store = (\<lambda>b c. case brc_cache r of None \<Rightarrow> c
    | Some cl \<Rightarrow> snd (Redis_Set cl (\<lambda>x. Inr (marshal_book x)) key b CacheDefaultTTL c))"
  have st: "view (store b c) k = Some j \<Longrightarrow> view c k = Some j \<or> k = key \<and> j = marshal_book b" for b c k j
  proof (cases "brc_cache r")
    case (Some cl)
    obtain y c' where "rc_set cl key (marshal_book b) CacheDefaultTTL c = (y, c')"
      by (cases "rc_set cl key (marshal_book b) CacheDefaultTTL c")
    then show "view (store b c) k = Some j \<Longrightarrow> view c k = Some j \<or> k = key \<and> j = marshal_book b"
      using ch.set_frame [OF Some, of key "marshal_book b" CacheDefaultTTL c y c' k j] Some
      by (simp add: store_def Redis_Set_def)
  qed (simp add: store_def)
  define miss where "miss = (\<lambda>s1. case g_first (bdb_books (brc_db r)) q (fst s1) of
      (Inl e, d) \<Rightarrow> (Inl (wrap_not_found nf e), (d, snd s1))
    | (Inr row, d) \<Rightarrow> (case categories_or_nil r (owner row) (d, snd s1) of
        (cs, s2) \<Rightarrow> (Inr (with_categories row cs), (fst s2, store (with_categories row cs) (snd s2)))))"
  have m: "valid (fst t') \<and> books (fst t') = books (fst s) \<and> links (fst t') = links (fst s) \<and> (case y of
      Inl e \<Rightarrow> snd t' = c \<and> (errors_Is e ErrRecordNotFound \<longrightarrow>
        (\<forall>i b. books (fst s) i = Some b \<longrightarrow> \<not> sat_all (book_sat (sub None (fst s))) q b) \<and>
        (\<exists>m. err_msg e = nf @ '': '' @ m))
    | Inr b \<Rightarrow> (bk_categories b = [] \<or> set (bk_categories b) = names (fst s) (owner (cols b))) \<and>
        books (fst s) (base_id b) = Some (cols b) \<and> sat_all (book_sat (sub None (fst s))) q (cols b) \<and>
        (\<forall>k j. view (snd t') k = Some j \<longrightarrow> view c k = Some j \<or> k = key \<and> j = marshal_book b))"
    if t: "miss (fst s, c) = (y, t')" for c y t'
  proof -
    obtain z d where g: "g_first (bdb_books (brc_db r)) q (fst s) = (z, d)"
      by (cases "g_first (bdb_books (brc_db r)) q (fst s)")
    note f = st.first_spec [OF assms(1) g]
    show ?thesis
    proof (cases z)
      case (Inl e)
      with t g have "y = Inl (wrap_not_found nf e)" "t' = (d, c)" by (simp_all add: miss_def)
      with f Inl show ?thesis by (auto simp: wrap_not_found_def errorf_wrap_def errors_Is_def)
    next
      case (Inr row)
      obtain cs s2 where cn: "categories_or_nil r (owner row) (d, c) = (cs, s2)"
        by (cases "categories_or_nil r (owner row) (d, c)")
      have y: "y = Inr (with_categories row cs)" "t' = (fst s2, store (with_categories row cs) (snd s2))"
        using t g Inr cn by (simp_all add: miss_def)
      note cp = categories_spec [OF _ cn]
      have b: "base_id (with_categories row cs) = base_id row"
        by (metis cols_sel(1) cols_with_categories)
      show ?thesis using f Inr cp y st b by auto
    qed
  qed
  have eq: "book_read_through r key nf owner q s =
      (case brc_cache r of None \<Rightarrow> miss s
       | Some cl \<Rightarrow> (case Redis_Get cl unmarshal_book key (snd s) of
           (Inr b, c) \<Rightarrow> (case categories_or_nil r (owner (cols b)) (fst s, c) of
              (cs, s2) \<Rightarrow> (Inr (b\<lparr>bk_categories := cs\<rparr>), s2))
         | (Inl _, c) \<Rightarrow> miss (fst s, c)))"
    by (cases "brc_cache r")
      (simp_all add: book_read_through_def miss_def store_def Let_def split: prod.split sum.split)
  show ?thesis
  proof (cases "brc_cache r")
    case None
    with eq assms(2) have "miss (fst s, snd s) = (x, s')" by simp
    from m [OF this] show ?thesis by (cases x) auto
  next
    case (Some cl)
    obtain g c where g: "rc_get cl key (snd s) = (g, c)" by (cases "rc_get cl key (snd s)")
    have le: "view c \<subseteq>\<^sub>m view (snd s)" by (rule ch.get_frame [OF Some g])
    show ?thesis
    proof (cases "\<exists>j a. g = Inr j \<and> unmarshal_book j = Inr a")
      case True
      then obtain j a where j: "g = Inr j" "unmarshal_book j = Inr a" by blast
      obtain cs s2 where cn: "categories_or_nil r (owner (cols a)) (fst s, c) = (cs, s2)"
        by (cases "categories_or_nil r (owner (cols a)) (fst s, c)")
      have x: "x = Inr (a\<lparr>bk_categories := cs\<rparr>)" "s' = s2"
        using assms(2) eq Some g j cn by (simp_all add: Redis_Get_def)
      have hit: "view (snd s) key = Some j" using ch.get_hit [OF Some] g j by blast
      from categories_spec [OF _ cn] assms(1) x le hit j Some show ?thesis by auto
    next
      case False
      then have "miss (fst s, c) = (x, s')"
        using assms(2) eq Some g by (auto simp: Redis_Get_def split: sum.splits if_splits)
      note mm = m [OF this]
      have le': "view c k = Some j \<Longrightarrow> view (snd s) k = Some j" for k j
        using le by (auto simp: map_le_def dom_def)
      show ?thesis
      proof (cases x)
        case (Inl e)
        with mm le show ?thesis by simp
      next
        case (Inr b)
        with mm have "\<forall>k j. view (snd s') k = Some j \<longrightarrow> view (snd s) k = Some j \<or> k = key \<and> j = marshal_book b"
          using le' by auto
        with mm Inr show ?thesis by simp
      qed
    qed
  qed
qed


text \<open>A lookup keeps the invariant, whichever key it caches under.\<close>

lemma read_through_inv:
  assumes "inv s" "book_read_through r key nf owner q s = (x, s')"
    and "\<And>i b. key = book_key (brc_uuid r) i \<Longrightarrow> sat_all (book_sat (sub None (fst s))) q b \<Longrightarrow> base_id b = i"
  shows "inv s'"
proof -
  note sp = read_through_spec [OF inv_valid [OF assms(1)] assms(2)]
  have "book_coherent (brc_uuid r) (books (fst s)) (view (snd s'))" if "brc_cache r \<noteq> None"
    unfolding book_coherent_def
  proof (intro allI impI)
    fix i j a assume v: "view (snd s') (book_key (brc_uuid r) i) = Some j" and u: "unmarshal_book j = Inr a"
    have coh: "book_coherent (brc_uuid r) (books (fst s)) (view (snd s))"
      using assms(1) that by (simp add: book_inv_def)
    have old: "books (fst s) i = Some (cols a)" if "view (snd s) (book_key (brc_uuid r) i) = Some j"
      by (rule book_coherentD [OF coh that u])
    show "books (fst s) i = Some (cols a)"
    proof (cases "view (snd s) (book_key (brc_uuid r) i) = Some j")
      case True
      then show ?thesis by (rule old)
    next
      case False
      have not_le: "\<not> view (snd s') \<subseteq>\<^sub>m view (snd s)"
        using v False map_le_SomeD [of "view (snd s')" "view (snd s)" "book_key (brc_uuid r) i" j] by auto
      with sp obtain b where b: "x = Inr b" by (cases x) auto
      with sp not_le have row: "books (fst s) (base_id b) = Some (cols b)"
        and sat: "sat_all (book_sat (sub None (fst s))) q (cols b)"
        and new: "\<forall>k j. view (snd s') k = Some j \<longrightarrow> view (snd s) k = Some j \<or> k = key \<and> j = marshal_book b"
        by auto
      from new v False have k: "key = book_key (brc_uuid r) i" "j = marshal_book b" by auto
      have "base_id b = i" using assms(3) [OF k(1) sat] by simp
      moreover have "a = b"
        using book_json_partial [of b a] st.book_row [OF inv_valid [OF assms(1)] row] u k(2) by simp
      ultimately show ?thesis using row by simp
    qed
  qed
  with sp show ?thesis by (simp add: book_inv_def)
qed

lemma GetByID_spec:
  assumes "inv s" "bookRepository_GetByID r i s = (x, s')"
  shows "inv s' \<and> books (fst s') = books (fst s) \<and> links (fst s') = links (fst s) \<and> (case x of
      Inl e \<Rightarrow> errors_Is e ErrRecordNotFound \<longrightarrow> books (fst s) i = None \<and> str_contains (err_msg e) ErrBookNotFound
    | Inr b \<Rightarrow> books (fst s) i = Some (cols b) \<and> (bk_categories b = [] \<or> set (bk_categories b) = names (fst s) i))"
proof -
  let ?q = "q_where ''id = ?'' [AUuid i] q_all"
  have run: "book_read_through r (book_key (brc_uuid r) i) ErrBookNotFound (\<lambda>_. i) ?q s = (x, s')"
    using assms(2) by (simp add: bookRepository_GetByID_def)
  have v: "valid (fst s)" by (rule inv_valid [OF assms(1)])
  note sp = read_through_spec [OF v run]
  have "inv s'"
    by (rule read_through_inv [OF assms(1) run]) (use book_keys_distinct(2) [OF uuids] in auto)
  moreover have "books (fst s) i = Some (cols b)" if "x = Inr b" for b
  proof -
    from sp that consider (hit) j a where "brc_cache r \<noteq> None"
        "view (snd s) (book_key (brc_uuid r) i) = Some j" "unmarshal_book j = Inr a" "cols b = cols a"
      | (miss) "books (fst s) (base_id b) = Some (cols b)" "base_id b = i"
      by auto
    then show ?thesis
    proof cases
      case hit
      then have "book_coherent (brc_uuid r) (books (fst s)) (view (snd s))"
        using assms(1) by (simp add: book_inv_def)
      from book_coherentD [OF this hit(2,3)] hit(4) show ?thesis by simp
    qed simp
  qed
  moreover have "books (fst s) i = None \<and> str_contains (err_msg e) ErrBookNotFound"
    if "x = Inl e" "errors_Is e ErrRecordNotFound" for e
  proof -
    have "\<forall>j b. books (fst s) j = Some b \<longrightarrow> base_id b \<noteq> i" and m: "\<exists>m. err_msg e = ErrBookNotFound @ '': '' @ m"
      using sp that by auto
    with st.book_row [OF v, of i] have "books (fst s) i = None" by (cases "books (fst s) i") auto
    with m show ?thesis using str_contains_prefix by auto
  qed
  ultimately show ?thesis using sp by (auto split: sum.splits)
qed

lemma GetByISBN_frame:
  assumes "inv s" "bookRepository_GetByISBN r n s = (x, s')"
  shows "inv s' \<and> books (fst s') = books (fst s) \<and> links (fst s') = links (fst s)"
proof -
  have run: "book_read_through r (book_isbn_key n) (''book with ISBN '' @ n @ '' not found'') base_id
      (q_where ''isbn = ?'' [AStr n] q_all) s = (x, s')"
    using assms(2) by (simp add: bookRepository_GetByISBN_def)
  have "inv s'"
    by (rule read_through_inv [OF assms(1) run]) (metis book_keys_distinct(1) [OF uuids])
  with read_through_spec [OF inv_valid [OF assms(1)] run] show ?thesis by simp
qed


text \<open>The end of a write: the state after \<open>Commit\<close>, and the invariant.\<close>

lemma commit_spec:
  assumes "valid (fst s)" "opened tx (fst s)" "commit_and_invalidate r tx keys z s = (x, s')"
  shows "valid (fst s') \<and> (case x of
      Inl e \<Rightarrow> books (fst s') = books (fst s) \<and> links (fst s') = links (fst s) \<and> snd s' = snd s
    | Inr w \<Rightarrow> w = z \<and> usable tx (fst s) \<and> books (fst s') = tbooks tx (fst s) \<and>
        links (fst s') = tlinks tx (fst s) \<and> snd s' = invalidate_all (brc_cache r) keys (snd s))"
proof -
  obtain y d where g: "bdb_commit (brc_db r) tx (fst s) = (y, d)" by (cases "bdb_commit (brc_db r) tx (fst s)")
  with st.commit_ok [OF assms(1,2)] st.commit_err [OF assms(1,2)] assms(3) show ?thesis
    by (cases y) (auto simp: commit_and_invalidate_def)
qed

lemma same_inv: "inv s \<Longrightarrow> valid d \<Longrightarrow> books d = books (fst s) \<Longrightarrow> inv (d, snd s)"
  using inv_shrink [of s "(d, snd s)"] by simp

lemma write_inv:
  assumes "inv s" "valid (fst s')" "books (fst s') = (books (fst s))(i := y)"
    "snd s' = invalidate_all (brc_cache r) ks (snd s)" "book_key (brc_uuid r) i \<in> set ks \<or> books (fst s) i = None"
  shows "inv s'"
proof -
  have "book_coherent (brc_uuid r) ((books (fst s))(i := y)) (view (snd s'))" if "brc_cache r \<noteq> None"
    unfolding assms(4)
    by (rule book_coherent_upd [OF _ ch.invalidate_all_frame])
      (use assms(1,5) that ch.invalidate_all_gone [OF that] in \<open>auto simp: book_inv_def\<close>)
  with assms(2,3) show ?thesis by (simp add: book_inv_def)
qed

lemma link_spec:
  assumes "valid d" "opened tx d" "\<forall>k. fresh k \<noteq> uuid_Nil" "link_categories r tx fresh i cs d = (x, d')"
  shows "valid d' \<and> opened tx d' \<and> books d' = books d \<and> links d' = links d \<and> tbooks tx d' = tbooks tx d \<and>
    (x = Inr () \<and> usable tx d' \<longrightarrow> (\<forall>j. categories_of (tlinks tx d') j =
       (if j = i then categories_of (tlinks tx d) i \<union> requested (brc_uuid r) cs else categories_of (tlinks tx d) j)))"
proof (cases "cs = []")
  case True
  with assms show ?thesis by (auto simp: link_categories_def)
next
  case False
  with assms(4) have "addBookCategories (brc_uuid r) (bdb_tx_links (brc_db r) tx) fresh i cs d = (x, d')"
    by (simp add: link_categories_def)
  from st.add_links_spec [OF assms(1-3) this] show ?thesis by auto
qed

lemma Create_spec:
  assumes "inv s" "base_id b \<noteq> uuid_Nil" "deleted_at b = None" "\<forall>k. fresh k \<noteq> uuid_Nil"
    "bookRepository_Create r fresh b s = (x, s')"
  shows "inv s' \<and> (case x of
      Inl e \<Rightarrow> books (fst s') = books (fst s) \<and> links (fst s') = links (fst s)
    | Inr b' \<Rightarrow> same_content (cols b) (cols b') \<and> bk_categories b' = bk_categories b \<and>
        books (fst s) (base_id b) = None \<and> books (fst s') = (books (fst s))(base_id b := Some (cols b')) \<and>
        (\<forall>j. categories_of (links (fst s')) j =
          (if j = base_id b then categories_of (links (fst s)) j \<union> requested (brc_uuid r) (bk_categories b)
           else categories_of (links (fst s)) j)))"
proof -
  obtain tx d1 where b1: "bdb_begin (brc_db r) (fst s) = (tx, d1)" by (cases "bdb_begin (brc_db r) (fst s)")
  note t1 = st.begin_ok [OF inv_valid [OF assms(1)] b1]
  then have v1: "valid d1" "opened tx d1" by auto
  obtain y d2 where b2: "g_create (bdb_tx_books (brc_db r) tx) (cols b) d1 = (y, d2)"
    by (cases "g_create (bdb_tx_books (brc_db r) tx) (cols b) d1")
  have t2: "valid d2 \<and> opened tx d2 \<and> books d2 = books d1 \<and> links d2 = links d1 \<and> tlinks tx d2 = tlinks tx d1 \<and>
    (case y of Inl e \<Rightarrow> tbooks tx d2 = tbooks tx d1
     | Inr b' \<Rightarrow> same_content (cols b) b' \<and> tbooks tx d1 (base_id b) = None \<and>
         tbooks tx d2 = (tbooks tx d1)(base_id b := Some b'))"
    using st.tx_create_spec [OF v1 _ _ b2] assms(2,3) by (cases y) simp_all
  show ?thesis
  proof (cases y)
    case (Inl e)
    with assms(5) b1 b2 t1 t2 st.rollback_ok [of d2 tx] same_inv [OF assms(1)] show ?thesis
      by (auto simp: bookRepository_Create_def)
  next
    case (Inr row)
    have row: "base_id row = base_id b" using t2 Inr same_content_id [of "cols b" row] by simp
    obtain z d3 where b3: "link_categories r tx fresh (base_id b) (bk_categories b) d2 = (z, d3)"
      by (cases "link_categories r tx fresh (base_id b) (bk_categories b) d2")
    note t3 = link_spec [OF _ _ assms(4) b3]
    show ?thesis
    proof (cases z)
      case (Inl e)
      with assms(5) b1 b2 b3 Inr row t1 t2 t3 st.rollback_ok [of d3 tx] same_inv [OF assms(1)] show ?thesis
        by (auto simp: bookRepository_Create_def)
    next
      case z: (Inr u)
      have run: "commit_and_invalidate r tx [book_list_key] (with_categories row (bk_categories b)) (d3, snd s) = (x, s')"
        using assms(5) b1 b2 b3 Inr row z by (simp add: bookRepository_Create_def)
      note c = commit_spec [OF _ _ run]
      show ?thesis
      proof (cases x)
        case (Inl e)
        with c t1 t2 t3 inv_shrink [OF assms(1), of s'] show ?thesis by auto
      next
        case x: (Inr w)
        have bk: "books (fst s') = (books (fst s))(base_id b := Some row)" "books (fst s) (base_id b) = None"
          "snd s' = invalidate_all (brc_cache r) [book_list_key] (snd s)" "valid (fst s')"
          "w = with_categories row (bk_categories b)" "same_content (cols b) row"
          using c x t1 t2 t3 Inr by auto
        have "inv s'" by (rule write_inv [OF assms(1) bk(4,1,3)]) (simp add: bk(2))
        moreover have "categories_of (links (fst s')) j =
          (if j = base_id b then categories_of (links (fst s)) j \<union> requested (brc_uuid r) (bk_categories b)
           else categories_of (links (fst s)) j)" for j
          using c x t1 t2 t3 z by auto
        ultimately show ?thesis using bk x by auto
      qed
    qed
  qed
qed


text \<open>
  \<open>Update\<close> and \<open>Delete\<close> take the links away outside the transaction: when they fail later, the book
  is as before but its links may be gone.
\<close>

abbreviation links_lost :: "'d \<Rightarrow> 'd \<Rightarrow> uuid \<Rightarrow> bool" where
  "links_lost d d' i \<equiv> links d' = links d \<or>
     (\<forall>j. categories_of (links d') j = (if j = i then {} else categories_of (links d) j))"

lemma Update_spec:
  assumes "inv s" "books (fst s) (base_id b) \<noteq> None" "deleted_at b = None" "\<forall>k. fresh k \<noteq> uuid_Nil"
    "bookRepository_Update r fresh b s = (x, s')"
  shows "inv s' \<and> (case x of
      Inl e \<Rightarrow> books (fst s') = books (fst s) \<and> links_lost (fst s) (fst s') (base_id b)
    | Inr b' \<Rightarrow> same_content (cols b) (cols b') \<and> bk_categories b' = bk_categories b \<and>
        books (fst s') = (books (fst s))(base_id b := Some (cols b')) \<and>
        (\<forall>j. categories_of (links (fst s')) j =
          (if j = base_id b then requested (brc_uuid r) (bk_categories b) else categories_of (links (fst s)) j)))"
proof -
  let ?q = "q_where ''book_id = ?'' [AUuid (base_id b)] q_all"
  obtain tx d1 where b1: "bdb_begin (brc_db r) (fst s) = (tx, d1)" by (cases "bdb_begin (brc_db r) (fst s)")
  note t1 = st.begin_ok [OF inv_valid [OF assms(1)] b1]
  then have v1: "valid d1" "opened tx d1" by auto
  obtain y d2 where b2: "g_save (bdb_tx_books (brc_db r) tx) (cols b) d1 = (y, d2)"
    by (cases "g_save (bdb_tx_books (brc_db r) tx) (cols b) d1")
  have t2: "valid d2 \<and> opened tx d2 \<and> books d2 = books d1 \<and> links d2 = links d1 \<and> tlinks tx d2 = tlinks tx d1 \<and>
    (case y of Inl e \<Rightarrow> tbooks tx d2 = tbooks tx d1
     | Inr b' \<Rightarrow> same_content (cols b) b' \<and> tbooks tx d2 = (tbooks tx d1)(base_id b := Some b'))"
    using st.tx_save_spec [OF v1 _ _ b2] assms(2,3) t1 by (cases y) simp_all
  show ?thesis
  proof (cases y)
    case (Inl e)
    with assms(5) b1 b2 t1 t2 st.rollback_ok [of d2 tx] same_inv [OF assms(1)] show ?thesis
      by (auto simp: bookRepository_Update_def)
  next
    case (Inr row)
    have row: "base_id row = base_id b" "same_content (cols b) row"
      using t2 Inr same_content_id [of "cols b" row] by simp_all
    obtain z d3 where b3: "g_delete (bdb_links (brc_db r)) ?q d2 = (z, d3)"
      by (cases "g_delete (bdb_links (brc_db r)) ?q d2")
    have t3: "valid d3 \<and> opened tx d3 \<and> books d3 = books d2 \<and> tbooks tx d3 = tbooks tx d2 \<and>
        tlinks tx d3 = links d3 \<and> (case z of Inl e \<Rightarrow> links d3 = links d2
        | Inr _ \<Rightarrow> \<forall>j. categories_of (links d3) j = (if j = base_id b then {} else categories_of (links d2) j))"
      using st.remove_spec [of d2 tx _ z d3] b3 t1 t2 by simp
    have rm: "bookRepository_RemoveCategories r (base_id b) (d2, snd s) = (z, (d3, snd s))"
      using b3 by (simp add: bookRepository_RemoveCategories_def)
    show ?thesis
    proof (cases z)
      case (Inl e)
      with assms(5) b1 b2 rm Inr row t1 t2 t3 st.rollback_ok [of d3 tx] same_inv [OF assms(1)] show ?thesis
        by (auto simp: bookRepository_Update_def)
    next
      case z: (Inr u)
      obtain w d4 where b4: "link_categories r tx fresh (base_id b) (bk_categories b) d3 = (w, d4)"
        by (cases "link_categories r tx fresh (base_id b) (bk_categories b) d3")
      note t4 = link_spec [OF _ _ assms(4) b4]
      show ?thesis
      proof (cases w)
        case (Inl e)
        with assms(5) b1 b2 rm b4 Inr row z t1 t2 t3 t4 st.rollback_ok [of d4 tx] same_inv [OF assms(1)] show ?thesis
          by (auto simp: bookRepository_Update_def)
      next
        case w: (Inr v)
        let ?ks = "book_keys (brc_uuid r) (base_id b) (bk_isbn row)"
        have run: "commit_and_invalidate r tx ?ks (with_categories row (bk_categories b)) (d4, snd s) = (x, s')"
          using assms(5) b1 b2 rm b4 Inr row z w by (simp add: bookRepository_Update_def)
        note c = commit_spec [OF _ _ run]
        show ?thesis
        proof (cases x)
          case (Inl e)
          with c z t1 t2 t3 t4 inv_shrink [OF assms(1), of s'] show ?thesis by auto
        next
          case x: (Inr b')
          have bk: "books (fst s') = (books (fst s))(base_id b := Some row)" "valid (fst s')"
            "snd s' = invalidate_all (brc_cache r) ?ks (snd s)" "b' = with_categories row (bk_categories b)"
            using c x t1 t2 t3 t4 Inr by auto
          have "inv s'" by (rule write_inv [OF assms(1) bk(2,1,3)]) (simp add: book_keys_def)
          moreover have "categories_of (links (fst s')) j =
            (if j = base_id b then requested (brc_uuid r) (bk_categories b) else categories_of (links (fst s)) j)" for j
            using c x t1 t2 t3 t4 z w by auto
          ultimately show ?thesis using bk x row by auto
        qed
      qed
    qed
  qed
qed

lemma Delete_spec:
  assumes "inv s" "bookRepository_Delete r i s = (x, s')"
  shows "inv s' \<and> (case x of
      Inl e \<Rightarrow> books (fst s') = books (fst s) \<and> links_lost (fst s) (fst s') i
    | Inr _ \<Rightarrow> books (fst s) i \<noteq> None \<and> books (fst s') = (books (fst s))(i := None) \<and>
        (\<forall>j. categories_of (links (fst s')) j = (if j = i then {} else categories_of (links (fst s)) j)))"
proof -
  let ?q = "q_where ''book_id = ?'' [AUuid i] q_all" and ?qi = "q_where ''id = ?'' [AUuid i] q_all"
  obtain y0 s0 where b0: "bookRepository_GetByID r i s = (y0, s0)" by (cases "bookRepository_GetByID r i s")
  note t0 = GetByID_spec [OF assms(1) b0]
  show ?thesis
  proof (cases y0)
    case (Inl e)
    with assms(2) b0 t0 show ?thesis by (auto simp: bookRepository_Delete_def)
  next
    case y0: (Inr b)
    obtain tx d2 where b2: "bdb_begin (brc_db r) (fst s0) = (tx, d2)" by (cases "bdb_begin (brc_db r) (fst s0)")
    have i0: "inv s0" using t0 by simp
    note t2 = st.begin_ok [OF inv_valid [OF i0] b2]
    obtain z d3 where b3: "g_delete (bdb_links (brc_db r)) ?q d2 = (z, d3)"
      by (cases "g_delete (bdb_links (brc_db r)) ?q d2")
    have t3: "valid d3 \<and> opened tx d3 \<and> books d3 = books d2 \<and> tbooks tx d3 = tbooks tx d2 \<and>
        tlinks tx d3 = links d3 \<and> (case z of Inl e \<Rightarrow> links d3 = links d2
        | Inr _ \<Rightarrow> \<forall>j. categories_of (links d3) j = (if j = i then {} else categories_of (links d2) j))"
      using st.remove_spec [of d2 tx _ z d3] b3 t2 by simp
    have rm: "bookRepository_RemoveCategories r i (d2, snd s0) = (z, (d3, snd s0))"
      using b3 by (simp add: bookRepository_RemoveCategories_def)
    show ?thesis
    proof (cases z)
      case (Inl e)
      with assms(2) b0 b2 rm y0 t0 t2 t3 st.rollback_ok [of d3 tx] same_inv [OF i0] show ?thesis
        by (auto simp: bookRepository_Delete_def)
    next
      case z: (Inr u)
      obtain w d4 where b4: "g_delete (bdb_tx_books (brc_db r) tx) ?qi d3 = (w, d4)"
        by (cases "g_delete (bdb_tx_books (brc_db r) tx) ?qi d3")
      have t4: "valid d4 \<and> opened tx d4 \<and> books d4 = books d3 \<and> links d4 = links d3 \<and> tlinks tx d4 = tlinks tx d3 \<and>
          (case w of Inl e \<Rightarrow> True | Inr _ \<Rightarrow> tbooks tx d4 = (books d3)(i := None))"
        using st.tx_delete_spec [OF _ _ _ b4] t2 t3 by auto
      show ?thesis
      proof (cases w)
        case (Inl e)
        with assms(2) b0 b2 rm b4 y0 z t0 t2 t3 t4 st.rollback_ok [of d4 tx] same_inv [OF i0] show ?thesis
          by (auto simp: bookRepository_Delete_def)
      next
        case w: (Inr v)
        let ?ks = "book_keys (brc_uuid r) i (bk_isbn b)"
        have run: "commit_and_invalidate r tx ?ks () (d4, snd s0) = (x, s')"
          using assms(2) b0 b2 rm b4 y0 z w by (simp add: bookRepository_Delete_def)
        note c = commit_spec [OF _ _ run]
        show ?thesis
        proof (cases x)
          case (Inl e)
          with c z t0 t2 t3 t4 inv_shrink [OF i0, of s'] show ?thesis by auto
        next
          case x: (Inr v)
          have bk: "books (fst s') = (books (fst s0))(i := None)" "valid (fst s')"
            "snd s' = invalidate_all (brc_cache r) ?ks (snd s0)"
            using c x t2 t3 t4 w by auto
          have "inv s'" by (rule write_inv [OF i0 bk(2,1,3)]) (simp add: book_keys_def)
          with bk x c t0 t2 t3 t4 y0 z show ?thesis by auto
        qed
      qed
    qed
  qed
qed

end

end
