(* ===== verification/BookSpec.thy ===== *)
theory BookSpec
  imports BookBackend
begin

text \<open>
  The business logic of books over the laws of \<open>book_backend\<close>: what each operation does to the two
  tables, on success and on error. \<open>book_module\<close> is the wiring of \<open>module.New\<close>.
\<close>

definition book_module :: "('d, 't, 'c) book_repo_conf \<Rightarrow> category_client option \<Rightarrow> ('d \<times> 'c) book_service_conf" where
  "book_module r client = \<lparr>bsc_uuid = brc_uuid r, bsc_repo = NewBookRepository r, bsc_client = client\<rparr>"

lemma book_module_simps [simp]:
  "bsc_uuid (book_module r cl) = brc_uuid r" "bsc_repo (book_module r cl) = NewBookRepository r"
  "bsc_client (book_module r cl) = cl"
  by (simp_all add: book_module_def)

section \<open>The validation of category IDs\<close>

lemma validate_categories_None:
  "validate_categories ul cl cs = None \<longleftrightarrow>
     (\<forall>c \<in> set cs. c \<noteq> [] \<longrightarrow> uuid_parse ul c \<noteq> None \<and> cc_CategoryExists cl c \<noteq> Inr False)"
  by (induction cs) (auto split: option.splits sum.splits if_splits)

text \<open>A client that never denies: the mock, and one whose calls all fail.\<close>

lemma NewCategoryClient_lenient:
  assumes "\<forall>stub c. dial url = Inr stub \<longrightarrow> isl (st_CheckCategoryExists stub c)"
  shows "cc_CategoryExists (NewCategoryClient dial url) c \<noteq> Inr False"
proof (cases "url = [] \<or> isl (dial url)")
  case True
  then show ?thesis
    by (auto simp: NewCategoryClient_def mockCategoryClient_def mockCategoryClient_CategoryExists_def isl_def)
next
  case False
  then obtain stub where stub: "dial url = Inr stub" "url \<noteq> []" by (cases "dial url") auto
  moreover have "isl (st_CheckCategoryExists stub c)" using assms stub(1) by blast
  then obtain e where "st_CheckCategoryExists stub c = Inl e" by (auto simp: isl_def)
  ultimately show ?thesis by (simp add: NewCategoryClient_def grpcCategoryClient_CategoryExists_def)
qed

section \<open>What a request asks for\<close>

definition or_old :: "'a \<Rightarrow> 'a option \<Rightarrow> 'a" where
  "or_old old x = (case x of None \<Rightarrow> old | Some v \<Rightarrow> v)"

text \<open>The row a successful update leaves; the two time stamps are GORM's.\<close>

definition requested_row :: "book_update \<Rightarrow> book_cols \<Rightarrow> book_cols \<Rightarrow> bool" where
  "requested_row req b b' \<longleftrightarrow>
     base_id b' = base_id b \<and> deleted_at b' = deleted_at b \<and>
     bk_title b' = or_old (bk_title b) (bu_title req) \<and> bk_author b' = or_old (bk_author b) (bu_author req) \<and>
     bk_isbn b' = or_old (bk_isbn b) (bu_isbn req) \<and> bk_year b' = or_old (bk_year b) (bu_year req) \<and>
     bk_publisher b' = or_old (bk_publisher b) (bu_publisher req) \<and>
     bk_description b' = or_old (bk_description b) (bu_description req) \<and>
     bk_language b' = or_old (bk_language b) (bu_language req) \<and>
     bk_pages b' = or_old (bk_pages b) (bu_pages req) \<and> bk_status b' = or_old (bk_status b) (bu_status req) \<and>
     bk_cover b' = or_old (bk_cover b) (bu_cover req) \<and> bk_rating b' = bk_rating b \<and>
     bk_quantity b' = or_old (bk_quantity b) (bu_quantity req) \<and>
     bk_available b' = (case bu_available req of
        Some a \<Rightarrow> a
      | None \<Rightarrow> if bu_quantity req = None then bk_available b else max 0 (wrap64 (bk_available b)))"

lemma upd_put:
  assumes "\<And>b. put (get b) b = b"
  shows "upd put x b = put (or_old (get b) x) b"
  using assms by (simp add: upd_def or_old_def split: option.split)

lemma update_fields_eq:
  "update_fields req b =
     b\<lparr>bk_title := or_old (bk_title b) (bu_title req), bk_author := or_old (bk_author b) (bu_author req),
       bk_isbn := or_old (bk_isbn b) (bu_isbn req), bk_year := or_old (bk_year b) (bu_year req),
       bk_publisher := or_old (bk_publisher b) (bu_publisher req),
       bk_description := or_old (bk_description b) (bu_description req),
       bk_language := or_old (bk_language b) (bu_language req), bk_pages := or_old (bk_pages b) (bu_pages req),
       bk_status := or_old (bk_status b) (bu_status req), bk_cover := or_old (bk_cover b) (bu_cover req)\<rparr>"
proof -
  note puts = upd_put [where put = "\<lambda>v b. b\<lparr>bk_title := v\<rparr>" and get = bk_title]
    upd_put [where put = "\<lambda>v b. b\<lparr>bk_author := v\<rparr>" and get = bk_author]
    upd_put [where put = "\<lambda>v b. b\<lparr>bk_isbn := v\<rparr>" and get = bk_isbn]
    upd_put [where put = "\<lambda>v b. b\<lparr>bk_year := v\<rparr>" and get = bk_year]
    upd_put [where put = "\<lambda>v b. b\<lparr>bk_publisher := v\<rparr>" and get = bk_publisher]
    upd_put [where put = "\<lambda>v b. b\<lparr>bk_description := v\<rparr>" and get = bk_description]
    upd_put [where put = "\<lambda>v b. b\<lparr>bk_language := v\<rparr>" and get = bk_language]
    upd_put [where put = "\<lambda>v b. b\<lparr>bk_pages := v\<rparr>" and get = bk_pages]
    upd_put [where put = "\<lambda>v b. b\<lparr>bk_status := v\<rparr>" and get = bk_status]
    upd_put [where put = "\<lambda>v b. b\<lparr>bk_cover := v\<rparr>" and get = bk_cover]
  show ?thesis unfolding update_fields_def by (simp add: puts)
qed

text \<open>The quantity block: the difference of the new quantity with itself is zero.\<close>

lemma update_quantity_eq:
  "update_quantity req b = b\<lparr>bk_quantity := or_old (bk_quantity b) (bu_quantity req),
     bk_available := (if bu_quantity req = None \<or> bu_available req \<noteq> None then bk_available b
       else max 0 (wrap64 (bk_available b)))\<rparr>"
  by (auto simp: update_quantity_def or_old_def Let_def max_def wrap64_def split: option.split)

lemma update_available_eq:
  "update_available req b = Inr b1 \<longleftrightarrow>
     b1 = b\<lparr>bk_available := or_old (bk_available b) (bu_available req)\<rparr> \<and>
     (\<forall>a. bu_available req = Some a \<longrightarrow> a \<le> bk_quantity b)"
  by (auto simp: update_available_def or_old_def split: option.split)

lemma same_columns:
  "same_content (cols b) c \<Longrightarrow> \<exists>t1 t2. c = cols (b\<lparr>created_at := t1, updated_at := t2\<rparr>)"
  by (rule exI [of _ "created_at c"], rule exI [of _ "updated_at c"]) (simp add: same_content_def book_cols.defs)

lemma update_steps:
  assumes "update_available req (update_quantity req (update_fields req b)) = Inr b1"
    and "same_content (cols b1) c"
  shows "requested_row req (cols b) c \<and> base_id b1 = base_id b \<and> deleted_at b1 = deleted_at b \<and>
    bk_categories b1 = bk_categories b \<and> (\<forall>a. bu_available req = Some a \<longrightarrow> a \<le> bk_quantity c)"
proof -
  from same_columns [OF assms(2)] obtain t1 t2 where c: "c = cols (b1\<lparr>created_at := t1, updated_at := t2\<rparr>)"
    by blast
  from assms(1) show ?thesis
    unfolding c requested_row_def update_available_eq update_quantity_eq update_fields_eq
    by (cases "bu_available req") (simp_all add: or_old_def)
qed

text \<open>The row of a new book.\<close>

definition created_row :: "book_env \<Rightarrow> book_create \<Rightarrow> book_cols \<Rightarrow> bool" where
  "created_row env req b \<longleftrightarrow>
     base_id b = new_uuid env \<and> deleted_at b = None \<and> bk_title b = bq_title req \<and> bk_author b = bq_author req \<and>
     bk_isbn b = bq_isbn req \<and> bk_year b = bq_year req \<and> bk_publisher b = bq_publisher req \<and>
     bk_description b = bq_description req \<and> bk_language b = bq_language req \<and> bk_pages b = bq_pages req \<and>
     bk_status b = BookStatusAvailable \<and> bk_cover b = bq_cover req \<and> bk_rating b = 0 \<and>
     bk_quantity b = (if bq_quantity req > 0 then bq_quantity req else 1) \<and> bk_available b = bk_quantity b"

lemma new_book_row:
  "same_content (cols (new_book env req)) c \<Longrightarrow> created_row env req c"
  by (cases c) (auto simp: same_content_def created_row_def new_book_def NewBook_def Let_def book_cols.defs)

lemma new_book_base [simp]:
  "base_id (new_book env req) = new_uuid env" "deleted_at (new_book env req) = None"
  "bk_categories (new_book env req) = bq_categories req"
  by (simp_all add: new_book_def NewBook_def Let_def)

lemma response_parts:
  "bk_categories b = cs \<Longrightarrow> NewBookResponse b = NewBookResponse (with_categories (cols b) cs)"
  by (metis with_categories_cols)

section \<open>The operations\<close>

context book_backend
begin

lemma isbn_taken_frame:
  assumes "inv s" "isbn_taken (book_module r cl) n f s = (b, s')"
  shows "inv s' \<and> books (fst s') = books (fst s) \<and> links (fst s') = links (fst s)"
proof -
  obtain y t where g: "bookRepository_GetByISBN r n s = (y, t)" by (cases "bookRepository_GetByISBN r n s")
  with GetByISBN_frame [OF assms(1) g] assms(2) show ?thesis
    by (cases y) (auto simp: isbn_taken_def)
qed

lemma CreateBook_spec:
  assumes "inv s" "new_uuid env \<noteq> uuid_Nil" "\<forall>k. link_uuids env k \<noteq> uuid_Nil"
    "CreateBook (book_module r cl) env req s = (x, s')"
  shows "inv s' \<and> (case x of
      Inl e \<Rightarrow> books (fst s') = books (fst s) \<and> links (fst s') = links (fst s)
    | Inr rsp \<Rightarrow> \<exists>b. created_row env req b \<and> rsp = NewBookResponse (with_categories b (bq_categories req)) \<and>
        books (fst s) (new_uuid env) = None \<and> books (fst s') = (books (fst s))(new_uuid env := Some b) \<and>
        (\<forall>j. categories_of (links (fst s')) j =
          (if j = new_uuid env then categories_of (links (fst s)) j \<union> requested (brc_uuid r) (bq_categories req)
           else categories_of (links (fst s)) j)))"
proof -
  obtain t s1 where i: "(if bq_isbn req \<noteq> [] then isbn_taken (book_module r cl) (bq_isbn req) (\<lambda>_. True) s else (False, s))
      = (t, s1)" by (rule prod.exhaust)
  have s1: "inv s1" "books (fst s1) = books (fst s)" "links (fst s1) = links (fst s)"
    using isbn_taken_frame [OF assms(1), of cl "bq_isbn req" "\<lambda>_. True" t s1] i assms(1)
    by (auto split: if_splits)
  show ?thesis
  proof (cases "t \<or> check_categories (book_module r cl) (bq_categories req) \<noteq> None")
    case True
    with assms(4) i s1 show ?thesis by (cases t) (auto simp: CreateBook_def)
  next
    case False
    obtain y s2 where c: "bookRepository_Create r (link_uuids env) (new_book env req) s1 = (y, s2)"
      by (cases "bookRepository_Create r (link_uuids env) (new_book env req) s1")
    have y: "inv s2 \<and> (case y of
        Inl e \<Rightarrow> books (fst s2) = books (fst s1) \<and> links (fst s2) = links (fst s1)
      | Inr b' \<Rightarrow> same_content (cols (new_book env req)) (cols b') \<and> bk_categories b' = bq_categories req \<and>
          books (fst s1) (new_uuid env) = None \<and> books (fst s2) = (books (fst s1))(new_uuid env := Some (cols b')) \<and>
          (\<forall>j. categories_of (links (fst s2)) j =
            (if j = new_uuid env then categories_of (links (fst s1)) j \<union> requested (brc_uuid r) (bq_categories req)
             else categories_of (links (fst s1)) j)))"
      using Create_spec [OF s1(1) _ _ assms(3) c, unfolded new_book_base] assms(2) by simp
    have x: "x = map_sum (\<lambda>_. err_internal) NewBookResponse y" "s' = s2"
      using assms(4) i c False by (cases y; simp add: CreateBook_def)+
    show ?thesis
    proof (cases y)
      case (Inl e)
      with x y s1 show ?thesis by simp
    next
      case (Inr b)
      have rsp: "NewBookResponse b = NewBookResponse (with_categories (cols b) (bq_categories req))"
        by (rule response_parts) (use y Inr in simp)
      show ?thesis
        unfolding x Inr map_sum.simps sum.case rsp
        using y Inr s1 new_book_row [of env req "cols b"]
        by (intro conjI exI [of _ "cols b"]) auto
    qed
  qed
qed

lemma UpdateBook_spec:
  assumes "inv s" "\<forall>k. link_uuids env k \<noteq> uuid_Nil" "UpdateBook (book_module r cl) env i req s = (x, s')"
  shows "inv s' \<and> (case x of
      Inl e \<Rightarrow> books (fst s') = books (fst s) \<and> links_lost (fst s) (fst s') i
    | Inr rsp \<Rightarrow> \<exists>b c cs. books (fst s) i = Some b \<and> requested_row req b c \<and>
        (\<forall>a. bu_available req = Some a \<longrightarrow> a \<le> bk_quantity c) \<and>
        rsp = NewBookResponse (with_categories c cs) \<and> books (fst s') = (books (fst s))(i := Some c) \<and>
        (cs = bu_categories req \<and> cs \<noteq> [] \<or>
         bu_categories req = [] \<and> (cs = [] \<or> requested (brc_uuid r) cs = categories_of (links (fst s)) i)) \<and>
        (\<forall>j. categories_of (links (fst s')) j =
          (if j = i then requested (brc_uuid r) cs else categories_of (links (fst s)) j)))"
proof -
  let ?sv = "book_module r cl"
  obtain y1 s1 where g: "bookRepository_GetByID r i s = (y1, s1)" by (cases "bookRepository_GetByID r i s")
  note t1 = GetByID_spec [OF assms(1) g]
  show ?thesis
  proof (cases y1)
    case (Inl e)
    with assms(3) g t1 show ?thesis by (auto simp: UpdateBook_def)
  next
    case b: (Inr b)
    have row: "books (fst s) i = Some (cols b)" "bk_categories b = [] \<or> set (bk_categories b) = names (fst s) i"
      and s1: "inv s1" "books (fst s1) = books (fst s)" "links (fst s1) = links (fst s)"
      using t1 b by auto
    have bi: "base_id b = i" "deleted_at b = None"
      using st.book_row [OF inv_valid [OF assms(1)] row(1)] by auto
    define chk where "chk = (case bu_isbn req of None \<Rightarrow> (False, s1)
      | Some n \<Rightarrow> if n = bk_isbn b then (False, s1) else isbn_taken ?sv n (\<lambda>existing. base_id existing \<noteq> i) s1)"
    obtain t s2 where c: "chk = (t, s2)" by (cases chk)
    have s2: "inv s2 \<and> books (fst s2) = books (fst s) \<and> links (fst s2) = links (fst s)"
    proof (cases "bu_isbn req")
      case (Some n)
      with c s1 isbn_taken_frame [OF s1(1), of cl n "\<lambda>existing. base_id existing \<noteq> i" t s2] show ?thesis
        by (auto simp: chk_def split: if_splits)
    qed (use c s1 in \<open>auto simp: chk_def\<close>)
    let ?a = "update_available req (update_quantity req (update_fields req b))"
    have run: "UpdateBook ?sv env i req s = (case chk of
        (True, s2) \<Rightarrow> (Inl (err_isbn_exists (the (bu_isbn req))), s2)
      | (False, s2) \<Rightarrow> (case ?a of Inl e \<Rightarrow> (Inl e, s2)
        | Inr b1 \<Rightarrow> (case check_categories ?sv (bu_categories req) of Some e \<Rightarrow> (Inl e, s2)
          | None \<Rightarrow> let b2 = (if bu_categories req = [] then b1
                   else b1\<lparr>bk_categories := bu_categories req\<rparr>)
             in (case bkr_Update (bsc_repo ?sv) (link_uuids env) b2 s2 of
               (Inl e, s3) \<Rightarrow> (Inl err_internal, s3) | (Inr b3, s3) \<Rightarrow> (Inr (NewBookResponse b3), s3)))))"
      using g b unfolding UpdateBook_def chk_def by simp
    show ?thesis
    proof (cases "\<not> t \<and> check_categories ?sv (bu_categories req) = None \<and> (\<exists>b1. ?a = Inr b1)")
      case False
      have "(\<exists>e. x = Inl e) \<and> s' = s2"
        using assms(3) False unfolding run c by (cases t; auto split: sum.splits option.splits)
      with s2 show ?thesis by auto
    next
      case True
      then obtain b1 where b1: "?a = Inr b1" by blast
      define b2 where "b2 = (if bu_categories req = [] then b1 else b1\<lparr>bk_categories := bu_categories req\<rparr>)"
      obtain y s3 where u: "bookRepository_Update r (link_uuids env) b2 s2 = (y, s3)"
        by (cases "bookRepository_Update r (link_uuids env) b2 s2")
      have x: "x = map_sum (\<lambda>_. err_internal) NewBookResponse y" "s' = s3"
        using assms(3) True b1 u unfolding run c by (cases y; simp add: b2_def Let_def)+
      have "same_content (cols b1) (cols b1)" by simp
      from update_steps [OF b1 this] have st1: "base_id b1 = i" "deleted_at b1 = None" "bk_categories b1 = bk_categories b"
        using bi by auto
      have b2: "base_id b2 = i" "deleted_at b2 = None" "cols b2 = cols b1"
        "bk_categories b2 = (if bu_categories req = [] then bk_categories b else bu_categories req)"
        using st1 by (simp_all add: b2_def)
      have live: "books (fst s2) (base_id b2) \<noteq> None" using s2 row b2 by simp
      note up = Update_spec [OF _ live b2(2) assms(2) u, unfolded b2(1)]
      show ?thesis
      proof (cases y)
        case (Inl e)
        with up x s2 show ?thesis by auto
      next
        case (Inr b3)
        then have w: "same_content (cols b1) (cols b3)" "bk_categories b3 = bk_categories b2"
          "books (fst s3) = (books (fst s))(i := Some (cols b3))" "inv s3"
          "\<forall>j. categories_of (links (fst s3)) j =
            (if j = i then requested (brc_uuid r) (bk_categories b2) else categories_of (links (fst s)) j)"
          using up s2 b2(3) by auto
        from update_steps [OF b1 w(1)] have rq: "requested_row req (cols b) (cols b3)"
          "\<forall>a. bu_available req = Some a \<longrightarrow> a \<le> bk_quantity (cols b3)" by auto
        have cs: "bk_categories b2 = bu_categories req \<and> bk_categories b2 \<noteq> [] \<or> bu_categories req = [] \<and>
            (bk_categories b2 = [] \<or> requested (brc_uuid r) (bk_categories b2) = categories_of (links (fst s)) i)"
          using b2(4) row(2) requested_printed [OF uuids prints] by auto
        have rs: "x = Inr (NewBookResponse (with_categories (cols b3) (bk_categories b2)))"
          using x Inr w(2) with_categories_cols [of b3] by simp
        show ?thesis
          unfolding rs x(2) sum.case
          using w rq row(1) cs
          by (intro conjI exI [of _ "cols b"] exI [of _ "cols b3"] exI [of _ "bk_categories b2"]) auto
      qed
    qed
  qed
qed

lemma DeleteBook_spec:
  assumes "inv s" "DeleteBook (book_module r cl) i s = (x, s')"
  shows "inv s' \<and> (case x of
      Inl e \<Rightarrow> books (fst s') = books (fst s) \<and> links_lost (fst s) (fst s') i
    | Inr _ \<Rightarrow> books (fst s) i \<noteq> None \<and> books (fst s') = (books (fst s))(i := None) \<and>
        (\<forall>j. categories_of (links (fst s')) j = (if j = i then {} else categories_of (links (fst s)) j)))"
proof -
  obtain y1 s1 where g: "bookRepository_GetByID r i s = (y1, s1)" by (cases "bookRepository_GetByID r i s")
  note t1 = GetByID_spec [OF assms(1) g]
  obtain y2 s2 where d: "bookRepository_Delete r i s1 = (y2, s2)" by (cases "bookRepository_Delete r i s1")
  have s1: "inv s1" "books (fst s1) = books (fst s)" "links (fst s1) = links (fst s)" using t1 by simp_all
  note t2 = Delete_spec [OF s1(1) d, unfolded s1(2,3)]
  show ?thesis
  proof (cases y1)
    case (Inl e)
    with assms(2) g s1 show ?thesis by (auto simp: DeleteBook_def)
  next
    case (Inr b)
    then have "x = map_sum (\<lambda>_. err_internal) id y2 \<and> s' = s2"
      using assms(2) g d by (cases y2) (auto simp: DeleteBook_def)
    with t2 show ?thesis by (cases y2) simp_all
  qed
qed

lemma GetBookByID_spec:
  assumes "inv s" "GetBookByID (book_module r cl) i s = (x, s')"
  shows "inv s' \<and> books (fst s') = books (fst s) \<and> links (fst s') = links (fst s) \<and> (case x of
      Inl e \<Rightarrow> True
    | Inr rsp \<Rightarrow> \<exists>b cs. books (fst s) i = Some b \<and> rsp = NewBookResponse (with_categories b cs) \<and>
        (cs = [] \<or> set cs = names (fst s) i))"
proof -
  obtain y1 s1 where g: "bookRepository_GetByID r i s = (y1, s1)" by (cases "bookRepository_GetByID r i s")
  note t1 = GetByID_spec [OF assms(1) g]
  show ?thesis
  proof (cases y1)
    case (Inr b)
    then have x: "x = Inr (NewBookResponse (with_categories (cols b) (bk_categories b)))" "s' = s1"
      using assms(2) g by (auto simp: GetBookByID_def)
    show ?thesis
      unfolding x sum.case using t1 Inr
      by (intro conjI exI [of _ "cols b"] exI [of _ "bk_categories b"]) auto
  qed (use t1 g assms(2) in \<open>auto simp: GetBookByID_def\<close>)
qed

end

section \<open>Listings\<close>

text \<open>The condition of the sub-query of a category.\<close>

definition in_category :: "uuid \<Rightarrow> where_clause list" where
  "in_category u = [Where ''category_id = ?'' [AUuid u]]"

lemma ascii_lower_eq:
  assumes "of_char z < (65::nat) \<or> 90 < (of_char z::nat)" "of_char z < (97::nat)"
  shows "ascii_lower c = z \<longleftrightarrow> c = z"
proof (cases "65 \<le> (of_char c :: nat) \<and> of_char c \<le> (90::nat)")
  case True
  then have "of_char (char_of (of_char c + 32 :: nat) :: char) = (of_char c + 32 :: nat)"
    by simp
  with True assms show ?thesis by (auto simp: ascii_lower_def Let_def)
qed (auto simp: ascii_lower_def Let_def)

lemma sql_lower_mem:
  assumes "of_char z < (65::nat) \<or> 90 < (of_char z::nat)" "of_char z < (97::nat)"
  shows "z \<in> set (sql_lower s) \<longleftrightarrow> z \<in> set s"
  by (induction s) (auto simp: sql_lower_def ascii_lower_eq [OF assms] eq_commute [of z])

lemma plain_lower: "plain_pattern (sql_lower q) = plain_pattern q"
  by (simp add: plain_pattern_def sql_lower_mem)

lemma ilike_contains:
  assumes "plain_pattern q"
  shows "sql_ilike (''%'' @ q @ ''%'') s \<longleftrightarrow> str_contains (sql_lower s) (sql_lower q)"
proof -
  have "ascii_lower (CHR ''%'') = CHR ''%''" by (simp add: ascii_lower_def Let_def)
  then have "sql_lower (''%'' @ q @ ''%'') = CHR ''%'' # sql_lower q @ [CHR ''%'']" by (simp add: sql_lower_def)
  then show ?thesis
    using like_contains [of "sql_lower q" "sql_lower s"] assms
    by (simp add: sql_ilike_def plain_lower)
qed

text \<open>What \<open>SearchBooks\<close> looks for: the query as a substring, in any case except in the ISBN.\<close>

definition book_contains :: "string \<Rightarrow> string \<Rightarrow> book_cols \<Rightarrow> bool" where
  "book_contains field q b =
     (let inside = (\<lambda>s. str_contains (sql_lower s) (sql_lower q))
      in if field = ''title'' then inside (bk_title b)
         else if field = ''author'' then inside (bk_author b)
         else if field = ''isbn'' then str_contains (bk_isbn b) q
         else if field = ''publisher'' then inside (bk_publisher b)
         else if field = ''description'' then inside (bk_description b)
         else inside (bk_title b) \<or> inside (bk_author b) \<or> str_contains (bk_isbn b) q \<or>
              inside (bk_publisher b) \<or> inside (bk_description b))"

lemma search_where_contains:
  assumes "plain_pattern (bs_query f)"
  shows "sat_all (book_sat S) (book_search_where f) b \<longleftrightarrow> book_contains (bs_field f) (bs_query f) b"
  using ilike_contains [OF assms] like_contains [OF assms]
  by (simp add: book_search_where_def book_contains_def Let_def)

context book_backend
begin

lemma load_spec:
  assumes "valid (fst s)" "load_categories r rows s = (bs, s')"
  shows "valid (fst s') \<and> books (fst s') = books (fst s) \<and> links (fst s') = links (fst s) \<and> snd s' = snd s \<and>
    map cols bs = rows \<and> (\<forall>b \<in> set bs. bk_categories b = [] \<or> set (bk_categories b) = names (fst s) (base_id b))"
  using assms
proof (induction rows arbitrary: s bs)
  case Nil
  then show ?case by auto
next
  case (Cons row rows)
  obtain cs s1 where c: "categories_or_nil r (base_id row) s = (cs, s1)" by (cases "categories_or_nil r (base_id row) s")
  obtain bs' where l: "load_categories r rows s1 = (bs', s')" and bs: "bs = with_categories row cs # bs'"
    using Cons.prems(2) c by (auto split: prod.splits)
  have b: "base_id (with_categories row cs) = base_id row"
    by (metis cols_sel(1) cols_with_categories)
  with categories_spec [OF Cons.prems(1) c] Cons.IH [OF _ l] b show ?case by (auto simp: bs)
qed

lemma count_and_find_spec:
  assumes "inv s" "count_and_find r q w s = (x, s')"
    and "\<And>S b. sat_all (book_sat S) w b = sat_all (book_sat S) q b" "limit w = Some lm" "0 < lm"
  shows "inv s' \<and> books (fst s') = books (fst s) \<and> links (fst s') = links (fst s) \<and> (case x of
      Inl e \<Rightarrow> True
    | Inr (bs, n) \<Rightarrow>
        n = int (card {i. \<exists>b. books (fst s) i = Some b \<and> sat_all (book_sat (sub None (fst s))) q b}) \<and>
        distinct (map base_id bs) \<and> int (length bs) \<le> lm \<and>
        (\<forall>b \<in> set bs. books (fst s) (base_id b) = Some (cols b) \<and>
           sat_all (book_sat (sub None (fst s))) q (cols b) \<and>
           (bk_categories b = [] \<or> set (bk_categories b) = names (fst s) (base_id b))))"
proof -
  have v: "valid (fst s)" by (rule inv_valid [OF assms(1)])
  obtain y d1 where c: "g_count (bdb_books (brc_db r)) q (fst s) = (y, d1)"
    by (cases "g_count (bdb_books (brc_db r)) q (fst s)")
  note t1 = st.count_spec [OF v c]
  show ?thesis
  proof (cases y)
    case (Inl e)
    with t1 c assms(2) same_inv [OF assms(1), of d1] show ?thesis by (auto simp: count_and_find_def)
  next
    case y: (Inr n)
    obtain z d2 where f: "g_find (bdb_books (brc_db r)) w d1 = (z, d2)" by (cases "g_find (bdb_books (brc_db r)) w d1")
    have v1: "valid d1" using t1 by simp
    note t2 = st.find_spec [OF v1 f]
    show ?thesis
    proof (cases z)
      case (Inl e)
      with t1 t2 c f y assms(2) same_inv [OF assms(1), of d2] show ?thesis by (auto simp: count_and_find_def)
    next
      case z: (Inr rows)
      obtain bs s3 where l: "load_categories r rows (d2, snd s) = (bs, s3)" by (cases "load_categories r rows (d2, snd s)")
      have x: "x = Inr (bs, n)" "s' = s3" using assms(2) c f l y z by (simp_all add: count_and_find_def)
      have v2: "valid (fst (d2, snd s))" using t2 by simp
      note t3 = load_spec [OF v2 l]
      have "inv s3" using t1 t2 t3 inv_shrink [OF assms(1), of s3] by simp
      have ids: "map base_id bs = map base_id rows"
        using t3 by (auto simp: comp_def dest: arg_cong [of _ _ "map base_id"])
      have len: "length bs = length rows" using t3 by (metis length_map)
      have rows: "cols b \<in> set rows" if "b \<in> set bs" for b using t3 that by auto
      show ?thesis
        unfolding x sum.case prod.case using \<open>inv s3\<close> t1 t2 t3 y z ids len rows assms(3-5) by auto
    qed
  qed
qed


text \<open>A page of books: the counters and the items of the answer.\<close>

lemma book_page_spec:
  assumes "inv s" "book_page page lm (count_and_find r q w s) = (x, s')"
    and "\<And>S b. sat_all (book_sat S) w b = sat_all (book_sat S) q b" "limit w = Some lm" "0 < lm"
  shows "inv s' \<and> books (fst s') = books (fst s) \<and> links (fst s') = links (fst s) \<and> (case x of
      Inl e \<Rightarrow> e = err_internal
    | Inr l \<Rightarrow> \<exists>bs. lr_items l = map NewBookResponse bs \<and> distinct (map base_id bs) \<and> int (length bs) \<le> lm \<and>
        lr_total_items l =
          int (card {i. \<exists>b. books (fst s) i = Some b \<and> sat_all (book_sat (sub None (fst s))) q b}) \<and>
        lr_total_pages l = total_pages (lr_total_items l) lm \<and> lr_current_page l = page \<and> lr_page_size l = lm \<and>
        (\<forall>b \<in> set bs. books (fst s) (base_id b) = Some (cols b) \<and>
           sat_all (book_sat (sub None (fst s))) q (cols b) \<and>
           (bk_categories b = [] \<or> set (bk_categories b) = names (fst s) (base_id b))))"
proof -
  obtain y s1 where c: "count_and_find r q w s = (y, s1)" by (cases "count_and_find r q w s")
  note t = count_and_find_spec [OF assms(1) c assms(3-5)]
  show ?thesis
  proof (cases y)
    case (Inl e)
    with t assms(2) c show ?thesis by (auto simp: book_page_def)
  next
    case (Inr p)
    obtain bs n where p: "p = (bs, n)" by (cases p)
    have x: "x = Inr \<lparr>lr_items = map NewBookResponse bs, lr_total_items = n, lr_total_pages = total_pages n lm,
        lr_current_page = page, lr_page_size = lm\<rparr>" "s' = s1"
      using assms(2) c Inr p by (auto simp: book_page_def)
    show ?thesis unfolding x sum.case using t Inr p by (intro conjI exI [of _ bs]) auto
  qed
qed

lemma SearchBooks_spec:
  assumes "inv s" "plain_pattern (bs_query f)" "SearchBooks (book_module r cl) f s = (x, s')"
  shows "inv s' \<and> books (fst s') = books (fst s) \<and> links (fst s') = links (fst s) \<and> (case x of
      Inl e \<Rightarrow> e = err_internal
    | Inr l \<Rightarrow> \<exists>bs. lr_items l = map NewBookResponse bs \<and> distinct (map base_id bs) \<and>
        int (length bs) \<le> clamp_limit (bs_limit f) \<and>
        lr_total_items l =
          int (card {i. \<exists>b. books (fst s) i = Some b \<and> book_contains (bs_field f) (bs_query f) b}) \<and>
        lr_total_pages l = total_pages (lr_total_items l) (clamp_limit (bs_limit f)) \<and>
        lr_current_page l = clamp_page (bs_page f) \<and> lr_page_size l = clamp_limit (bs_limit f) \<and>
        (\<forall>b \<in> set bs. books (fst s) (base_id b) = Some (cols b) \<and>
           book_contains (bs_field f) (bs_query f) (cols b)))"
proof -
  let ?f = "f\<lparr>bs_page := clamp_page (bs_page f), bs_limit := clamp_limit (bs_limit f)\<rparr>"
  have w: "book_search_where ?f = book_search_where f"
    by (cases f) (simp add: book_search_where_def cong: if_cong)
  have run: "book_page (clamp_page (bs_page f)) (clamp_limit (bs_limit f)) (count_and_find r (book_search_where f)
      (q_limit (clamp_limit (bs_limit f)) (q_offset (page_offset (clamp_page (bs_page f)) (clamp_limit (bs_limit f)))
        (book_search_where f))) s) = (x, s')"
    using assms(3) by (simp add: SearchBooks_def bookRepository_Search_def Let_def w)
  note t = book_page_spec [OF assms(1) run _ _ clamp_limit_pos(1), unfolded search_where_contains [OF assms(2)]]
  show ?thesis
  proof (cases x)
    case (Inl e)
    with t show ?thesis by (simp add: search_where_contains [OF assms(2)])
  next
    case (Inr l)
    with t obtain bs where "lr_items l = map NewBookResponse bs \<and> distinct (map base_id bs) \<and>
        int (length bs) \<le> clamp_limit (bs_limit f) \<and>
        lr_total_items l =
          int (card {i. \<exists>b. books (fst s) i = Some b \<and> book_contains (bs_field f) (bs_query f) b}) \<and>
        lr_total_pages l = total_pages (lr_total_items l) (clamp_limit (bs_limit f)) \<and>
        lr_current_page l = clamp_page (bs_page f) \<and> lr_page_size l = clamp_limit (bs_limit f) \<and>
        (\<forall>b \<in> set bs. books (fst s) (base_id b) = Some (cols b) \<and>
           book_contains (bs_field f) (bs_query f) (cols b))"
      by (auto simp: search_where_contains [OF assms(2)])
    with t Inr show ?thesis by (auto simp: search_where_contains [OF assms(2)] intro!: exI [of _ bs])
  qed
qed

text \<open>
  The books of a category: every book with a live link, and those the sub-query finds besides.
\<close>

lemma linked_in_category: "valid d \<Longrightarrow> u \<in> categories_of (links d) i \<Longrightarrow> sub None d (in_category u) i"
  using st.sub_live [of d "in_category u" i] by (simp add: in_category_def linked_category)

lemma GetBooksByCategory_spec:
  assumes "inv s" "GetBooksByCategory (book_module r cl) c page lm s = (x, s')"
  shows "inv s' \<and> books (fst s') = books (fst s) \<and> links (fst s') = links (fst s) \<and> (case x of
      Inl e \<Rightarrow> True
    | Inr l \<Rightarrow> \<exists>u bs. uuid_parse (brc_uuid r) c = Some u \<and> lr_items l = map NewBookResponse bs \<and>
        distinct (map base_id bs) \<and> int (length bs) \<le> clamp_limit lm \<and>
        lr_total_items l = int (card {i. books (fst s) i \<noteq> None \<and> sub None (fst s) (in_category u) i}) \<and>
        lr_total_pages l = total_pages (lr_total_items l) (clamp_limit lm) \<and>
        lr_current_page l = clamp_page page \<and> lr_page_size l = clamp_limit lm \<and>
        (\<forall>b \<in> set bs. books (fst s) (base_id b) = Some (cols b) \<and> sub None (fst s) (in_category u) (base_id b)))"
proof (cases "uuid_parse (brc_uuid r) c")
  case None
  with assms show ?thesis by (auto simp: GetBooksByCategory_def)
next
  case (Some u)
  let ?no = "case cl of None \<Rightarrow> False | Some k \<Rightarrow> cc_CategoryExists k c = Inr False"
  show ?thesis
  proof (cases ?no)
    case True
    with assms Some show ?thesis by (auto simp: GetBooksByCategory_def Let_def)
  next
    case False
    let ?q = "q_where ''id IN (?)'' [ASub ''books_categories'' ''book_id'' [Where ''category_id = ?'' [AUuid u]]] q_all"
    have run: "book_page (clamp_page page) (clamp_limit lm) (count_and_find r ?q
        (q_limit (clamp_limit lm) (q_offset (page_offset (clamp_page page) (clamp_limit lm)) ?q)) s) = (x, s')"
      using assms(2) Some False by (simp add: GetBooksByCategory_def bookRepository_GetByCategory_def Let_def)
    have ids: "{i. \<exists>b. books (fst s) i = Some b \<and> sub None (fst s) (in_category u) (base_id b)} =
        {i. books (fst s) i \<noteq> None \<and> sub None (fst s) (in_category u) i}"
      using st.book_row [OF inv_valid [OF assms(1)]] by auto
    have sat: "sat_all (book_sat S) ?q b \<longleftrightarrow> S (in_category u) (base_id b)" for S b
      by (simp add: in_category_def)
    note t = book_page_spec [OF assms(1) run _ _ clamp_limit_pos(1)]
    show ?thesis
    proof (cases x)
      case (Inl e)
      with t show ?thesis by simp
    next
      case (Inr l)
      with t obtain bs where "lr_items l = map NewBookResponse bs \<and>
          distinct (map base_id bs) \<and> int (length bs) \<le> clamp_limit lm \<and>
          lr_total_items l = int (card {i. books (fst s) i \<noteq> None \<and> sub None (fst s) (in_category u) i}) \<and>
          lr_total_pages l = total_pages (lr_total_items l) (clamp_limit lm) \<and>
          lr_current_page l = clamp_page page \<and> lr_page_size l = clamp_limit lm \<and>
          (\<forall>b \<in> set bs. books (fst s) (base_id b) = Some (cols b) \<and> sub None (fst s) (in_category u) (base_id b))"
        by (auto simp: in_category_def ids [unfolded in_category_def])
      with t Inr Some show ?thesis by (auto simp: in_category_def intro!: exI [of _ bs])
    qed
  qed
qed

end

end
