(* ===== verification/BookMem.thy ===== *)
theory BookMem
  imports BookBackend
begin

text \<open>
  A concrete database for the book service: both tables as lists with the soft-deleted links apart,
  and the view of one transaction as a second triple of lists that \<open>Commit\<close> copies back. An error on a link inside the transaction aborts
  it, as PostgreSQL does. The interpretation shows that the laws of \<open>book_backend\<close> hold together.
\<close>

section \<open>Lifting a store to a component of a larger state\<close>

definition lift_api ::
  "('d \<Rightarrow> 'e) \<Rightarrow> ('e \<Rightarrow> 'd \<Rightarrow> 'd) \<Rightarrow> ('d \<Rightarrow> ('e, 'r) gorm_api) \<Rightarrow> ('d, 'r) gorm_api" where
  "lift_api get put api =
     \<lparr>g_create = (\<lambda>r d. case g_create (api d) r (get d) of (x, e) \<Rightarrow> (x, put e d)),
      g_first = (\<lambda>q d. case g_first (api d) q (get d) of (x, e) \<Rightarrow> (x, put e d)),
      g_find = (\<lambda>q d. case g_find (api d) q (get d) of (x, e) \<Rightarrow> (x, put e d)),
      g_count = (\<lambda>q d. case g_count (api d) q (get d) of (x, e) \<Rightarrow> (x, put e d)),
      g_save = (\<lambda>r d. case g_save (api d) r (get d) of (x, e) \<Rightarrow> (x, put e d)),
      g_delete = (\<lambda>q d. case g_delete (api d) q (get d) of (x, e) \<Rightarrow> (x, put e d)),
      g_updates = (\<lambda>q cs d. case g_updates (api d) q cs (get d) of (x, e) \<Rightarrow> (x, put e d))\<rparr>"

lemma lift_store:
  assumes st: "\<And>d. P d \<Longrightarrow> gorm_store (api d) rows valid sat"
    and get_put: "\<And>e d. get (put e d) = e" and frame: "\<And>e d. P (put e d) = P d"
  shows "gorm_store (lift_api get put api) (\<lambda>d. rows (get d)) (\<lambda>d. valid (get d) \<and> P d) sat"
proof (unfold_locales, goal_cases)
  case (1 d i r)
  then show ?case using gorm_store.rows_id [OF st] by blast
next
  case (2 d i r)
  then show ?case using gorm_store.rows_live [OF st] by blast
next
  case (3 d)
  then show ?case using gorm_store.rows_finite [OF st] by blast
next
  case (4 d q x d')
  then show ?case using gorm_store.first_frame [OF st, of d "get d" q]
    by (auto simp: lift_api_def get_put frame split: prod.splits)
next
  case (5 d q r d')
  then show ?case using gorm_store.first_row [OF st, of d "get d" q r]
    by (auto simp: lift_api_def split: prod.splits)
next
  case (6 d q e d' i r)
  then show ?case using gorm_store.first_none [OF st, of d "get d" q e]
    by (auto simp: lift_api_def split: prod.splits)
next
  case (7 d q xs d')
  then show ?case using gorm_store.find_frame [OF st, of d "get d" q]
    by (auto simp: lift_api_def get_put frame split: prod.splits)
next
  case (8 d q rs d' r)
  then show ?case using gorm_store.find_sound [OF st, of d "get d" q rs]
    by (auto simp: lift_api_def split: prod.splits)
next
  case (9 d q rs d' i r)
  then show ?case using gorm_store.find_complete [OF st, of d "get d" q rs]
    by (auto simp: lift_api_def split: prod.splits)
next
  case (10 d q rs d')
  then show ?case using gorm_store.find_distinct [OF st, of d "get d" q rs]
    by (auto simp: lift_api_def split: prod.splits)
next
  case (11 d q rs d' n)
  then show ?case using gorm_store.find_limit [OF st, of d "get d" q rs]
    by (auto simp: lift_api_def split: prod.splits)
next
  case (12 d q c d')
  then show ?case using gorm_store.count_frame [OF st, of d "get d" q]
    by (auto simp: lift_api_def get_put frame split: prod.splits)
next
  case (13 d q n d')
  then show ?case using gorm_store.count_card [OF st, of d "get d" q n]
    by (auto simp: lift_api_def split: prod.splits)
next
  case (14 d r r' d')
  then show ?case using gorm_store.create_ok [OF st, of d "get d" r r']
    by (auto simp: lift_api_def get_put frame split: prod.splits)
next
  case (15 d r e d')
  then show ?case using gorm_store.create_err [OF st, of d "get d" r e]
    by (auto simp: lift_api_def get_put frame split: prod.splits)
next
  case (16 d r r' d')
  then show ?case using gorm_store.save_ok [OF st, of d "get d" r r']
    by (auto simp: lift_api_def get_put frame split: prod.splits)
next
  case (17 d r e d')
  then show ?case using gorm_store.save_err [OF st, of d "get d" r e]
    by (auto simp: lift_api_def get_put frame split: prod.splits)
next
  case (18 d q u d')
  then show ?case using gorm_store.delete_ok [OF st, of d "get d" q u]
    by (auto simp: lift_api_def get_put frame split: prod.splits)
next
  case (19 d q e d')
  then show ?case using gorm_store.delete_err [OF st, of d "get d" q e]
    by (auto simp: lift_api_def get_put frame split: prod.splits)
qed

text \<open>Another \<open>Create\<close> or \<open>Delete\<close> that satisfies the laws may take the place of the store's own.\<close>

lemma store_with_create:
  assumes st: "gorm_store api rows valid sat"
    and ok: "\<And>d r r' d'. valid d \<Longrightarrow> base_id r \<noteq> uuid_Nil \<Longrightarrow> deleted_at r = None \<Longrightarrow> f r d = (Inr r', d') \<Longrightarrow>
      valid d' \<and> same_content r r' \<and> rows d (base_id r) = None \<and> rows d' = (rows d)(base_id r := Some r')"
    and er: "\<And>d r e d'. valid d \<Longrightarrow> f r d = (Inl e, d') \<Longrightarrow> valid d' \<and> rows d' = rows d"
  shows "gorm_store (api\<lparr>g_create := f\<rparr>) rows valid sat"
proof (unfold_locales, goal_cases)
  case (1 d i r)
  then show ?case using gorm_store.rows_id [OF st, of d i r] by simp
next
  case (2 d i r)
  then show ?case using gorm_store.rows_live [OF st, of d i r] by simp
next
  case (3 d)
  then show ?case using gorm_store.rows_finite [OF st, of d] by simp
next
  case (4 d q x d')
  then show ?case using gorm_store.first_frame [OF st, of d q x d'] by simp
next
  case (5 d q r d')
  then show ?case using gorm_store.first_row [OF st, of d q r d'] by simp
next
  case (6 d q e d' i r)
  then show ?case using gorm_store.first_none [OF st, of d q e d' i r] by simp
next
  case (7 d q xs d')
  then show ?case using gorm_store.find_frame [OF st, of d q xs d'] by simp
next
  case (8 d q rs d' r)
  then show ?case using gorm_store.find_sound [OF st, of d q rs d' r] by simp
next
  case (9 d q rs d' i r)
  then show ?case using gorm_store.find_complete [OF st, of d q rs d' i r] by simp
next
  case (10 d q rs d')
  then show ?case using gorm_store.find_distinct [OF st, of d q rs d'] by simp
next
  case (11 d q rs d' n)
  then show ?case using gorm_store.find_limit [OF st, of d q rs d' n] by simp
next
  case (12 d q c d')
  then show ?case using gorm_store.count_frame [OF st, of d q c d'] by simp
next
  case (13 d q n d')
  then show ?case using gorm_store.count_card [OF st, of d q n d'] by simp
next
  case (14 d r r' d')
  then show ?case using ok [of d r r' d'] by simp
next
  case (15 d r e d')
  then show ?case using er [of d r e d'] by simp
next
  case (16 d r r' d')
  then show ?case using gorm_store.save_ok [OF st, of d r r' d'] by simp
next
  case (17 d r e d')
  then show ?case using gorm_store.save_err [OF st, of d r e d'] by simp
next
  case (18 d q u d')
  then show ?case using gorm_store.delete_ok [OF st, of d q u d'] by simp
next
  case (19 d q e d')
  then show ?case using gorm_store.delete_err [OF st, of d q e d'] by simp
qed

lemma store_with_delete:
  assumes st: "gorm_store api rows valid sat"
    and ok: "\<And>d q u d'. valid d \<Longrightarrow> f q d = (Inr u, d') \<Longrightarrow> valid d' \<and> rows d' = (\<lambda>i. case rows d i of
        None \<Rightarrow> None | Some r \<Rightarrow> if sat_all sat q r then None else Some r)"
    and er: "\<And>d q e d'. valid d \<Longrightarrow> f q d = (Inl e, d') \<Longrightarrow> valid d' \<and> rows d' = rows d"
  shows "gorm_store (api\<lparr>g_delete := f\<rparr>) rows valid sat"
proof (unfold_locales, goal_cases)
  case (1 d i r)
  then show ?case using gorm_store.rows_id [OF st, of d i r] by simp
next
  case (2 d i r)
  then show ?case using gorm_store.rows_live [OF st, of d i r] by simp
next
  case (3 d)
  then show ?case using gorm_store.rows_finite [OF st, of d] by simp
next
  case (4 d q x d')
  then show ?case using gorm_store.first_frame [OF st, of d q x d'] by simp
next
  case (5 d q r d')
  then show ?case using gorm_store.first_row [OF st, of d q r d'] by simp
next
  case (6 d q e d' i r)
  then show ?case using gorm_store.first_none [OF st, of d q e d' i r] by simp
next
  case (7 d q xs d')
  then show ?case using gorm_store.find_frame [OF st, of d q xs d'] by simp
next
  case (8 d q rs d' r)
  then show ?case using gorm_store.find_sound [OF st, of d q rs d' r] by simp
next
  case (9 d q rs d' i r)
  then show ?case using gorm_store.find_complete [OF st, of d q rs d' i r] by simp
next
  case (10 d q rs d')
  then show ?case using gorm_store.find_distinct [OF st, of d q rs d'] by simp
next
  case (11 d q rs d' n)
  then show ?case using gorm_store.find_limit [OF st, of d q rs d' n] by simp
next
  case (12 d q c d')
  then show ?case using gorm_store.count_frame [OF st, of d q c d'] by simp
next
  case (13 d q n d')
  then show ?case using gorm_store.count_card [OF st, of d q n d'] by simp
next
  case (14 d r r' d')
  then show ?case using gorm_store.create_ok [OF st, of d r r' d'] by simp
next
  case (15 d r e d')
  then show ?case using gorm_store.create_err [OF st, of d r e d'] by simp
next
  case (16 d r r' d')
  then show ?case using gorm_store.save_ok [OF st, of d r r' d'] by simp
next
  case (17 d r e d')
  then show ?case using gorm_store.save_err [OF st, of d r e d'] by simp
next
  case (18 d q u d')
  then show ?case using ok [of d q u d'] by simp
next
  case (19 d q e d')
  then show ?case using er [of d q e d'] by simp
qed

section \<open>The database\<close>

record mem_books =
  mb_books :: "book_cols list"
  mb_links :: "book_category list"
  mb_gone :: "book_category list"
  tb_books :: "book_cols list"
  tb_links :: "book_category list"
  tb_gone :: "book_category list"
  tb_ok :: bool

definition err_aborted :: go_error where
  "err_aborted = GoError ''current transaction is aborted'' []"

definition mem_link_conflict :: "book_category \<Rightarrow> book_category \<Rightarrow> bool" where
  "mem_link_conflict a b \<longleftrightarrow> bc_book a = bc_book b \<and> bc_category a = bc_category b"

definition mem_linked :: "(string \<Rightarrow> uuid option) \<Rightarrow> book_category list \<Rightarrow> where_clause list \<Rightarrow> uuid \<Rightarrow> bool" where
  "mem_linked pg ls cs i \<longleftrightarrow> (\<exists>l \<in> set ls. bc_book l = i \<and> (\<forall>c \<in> set cs. link_sat pg c l))"

abbreviation books_api :: "(string \<Rightarrow> uuid option) \<Rightarrow> book_category list \<Rightarrow> (book_cols list, book_cols) gorm_api" where
  "books_api pg ls \<equiv> mem_api (\<lambda>a b. bk_isbn a = bk_isbn b) (book_sat (mem_linked pg ls)) (\<lambda>_ b. b)"

abbreviation links_api :: "(string \<Rightarrow> uuid option) \<Rightarrow> (book_category list, book_category) gorm_api" where
  "links_api pg \<equiv> mem_api mem_link_conflict (link_sat pg) (\<lambda>_ l. l)"

definition pool_remove :: "(string \<Rightarrow> uuid option) \<Rightarrow> stmt \<Rightarrow> mem_books \<Rightarrow> unit result \<times> mem_books" where
  "pool_remove pg q d =
     (let gone = filter (\<lambda>l. sat_all (link_sat pg) q l) (mb_links d) @ mb_gone d
      in (Inr (), d\<lparr>mb_links := filter (\<lambda>l. \<not> sat_all (link_sat pg) q l) (mb_links d), mb_gone := gone,
                    tb_links := filter (\<lambda>l. \<not> sat_all (link_sat pg) q l) (tb_links d), tb_gone := gone\<rparr>))"

text \<open>The unique key on book and category covers the soft-deleted links.\<close>

definition tx_insert :: "book_category \<Rightarrow> mem_books \<Rightarrow> book_category result \<times> mem_books" where
  "tx_insert l d =
     (if \<not> tb_ok d then (Inl err_aborted, d)
      else if \<exists>k \<in> set (tb_gone d). mem_link_conflict k l then (Inl err_duplicate, d\<lparr>tb_ok := False\<rparr>)
      else case mem_create mem_link_conflict l (tb_links d) of
        (Inl e, _) \<Rightarrow> (Inl e, d\<lparr>tb_ok := False\<rparr>)
      | (Inr l', ls) \<Rightarrow> (Inr l', d\<lparr>tb_links := ls\<rparr>))"

text \<open>What a sub-query sees, in the pool and in the transaction.\<close>

definition mem_sub ::
  "(string \<Rightarrow> uuid option) \<Rightarrow> unit option \<Rightarrow> mem_books \<Rightarrow> where_clause list \<Rightarrow> uuid \<Rightarrow> bool" where
  "mem_sub pg tx d =
     (case tx of None \<Rightarrow> mem_linked pg (mb_links d @ mb_gone d) | Some _ \<Rightarrow> mem_linked pg (tb_links d @ tb_gone d))"

lemma mem_sub_simps [simp]:
  "mem_sub pg None d = mem_linked pg (mb_links d @ mb_gone d)"
  "mem_sub pg (Some tx) d = mem_linked pg (tb_links d @ tb_gone d)"
  by (simp_all add: mem_sub_def)

definition mem_book_db :: "(string \<Rightarrow> uuid option) \<Rightarrow> (mem_books, unit) book_db" where
  "mem_book_db pg =
     \<lparr>bdb_books = lift_api mb_books (\<lambda>e d. d\<lparr>mb_books := e\<rparr>) (\<lambda>d. books_api pg (mb_links d @ mb_gone d)),
      bdb_links = (lift_api mb_links (\<lambda>e d. d\<lparr>mb_links := e\<rparr>) (\<lambda>d. links_api pg))\<lparr>g_delete := pool_remove pg\<rparr>,
      bdb_begin = (\<lambda>d. ((), d\<lparr>tb_books := mb_books d, tb_links := mb_links d, tb_gone := mb_gone d, tb_ok := True\<rparr>)),
      bdb_tx_books = (\<lambda>_. lift_api tb_books (\<lambda>e d. d\<lparr>tb_books := e\<rparr>) (\<lambda>d. books_api pg (tb_links d @ tb_gone d))),
      bdb_tx_links = (\<lambda>_. (lift_api tb_links (\<lambda>e d. d\<lparr>tb_links := e\<rparr>) (\<lambda>d. links_api pg))\<lparr>g_create := tx_insert\<rparr>),
      bdb_commit = (\<lambda>_ d. if tb_ok d then (Inr (), d\<lparr>mb_books := tb_books d, mb_links := tb_links d, mb_gone := tb_gone d\<rparr>)
                          else (Inl err_aborted, d)),
      bdb_rollback = (\<lambda>_ d. d)\<rparr>"

definition mem_books_valid :: "mem_books \<Rightarrow> bool" where
  "mem_books_valid d \<longleftrightarrow> mem_valid (mb_books d) \<and> mem_valid (mb_links d) \<and> mem_valid (tb_books d) \<and> mem_valid (tb_links d)"

lemma mem_linked_live: "mem_valid ls \<Longrightarrow> linked pg (mem_rows ls) cs i \<Longrightarrow> mem_linked pg (ls @ gone) cs i"
  by (auto simp: mem_linked_def linked_def mem_rows_iff)

lemma books_api_store: "gorm_store (books_api pg ls) mem_rows mem_valid (book_sat (mem_linked pg ls))"
  by (rule mem_gorm_store)

lemma links_api_store: "gorm_store (links_api pg) mem_rows mem_valid (link_sat pg)"
  by (rule mem_gorm_store)

lemma mem_filter_rows:
  "mem_valid ls \<Longrightarrow> mem_rows (filter (\<lambda>l. \<not> P l) ls) =
     (\<lambda>i. case mem_rows ls i of None \<Rightarrow> None | Some r \<Rightarrow> if P r then None else Some r)"
  by (rule ext) (simp add: mem_rows_filter split: option.split)

lemma mem_tx_insert:
  assumes "mem_valid (tb_links d)" "deleted_at l = None" "tx_insert l d = (Inr l', d')"
  shows "l' = l \<and> tb_ok d \<and> mem_valid (tb_links d') \<and> mem_rows (tb_links d) (base_id l) = None \<and>
    mem_rows (tb_links d') = (mem_rows (tb_links d))(base_id l := Some l) \<and> d' = d\<lparr>tb_links := tb_links d'\<rparr>"
  using assms
  by (auto simp: tx_insert_def mem_create_def mem_valid_def mem_rows_None mem_rows_snoc split: if_splits)

lemma mem_tx_insert_err:
  "tx_insert l d = (Inl e, d') \<Longrightarrow> d' = d\<lparr>tb_ok := False\<rparr> \<or> d' = d \<and> \<not> tb_ok d"
  by (auto simp: tx_insert_def mem_create_def split: if_splits)

lemma store_valid_cong:
  assumes "gorm_store api rows v sat" "\<And>d. v d \<longleftrightarrow> v' d"
  shows "gorm_store api rows v' sat"
proof -
  have "v = v'" using assms(2) by (intro ext) simp
  with assms(1) show ?thesis by simp
qed

lemma mem_book_store:
  "book_store (mem_book_db pg) (\<lambda>d. mem_rows (mb_books d)) (\<lambda>d. mem_rows (mb_links d)) mem_books_valid
     (\<lambda>_ _. True) (\<lambda>_. tb_ok) (\<lambda>_ d. mem_rows (tb_books d)) (\<lambda>_ d. mem_rows (tb_links d)) pg (mem_sub pg)"
proof (rule book_store.intro, goal_cases)
  case (1 L S)
  let ?P = "\<lambda>d. mem_valid (mb_links d) \<and> mem_valid (tb_books d) \<and> mem_valid (tb_links d) \<and> mem_rows (mb_links d) = L \<and>
    mem_linked pg (mb_links d @ mb_gone d) = S"
  have "gorm_store (lift_api mb_books (\<lambda>e d. d\<lparr>mb_books := e\<rparr>) (\<lambda>d. books_api pg (mb_links d @ mb_gone d)))
      (\<lambda>d. mem_rows (mb_books d)) (\<lambda>d. mem_valid (mb_books d) \<and> ?P d) (book_sat S)"
    by (rule lift_store) (use books_api_store in auto)
  then show ?case by (simp add: mem_book_db_def) (erule store_valid_cong, auto simp: mem_books_valid_def)
next
  case (2 B)
  let ?P = "\<lambda>d. mem_valid (mb_books d) \<and> mem_valid (tb_books d) \<and> mem_valid (tb_links d) \<and> mem_rows (mb_books d) = B"
  have l: "gorm_store (lift_api mb_links (\<lambda>e d. d\<lparr>mb_links := e\<rparr>) (\<lambda>d. links_api pg))
      (\<lambda>d. mem_rows (mb_links d)) (\<lambda>d. mem_valid (mb_links d) \<and> ?P d) (link_sat pg)"
    by (rule lift_store [OF links_api_store]) auto
  have "gorm_store ((lift_api mb_links (\<lambda>e d. d\<lparr>mb_links := e\<rparr>) (\<lambda>d. links_api pg))\<lparr>g_delete := pool_remove pg\<rparr>)
      (\<lambda>d. mem_rows (mb_links d)) (\<lambda>d. mem_valid (mb_links d) \<and> ?P d) (link_sat pg)"
    by (rule store_with_delete [OF l]) (auto simp: pool_remove_def Let_def mem_valid_filter mem_filter_rows)
  then show ?case by (simp add: mem_book_db_def) (erule store_valid_cong, auto simp: mem_books_valid_def)
next
  case (3 tx B L T S)
  let ?P = "\<lambda>d. mem_valid (tb_links d) \<and> mem_valid (mb_books d) \<and> mem_valid (mb_links d) \<and>
    mem_rows (mb_books d) = B \<and> mem_rows (mb_links d) = L \<and> mem_rows (tb_links d) = T \<and>
    mem_linked pg (tb_links d @ tb_gone d) = S"
  have "gorm_store (lift_api tb_books (\<lambda>e d. d\<lparr>tb_books := e\<rparr>) (\<lambda>d. books_api pg (tb_links d @ tb_gone d)))
      (\<lambda>d. mem_rows (tb_books d)) (\<lambda>d. mem_valid (tb_books d) \<and> ?P d) (book_sat S)"
    by (rule lift_store) (use books_api_store in auto)
  then show ?case by (simp add: mem_book_db_def) (erule store_valid_cong, auto simp: mem_books_valid_def)
next
  case (4 tx B L U)
  let ?P = "\<lambda>d. mem_valid (tb_books d) \<and> mem_valid (mb_books d) \<and> mem_valid (mb_links d) \<and>
    mem_rows (mb_books d) = B \<and> mem_rows (mb_links d) = L \<and> mem_rows (tb_books d) = U"
  have l: "gorm_store (lift_api tb_links (\<lambda>e d. d\<lparr>tb_links := e\<rparr>) (\<lambda>d. links_api pg))
      (\<lambda>d. mem_rows (tb_links d)) (\<lambda>d. mem_valid (tb_links d) \<and> ?P d) (link_sat pg)"
    by (rule lift_store [OF links_api_store]) auto
  have "gorm_store ((lift_api tb_links (\<lambda>e d. d\<lparr>tb_links := e\<rparr>) (\<lambda>d. links_api pg))\<lparr>g_create := tx_insert\<rparr>)
      (\<lambda>d. mem_rows (tb_links d)) (\<lambda>d. mem_valid (tb_links d) \<and> ?P d) (link_sat pg)"
  proof (rule store_with_create [OF l], goal_cases)
    case (1 d l l' d')
    then obtain ls where d': "d' = d\<lparr>tb_links := ls\<rparr>" using mem_tx_insert by blast
    with 1 mem_tx_insert [of d l l' d'] show ?case by simp
  next
    case (2 d l e d')
    then show ?case using mem_tx_insert_err by fastforce
  qed
  then show ?case by (simp add: mem_book_db_def) (erule store_valid_cong, auto simp: mem_books_valid_def)
next
  case (5 d cs i)
  then show ?case using mem_linked_live [of "mb_links d"] by (simp add: mem_books_valid_def)
next
  case (10 d tx l e d')
  then show ?case using mem_tx_insert_err [of l d e d'] by (auto simp: mem_book_db_def)
next
  case (11 d tx l x d')
  then show ?case by (auto simp: mem_book_db_def tx_insert_def split: if_splits)
next
  case (12 d tx q z d')
  then show ?case
    by (auto simp: mem_book_db_def pool_remove_def Let_def mem_books_valid_def mem_filter_rows)
qed (auto simp: mem_book_db_def mem_books_valid_def split: if_splits)

section \<open>The backend\<close>

text \<open>UUIDs printed in unary, one character more than their value; the database reads them the same way.\<close>

definition unary1_uuid :: uuid_lib where
  "unary1_uuid = \<lparr>uuid_parse = (\<lambda>s. if s \<noteq> [] \<and> set s \<subseteq> {CHR ''a''} then Some (of_nat (length s - 1)) else None),
                  uuid_err = (\<lambda>s. errors_New ''invalid UUID''),
                  uuid_string = (\<lambda>u. replicate (Suc (unat u)) (CHR ''a''))\<rparr>"

lemma unary1_uuid_ok: "uuid_laws unary1_uuid" "uuid_prints_ok unary1_uuid"
  by (auto simp: uuid_laws_def uuid_prints_ok_def unary1_uuid_def is_space_def)

definition mem_book_conf :: "(mem_books, unit, string \<rightharpoonup> json) book_repo_conf" where
  "mem_book_conf = \<lparr>brc_uuid = unary1_uuid, brc_db = mem_book_db (uuid_parse unary1_uuid), brc_cache = Some mem_redis\<rparr>"

lemma mem_book_conf_simps [simp]:
  "brc_uuid mem_book_conf = unary1_uuid" "brc_db mem_book_conf = mem_book_db (uuid_parse unary1_uuid)"
  "brc_cache mem_book_conf = Some mem_redis"
  by (simp_all add: mem_book_conf_def)

lemma mem_book_backend:
  "book_backend mem_book_conf (\<lambda>d. mem_rows (mb_books d)) (\<lambda>d. mem_rows (mb_links d)) mem_books_valid
     (\<lambda>_ _. True) (\<lambda>_. tb_ok) (\<lambda>_ d. mem_rows (tb_books d)) (\<lambda>_ d. mem_rows (tb_links d))
     (uuid_parse unary1_uuid) (mem_sub (uuid_parse unary1_uuid)) (\<lambda>c. c)"
proof (intro book_backend.intro)
  show "book_backend_axioms mem_book_conf"
    by unfold_locales (simp_all add: unary1_uuid_ok)
qed (use mem_book_store mem_redis_reliable in simp_all)

interpretation membook: book_backend mem_book_conf "\<lambda>d. mem_rows (mb_books d)" "\<lambda>d. mem_rows (mb_links d)"
  mem_books_valid "\<lambda>_ _. True" "\<lambda>_. tb_ok" "\<lambda>_ d. mem_rows (tb_books d)" "\<lambda>_ d. mem_rows (tb_links d)"
  "uuid_parse unary1_uuid" "mem_sub (uuid_parse unary1_uuid)" "\<lambda>c. c"
  by (rule mem_book_backend)

end
