(* ===== verification/BookSystem.thy ===== *)
theory BookSystem
  imports BookSpec BookMem
begin

text \<open>
  The book service as a running system: a step serves one request to its end or lets the cache lose
  entries. Every reachable state keeps the invariant of the database and the cache.
\<close>

datatype book_call =
    BookCreate book_env book_create
  | BookUpdate book_env uuid book_update
  | BookDelete uuid
  | BookGet uuid
  | BookGetByISBN string
  | BookList book_filter
  | BookSearch book_search
  | BookByCategory string int int

definition book_serve :: "'s book_service_conf \<Rightarrow> book_call \<Rightarrow> 's \<Rightarrow> 's" where
  "book_serve sv call s =
     (case call of
        BookCreate env req \<Rightarrow> snd (CreateBook sv env req s)
      | BookUpdate env i req \<Rightarrow> snd (UpdateBook sv env i req s)
      | BookDelete i \<Rightarrow> snd (DeleteBook sv i s)
      | BookGet i \<Rightarrow> snd (GetBookByID sv i s)
      | BookGetByISBN n \<Rightarrow> snd (GetBookByISBN sv n s)
      | BookList f \<Rightarrow> snd (ListBooks sv f s)
      | BookSearch f \<Rightarrow> snd (SearchBooks sv f s)
      | BookByCategory c page lm \<Rightarrow> snd (GetBooksByCategory sv c page lm s))"

text \<open>\<open>uuid.New()\<close> never returns the nil UUID.\<close>

definition book_env_ok :: "book_call \<Rightarrow> bool" where
  "book_env_ok call =
     (case call of
        BookCreate env req \<Rightarrow> new_uuid env \<noteq> uuid_Nil \<and> (\<forall>k. link_uuids env k \<noteq> uuid_Nil)
      | BookUpdate env i req \<Rightarrow> (\<forall>k. link_uuids env k \<noteq> uuid_Nil)
      | _ \<Rightarrow> True)"

inductive book_reach ::
  "('d, 't, 'c) book_repo_conf \<Rightarrow> category_client option \<Rightarrow> ('c \<Rightarrow> string \<Rightarrow> json option) \<Rightarrow>
   'd \<times> 'c \<Rightarrow> 'd \<times> 'c \<Rightarrow> bool"
  for r cl view s where
  book_start: "book_reach r cl view s s"
| book_request: "book_reach r cl view s t \<Longrightarrow> book_env_ok call \<Longrightarrow>
    book_reach r cl view s (book_serve (book_module r cl) call t)"
| book_expire: "book_reach r cl view s (d, c) \<Longrightarrow> view c' \<subseteq>\<^sub>m view c \<Longrightarrow> book_reach r cl view s (d, c')"

inductive_cases book_reach_cases: "book_reach r cl view s t"

context book_backend
begin

text \<open>The read operations change neither table.\<close>

lemma GetBookByISBN_frame:
  assumes "inv s" "GetBookByISBN (book_module r cl) n s = (x, s')"
  shows "inv s' \<and> books (fst s') = books (fst s) \<and> links (fst s') = links (fst s)"
proof -
  obtain y s1 where g: "bookRepository_GetByISBN r n s = (y, s1)" by (cases "bookRepository_GetByISBN r n s")
  with GetByISBN_frame [OF assms(1) g] assms(2) show ?thesis by (cases y) (auto simp: GetBookByISBN_def)
qed

lemma list_where_same [simp]:
  "sat_all (book_sat S) (book_list_query f) b = sat_all (book_sat S) (book_list_where f) b"
  "limit (book_list_query f) = Some (bf_limit f)"
  by (simp_all add: book_list_query_def)

lemma ListBooks_frame:
  assumes "inv s" "ListBooks (book_module r cl) f s = (x, s')"
  shows "inv s' \<and> books (fst s') = books (fst s) \<and> links (fst s') = links (fst s)"
proof -
  let ?f = "BookFilter_Validate f"
  have "book_page (bf_page ?f) (bf_limit ?f) (count_and_find r (book_list_where ?f) (book_list_query ?f) s) = (x, s')"
    using assms(2) by (simp add: ListBooks_def bookRepository_List_def Let_def)
  moreover have "0 < bf_limit ?f" by (simp add: BookFilter_Validate_def)
  ultimately show ?thesis using book_page_spec [OF assms(1)] by simp
qed

lemma SearchBooks_frame:
  assumes "inv s" "SearchBooks (book_module r cl) f s = (x, s')"
  shows "inv s' \<and> books (fst s') = books (fst s) \<and> links (fst s') = links (fst s)"
proof -
  let ?f = "f\<lparr>bs_page := clamp_page (bs_page f), bs_limit := clamp_limit (bs_limit f)\<rparr>"
  have "book_page (bs_page ?f) (bs_limit ?f) (count_and_find r (book_search_where ?f)
      (q_limit (bs_limit ?f) (q_offset (page_offset (bs_page ?f) (bs_limit ?f)) (book_search_where ?f))) s) = (x, s')"
    using assms(2) by (simp add: SearchBooks_def bookRepository_Search_def Let_def)
  from book_page_spec [OF assms(1) this] show ?thesis by simp
qed

lemma book_serve_inv:
  assumes "inv s" "book_env_ok call"
  shows "inv (book_serve (book_module r cl) call s)"
proof (cases call)
  case (BookCreate env req)
  with assms CreateBook_spec [OF assms(1), of env cl req] show ?thesis
    by (cases "CreateBook (book_module r cl) env req s") (simp add: book_serve_def book_env_ok_def)
next
  case (BookUpdate env i req)
  with assms UpdateBook_spec [OF assms(1), of env cl i req] show ?thesis
    by (cases "UpdateBook (book_module r cl) env i req s") (simp add: book_serve_def book_env_ok_def)
next
  case (BookDelete i)
  with DeleteBook_spec [OF assms(1), of cl i] show ?thesis
    by (cases "DeleteBook (book_module r cl) i s") (simp add: book_serve_def)
next
  case (BookGet i)
  with GetBookByID_spec [OF assms(1), of cl i] show ?thesis
    by (cases "GetBookByID (book_module r cl) i s") (simp add: book_serve_def)
next
  case (BookGetByISBN n)
  with GetBookByISBN_frame [OF assms(1), of cl n] show ?thesis
    by (cases "GetBookByISBN (book_module r cl) n s") (simp add: book_serve_def)
next
  case (BookList f)
  with ListBooks_frame [OF assms(1), of cl f] show ?thesis
    by (cases "ListBooks (book_module r cl) f s") (simp add: book_serve_def)
next
  case (BookSearch f)
  with SearchBooks_frame [OF assms(1), of cl f] show ?thesis
    by (cases "SearchBooks (book_module r cl) f s") (simp add: book_serve_def)
next
  case (BookByCategory c page lm)
  with GetBooksByCategory_spec [OF assms(1), of cl c page lm] show ?thesis
    by (cases "GetBooksByCategory (book_module r cl) c page lm s") (simp add: book_serve_def)
qed

lemma book_reach_inv:
  assumes "book_reach r cl view s t" "inv s"
  shows "inv t"
  using assms
proof (induction rule: book_reach.induct)
  case (book_request t call)
  then show ?case by (intro book_serve_inv) auto
next
  case (book_expire d c c')
  then show ?case using inv_shrink [of "(d, c)" "(d, c')"] inv_valid [of "(d, c)"] by simp
qed

end

end
