(* ===== verification/BookProps.thy ===== *)
theory BookProps
  imports BookSystem BookHandlers JwtAuth
begin

text \<open>
  The properties of the book service over its own repository: \<open>book_backend\<close> holds the documented
  laws of the ORM, its transactions, the cache client and the UUID library, \<open>book_inv\<close> is the
  invariant of the database and the cache. The witnesses and the closed statements run the code on
  the list store with two books.
\<close>

section \<open>Example data\<close>

definition demo_book :: "uuid \<Rightarrow> string \<Rightarrow> string \<Rightarrow> book_cols" where
  "demo_book i title isbn =
     (cols (NewBook i 10 11 title ''Herbert'' isbn 1965 ''Chilton'' [] ''English'' 412 []))
       \<lparr>bk_quantity := 5, bk_available := 5\<rparr>"

definition demo_link :: "uuid \<Rightarrow> uuid \<Rightarrow> uuid \<Rightarrow> book_category" where
  "demo_link k i c =
     \<lparr>base_id = k, created_at = 12, updated_at = 12, deleted_at = None, bc_book = i, bc_category = c\<rparr>"

definition demo_shelf :: "mem_books \<times> (string \<rightharpoonup> json)" where
  "demo_shelf =
     (\<lparr>mb_books = [demo_book 1 ''Dune'' ''X'', demo_book 2 ''Dune Messiah'' ''Y''],
       mb_links = [demo_link 11 2 3, demo_link 12 2 4], mb_gone = [],
       tb_books = [], tb_links = [], tb_gone = [], tb_ok = False\<rparr>, Map.empty)"

abbreviation demo_books :: "(mem_books \<times> (string \<rightharpoonup> json)) book_service_conf" where
  "demo_books \<equiv> book_module mem_book_conf (Some mockCategoryClient)"

definition book_demo_env :: book_env where
  "book_demo_env = \<lparr>new_uuid = 5, now_created = 20, now_updated = 21, 
     link_uuids = (\<lambda>k. if k = 0 then 20 else if k = 1 then 21 else 22)\<rparr>"

definition no_update :: book_update where
  "no_update = \<lparr>bu_title = None, bu_author = None, bu_isbn = None, bu_year = None, bu_publisher = None,
     bu_description = None, bu_categories = [], bu_language = None, bu_pages = None, bu_status = None,
     bu_cover = None, bu_quantity = None, bu_available = None\<rparr>"

definition demo_create :: book_create where
  "demo_create = \<lparr>bq_title = ''Emma'', bq_author = ''Austen'', bq_isbn = ''Z'', bq_year = 1815,
     bq_publisher = ''Murray'', bq_description = [], bq_categories = [''aaa''], bq_language = ''English'',
     bq_pages = 474, bq_cover = [], bq_quantity = 0\<rparr>"

abbreviation mem_book_inv :: "mem_books \<times> (string \<rightharpoonup> json) \<Rightarrow> bool" where
  "mem_book_inv \<equiv> book_inv mem_book_conf (\<lambda>d. mem_rows (mb_books d)) mem_books_valid (\<lambda>c. c)"

lemma demo_shelf_inv: "mem_book_inv demo_shelf"
  by (simp add: book_inv_def book_coherent_def mem_books_valid_def mem_valid_def demo_shelf_def
    demo_book_def demo_link_def NewBook_def book_cols.defs)

lemma book_demo_env_ok:
  "new_uuid book_demo_env \<noteq> uuid_Nil" "\<forall>k. link_uuids book_demo_env k \<noteq> uuid_Nil"
  by (simp_all add: book_demo_env_def uuid_Nil_def)

section \<open>Updates\<close>



text \<open>
  C10. \<open>CreateBook\<close> either fails and changes neither table, or adds exactly one book under the new UUID: the
  fields of the request, status available, a quantity of at least one with every copy available, and
  a link to each well-formed category ID the request lists; nothing else changes.
\<close>

theorem CreateBook_effect:
  assumes "book_backend r books links valid opened usable tbooks tlinks pg sub view"
    and "book_inv r books valid view s" and "new_uuid env \<noteq> uuid_Nil" and "\<forall>k. link_uuids env k \<noteq> uuid_Nil"
    and "CreateBook (book_module r cl) env req s = (x, s')"
  shows "book_inv r books valid view s' \<and> (case x of
      Inl e \<Rightarrow> books (fst s') = books (fst s) \<and> links (fst s') = links (fst s)
    | Inr rsp \<Rightarrow> \<exists>b. created_row env req b \<and> rsp = NewBookResponse (with_categories b (bq_categories req)) \<and>
        books (fst s) (new_uuid env) = None \<and> books (fst s') = (books (fst s))(new_uuid env := Some b) \<and>
        (\<forall>j. categories_of (links (fst s')) j =
          (if j = new_uuid env then categories_of (links (fst s)) j \<union> requested (brc_uuid r) (bq_categories req)
           else categories_of (links (fst s)) j)))"
  using book_backend.CreateBook_spec [OF assms] by simp

lemma CreateBook_effect_witness:
  "\<exists>b. mem_rows (mb_books (fst (snd (CreateBook demo_books book_demo_env demo_create demo_shelf)))) 5 = Some b \<and>
     bk_title b = ''Emma'' \<and> bk_quantity b = 1 \<and> bk_available b = 1"
proof -
  let ?run = "CreateBook demo_books book_demo_env demo_create demo_shelf"
  have "\<not> isl (fst ?run)" by code_simp
  from run_answered [OF this] obtain rsp where run: "?run = (Inr rsp, snd ?run)" by blast
  have env: "new_uuid book_demo_env = 5" by (simp add: book_demo_env_def)
  from CreateBook_effect [OF mem_book_backend demo_shelf_inv book_demo_env_ok run] env show ?thesis
    by (auto simp: created_row_def demo_create_def)
qed

text \<open>
  C25. A successful \<open>DeleteBook\<close> removes exactly the book it names, which existed, and its links; a failed one
  changes no book and no link of another book.
\<close>

theorem DeleteBook_effect:
  assumes "book_backend r books links valid opened usable tbooks tlinks pg sub view"
    and "book_inv r books valid view s" and "DeleteBook (book_module r cl) i s = (x, s')"
  shows "book_inv r books valid view s' \<and>
    (\<forall>j. j \<noteq> i \<longrightarrow> categories_of (links (fst s')) j = categories_of (links (fst s)) j) \<and> (case x of
      Inl e \<Rightarrow> books (fst s') = books (fst s)
    | Inr _ \<Rightarrow> books (fst s) i \<noteq> None \<and> books (fst s') = (books (fst s))(i := None) \<and>
        categories_of (links (fst s')) i = {})"
proof (cases x)
  case (Inl e)
  with book_backend.DeleteBook_spec [OF assms] show ?thesis by auto
next
  case (Inr u)
  with book_backend.DeleteBook_spec [OF assms] show ?thesis by simp
qed

lemma DeleteBook_effect_witness:
  "mem_rows (mb_books (fst (snd (DeleteBook demo_books 2 demo_shelf)))) 2 = None \<and>
   mem_rows (mb_books (fst (snd (DeleteBook demo_books 2 demo_shelf)))) 1 = Some (demo_book 1 ''Dune'' ''X'')"
proof -
  let ?run = "DeleteBook demo_books 2 demo_shelf"
  have "\<not> isl (fst ?run)" by code_simp
  from run_answered [OF this] obtain u where run: "?run = (Inr u, snd ?run)" by blast
  have row: "mem_rows (mb_books (fst demo_shelf)) 1 = Some (demo_book 1 ''Dune'' ''X'')" by code_simp
  from DeleteBook_effect [OF mem_book_backend demo_shelf_inv run] row show ?thesis by auto
qed

section \<open>Reads\<close>



section \<open>Pages\<close>

text \<open>
  A page of \<open>SearchBooks\<close> for a query without the wildcards of LIKE holds only live books whose searched
  columns contain the query, no book twice and at most the page size; its total is the number of such
  books, its page count the total over the size rounded up, and the search changes nothing.
\<close>

theorem SearchBooks_page:
  assumes "book_backend r books links valid opened usable tbooks tlinks pg sub view"
    and "book_inv r books valid view s" and "plain_pattern (bs_query f)"
    and "SearchBooks (book_module r cl) f s = (Inr l, s')"
  shows "\<exists>bs. lr_items l = map NewBookResponse bs \<and> distinct (map base_id bs) \<and>
    int (length bs) \<le> clamp_limit (bs_limit f) \<and> books (fst s') = books (fst s) \<and> links (fst s') = links (fst s) \<and>
    lr_total_items l = int (card {i. \<exists>b. books (fst s) i = Some b \<and> book_contains (bs_field f) (bs_query f) b}) \<and>
    lr_total_pages l = total_pages (lr_total_items l) (clamp_limit (bs_limit f)) \<and>
    (\<forall>b \<in> set bs. books (fst s) (base_id b) = Some (cols b) \<and> book_contains (bs_field f) (bs_query f) (cols b))"
  using book_backend.SearchBooks_spec [OF assms] by auto

lemma SearchBooks_page_witness:
  "\<exists>l. fst (SearchBooks demo_books \<lparr>bs_query = ''dune'', bs_field = [], bs_page = 0, bs_limit = 0\<rparr> demo_shelf) = Inr l \<and>
     lr_total_pages l = total_pages (lr_total_items l) DefaultPageSize"
proof -
  let ?f = "\<lparr>bs_query = ''dune'', bs_field = [], bs_page = 0, bs_limit = 0\<rparr>"
  let ?run = "SearchBooks demo_books ?f demo_shelf"
  have "\<not> isl (fst ?run)" by code_simp
  from run_answered [OF this] obtain l where run: "?run = (Inr l, snd ?run)" by blast
  have plain: "plain_pattern (bs_query ?f)" by (simp add: plain_pattern_def)
  have "fst ?run = Inr l" using run by (metis fst_conv)
  with SearchBooks_page [OF mem_book_backend demo_shelf_inv plain run] show ?thesis
    by (auto simp: clamp_limit_def)
qed

text \<open>
  A page of \<open>GetBooksByCategory\<close> holds only live books that the sub-query finds linked to the category,
  no book twice and at most the page size; its total is the number of these books, and every live
  book with a live link to the category is among them.
\<close>

theorem GetBooksByCategory_page:
  assumes "book_backend r books links valid opened usable tbooks tlinks pg sub view"
    and "book_inv r books valid view s" and "GetBooksByCategory (book_module r cl) c page lm s = (Inr l, s')"
  shows "\<exists>u bs. uuid_parse (brc_uuid r) c = Some u \<and> lr_items l = map NewBookResponse bs \<and>
    distinct (map base_id bs) \<and> int (length bs) \<le> clamp_limit lm \<and>
    lr_total_items l = int (card {i. books (fst s) i \<noteq> None \<and> sub None (fst s) (in_category u) i}) \<and>
    lr_total_pages l = total_pages (lr_total_items l) (clamp_limit lm) \<and>
    (\<forall>b \<in> set bs. books (fst s) (base_id b) = Some (cols b) \<and> sub None (fst s) (in_category u) (base_id b)) \<and>
    (\<forall>i. u \<in> categories_of (links (fst s)) i \<longrightarrow> sub None (fst s) (in_category u) i)"
proof -
  have v: "valid (fst s)" by (rule book_backend.inv_valid [OF assms(1,2)])
  from book_backend.GetBooksByCategory_spec [OF assms] book_backend.linked_in_category [OF assms(1) v]
  show ?thesis by (simp only: sum.case) blast
qed

lemma GetBooksByCategory_page_witness:
  "\<exists>l. fst (GetBooksByCategory demo_books ''aaaaa'' 0 0 demo_shelf) = Inr l \<and>
     lr_total_pages l = total_pages (lr_total_items l) DefaultPageSize"
proof -
  let ?run = "GetBooksByCategory demo_books ''aaaaa'' 0 0 demo_shelf"
  have "\<not> isl (fst ?run)" by code_simp
  from run_answered [OF this] obtain l where run: "?run = (Inr l, snd ?run)" by blast
  have "fst ?run = Inr l" using run by (metis fst_conv)
  with GetBooksByCategory_page [OF mem_book_backend demo_shelf_inv run] show ?thesis
    by (auto simp: clamp_limit_def)
qed

text \<open>
  A book stays in the listing of a category that an update has taken away: links are deleted by setting
  \<open>deleted_at\<close>, and the sub-query of the listing does not look at it.
\<close>

theorem removed_category_still_lists:
  "\<exists>s'. snd (UpdateBook demo_books book_demo_env 2 (no_update\<lparr>bu_categories := [''aaa'']\<rparr>) demo_shelf) = s' \<and>
     map_sum id br_categories (fst (GetBookByID demo_books 2 s')) = Inr [''aaa''] \<and>
     map_sum id (\<lambda>l. map br_id (lr_items l)) (fst (GetBooksByCategory demo_books ''aaaaa'' 1 10 s')) = Inr [2]"
proof -
  let ?s = "snd (UpdateBook demo_books book_demo_env 2 (no_update\<lparr>bu_categories := [''aaa'']\<rparr>) demo_shelf)"
  have "map_sum id br_categories (fst (GetBookByID demo_books 2 ?s)) = Inr [''aaa'']"
    "map_sum id (\<lambda>l. map br_id (lr_items l)) (fst (GetBooksByCategory demo_books ''aaaaa'' 1 10 ?s)) = Inr [2]"
    by code_simp+
  then show ?thesis by blast
qed


text \<open>
  A lookup by ISBN can be stale: \<open>Update\<close> invalidates the cache entry of the new ISBN only, so the old one keeps
  answering with a book that no row of the table has.
\<close>

lemma GetBookByISBN_stale:
  "\<exists>s'. snd (UpdateBook demo_books book_demo_env 1 (no_update\<lparr>bu_isbn := Some ''W''\<rparr>)
       (snd (GetBookByISBN demo_books ''X'' demo_shelf))) = s' \<and>
     map_option bk_isbn (mem_rows (mb_books (fst s')) 1) = Some ''W'' \<and>
     map_sum id (\<lambda>b. (br_id b, br_isbn b)) (fst (GetBookByISBN demo_books ''X'' s')) = Inr (1, ''X'')"
proof -
  let ?s = "snd (UpdateBook demo_books book_demo_env 1 (no_update\<lparr>bu_isbn := Some ''W''\<rparr>)
       (snd (GetBookByISBN demo_books ''X'' demo_shelf)))"
  have "map_option bk_isbn (mem_rows (mb_books (fst ?s)) 1) = Some ''W''"
    "map_sum id (\<lambda>b. (br_id b, br_isbn b)) (fst (GetBookByISBN demo_books ''X'' ?s)) = Inr (1, ''X'')"
    by code_simp+
  then show ?thesis by blast
qed

section \<open>The stock\<close>

text \<open>
  C34. Lowering the quantity of a book below its available copies, without giving an available count, leaves
  more copies available than there are: the difference the code adds is taken after the new quantity
  has been stored, so it is always zero.
\<close>

theorem UpdateBook_overcommits:
  assumes "book_backend r books links valid opened usable tbooks tlinks pg sub view"
    and "book_inv r books valid view s" and "\<forall>k. link_uuids env k \<noteq> uuid_Nil"
    and "books (fst s) i = Some b" and "in_int64 (bk_available b)"
    and "bu_quantity req = Some q" and "bu_available req = None" and "0 \<le> q" and "q < bk_available b"
    and "UpdateBook (book_module r cl) env i req s = (Inr rsp, s')"
  shows "\<exists>c. books (fst s') i = Some c \<and> bk_quantity c = q \<and> bk_available c = bk_available b \<and>
    bk_quantity c < bk_available c"
proof -
  obtain c where "requested_row req b c" "books (fst s') = (books (fst s))(i := Some c)"
    using book_backend.UpdateBook_spec [OF assms(1,2,3,10)] assms(4) by auto
  moreover have "wrap64 (bk_available b) = bk_available b" using assms(5) by (rule wrap64_id)
  ultimately show ?thesis using assms(4-9) by (auto simp: requested_row_def or_old_def)
qed

lemma UpdateBook_overcommits_witness:
  "\<exists>c. mem_rows (mb_books (fst (snd (UpdateBook demo_books book_demo_env 1
       (no_update\<lparr>bu_quantity := Some 2\<rparr>) demo_shelf)))) 1 = Some c \<and> bk_quantity c = 2 \<and> bk_available c = 5"
proof -
  let ?req = "no_update\<lparr>bu_quantity := Some 2\<rparr>"
  let ?run = "UpdateBook demo_books book_demo_env 1 ?req demo_shelf"
  let ?b = "demo_book 1 ''Dune'' ''X''"
  have "\<not> isl (fst ?run)" by code_simp
  from run_answered [OF this] obtain rsp where run: "?run = (Inr rsp, snd ?run)" by blast
  have row: "mem_rows (mb_books (fst demo_shelf)) 1 = Some ?b" by code_simp
  have five: "bk_available ?b = 5" by code_simp
  then have word: "in_int64 (bk_available ?b)" by (simp add: in_int64_def)
  have "bu_quantity ?req = Some 2" "bu_available ?req = None" "(0::int) \<le> 2" "2 < bk_available ?b"
    using five by (simp_all add: no_update_def)
  from UpdateBook_overcommits [OF mem_book_backend demo_shelf_inv book_demo_env_ok(2) row word this run] five
  show ?thesis by auto
qed

section \<open>The category links\<close>

lemma removal_fails:
  assumes "\<forall>q d. isl (fst (g_delete (bdb_links (brc_db r)) q d))"
  shows "isl (fst (bookRepository_RemoveCategories r i s))"
    "isl (fst (bookRepository_Update r fresh b s))" "isl (fst (bookRepository_Delete r i s))"
proof -
  show rm: "isl (fst (bookRepository_RemoveCategories r i s))" for i s
    using assms by (simp add: bookRepository_RemoveCategories_def split: prod.split) (metis fst_conv)
  have e: "\<exists>e t. bookRepository_RemoveCategories r i s = (Inl e, t)" for i s
    using rm [of i s] by (metis isl_def prod.collapse)
  show "isl (fst (bookRepository_Update r fresh b s))"
  proof (cases "bdb_begin (brc_db r) (fst s)")
    case (Pair tx d1)
    then show ?thesis
    proof (cases "g_save (bdb_tx_books (brc_db r) tx) (cols b) d1")
      case p: (Pair y d2)
      show ?thesis
      proof (cases y)
        case (Inl err)
        with Pair p show ?thesis by (simp add: bookRepository_Update_def)
      next
        case (Inr row)
        obtain err u where "bookRepository_RemoveCategories r (base_id row) (d2, snd s) = (Inl err, u)"
          using e by blast
        with Pair p Inr show ?thesis by (simp add: bookRepository_Update_def)
      qed
    qed
  qed
  show "isl (fst (bookRepository_Delete r i s))"
  proof -
    obtain y s1 where g: "bookRepository_GetByID r i s = (y, s1)" by (cases "bookRepository_GetByID r i s")
    show ?thesis
    proof (cases y)
      case (Inl err)
      with g show ?thesis by (simp add: bookRepository_Delete_def)
    next
      case (Inr b)
      obtain tx d2 where b: "bdb_begin (brc_db r) (fst s1) = (tx, d2)" by (cases "bdb_begin (brc_db r) (fst s1)")
      obtain err u where "bookRepository_RemoveCategories r i (d2, snd s1) = (Inl err, u)" using e by blast
      with g Inr b show ?thesis by (simp add: bookRepository_Delete_def)
    qed
  qed
qed

text \<open>
  When every delete on the links table fails, as it does with the table of the migration, which lacks
  the \<open>deleted_at\<close> column that the model's soft delete writes, every update and every delete of a book
  answers an error and no book ever changes.
\<close>

theorem book_writes_need_links:
  assumes "book_backend r books links valid opened usable tbooks tlinks pg sub view"
    and "book_inv r books valid view s" and "\<forall>k. link_uuids env k \<noteq> uuid_Nil"
    and "\<forall>q d. isl (fst (g_delete (bdb_links (brc_db r)) q d))"
  shows "isl (fst (UpdateBook (book_module r cl) env i req s)) \<and>
    books (fst (snd (UpdateBook (book_module r cl) env i req s))) = books (fst s) \<and>
    isl (fst (DeleteBook (book_module r cl) i s)) \<and>
    books (fst (snd (DeleteBook (book_module r cl) i s))) = books (fst s)"
proof -
  note fails = removal_fails [OF assms(4)]
  obtain x s' where u: "UpdateBook (book_module r cl) env i req s = (x, s')"
    by (cases "UpdateBook (book_module r cl) env i req s")
  have "isl x"
  proof (rule ccontr)
    assume "\<not> isl x"
    with u obtain fresh b t where "\<not> isl (fst (bookRepository_Update r fresh b t))"
      by (auto simp: UpdateBook_def Let_def split: prod.splits sum.splits option.splits if_splits bool.splits)
        (metis fst_conv sum.disc(2))+
    with fails(2) show False by simp
  qed
  moreover obtain y t where d: "DeleteBook (book_module r cl) i s = (y, t)"
    by (cases "DeleteBook (book_module r cl) i s")
  moreover have "isl y"
  proof (rule ccontr)
    assume "\<not> isl y"
    with d obtain t where "\<not> isl (fst (bookRepository_Delete r i t))"
      by (auto simp: DeleteBook_def split: prod.splits sum.splits) (metis fst_conv sum.disc(2))+
    with fails(3) show False by simp
  qed
  moreover have "books (fst s') = books (fst s)"
    using book_backend.UpdateBook_spec [OF assms(1-3) u] \<open>isl x\<close> by (cases x) simp_all
  moreover have "books (fst t) = books (fst s)"
    using book_backend.DeleteBook_spec [OF assms(1,2) d] \<open>isl y\<close> by (cases y) simp_all
  ultimately show ?thesis using u by simp
qed

text \<open>The list database whose links table refuses every delete.\<close>

definition no_soft_delete :: "stmt \<Rightarrow> mem_books \<Rightarrow> unit result \<times> mem_books" where
  "no_soft_delete q d = (Inl (GoError ''column deleted_at does not exist'' []), d)"

definition migrated_db :: "(mem_books, unit) book_db" where
  "migrated_db = (mem_book_db (uuid_parse unary1_uuid))
     \<lparr>bdb_links := (bdb_links (mem_book_db (uuid_parse unary1_uuid)))\<lparr>g_delete := no_soft_delete\<rparr>\<rparr>"

definition migrated_conf :: "(mem_books, unit, string \<rightharpoonup> json) book_repo_conf" where
  "migrated_conf = mem_book_conf\<lparr>brc_db := migrated_db\<rparr>"

lemma migrated_backend:
  "book_backend migrated_conf (\<lambda>d. mem_rows (mb_books d)) (\<lambda>d. mem_rows (mb_links d)) mem_books_valid
     (\<lambda>_ _. True) (\<lambda>_. tb_ok) (\<lambda>_ d. mem_rows (tb_books d)) (\<lambda>_ d. mem_rows (tb_links d))
     (uuid_parse unary1_uuid) (mem_sub (uuid_parse unary1_uuid)) (\<lambda>c. c)"
proof (intro book_backend.intro)
  note st = mem_book_store [of "uuid_parse unary1_uuid"]
  show "book_store (brc_db migrated_conf) (\<lambda>d. mem_rows (mb_books d)) (\<lambda>d. mem_rows (mb_links d)) mem_books_valid
     (\<lambda>_ _. True) (\<lambda>_. tb_ok) (\<lambda>_ d. mem_rows (tb_books d)) (\<lambda>_ d. mem_rows (tb_links d)) (uuid_parse unary1_uuid)
     (mem_sub (uuid_parse unary1_uuid))"
  proof (rule book_store.intro, goal_cases)
    case (2 B)
    have "gorm_store ((bdb_links (mem_book_db (uuid_parse unary1_uuid)))\<lparr>g_delete := no_soft_delete\<rparr>)
        (\<lambda>d. mem_rows (mb_links d)) (\<lambda>d. mem_books_valid d \<and> mem_rows (mb_books d) = B) (link_sat (uuid_parse unary1_uuid))"
      by (rule store_with_delete [OF book_store.pool_links [OF st]]) (simp_all add: no_soft_delete_def)
    then show ?case by (simp add: migrated_conf_def migrated_db_def)
  next
    case (1 L S)
    show ?case using book_store.pool_books [OF st, of L S] by (simp add: migrated_conf_def migrated_db_def)
  next
    case (5 d cs i)
    then show ?case using book_store.sub_live [OF st, of d cs i] by simp
  next
    case (3 tx B L T S)
    show ?case using book_store.tx_books [OF st, of tx B L T S] by (simp add: migrated_conf_def migrated_db_def)
  next
    case (4 tx B L U)
    show ?case using book_store.tx_links [OF st, of tx B L U] by (simp add: migrated_conf_def migrated_db_def)
  qed (auto simp: migrated_conf_def migrated_db_def no_soft_delete_def
      dest: book_store.begin_ok [OF st] book_store.commit_ok [OF st] book_store.commit_err [OF st]
        book_store.rollback_ok [OF st] book_store.error_aborts [OF st] book_store.aborted_stays [OF st])
  show "reliable_cache (brc_cache migrated_conf) (\<lambda>c. c)"
    using mem_redis_reliable by (simp add: migrated_conf_def)
  show "book_backend_axioms migrated_conf"
    by unfold_locales (simp_all add: migrated_conf_def unary1_uuid_ok)
qed

lemma book_writes_need_links_witness:
  "isl (fst (DeleteBook (book_module migrated_conf None) 1 demo_shelf)) \<and>
   isl (fst (UpdateBook (book_module migrated_conf None) book_demo_env 1 no_update demo_shelf))"
proof -
  have "book_inv migrated_conf (\<lambda>d. mem_rows (mb_books d)) mem_books_valid (\<lambda>c. c) demo_shelf"
    using demo_shelf_inv by (simp add: book_inv_def migrated_conf_def)
  moreover have "\<forall>q d. isl (fst (g_delete (bdb_links (brc_db migrated_conf)) q d))"
    by (simp add: migrated_conf_def migrated_db_def no_soft_delete_def)
  ultimately show ?thesis
    using book_writes_need_links [OF migrated_backend _ book_demo_env_ok(2)] by blast
qed

section \<open>The category service\<close>

lemma check_categories_lenient:
  assumes "\<forall>c. cc_CategoryExists cl c \<noteq> Inr False" "\<forall>c \<in> set cs. c \<noteq> [] \<longrightarrow> uuid_parse (brc_uuid r) c \<noteq> None"
  shows "check_categories (book_module r (Some cl)) cs = None"
  using assms validate_categories_None [of "brc_uuid r" cl cs] by (auto simp: check_categories_def)

lemma check_categories_nil: "check_categories (book_module r None) cs = None"
  by (simp add: check_categories_def)

lemma isbn_taken_client: "isbn_taken (book_module r cl) = isbn_taken (book_module r None)"
  by (intro ext) (simp add: isbn_taken_def)

text \<open>
  A book service whose connection to the category service fails on every check, as it does against
  this repository's category server, which does not implement \<open>CheckCategoryExists\<close>, and one that
  never connected accept any well-formed category ID: creating and updating books and listing by
  category then behave exactly as with no category service at all.
\<close>

theorem category_check_is_void:
  assumes "\<forall>stub c. dial url = Inr stub \<longrightarrow> isl (st_CheckCategoryExists stub c)"
    and "\<forall>c \<in> set (bq_categories new) \<union> set (bu_categories req). c \<noteq> [] \<longrightarrow> uuid_parse (brc_uuid r) c \<noteq> None"
  shows "CreateBook (book_module r (Some (NewCategoryClient dial url))) env new s
      = CreateBook (book_module r None) env new s \<and>
    UpdateBook (book_module r (Some (NewCategoryClient dial url))) env i req s
      = UpdateBook (book_module r None) env i req s \<and>
    GetBooksByCategory (book_module r (Some (NewCategoryClient dial url))) c page lm s
      = GetBooksByCategory (book_module r None) c page lm s"
proof -
  let ?cl = "NewCategoryClient dial url"
  have no: "\<forall>c. cc_CategoryExists ?cl c \<noteq> Inr False"
    using NewCategoryClient_lenient assms(1) by blast
  have ids: "check_categories (book_module r (Some ?cl)) (bq_categories new) = None"
    "check_categories (book_module r (Some ?cl)) (bu_categories req) = None"
    by (rule check_categories_lenient [OF no]; use assms(2) in blast)+
  show ?thesis
    unfolding CreateBook_def UpdateBook_def ids check_categories_nil isbn_taken_client [of r "Some ?cl"]
      book_module_simps option.case
    using no by (simp add: GetBooksByCategory_def Let_def split: option.split)
qed

text \<open>A server that answers every call with Unimplemented.\<close>

definition unimplemented_stub :: category_stub where
  "unimplemented_stub = \<lparr>st_CheckCategoryExists = (\<lambda>_. Inl (GoError ''Unimplemented'' [])),
     st_GetCategory_name = (\<lambda>_. Inl (GoError ''Unimplemented'' []))\<rparr>"

lemma category_check_is_void_witness:
  "\<not> isl (fst (CreateBook (book_module mem_book_conf
     (Some (NewCategoryClient (\<lambda>_. Inr unimplemented_stub) ''category:50051''))) book_demo_env demo_create demo_shelf))"
proof -
  have client: "\<forall>stub c. (\<lambda>_. Inr unimplemented_stub) ''category:50051'' = Inr stub \<longrightarrow>
      isl (st_CheckCategoryExists stub c)"
    by (auto simp: unimplemented_stub_def)
  have ids: "\<forall>c \<in> set (bq_categories demo_create) \<union> set (bu_categories no_update).
      c \<noteq> [] \<longrightarrow> uuid_parse (brc_uuid mem_book_conf) c \<noteq> None"
    by (simp add: demo_create_def no_update_def unary1_uuid_def)
  have "\<not> isl (fst (CreateBook (book_module mem_book_conf None) book_demo_env demo_create demo_shelf))"
    by code_simp
  with category_check_is_void [OF client ids] show ?thesis by simp
qed

end
