(* ===== verification/CategoryHandlers.thy ===== *)
theory CategoryHandlers
  imports CategorySystem
begin

text \<open>
  The HTTP and gRPC handlers of the category service
  (\<open>services/category-service/internal/handler\<close>), one definition per handler, over the service
  interface as a record of functions. The requests of gRPC carry optional fields as options;
  protobuf messages are kept as the response objects they are copied from, with the UUIDs printed.
\<close>

section \<open>The service interface\<close>

record 's category_service =
  cs_Create :: "new_row_env \<Rightarrow> category_create \<Rightarrow> 's \<Rightarrow> category_response result \<times> 's"
  cs_GetByID :: "uuid \<Rightarrow> 's \<Rightarrow> category_response result \<times> 's"
  cs_GetByName :: "string \<Rightarrow> 's \<Rightarrow> category_response result \<times> 's"
  cs_Update :: "uuid \<Rightarrow> category_update \<Rightarrow> 's \<Rightarrow> category_response result \<times> 's"
  cs_Delete :: "uuid \<Rightarrow> 's \<Rightarrow> unit result \<times> 's"
  cs_List :: "category_filter \<Rightarrow> 's \<Rightarrow> category_response list_response result \<times> 's"
  cs_GetChildren :: "uuid \<Rightarrow> 's \<Rightarrow> category_response list_response result \<times> 's"

definition NewCategoryService :: "uuid_lib \<Rightarrow> 's category_repository \<Rightarrow> 's category_service" where
  "NewCategoryService ul repo =
     \<lparr>cs_Create = CreateCategory ul repo, cs_GetByID = GetCategoryByID repo,
      cs_GetByName = GetCategoryByName repo, cs_Update = UpdateCategory ul repo,
      cs_Delete = DeleteCategory repo, cs_List = ListCategories repo,
      cs_GetChildren = GetCategoryChildren repo\<rparr>"

lemma NewCategoryService_simps [simp]:
  "cs_Create (NewCategoryService ul repo) = CreateCategory ul repo"
  "cs_GetByID (NewCategoryService ul repo) = GetCategoryByID repo"
  "cs_GetByName (NewCategoryService ul repo) = GetCategoryByName repo"
  "cs_Update (NewCategoryService ul repo) = UpdateCategory ul repo"
  "cs_Delete (NewCategoryService ul repo) = DeleteCategory repo"
  "cs_List (NewCategoryService ul repo) = ListCategories repo"
  "cs_GetChildren (NewCategoryService ul repo) = GetCategoryChildren repo"
  by (simp_all add: NewCategoryService_def)

section \<open>HTTP\<close>

definition HandleCreateCategory ::
  "validator \<Rightarrow> 's category_service \<Rightarrow> new_row_env \<Rightarrow> 's http_handler" where
  "HandleCreateCategory vd svc env rq s =
     (if \<not> isAdminOrLibrarian rq then (RespondWithError 403 ErrForbidden None, s)
      else case res_bind (rq_body rq) decode_category_create of
        Inl e \<Rightarrow> (RespondWithError 400 ErrInvalidRequest (Some e), s)
      | Inr req \<Rightarrow>
          (case Validate vd (category_create_tags req) of
             (_, Some e) \<Rightarrow> (RespondWithError 400 ErrInvalidField (Some e), s)
           | (_, None) \<Rightarrow>
               (case cs_Create svc env req s of
                  (Inl e, s') \<Rightarrow> (write_error e, s')
                | (Inr c, s') \<Rightarrow>
                    (RespondWithSuccess 201 ''Category created successfully'' (Some (category_response_json c)), s'))))"

definition HandleGetCategory :: "uuid_lib \<Rightarrow> 's category_service \<Rightarrow> 's http_handler" where
  "HandleGetCategory ul svc rq s =
     (case uuid_parse ul (rq_vars rq ''id'') of
        None \<Rightarrow> (RespondWithError 400 ''Invalid category ID'' (Some (uuid_err ul (rq_vars rq ''id''))), s)
      | Some i \<Rightarrow>
          (case cs_GetByID svc i s of
             (Inl e, s') \<Rightarrow>
               (if err_msg e = ErrCategoryNotFound then RespondWithError 404 ErrCategoryNotFound None
                else RespondWithError 500 ErrInternalServer None, s')
           | (Inr c, s') \<Rightarrow>
               (RespondWithSuccess 200 ''Category retrieved successfully'' (Some (category_response_json c)), s')))"

definition HandleGetCategoryByName :: "'s category_service \<Rightarrow> 's http_handler" where
  "HandleGetCategoryByName svc rq s =
     (let name = rq_query rq ''name''
      in if name = [] then (RespondWithError 400 ''Name parameter is required'' None, s)
         else case cs_GetByName svc name s of
           (Inl e, s') \<Rightarrow>
             (if err_msg e = ErrCategoryNotFound \<or> err_msg e = ''category with name '' @ name @ '' not found''
              then RespondWithError 404 (err_msg e) None
              else RespondWithError 500 ErrInternalServer None, s')
         | (Inr c, s') \<Rightarrow>
             (RespondWithSuccess 200 ''Category retrieved successfully'' (Some (category_response_json c)), s'))"

definition HandleUpdateCategory :: "uuid_lib \<Rightarrow> validator \<Rightarrow> 's category_service \<Rightarrow> 's http_handler" where
  "HandleUpdateCategory ul vd svc rq s =
     (if \<not> isAdminOrLibrarian rq then (RespondWithError 403 ErrForbidden None, s)
      else case uuid_parse ul (rq_vars rq ''id'') of
        None \<Rightarrow> (RespondWithError 400 ''Invalid category ID'' (Some (uuid_err ul (rq_vars rq ''id''))), s)
      | Some i \<Rightarrow>
          (case res_bind (rq_body rq) decode_category_update of
             Inl e \<Rightarrow> (RespondWithError 400 ErrInvalidRequest (Some e), s)
           | Inr req \<Rightarrow>
               (case Validate vd [] of
                  (_, Some e) \<Rightarrow> (RespondWithError 400 ErrInvalidField (Some e), s)
                | (_, None) \<Rightarrow>
                    (case cs_Update svc i req s of
                       (Inl e, s') \<Rightarrow>
                         (if err_msg e = ErrCategoryNotFound then RespondWithError 404 ErrCategoryNotFound None
                          else write_error e, s')
                     | (Inr c, s') \<Rightarrow>
                         (RespondWithSuccess 200 ''Category updated successfully''
                            (Some (category_response_json c)), s')))))"

definition HandleDeleteCategory :: "uuid_lib \<Rightarrow> 's category_service \<Rightarrow> 's http_handler" where
  "HandleDeleteCategory ul svc rq s =
     (if \<not> isAdminOrLibrarian rq then (RespondWithError 403 ErrForbidden None, s)
      else case uuid_parse ul (rq_vars rq ''id'') of
        None \<Rightarrow> (RespondWithError 400 ''Invalid category ID'' (Some (uuid_err ul (rq_vars rq ''id''))), s)
      | Some i \<Rightarrow>
          (case cs_Delete svc i s of
             (Inl e, s') \<Rightarrow>
               (if err_msg e = ErrCategoryNotFound then RespondWithError 404 ErrCategoryNotFound None
                else write_error e, s')
           | (Inr _, s') \<Rightarrow> (RespondWithSuccess 200 ''Category deleted successfully'' None, s')))"

definition category_filter_of_query :: "http_request \<Rightarrow> category_filter" where
  "category_filter_of_query rq =
     \<lparr>cf_page = query_int rq ''page'', cf_limit = query_int rq ''limit'',
      cf_sort_by = rq_query rq ''sort_by'', cf_desc = (rq_query rq ''desc'' = ''true''),
      cf_parent = query_opt rq ''parent_id''\<rparr>"

definition HandleListCategories :: "'s category_service \<Rightarrow> 's http_handler" where
  "HandleListCategories svc rq s =
     (case cs_List svc (category_filter_of_query rq) s of
        (Inl e, s') \<Rightarrow> (RespondWithError 500 ErrInternalServer None, s')
      | (Inr l, s') \<Rightarrow>
          (RespondWithSuccess 200 ''Categories retrieved successfully''
             (Some (list_response_json ''categories'' category_response_json l)), s'))"

definition HandleGetCategoryChildren :: "uuid_lib \<Rightarrow> 's category_service \<Rightarrow> 's http_handler" where
  "HandleGetCategoryChildren ul svc rq s =
     (case uuid_parse ul (rq_vars rq ''id'') of
        None \<Rightarrow> (RespondWithError 400 ''Invalid category ID'' (Some (uuid_err ul (rq_vars rq ''id''))), s)
      | Some i \<Rightarrow>
          (case cs_GetChildren svc i s of
             (Inl e, s') \<Rightarrow>
               (if err_msg e = ErrCategoryNotFound then RespondWithError 404 ErrCategoryNotFound None
                else RespondWithError 500 ErrInternalServer None, s')
           | (Inr l, s') \<Rightarrow>
               (RespondWithSuccess 200 ''Category children retrieved successfully''
                  (Some (list_response_json ''categories'' category_response_json l)), s')))"

section \<open>gRPC\<close>

record proto_category =
  pc_id :: string
  pc_name :: string
  pc_description :: string
  pc_parent :: "string option"
  pc_created :: time
  pc_updated :: time

definition convertCategoryResponseToProtoCategory :: "uuid_lib \<Rightarrow> category_response \<Rightarrow> proto_category" where
  "convertCategoryResponseToProtoCategory ul c =
     \<lparr>pc_id = uuid_string ul (rsp_id c), pc_name = rsp_name c, pc_description = rsp_description c,
      pc_parent = map_option (uuid_string ul) (rsp_parent c),
      pc_created = rsp_created c, pc_updated = rsp_updated c\<rparr>"

definition GRPC_GetCategory ::
  "uuid_lib \<Rightarrow> 's category_service \<Rightarrow> string \<Rightarrow> 's \<Rightarrow> proto_category grpc_result \<times> 's" where
  "GRPC_GetCategory ul svc id_str s =
     (case uuid_parse ul id_str of
        None \<Rightarrow> (Inl (InvalidArgument, ''invalid category ID''), s)
      | Some i \<Rightarrow>
          (case cs_GetByID svc i s of
             (Inl e, s') \<Rightarrow>
               (Inl (if str_contains (err_msg e) ErrCategoryNotFound then (NotFound, ErrCategoryNotFound)
                     else (Internal, ErrInternalServer)), s')
           | (Inr c, s') \<Rightarrow> (Inr (convertCategoryResponseToProtoCategory ul c), s')))"

definition GRPC_GetCategoryByName ::
  "uuid_lib \<Rightarrow> 's category_service \<Rightarrow> string \<Rightarrow> 's \<Rightarrow> proto_category grpc_result \<times> 's" where
  "GRPC_GetCategoryByName ul svc name s =
     (if name = [] then (Inl (InvalidArgument, ''name is required''), s)
      else case cs_GetByName svc name s of
        (Inl e, s') \<Rightarrow>
          (Inl (if str_contains (err_msg e) ''not found'' then (NotFound, err_msg e)
                else (Internal, ErrInternalServer)), s')
      | (Inr c, s') \<Rightarrow> (Inr (convertCategoryResponseToProtoCategory ul c), s'))"

definition GRPC_ListCategories ::
  "uuid_lib \<Rightarrow> 's category_service \<Rightarrow> int \<Rightarrow> int \<Rightarrow> string \<Rightarrow> bool \<Rightarrow> string option \<Rightarrow> 's \<Rightarrow>
   proto_category list_response grpc_result \<times> 's" where
  "GRPC_ListCategories ul svc page psize sort_by desc parent s =
     (case cs_List svc \<lparr>cf_page = page, cf_limit = psize, cf_sort_by = sort_by, cf_desc = desc,
                         cf_parent = parent\<rparr> s of
        (Inl e, s') \<Rightarrow> (Inl (Internal, ErrInternalServer), s')
      | (Inr l, s') \<Rightarrow> (Inr (proto_list (convertCategoryResponseToProtoCategory ul) l), s'))"

text \<open>The classification of a create error and of an update error by substrings.\<close>

definition grpc_create_error :: "go_error \<Rightarrow> grpc_code \<times> string" where
  "grpc_create_error e =
     (if str_contains (err_msg e) ''already exists'' then (AlreadyExists, err_msg e)
      else if str_contains (err_msg e) ''invalid parent ID'' \<or>
              str_contains (err_msg e) ''parent category not found'' then (InvalidArgument, err_msg e)
      else (Internal, ErrInternalServer))"

text \<open>The request messages, with \<open>optional\<close> fields as options, and their conversions.\<close>

record create_category_request =
  qc_name :: string
  qc_description :: string
  qc_parent :: "string option"

definition category_create_dto :: "create_category_request \<Rightarrow> category_create" where
  "category_create_dto req =
     \<lparr>cc_name = qc_name req, cc_description = qc_description req, cc_parent = qc_parent req\<rparr>"

record update_category_request =
  qu_id :: string
  qu_name :: "string option"
  qu_description :: "string option"
  qu_parent :: "string option"

definition category_update_dto :: "update_category_request \<Rightarrow> category_update" where
  "category_update_dto req =
     \<lparr>cu_name = qu_name req, cu_description = qu_description req, cu_parent = qu_parent req\<rparr>"

definition GRPC_CreateCategory ::
  "uuid_lib \<Rightarrow> 's category_service \<Rightarrow> new_row_env \<Rightarrow> create_category_request \<Rightarrow> 's \<Rightarrow>
   proto_category grpc_result \<times> 's" where
  "GRPC_CreateCategory ul svc env req s =
     (case cs_Create svc env (category_create_dto req) s of
        (Inl e, s') \<Rightarrow> (Inl (grpc_create_error e), s')
      | (Inr c, s') \<Rightarrow> (Inr (convertCategoryResponseToProtoCategory ul c), s'))"

definition grpc_update_error :: "go_error \<Rightarrow> grpc_code \<times> string" where
  "grpc_update_error e =
     (if str_contains (err_msg e) ErrCategoryNotFound then (NotFound, ErrCategoryNotFound)
      else if str_contains (err_msg e) ''already exists'' then (AlreadyExists, err_msg e)
      else if str_contains (err_msg e) ''invalid parent ID'' \<or>
              str_contains (err_msg e) ''parent category not found'' then (InvalidArgument, err_msg e)
      else if str_contains (err_msg e) ''cannot be its own parent'' \<or>
              str_contains (err_msg e) ''create a category cycle'' then (InvalidArgument, err_msg e)
      else (Internal, ErrInternalServer))"

definition GRPC_UpdateCategory ::
  "uuid_lib \<Rightarrow> 's category_service \<Rightarrow> update_category_request \<Rightarrow> 's \<Rightarrow> proto_category grpc_result \<times> 's" where
  "GRPC_UpdateCategory ul svc req s =
     (case uuid_parse ul (qu_id req) of
        None \<Rightarrow> (Inl (InvalidArgument, ''invalid category ID''), s)
      | Some i \<Rightarrow>
          (case cs_Update svc i (category_update_dto req) s of
             (Inl e, s') \<Rightarrow> (Inl (grpc_update_error e), s')
           | (Inr c, s') \<Rightarrow> (Inr (convertCategoryResponseToProtoCategory ul c), s')))"

definition GRPC_DeleteCategory ::
  "uuid_lib \<Rightarrow> 's category_service \<Rightarrow> string \<Rightarrow> 's \<Rightarrow> unit grpc_result \<times> 's" where
  "GRPC_DeleteCategory ul svc id_str s =
     (case uuid_parse ul id_str of
        None \<Rightarrow> (Inl (InvalidArgument, ''invalid category ID''), s)
      | Some i \<Rightarrow>
          (case cs_Delete svc i s of
             (Inl e, s') \<Rightarrow>
               (Inl (if str_contains (err_msg e) ErrCategoryNotFound then (NotFound, ErrCategoryNotFound)
                     else if str_contains (err_msg e) ''child categories'' \<or>
                             str_contains (err_msg e) ''associated books'' then (FailedPrecondition, err_msg e)
                     else (Internal, ErrInternalServer)), s')
           | (Inr _, s') \<Rightarrow> (Inr (), s')))"

definition GRPC_GetCategoryChildren ::
  "uuid_lib \<Rightarrow> 's category_service \<Rightarrow> string \<Rightarrow> 's \<Rightarrow> proto_category list_response grpc_result \<times> 's" where
  "GRPC_GetCategoryChildren ul svc id_str s =
     (case uuid_parse ul id_str of
        None \<Rightarrow> (Inl (InvalidArgument, ''invalid parent ID''), s)
      | Some i \<Rightarrow>
          (case cs_GetChildren svc i s of
             (Inl e, s') \<Rightarrow>
               (Inl (if str_contains (err_msg e) ErrCategoryNotFound then (NotFound, ErrCategoryNotFound)
                     else (Internal, ErrInternalServer)), s')
           | (Inr l, s') \<Rightarrow> (Inr (proto_list (convertCategoryResponseToProtoCategory ul) l), s')))"

end
