(* ===== verification/Config.thy ===== *)
theory Config
  imports Http
begin

text \<open>
  \<open>pkg/config\<close>: the configuration of the services. The environment is a map (\<open>os.LookupEnv\<close>) as it is
  after \<open>godotenv.Load\<close>; \<open>time.ParseDuration\<close> is an argument. \<open>viper\<close> is the parameter
  \<open>viper_lib\<close>: the outcome of reading the file and decoding it over the given configuration (\<open>None\<close>
  when the file cannot be read), and \<open>GetString\<close>.
\<close>

section \<open>Reading the environment\<close>

type_synonym environment = "string \<rightharpoonup> string"

definition Getenv :: "environment \<Rightarrow> string \<Rightarrow> string" where
  "Getenv env key = (case env key of None \<Rightarrow> [] | Some v \<Rightarrow> v)"

definition getEnv :: "environment \<Rightarrow> string \<Rightarrow> string \<Rightarrow> string" where
  "getEnv env key defaultValue = (case env key of Some v \<Rightarrow> v | None \<Rightarrow> defaultValue)"

definition getEnvAsInt :: "environment \<Rightarrow> string \<Rightarrow> int \<Rightarrow> int" where
  "getEnvAsInt env key defaultValue =
     (case env key of
        Some v \<Rightarrow> (case atoi v of Some n \<Rightarrow> n | None \<Rightarrow> defaultValue)
      | None \<Rightarrow> defaultValue)"

definition getEnvAsDuration ::
  "(string \<Rightarrow> duration option) \<Rightarrow> environment \<Rightarrow> string \<Rightarrow> duration \<Rightarrow> duration" where
  "getEnvAsDuration parse env key defaultValue =
     (case env key of
        Some v \<Rightarrow> (case parse v of Some d \<Rightarrow> d | None \<Rightarrow> defaultValue)
      | None \<Rightarrow> defaultValue)"

text \<open>\<open>strconv.ParseBool\<close>.\<close>

definition parseBool :: "string \<Rightarrow> bool option" where
  "parseBool s =
     (if s \<in> {''1'', ''t'', ''T'', ''TRUE'', ''true'', ''True''} then Some True
      else if s \<in> {''0'', ''f'', ''F'', ''FALSE'', ''false'', ''False''} then Some False
      else None)"

definition getEnvAsBool :: "environment \<Rightarrow> string \<Rightarrow> bool \<Rightarrow> bool" where
  "getEnvAsBool env key defaultValue =
     (case env key of
        Some v \<Rightarrow> (case parseBool v of Some b \<Rightarrow> b | None \<Rightarrow> defaultValue)
      | None \<Rightarrow> defaultValue)"

section \<open>Logging\<close>

record logging_config =
  lc_level :: string
  lc_production :: bool
  lc_json :: bool

definition LoadLoggingConfig :: "environment \<Rightarrow> logging_config" where
  "LoadLoggingConfig env =
     (let config = \<lparr>lc_level = getEnv env ''LOG_LEVEL'' ''info'',
                    lc_production = (getEnv env ''APP_ENV'' ''development'' = ''production''),
                    lc_json = getEnvAsBool env ''LOG_JSON'' False\<rparr>
      in if lc_production config then config\<lparr>lc_json := True\<rparr> else config)"

section \<open>The configuration of a service\<close>

record service_config =
  cf_app_name :: string
  cf_app_env :: string
  cf_server_port :: string
  cf_db_host :: string
  cf_db_port :: string
  cf_db_name :: string
  cf_db_user :: string
  cf_db_password :: string
  cf_db_sslmode :: string
  cf_jwt_secret :: string
  cf_jwt_hours :: int
  cf_access_expiry :: duration
  cf_refresh_expiry :: duration
  cf_redis_host :: string
  cf_redis_port :: string
  cf_redis_password :: string
  cf_grpc_port :: string
  cf_log_level :: string
  cf_book_url :: string
  cf_category_url :: string
  cf_user_url :: string

record viper_lib =
  vp_decode :: "service_config \<Rightarrow> service_config result option"
  vp_get :: "string \<Rightarrow> string"

abbreviation minutes :: "int \<Rightarrow> duration" where
  "minutes n \<equiv> n * 60000000000"

definition default_config :: "(string \<Rightarrow> duration option) \<Rightarrow> environment \<Rightarrow> service_config" where
  "default_config parse env =
     \<lparr>cf_app_name = [], cf_app_env = getEnv env ''APP_ENV'' ''development'',
      cf_server_port = getEnv env ''SERVER_PORT'' ''8080'', cf_db_host = getEnv env ''DB_HOST'' ''localhost'',
      cf_db_port = getEnv env ''DB_PORT'' ''5432'', cf_db_name = [], cf_db_user = [], cf_db_password = [],
      cf_db_sslmode = getEnv env ''DB_SSLMODE'' ''disable'', cf_jwt_secret = [],
      cf_jwt_hours = getEnvAsInt env ''JWT_EXPIRATION_HOURS'' 24,
      cf_access_expiry = getEnvAsDuration parse env ''ACCESS_TOKEN_EXPIRY'' (minutes 15),
      cf_refresh_expiry = getEnvAsDuration parse env ''REFRESH_TOKEN_EXPIRY'' (minutes (7 * 24 * 60)),
      cf_redis_host = getEnv env ''REDIS_HOST'' ''localhost'', cf_redis_port = getEnv env ''REDIS_PORT'' ''6379'',
      cf_redis_password = [], cf_grpc_port = getEnv env ''GRPC_PORT'' ''50051'',
      cf_log_level = getEnv env ''LOG_LEVEL'' ''info'', cf_book_url = [], cf_category_url = [], cf_user_url = []\<rparr>"

definition requiredEnvs :: "string list" where
  "requiredEnvs = [''APP_NAME'', ''DB_NAME'', ''DB_USER'', ''DB_PASSWORD'', ''JWT_SECRET'']"

text \<open>\<open>if config.X == "" { config.X = os.Getenv(KEY) }\<close>\<close>

definition or_env :: "environment \<Rightarrow> string \<Rightarrow> string \<Rightarrow> string" where
  "or_env env key v = (if v = [] then Getenv env key else v)"

definition fill_config :: "environment \<Rightarrow> service_config \<Rightarrow> service_config" where
  "fill_config env c =
     c\<lparr>cf_app_name := or_env env ''APP_NAME'' (cf_app_name c), cf_db_name := or_env env ''DB_NAME'' (cf_db_name c),
       cf_db_user := or_env env ''DB_USER'' (cf_db_user c),
       cf_db_password := or_env env ''DB_PASSWORD'' (cf_db_password c),
       cf_jwt_secret := or_env env ''JWT_SECRET'' (cf_jwt_secret c),
       cf_book_url := or_env env ''BOOK_SERVICE_URL'' (cf_book_url c),
       cf_category_url := or_env env ''CATEGORY_SERVICE_URL'' (cf_category_url c),
       cf_user_url := or_env env ''USER_SERVICE_URL'' (cf_user_url c)\<rparr>"

text \<open>The loop over the required variables: the first one that is missing, if any.\<close>

definition missing_env :: "viper_lib \<Rightarrow> environment \<Rightarrow> string option" where
  "missing_env vp env = find (\<lambda>k. vp_get vp k = [] \<and> Getenv env k = []) requiredEnvs"

definition LoadConfig ::
  "(string \<Rightarrow> duration option) \<Rightarrow> viper_lib \<Rightarrow> environment \<Rightarrow> service_config result" where
  "LoadConfig parse vp env =
     (let c0 = default_config parse env
      in case (case vp_decode vp c0 of
                 None \<Rightarrow> Inr c0
               | Some (Inl e) \<Rightarrow> Inl (errorf_wrap ''unable to decode config into struct'' e)
               | Some (Inr c) \<Rightarrow> Inr c) of
           Inl e \<Rightarrow> Inl e
         | Inr c \<Rightarrow>
             (case missing_env vp env of
                Some k \<Rightarrow> Inl (errors_New (''required environment variable not set: '' @ k))
              | None \<Rightarrow> Inr (fill_config env c)))"

definition GetDSN :: "service_config \<Rightarrow> string" where
  "GetDSN c = ''host='' @ cf_db_host c @ '' port='' @ cf_db_port c @ '' user='' @ cf_db_user c @
     '' password='' @ cf_db_password c @ '' dbname='' @ cf_db_name c @ '' sslmode='' @ cf_db_sslmode c"

definition GetRedisAddress :: "service_config \<Rightarrow> string" where
  "GetRedisAddress c = cf_redis_host c @ '':'' @ cf_redis_port c"

section \<open>A service without a configuration file\<close>

text \<open>\<open>GetString\<close> without a file answers from the environment (\<open>AutomaticEnv\<close>).\<close>

definition no_config_file :: "viper_lib \<Rightarrow> environment \<Rightarrow> bool" where
  "no_config_file vp env \<longleftrightarrow> vp_decode vp = (\<lambda>_. None) \<and> vp_get vp = Getenv env"

lemma LoadConfig_env:
  assumes "no_config_file vp env"
  shows "LoadConfig parse vp env =
    (case find (\<lambda>k. Getenv env k = []) requiredEnvs of
       Some k \<Rightarrow> Inl (errors_New (''required environment variable not set: '' @ k))
     | None \<Rightarrow> Inr (fill_config env (default_config parse env)))"
  using assms by (simp add: LoadConfig_def no_config_file_def missing_env_def Let_def)

end
