(* ===== verification/Gateway.thy ===== *)
theory Gateway
  imports Config Helpers
begin

text \<open>
  The API gateway (\<open>api-gateway/cmd/main.go\<close> and \<open>api-gateway/internal/proxy\<close>): its configuration, the
  reverse proxy in front of the services with the copy loop of the response body, the fallback
  handlers and the aggregated health check. The network is a parameter: \<open>client.Do\<close> is a function on
  a state of the services, a body is a reader, the client of the gateway a writer; the copy loop is a
  partial function, \<open>None\<close> when a reader never ends.
\<close>

section \<open>Headers\<close>

text \<open>
  A header to be written maps canonical keys to their values; a received header is the list of its
  entries in the order a \<open>range\<close> over the map visits them, which Go does not fix.
\<close>

type_synonym header = "string \<Rightarrow> string list"
type_synonym header_entries = "(string \<times> string list) list"

definition ascii_upper :: "char \<Rightarrow> char" where
  "ascii_upper c = (let n = of_char c :: nat in if 97 \<le> n \<and> n \<le> 122 then char_of (n - 32) else c)"

definition token_char :: "char \<Rightarrow> bool" where
  "token_char c =
     (let n = of_char c :: nat
      in 48 \<le> n \<and> n \<le> 57 \<or> 65 \<le> n \<and> n \<le> 90 \<or> 97 \<le> n \<and> n \<le> 122 \<or>
         n \<in> {33, 35, 36, 37, 38, 39, 42, 43, 45, 46, 94, 95, 96, 124, 126})"

fun canonical_loop :: "bool \<Rightarrow> string \<Rightarrow> string" where
  "canonical_loop upper [] = []"
| "canonical_loop upper (c # s) =
     (if upper then ascii_upper c else ascii_lower c) # canonical_loop (c = CHR ''-'') s"

text \<open>\<open>textproto.CanonicalMIMEHeaderKey\<close>.\<close>

definition canonical_key :: "string \<Rightarrow> string" where
  "canonical_key k = (if \<forall>c \<in> set k. token_char c then canonical_loop True k else k)"

definition Header_Add :: "string \<Rightarrow> string \<Rightarrow> header \<Rightarrow> header" where
  "Header_Add k v h = h(canonical_key k := h (canonical_key k) @ [v])"

definition Header_Set :: "string \<Rightarrow> string \<Rightarrow> header \<Rightarrow> header" where
  "Header_Set k v h = h(canonical_key k := [v])"

definition Header_Get :: "string \<Rightarrow> header \<Rightarrow> string" where
  "Header_Get k h = (case h (canonical_key k) of [] \<Rightarrow> [] | v # _ \<Rightarrow> v)"

text \<open>The two nested loops that copy every value of every key.\<close>

definition copy_headers :: "header_entries \<Rightarrow> header \<Rightarrow> header" where
  "copy_headers es h = fold (\<lambda>(k, vs) h. fold (Header_Add k) vs h) es h"

definition header_of :: "header_entries \<Rightarrow> header" where
  "header_of es k = (case map_of es k of None \<Rightarrow> [] | Some vs \<Rightarrow> vs)"

text \<open>What a server hands on: the keys are canonical, each at most once.\<close>

definition canonical_entries :: "header_entries \<Rightarrow> bool" where
  "canonical_entries es \<longleftrightarrow> distinct (map fst es) \<and> (\<forall>k \<in> fst ` set es. canonical_key k = k)"

lemma add_values: "canonical_key k = k \<Longrightarrow> fold (Header_Add k) vs h = h(k := h k @ vs)"
  by (induction vs arbitrary: h) (auto simp: Header_Add_def)

lemma copy_headers_spec:
  assumes "canonical_entries es"
  shows "copy_headers es h k = h k @ header_of es k"
  using assms
proof (induction es arbitrary: h)
  case Nil
  then show ?case by (simp add: copy_headers_def header_of_def)
next
  case (Cons e es)
  obtain j vs where e: "e = (j, vs)" by (cases e)
  have "canonical_entries es" "canonical_key j = j" "j \<notin> fst ` set es"
    using Cons.prems by (auto simp: canonical_entries_def e)
  moreover have "header_of es j = []"
    using \<open>j \<notin> fst ` set es\<close> by (simp add: header_of_def map_of_eq_None_iff [THEN iffD2])
  ultimately show ?case
    using Cons.IH [of "h(j := h j @ vs)"]
    by (auto simp: copy_headers_def e add_values header_of_def fun_upd_def)
qed

section \<open>The copy of the response body\<close>

type_synonym 'r reader = "nat \<Rightarrow> 'r \<Rightarrow> (string \<times> go_error option) \<times> 'r"
type_synonym 'w writer = "string \<Rightarrow> 'w \<Rightarrow> (int \<times> go_error option) \<times> 'w"

definition io_EOF :: go_error where
  "io_EOF = errors_New ''EOF''"

definition buf_size :: nat where
  "buf_size = 32 * 1024"

definition ErrShortWrite :: go_error where
  "ErrShortWrite = errors_New ''short write''"

text \<open>\<open>if nr > 0 { ... }\<close>: either the end of the copy with its error, or the new count.\<close>

definition copy_chunk ::
  "'w writer \<Rightarrow> string \<Rightarrow> int \<Rightarrow> 'w \<Rightarrow> ((int \<times> go_error) + int) \<times> 'w" where
  "copy_chunk wr data written dst =
     (if data = [] then (Inr written, dst)
      else case wr data dst of
        ((nw, ew), dst') \<Rightarrow>
          let written' = (if nw > 0 then wrap64 (written + nw) else written)
          in (case ew of
                Some e \<Rightarrow> (Inl (written', e), dst')
              | None \<Rightarrow> if int (length data) \<noteq> nw then (Inl (written', ErrShortWrite), dst')
                        else (Inr written', dst')))"

partial_function (option) copy_loop ::
  "'r reader \<Rightarrow> 'w writer \<Rightarrow> int \<Rightarrow> 'r \<Rightarrow> 'w \<Rightarrow> ((int \<times> go_error option) \<times> 'w) option" where
  "copy_loop rd wr written src dst =
     (case rd buf_size src of
        ((data, err), src') \<Rightarrow>
          (case copy_chunk wr data written dst of
             (Inl (n, e), dst') \<Rightarrow> Some ((n, Some e), dst')
           | (Inr n, dst') \<Rightarrow>
               (case err of
                  Some e \<Rightarrow> Some ((n, if e = io_EOF then None else Some e), dst')
                | None \<Rightarrow> copy_loop rd wr n src' dst')))"

declare copy_loop.simps [code]

definition copyBuffer ::
  "'r reader \<Rightarrow> 'w writer \<Rightarrow> 'r \<Rightarrow> 'w \<Rightarrow> ((int \<times> go_error option) \<times> 'w) option" where
  "copyBuffer rd wr src dst = copy_loop rd wr 0 src dst"

text \<open>A reader that, after finitely many reads, ends with the error \<open>e\<close>, and the bytes it gave until then.\<close>

inductive reads_to :: "'r reader \<Rightarrow> 'r \<Rightarrow> string \<Rightarrow> go_error \<Rightarrow> bool" for rd where
  last_read: "rd buf_size src = ((data, Some e), src') \<Longrightarrow> reads_to rd src data e"
| more_reads: "rd buf_size src = ((data, None), src') \<Longrightarrow> reads_to rd src' rest e \<Longrightarrow>
    reads_to rd src (data @ rest) e"

text \<open>A writer that takes every byte it is given, with its effect \<open>put\<close>; and one that takes a prefix.\<close>

definition takes_all :: "'w writer \<Rightarrow> (string \<Rightarrow> 'w \<Rightarrow> 'w) \<Rightarrow> bool" where
  "takes_all wr put \<longleftrightarrow> (\<forall>data w. wr data w = ((int (length data), None), put data w)) \<and>
     (\<forall>w. put [] w = w) \<and> (\<forall>a b w. put (a @ b) w = put b (put a w))"

definition prefix_writer :: "'w writer \<Rightarrow> ('w \<Rightarrow> string) \<Rightarrow> bool" where
  "prefix_writer wr body \<longleftrightarrow> (\<forall>data w n e w'. wr data w = ((n, e), w') \<longrightarrow>
     (\<exists>k \<le> length data. n = int k \<and> body w' = body w @ take k data))"

lemma wrap64_add: "wrap64 (wrap64 a + b) = wrap64 (a + b)"
proof -
  have "signed_take_bit 63 (signed_take_bit 63 a + b) =
      signed_take_bit 63 (signed_take_bit 63 (signed_take_bit 63 a) + signed_take_bit 63 b)"
    by (simp only: signed_take_bit_add)
  also have "\<dots> = signed_take_bit 63 (signed_take_bit 63 a + signed_take_bit 63 b)" by simp
  finally show ?thesis by (simp add: wrap64_def signed_take_bit_add)
qed

lemma copy_chunk_all:
  assumes "takes_all wr put"
  shows "copy_chunk wr data (wrap64 n) w = (Inr (wrap64 (n + int (length data))), put data w)"
  using assms by (cases "data = []") (simp_all add: takes_all_def copy_chunk_def Let_def wrap64_add)

lemma copy_loop_complete:
  assumes "reads_to rd src data e" "takes_all wr put"
  shows "copy_loop rd wr (wrap64 n) src w =
    Some ((wrap64 (n + int (length data)), if e = io_EOF then None else Some e), put data w)"
  using assms(1)
proof (induction arbitrary: n w rule: reads_to.induct)
  case (last_read src data e src')
  with copy_chunk_all [OF assms(2)] show ?case by (subst copy_loop.simps) simp
next
  case (more_reads src data src' rest e)
  have "put (data @ rest) w = put rest (put data w)" using assms(2) by (simp add: takes_all_def)
  with more_reads.hyps(1) more_reads.IH [of "n + int (length data)" "put data w"] copy_chunk_all [OF assms(2)]
  show ?case by (subst copy_loop.simps) (simp add: add.assoc)
qed

lemma copyBuffer_all:
  assumes "reads_to rd src data e" "takes_all wr put"
  shows "copyBuffer rd wr src w =
    Some ((wrap64 (int (length data)), if e = io_EOF then None else Some e), put data w)"
  using copy_loop_complete [OF assms, of 0 w] by (simp add: copyBuffer_def wrap64_def)

text \<open>No error means no loss: the reader came to its end and the writer took every byte.\<close>

lemma copy_chunk_prefix:
  assumes "prefix_writer wr body" "copy_chunk wr data n w = (Inr m, w')"
  shows "body w' = body w @ data \<and> (m = n \<and> data = [] \<or> m = wrap64 (n + int (length data)))"
proof (cases "data = []")
  case True
  with assms(2) show ?thesis by (simp add: copy_chunk_def)
next
  case False
  obtain nw ew w1 where wr: "wr data w = ((nw, ew), w1)" by (metis prod.exhaust)
  have m: "nw = int (length data)" "w' = w1" "m = wrap64 (n + nw)"
    using assms(2) wr False by (auto simp: copy_chunk_def Let_def split: option.splits if_splits)
  obtain k where "k \<le> length data" "nw = int k" "body w1 = body w @ take k data"
    using assms(1) wr unfolding prefix_writer_def by blast
  with m show ?thesis by simp
qed

definition copied ::
  "'r reader \<Rightarrow> ('w \<Rightarrow> string) \<Rightarrow> 'r \<Rightarrow> 'w \<Rightarrow> (int \<times> go_error option) \<times> 'w \<Rightarrow> bool" where
  "copied rd body src w p \<longleftrightarrow>
     (snd (fst p) = None \<longrightarrow> (\<exists>data. reads_to rd src data io_EOF \<and> body (snd p) = body w @ data))"

lemma copy_step_sound:
  assumes "prefix_writer wr body"
    and r: "rd buf_size src = ((data, err), src')" and c: "copy_chunk wr data n w = (y, w1)"
    and p: "(case y of Inl (k, e) \<Rightarrow> Some ((k, Some e), w1)
       | Inr k \<Rightarrow> (case err of Some e \<Rightarrow> Some ((k, if e = io_EOF then None else Some e), w1)
                 | None \<Rightarrow> loop k src' w1)) = Some p"
    and loop: "\<And>k. loop k src' w1 = Some p \<Longrightarrow> copied rd body src' w1 p"
  shows "copied rd body src w p"
proof (cases y)
  case (Inl z)
  with p show ?thesis by (cases z) (auto simp: copied_def)
next
  case (Inr k)
  have b: "body w1 = body w @ data" using copy_chunk_prefix [OF assms(1)] c Inr by blast
  show ?thesis
  proof (cases err)
    case (Some e)
    with p r Inr b show ?thesis by (auto simp: copied_def intro: last_read split: if_splits)
  next
    case None
    with p Inr have "copied rd body src' w1 p" by (intro loop [of k]) simp
    with None r b show ?thesis
      unfolding copied_def by (metis append.assoc more_reads)
  qed
qed

lemma copy_loop_sound:
  assumes "prefix_writer wr body" "copy_loop rd wr n src w = Some p"
  shows "copied rd body src w p"
proof -
  have "prefix_writer wr body \<longrightarrow> copied rd body src w p"
  proof (rule copy_loop.raw_induct [OF _ assms(2)], intro impI)
    fix loop rd src n w p and wr :: "'a writer"
    assume ih: "\<And>rd wr n src w p. loop rd wr n src w = Some p \<Longrightarrow>
        prefix_writer wr body \<longrightarrow> copied rd body src w p"
      and eq: "(case rd buf_size src of ((data, err), src') \<Rightarrow>
          (case copy_chunk wr data n w of (Inl (n, e), dst') \<Rightarrow> Some ((n, Some e), dst')
           | (Inr n, dst') \<Rightarrow> (case err of None \<Rightarrow> loop rd wr n src' dst'
               | Some e \<Rightarrow> Some ((n, if e = io_EOF then None else Some e), dst')))) = Some p"
      and wr: "prefix_writer wr body"
    obtain data err src' where r: "rd buf_size src = ((data, err), src')" by (metis prod.exhaust)
    obtain y w1 where c: "copy_chunk wr data n w = (y, w1)" by (cases "copy_chunk wr data n w")
    show "copied rd body src w p"
      by (rule copy_step_sound [where rd = rd and wr = wr and loop = "loop rd wr", OF wr r c])
        (use eq r c ih wr in \<open>auto split: sum.splits option.splits\<close>)
  qed
  with assms(1) show ?thesis by blast
qed

section \<open>The reverse proxy\<close>

record gateway_request =
  gq_method :: string
  gq_path :: string
  gq_query :: string
  gq_headers :: header_entries
  gq_host :: string
  gq_remote :: string
  gq_body :: string

record out_request =
  or_method :: string
  or_url :: string
  or_header :: header
  or_body :: string

record 'r upstream_response =
  up_status :: int
  up_headers :: header_entries
  up_body :: 'r

text \<open>The response as the client gets it; \<open>WriteHeader\<close> counts once.\<close>

record response_writer =
  wr_status :: "int option"
  wr_header :: header
  wr_body :: string

definition WriteHeader :: "int \<Rightarrow> response_writer \<Rightarrow> response_writer" where
  "WriteHeader code w = (case wr_status w of None \<Rightarrow> w\<lparr>wr_status := Some code\<rparr> | Some _ \<Rightarrow> w)"

definition fresh_writer :: response_writer where
  "fresh_writer = \<lparr>wr_status = None, wr_header = (\<lambda>_. []), wr_body = []\<rparr>"

text \<open>\<open>http.Error\<close>.\<close>

definition http_Error :: "response_writer writer \<Rightarrow> string \<Rightarrow> int \<Rightarrow> response_writer \<Rightarrow> response_writer" where
  "http_Error wr msg code w =
     snd (wr (msg @ [CHR 0x0A])
       (WriteHeader code (w\<lparr>wr_header := Header_Set ''X-Content-Type-Options'' ''nosniff''
          (Header_Set ''Content-Type'' ''text/plain; charset=utf-8'' ((wr_header w)(''Content-Length'' := [])))\<rparr>)))"

text \<open>
  The world of the gateway: \<open>http.NewRequest\<close> refuses a method or a URL that does not parse,
  \<open>client.Do\<close> runs the request on the state of the services.
\<close>

record ('r, 's) network =
  nw_check :: "string \<Rightarrow> string \<Rightarrow> go_error option"
  nw_do :: "out_request \<Rightarrow> 's \<Rightarrow> 'r upstream_response result \<times> 's"
  nw_read :: "'r reader"
  nw_write :: "response_writer writer"

definition service_target :: "string \<Rightarrow> string" where
  "service_target serviceURL =
     (if \<not> hasPrefix serviceURL ''http://'' \<and> \<not> hasPrefix serviceURL ''https://'' then ''http://'' @ serviceURL
      else serviceURL)"

definition target_url :: "string \<Rightarrow> gateway_request \<Rightarrow> string" where
  "target_url target rq =
     (if gq_query rq \<noteq> [] then (target @ gq_path rq) @ ''?'' @ gq_query rq else target @ gq_path rq)"

definition proxy_header :: "gateway_request \<Rightarrow> header" where
  "proxy_header rq =
     Header_Set ''X-Gateway'' ''library-system-api-gateway''
       (Header_Set ''X-Forwarded-For'' (gq_remote rq)
         (Header_Set ''X-Forwarded-Host'' (gq_host rq) (copy_headers (gq_headers rq) (\<lambda>_. []))))"

definition createServiceProxy ::
  "('r, 's) network \<Rightarrow> string \<Rightarrow> gateway_request \<Rightarrow> response_writer \<Rightarrow> 's \<Rightarrow> (response_writer \<times> 's) option" where
  "createServiceProxy nw serviceURL rq w s =
     (if serviceURL = [] then Some (http_Error (nw_write nw) ''Service not configured'' 503 w, s)
      else
        let targetURL = target_url (service_target serviceURL) rq
        in (case nw_check nw (gq_method rq) targetURL of
              Some e \<Rightarrow> Some (http_Error (nw_write nw) ''Service unavailable'' 503 w, s)
            | None \<Rightarrow>
                (case nw_do nw \<lparr>or_method = gq_method rq, or_url = targetURL, or_header = proxy_header rq,
                                or_body = gq_body rq\<rparr> s of
                   (Inl e, s') \<Rightarrow> Some (http_Error (nw_write nw) ''Service unavailable'' 503 w, s')
                 | (Inr resp, s') \<Rightarrow>
                     let w1 = WriteHeader (up_status resp)
                                (w\<lparr>wr_header := copy_headers (up_headers resp) (wr_header w)\<rparr>)
                     in (case copyBuffer (nw_read nw) (nw_write nw) (up_body resp) w1 of
                           None \<Rightarrow> None
                         | Some (_, w2) \<Rightarrow> Some (w2, s')))))"

text \<open>The routes of \<open>setupServiceProxies\<close>: path prefixes and their handlers.\<close>

record gateway_config =
  gc_app_name :: string
  gc_app_env :: string
  gc_server_port :: string
  gc_log_level :: string
  gc_jwt_secret :: string
  gc_book_http :: string
  gc_category_http :: string
  gc_user_http :: string
  gc_book_grpc :: string
  gc_category_grpc :: string
  gc_user_grpc :: string
  gc_rate_ip :: rat
  gc_rate_ip_burst :: int
  gc_rate_global :: rat
  gc_rate_global_burst :: int

definition setupServiceProxies ::
  "('r, 's) network \<Rightarrow> gateway_config \<Rightarrow>
   (string \<times> (gateway_request \<Rightarrow> response_writer \<Rightarrow> 's \<Rightarrow> (response_writer \<times> 's) option)) list" where
  "setupServiceProxies nw cfg =
     (let userProxy = createServiceProxy nw (gc_user_http cfg)
      in [(''/api/books'', createServiceProxy nw (gc_book_http cfg)),
          (''/api/categories'', createServiceProxy nw (gc_category_http cfg)),
          (''/api/users'', userProxy), (''/api/auth'', userProxy)])"

section \<open>Fallback handlers\<close>

definition JSONNotFound :: "gateway_request \<Rightarrow> http_response" where
  "JSONNotFound rq =
     \<lparr>rs_status = 404, rs_body = JObj [(''error'', JStr ''Not Found''),
        (''message'', JStr ''The requested resource was not found''), (''path'', JStr (gq_path rq)),
        (''status_code'', JInt 404)]\<rparr>"

definition JSONMethodNotAllowed :: "gateway_request \<Rightarrow> http_response" where
  "JSONMethodNotAllowed rq =
     \<lparr>rs_status = 405, rs_body = JObj [(''error'', JStr ''Method Not Allowed''),
        (''message'', JStr (''Method '' @ gq_method rq @ '' is not allowed for this resource'')),
        (''path'', JStr (gq_path rq)), (''status_code'', JInt 405)]\<rparr>"

section \<open>Health\<close>

definition health_url :: "string \<Rightarrow> string" where
  "health_url serviceURL =
     (let url = service_target serviceURL
      in if \<not> hasSuffix url ''/health'' then trimSuffix url ''/'' @ ''/health'' else url)"

text \<open>\<open>get\<close> is \<open>client.Get\<close>: the status of the answer, or an error.\<close>

definition checkServiceHealth :: "(string \<Rightarrow> int result) \<Rightarrow> string \<Rightarrow> string" where
  "checkServiceHealth get serviceURL =
     (if serviceURL = [] then ''unknown''
      else case get (health_url serviceURL) of
        Inl e \<Rightarrow> ''error''
      | Inr st \<Rightarrow> if st \<noteq> 200 then ''error'' else ''ok'')"

record gateway_health =
  gh_status :: string
  gh_version :: string
  gh_timestamp :: time
  gh_services :: "(string \<times> string) list"

definition gateway_health_handler :: "(string \<Rightarrow> int result) \<Rightarrow> gateway_config \<Rightarrow> time \<Rightarrow> gateway_health" where
  "gateway_health_handler get cfg now =
     (let bookStatus = checkServiceHealth get (gc_book_http cfg);
          categoryStatus = checkServiceHealth get (gc_category_http cfg);
          userStatus = checkServiceHealth get (gc_user_http cfg)
      in \<lparr>gh_status = (if bookStatus \<noteq> ''ok'' \<or> categoryStatus \<noteq> ''ok'' \<or> userStatus \<noteq> ''ok''
                       then ''degraded'' else ''ok''),
          gh_version = ''1.0.0'', gh_timestamp = now,
          gh_services = [(''book-service'', bookStatus), (''category-service'', categoryStatus),
                         (''user-service'', userStatus)]\<rparr>)"

section \<open>Configuration\<close>

text \<open>The text of the parse error at the end of the two messages is left out.\<close>

definition gateway_getEnvAsInt :: "environment \<Rightarrow> string \<Rightarrow> int \<Rightarrow> int result" where
  "gateway_getEnvAsInt env key defaultValue =
     (let value = Getenv env key
      in if value = [] then Inr defaultValue
         else case atoi value of
           None \<Rightarrow> Inl (errors_New (''invalid value for '' @ key))
         | Some n \<Rightarrow> Inr n)"

text \<open>\<open>parse\<close> is \<open>strconv.ParseFloat\<close>.\<close>

definition gateway_getEnvAsFloat ::
  "(string \<Rightarrow> rat option) \<Rightarrow> environment \<Rightarrow> string \<Rightarrow> rat \<Rightarrow> rat result" where
  "gateway_getEnvAsFloat parse env key defaultValue =
     (let value = Getenv env key
      in if value = [] then Inr defaultValue
         else case parse value of
           None \<Rightarrow> Inl (errors_New (''invalid value for '' @ key))
         | Some x \<Rightarrow> Inr x)"

text \<open>The HTTP address of a service: its own variable, else the older one with the port replaced.\<close>

definition service_http_url :: "environment \<Rightarrow> string \<Rightarrow> string \<Rightarrow> string \<Rightarrow> string" where
  "service_http_url env httpKey urlKey port =
     (if Getenv env httpKey = []
      then (let u = Getenv env urlKey
            in if u \<noteq> [] \<and> \<not> str_contains u port then (str_split (CHR '':'') u) ! 0 @ port else u)
      else Getenv env httpKey)"

definition or_default :: "string \<Rightarrow> string \<Rightarrow> string" where
  "or_default v d = (if v = [] then d else v)"

definition loadAPIGatewayConfig :: "(string \<Rightarrow> rat option) \<Rightarrow> environment \<Rightarrow> gateway_config result" where
  "loadAPIGatewayConfig parse env =
     (if Getenv env ''APP_NAME'' = []
      then Inl (errors_New ''required environment variable not set: APP_NAME'')
      else if Getenv env ''JWT_SECRET'' = []
      then Inl (errors_New ''required environment variable not set: JWT_SECRET'')
      else
        (case gateway_getEnvAsFloat parse env ''RATE_LIMIT_IP'' 10 of Inl e \<Rightarrow> Inl e
         | Inr rateIP \<Rightarrow> (case gateway_getEnvAsInt env ''RATE_LIMIT_IP_BURST'' 20 of Inl e \<Rightarrow> Inl e
         | Inr rateIPBurst \<Rightarrow> (case gateway_getEnvAsFloat parse env ''RATE_LIMIT_GLOBAL'' 100 of Inl e \<Rightarrow> Inl e
         | Inr rateGlobal \<Rightarrow> (case gateway_getEnvAsInt env ''RATE_LIMIT_GLOBAL_BURST'' 200 of Inl e \<Rightarrow> Inl e
         | Inr rateGBurst \<Rightarrow> Inr
             \<lparr>gc_app_name = Getenv env ''APP_NAME'', gc_app_env = or_default (Getenv env ''APP_ENV'') ''development'',
              gc_server_port = or_default (Getenv env ''SERVER_PORT'') ''8000'',
              gc_log_level = or_default (Getenv env ''LOG_LEVEL'') ''info'',
              gc_jwt_secret = Getenv env ''JWT_SECRET'',
              gc_book_http = service_http_url env ''BOOK_SERVICE_HTTP_URL'' ''BOOK_SERVICE_URL'' '':8080'',
              gc_category_http = service_http_url env ''CATEGORY_SERVICE_HTTP_URL'' ''CATEGORY_SERVICE_URL'' '':8081'',
              gc_user_http = service_http_url env ''USER_SERVICE_HTTP_URL'' ''USER_SERVICE_URL'' '':8082'',
              gc_book_grpc = Getenv env ''BOOK_SERVICE_GRPC_URL'',
              gc_category_grpc = Getenv env ''CATEGORY_SERVICE_GRPC_URL'',
              gc_user_grpc = Getenv env ''USER_SERVICE_GRPC_URL'',
              gc_rate_ip = rateIP, gc_rate_ip_burst = rateIPBurst, gc_rate_global = rateGlobal,
              gc_rate_global_burst = rateGBurst\<rparr>)))))"

section \<open>The older proxy\<close>

text \<open>
  \<open>internal/proxy/proxy.go\<close>, over \<open>httputil\<close>: \<open>parse\<close> is \<open>url.Parse\<close>, \<open>reverse\<close> makes the
  reverse proxy of a target.
\<close>

definition formatURL :: "string \<Rightarrow> string" where
  "formatURL serviceURL =
     (if \<not> hasPrefix serviceURL ''http://'' \<and> \<not> hasPrefix serviceURL ''https://'' then ''http://'' @ serviceURL
      else serviceURL)"

record proxy_config =
  px_book :: string
  px_category :: string
  px_user :: string

text \<open>One block of \<open>NewServiceProxy\<close>: an empty address adds no service.\<close>

definition add_service ::
  "(string \<Rightarrow> 'u result) \<Rightarrow> ('u \<Rightarrow> 'p) \<Rightarrow> string \<Rightarrow> string \<Rightarrow> (string \<rightharpoonup> 'p) result \<Rightarrow> (string \<rightharpoonup> 'p) result" where
  "add_service parse reverse name url acc =
     (case acc of
        Inl e \<Rightarrow> Inl e
      | Inr m \<Rightarrow>
          if url = [] then Inr m
          else case parse (formatURL url) of
            Inl e \<Rightarrow> Inl e
          | Inr target \<Rightarrow> Inr (m(name \<mapsto> reverse target)))"

definition NewServiceProxy ::
  "(string \<Rightarrow> 'u result) \<Rightarrow> ('u \<Rightarrow> 'p) \<Rightarrow> proxy_config \<Rightarrow> (string \<rightharpoonup> 'p) result" where
  "NewServiceProxy parse reverse cfg =
     add_service parse reverse ''user'' (px_user cfg)
       (add_service parse reverse ''category'' (px_category cfg)
         (add_service parse reverse ''book'' (px_book cfg) (Inr Map.empty)))"

definition RegisterHandlers :: "(string \<rightharpoonup> 'p) \<Rightarrow> (string \<times> 'p) list" where
  "RegisterHandlers services =
     (case services ''book'' of None \<Rightarrow> [] | Some p \<Rightarrow> [(''/api/books/'', p)]) @
     (case services ''category'' of None \<Rightarrow> [] | Some p \<Rightarrow> [(''/api/categories/'', p)]) @
     (case services ''user'' of None \<Rightarrow> [] | Some p \<Rightarrow> [(''/api/users/'', p), (''/api/auth/'', p)])"

text \<open>The director and the error handler that \<open>createReverseProxy\<close> installs.\<close>

definition reverse_director :: "(out_request \<Rightarrow> out_request) \<Rightarrow> out_request \<Rightarrow> out_request" where
  "reverse_director original rq =
     (let r1 = original rq;
          requestID = Header_Get ''X-Request-ID'' (or_header r1);
          r2 = (if requestID \<noteq> [] then r1\<lparr>or_header := Header_Set ''X-Request-ID'' requestID (or_header r1)\<rparr> else r1)
      in r2\<lparr>or_header := Header_Set ''X-Forwarded-By'' ''api-gateway'' (or_header r2)\<rparr>)"

definition reverse_error :: "response_writer writer \<Rightarrow> response_writer \<Rightarrow> response_writer" where
  "reverse_error wr w = snd (wr ''Service temporarily unavailable'' (WriteHeader 502 w))"

lemma service_target_formatURL: "service_target = formatURL"
  by (intro ext) (simp add: service_target_def formatURL_def)

section \<open>Lemmas\<close>

lemma gateway_keys [simp]:
  "canonical_key ''X-Gateway'' = ''X-Gateway''" "canonical_key ''X-Forwarded-For'' = ''X-Forwarded-For''"
  "canonical_key ''X-Forwarded-Host'' = ''X-Forwarded-Host''"
  by code_simp+

lemma proxy_header_spec:
  assumes "canonical_entries (gq_headers rq)"
  shows "proxy_header rq = (header_of (gq_headers rq))
    (''X-Forwarded-Host'' := [gq_host rq], ''X-Forwarded-For'' := [gq_remote rq],
     ''X-Gateway'' := [''library-system-api-gateway''])"
  by (rule ext) (simp add: proxy_header_def Header_Set_def copy_headers_spec [OF assms])

text \<open>A client that stays connected.\<close>

definition add_body :: "string \<Rightarrow> response_writer \<Rightarrow> response_writer" where
  "add_body data w = w\<lparr>wr_body := wr_body w @ data\<rparr>"

text \<open>A response that has not begun gets the status, the headers after its own, and the whole body.\<close>

lemma createServiceProxy_into:
  assumes "serviceURL \<noteq> []"
    and "nw_check nw (gq_method rq) (target_url (service_target serviceURL) rq) = None"
    and "nw_do nw \<lparr>or_method = gq_method rq, or_url = target_url (service_target serviceURL) rq,
        or_header = proxy_header rq, or_body = gq_body rq\<rparr> s = (Inr resp, s')"
    and "canonical_entries (up_headers resp)"
    and "reads_to (nw_read nw) (up_body resp) data e" and "takes_all (nw_write nw) add_body"
    and "wr_status w = None"
  shows "createServiceProxy nw serviceURL rq w s =
    Some (\<lparr>wr_status = Some (up_status resp), wr_header = (\<lambda>k. wr_header w k @ header_of (up_headers resp) k),
           wr_body = wr_body w @ data\<rparr>, s')"
proof -
  have "copy_headers (up_headers resp) (wr_header w) = (\<lambda>k. wr_header w k @ header_of (up_headers resp) k)"
    by (rule ext) (rule copy_headers_spec [OF assms(4)])
  with assms(1-3,7) show ?thesis
    by (simp add: createServiceProxy_def Let_def WriteHeader_def copyBuffer_all [OF assms(5,6)] add_body_def)
qed

lemma createServiceProxy_forward:
  assumes "serviceURL \<noteq> []"
    and "nw_check nw (gq_method rq) (target_url (service_target serviceURL) rq) = None"
    and "nw_do nw \<lparr>or_method = gq_method rq, or_url = target_url (service_target serviceURL) rq,
        or_header = proxy_header rq, or_body = gq_body rq\<rparr> s = (Inr resp, s')"
    and "canonical_entries (up_headers resp)"
    and "reads_to (nw_read nw) (up_body resp) data e" and "takes_all (nw_write nw) add_body"
  shows "createServiceProxy nw serviceURL rq fresh_writer s =
    Some (\<lparr>wr_status = Some (up_status resp), wr_header = header_of (up_headers resp), wr_body = data\<rparr>, s')"
  using createServiceProxy_into [OF assms, of fresh_writer] by (simp add: fresh_writer_def)

text \<open>The proxy returns whenever the bodies it is sent come to an end, whatever the client does.\<close>

lemma copy_loop_returns:
  assumes "reads_to rd src data e"
  shows "\<exists>p. copy_loop rd wr n src w = Some p"
  using assms
proof (induction arbitrary: n w rule: reads_to.induct)
  case (last_read src data e src')
  then show ?case by (subst copy_loop.simps) (auto split: prod.split sum.split)
next
  case (more_reads src data src' rest e)
  then show ?case by (subst copy_loop.simps) (auto split: prod.split sum.split)
qed

definition bodies_end :: "('r, 's) network \<Rightarrow> bool" where
  "bodies_end nw \<longleftrightarrow> (\<forall>q s resp s'. nw_do nw q s = (Inr resp, s') \<longrightarrow>
     (\<exists>data e. reads_to (nw_read nw) (up_body resp) data e))"

lemma createServiceProxy_returns:
  assumes "bodies_end nw"
  shows "\<exists>y. createServiceProxy nw serviceURL rq w s = Some y"
proof -
  have "\<exists>n e w'. copyBuffer (nw_read nw) (nw_write nw) (up_body resp) v = Some ((n, e), w')"
    if "nw_do nw q s = (Inr resp, s')" for q resp s' v
  proof -
    obtain data e where "reads_to (nw_read nw) (up_body resp) data e"
      using assms \<open>nw_do nw q s = (Inr resp, s')\<close> unfolding bodies_end_def by blast
    from copy_loop_returns [OF this] show ?thesis unfolding copyBuffer_def by (metis surj_pair)
  qed
  note copy = this
  let ?q = "\<lparr>or_method = gq_method rq, or_url = target_url (service_target serviceURL) rq,
    or_header = proxy_header rq, or_body = gq_body rq\<rparr>"
  obtain x s' where run: "nw_do nw ?q s = (x, s')" by (cases "nw_do nw ?q s")
  show ?thesis
  proof (cases x)
    case (Inl e)
    with run show ?thesis by (simp add: createServiceProxy_def Let_def split: option.split)
  next
    case (Inr resp)
    with run copy [of ?q resp s' "WriteHeader (up_status resp)
        (w\<lparr>wr_header := copy_headers (up_headers resp) (wr_header w)\<rparr>)"]
    show ?thesis by (auto simp: createServiceProxy_def Let_def split: option.split)
  qed
qed

text \<open>One request to the proxy is at most one request to a service.\<close>

lemma createServiceProxy_calls:
  assumes "createServiceProxy nw serviceURL rq w s = Some (w', s')"
  shows "s' = s \<or> (\<exists>q. s' = snd (nw_do nw q s) \<and> or_method q = gq_method rq \<and> or_header q = proxy_header rq)"
proof -
  let ?q = "\<lparr>or_method = gq_method rq, or_url = target_url (service_target serviceURL) rq,
    or_header = proxy_header rq, or_body = gq_body rq\<rparr>"
  have "s' = s \<or> s' = snd (nw_do nw ?q s)"
    using assms by (auto simp: createServiceProxy_def Let_def split: if_splits option.splits prod.splits sum.splits)
  moreover have "or_method ?q = gq_method rq \<and> or_header ?q = proxy_header rq" by simp
  ultimately show ?thesis by blast
qed

text \<open>The three overrides survive any copied header; the other keys arrive as they came.\<close>

lemma service_unavailable:
  assumes "takes_all (nw_write nw) add_body"
  shows "wr_status (http_Error (nw_write nw) msg code fresh_writer) = Some code"
    "wr_body (http_Error (nw_write nw) msg code fresh_writer) = msg @ [CHR 0x0A]"
  using assms by (simp_all add: http_Error_def takes_all_def WriteHeader_def fresh_writer_def add_body_def)

end
