(* ===== verification/Routes.thy ===== *)
theory Routes
  imports CategoryHandlers UserHandlers BookHandlers JwtAuth Gateway
begin

text \<open>
  The HTTP surface of the three services: the route tables of \<open>SetupRoutes\<close> with the middleware each
  route stands behind, and the health handlers. \<open>github.com/gorilla/mux\<close>, which picks the route of a
  request, is a parameter with its documented contract: routes are tried in the order they were
  registered, the first one whose method and path template match is taken.
\<close>

record 's route =
  rt_methods :: "string list"
  rt_path :: string
  rt_handler :: "'s http_handler"

abbreviation route :: "string list \<Rightarrow> string \<Rightarrow> 's http_handler \<Rightarrow> 's route" where
  "route ms p h \<equiv> \<lparr>rt_methods = ms, rt_path = p, rt_handler = h\<rparr>"

section \<open>Route tables\<close>

text \<open>\<open>guard\<close> is the middleware of the protected subrouter.\<close>

definition book_routes ::
  "('s http_handler \<Rightarrow> 's http_handler) \<Rightarrow> uuid_lib \<Rightarrow> validator \<Rightarrow> 's book_service \<Rightarrow> book_env \<Rightarrow> 's route list" where
  "book_routes guard ul vd svc env =
     [route [''GET''] ''/api/books'' (HandleListBooks svc),
      route [''GET''] ''/api/books/search'' (HandleSearchBooks svc),
      route [''GET''] ''/api/books/isbn'' (HandleGetBookByISBN svc),
      route [''GET''] ''/api/books/category/{categoryId}'' (HandleGetBooksByCategory svc),
      route [''GET''] ''/api/books/{id}'' (HandleGetBook ul svc),
      route [''POST''] ''/api/books'' (guard (HandleCreateBook vd svc env)),
      route [''PUT'', ''PATCH''] ''/api/books/{id}'' (guard (HandleUpdateBook ul vd svc env)),
      route [''DELETE''] ''/api/books/{id}'' (guard (HandleDeleteBook ul svc))]"

definition category_routes ::
  "('s http_handler \<Rightarrow> 's http_handler) \<Rightarrow> uuid_lib \<Rightarrow> validator \<Rightarrow> 's category_service \<Rightarrow> new_row_env \<Rightarrow>
   's route list" where
  "category_routes guard ul vd svc env =
     [route [''GET''] ''/api/categories'' (HandleListCategories svc),
      route [''GET''] ''/api/categories/name'' (HandleGetCategoryByName svc),
      route [''GET''] ''/api/categories/{id}'' (HandleGetCategory ul svc),
      route [''GET''] ''/api/categories/{id}/children'' (HandleGetCategoryChildren ul svc),
      route [''POST''] ''/api/categories'' (guard (HandleCreateCategory vd svc env)),
      route [''PUT'', ''PATCH''] ''/api/categories/{id}'' (guard (HandleUpdateCategory ul vd svc)),
      route [''DELETE''] ''/api/categories/{id}'' (guard (HandleDeleteCategory ul svc))]"

definition user_routes ::
  "('s http_handler \<Rightarrow> 's http_handler) \<Rightarrow> uuid_lib \<Rightarrow> validator \<Rightarrow> 's user_service \<Rightarrow> 's auth_service \<Rightarrow>
   's route list" where
  "user_routes guard ul vd svc au =
     [route [''POST''] ''/api/auth/login'' (HandleLogin vd au),
      route [''POST''] ''/api/auth/register'' (HandleRegister vd au),
      route [''POST''] ''/api/auth/refresh'' (HandleRefreshToken vd au),
      route [''POST''] ''/api/auth/logout'' (guard (HandleLogout au)),
      route [''POST''] ''/api/users'' (guard (HandleCreateUser vd svc)),
      route [''GET''] ''/api/users'' (guard (HandleListUsers svc)),
      route [''GET''] ''/api/users/{id}'' (guard (HandleGetUser ul svc)),
      route [''PUT'', ''PATCH''] ''/api/users/{id}'' (guard (HandleUpdateUser ul vd svc)),
      route [''DELETE''] ''/api/users/{id}'' (guard (HandleDeleteUser ul svc)),
      route [''PUT''] ''/api/users/{id}/password'' (guard (HandleChangePassword ul vd svc)),
      route [''GET''] ''/api/users/email'' (guard (HandleGetUserByEmail svc)),
      route [''GET''] ''/api/users/username'' (guard (HandleGetUserByUsername svc))]"

section \<open>The router\<close>

text \<open>
  \<open>mx_matches\<close>: a path template matches a path. \<open>mx_route\<close>: the index of the route taken for a
  method and a path.
\<close>

record mux_lib =
  mx_matches :: "string \<Rightarrow> string \<Rightarrow> bool"
  mx_route :: "(string list \<times> string) list \<Rightarrow> string \<Rightarrow> string \<Rightarrow> nat option"

definition mux_laws :: "mux_lib \<Rightarrow> bool" where
  "mux_laws mx \<longleftrightarrow>
     (\<forall>rs m p k. mx_route mx rs m p = Some k \<longrightarrow>
        k < length rs \<and> m \<in> set (fst (rs ! k)) \<and> mx_matches mx (snd (rs ! k)) p \<and>
        (\<forall>j < k. \<not> (m \<in> set (fst (rs ! j)) \<and> mx_matches mx (snd (rs ! j)) p)))"

text \<open>A variable in braces matches any segment, hence whatever a fixed segment in its place matches.\<close>

definition mux_variable :: "mux_lib \<Rightarrow> string \<Rightarrow> bool" where
  "mux_variable mx pre \<longleftrightarrow>
     (\<forall>seg p. seg \<noteq> [] \<and> CHR ''/'' \<notin> set seg \<and> mx_matches mx (pre @ ''/'' @ seg) p \<longrightarrow>
        mx_matches mx (pre @ ''/{id}'') p)"

definition route_table :: "'s route list \<Rightarrow> (string list \<times> string) list" where
  "route_table rs = map (\<lambda>r. (rt_methods r, rt_path r)) rs"

text \<open>A request answered by the router; \<open>None\<close> when no route matches.\<close>

definition serve_http ::
  "mux_lib \<Rightarrow> 's route list \<Rightarrow> string \<Rightarrow> string \<Rightarrow> http_request \<Rightarrow> 's \<Rightarrow> (http_response \<times> 's) option" where
  "serve_http mx rs m p rq s =
     (case mx_route mx (route_table rs) m p of
        None \<Rightarrow> None
      | Some k \<Rightarrow> Some (rt_handler (rs ! k) rq s))"

lemma serve_http_route:
  assumes "mux_laws mx" "serve_http mx rs m p rq s = Some y"
  obtains rt where "rt \<in> set rs" "m \<in> set (rt_methods rt)" "rt_handler rt rq s = y"
proof -
  obtain k where k: "mx_route mx (route_table rs) m p = Some k" "y = rt_handler (rs ! k) rq s"
    using assms(2) by (auto simp: serve_http_def split: option.splits)
  with assms(1) have "k < length rs" "m \<in> set (rt_methods (rs ! k))"
    unfolding mux_laws_def by (fastforce simp: route_table_def)+
  with that [of "rs ! k"] k show ?thesis by simp
qed

text \<open>A literal segment registered after the variable of the same place is never reached.\<close>

lemma shadowed_route:
  assumes "mux_laws mx" "mux_variable mx pre"
    and "mx_route mx rs m p = Some k" "j < k" "rs ! j = (ms, pre @ ''/{id}'')" "m \<in> set ms"
    and "seg \<noteq> []" "CHR ''/'' \<notin> set seg"
  shows "snd (rs ! k) \<noteq> pre @ ''/'' @ seg"
proof
  assume k: "snd (rs ! k) = pre @ ''/'' @ seg"
  then have "mx_matches mx (pre @ ''/'' @ seg) p" using assms(1,3) unfolding mux_laws_def by metis
  then have "mx_matches mx (pre @ ''/{id}'') p" using assms(2,7,8) unfolding mux_variable_def by blast
  with assms(1,3-6) show False unfolding mux_laws_def by (metis fst_conv snd_conv)
qed

section \<open>Health\<close>

text \<open>
  \<open>ping\<close> is \<open>db.PingContext\<close>. The three services have one copy of the handler each, the user service the
  first one here.
\<close>

definition health_json :: "time \<Rightarrow> go_error option \<Rightarrow> json" where
  "health_json now err = JObj
     [(''status'', JStr (case err of None \<Rightarrow> ''ok'' | Some _ \<Rightarrow> ''error'')), (''version'', JStr ''1.0.0''),
      (''timestamp'', JTime now),
      (''checks'', JObj [(''database'', JStr (case err of None \<Rightarrow> ''ok'' | Some e \<Rightarrow> ''error: '' @ err_msg e))])]"

definition HandleHealth :: "('s \<Rightarrow> go_error option \<times> 's) \<Rightarrow> time \<Rightarrow> 's http_handler" where
  "HandleHealth ping now rq s =
     (case ping s of (err, s') \<Rightarrow> (RespondWithJSON 200 (Inr (health_json now err)), s'))"

definition GRPCHealth :: "('s \<Rightarrow> go_error option \<times> 's) \<Rightarrow> time \<Rightarrow> 's \<Rightarrow> json grpc_result \<times> 's" where
  "GRPCHealth ping now s = (case ping s of (err, s') \<Rightarrow> (Inr (health_json now err), s'))"

text \<open>The copy of the book service.\<close>

definition book_health_json :: "time \<Rightarrow> go_error option \<Rightarrow> json" where
  "book_health_json now err =
     (let response = (\<lambda>st database. JObj [(''status'', JStr st), (''version'', JStr ''1.0.0''), (''timestamp'', JTime now),
            (''checks'', JObj [(''database'', JStr database)])])
      in case err of None \<Rightarrow> response ''ok'' ''ok'' | Some e \<Rightarrow> response ''error'' (''error: '' @ err_msg e))"

definition book_HandleHealth :: "('s \<Rightarrow> go_error option \<times> 's) \<Rightarrow> time \<Rightarrow> 's http_handler" where
  "book_HandleHealth ping now rq s =
     (case ping s of (err, s') \<Rightarrow> (RespondWithJSON 200 (Inr (book_health_json now err)), s'))"

definition book_GRPCHealth :: "('s \<Rightarrow> go_error option \<times> 's) \<Rightarrow> time \<Rightarrow> 's \<Rightarrow> json grpc_result \<times> 's" where
  "book_GRPCHealth ping now s = (case ping s of (err, s') \<Rightarrow> (Inr (book_health_json now err), s'))"

text \<open>The copy of the category service.\<close>

definition category_health_json :: "time \<Rightarrow> go_error option \<Rightarrow> json" where
  "category_health_json now err =
     (let response = (\<lambda>st database. JObj [(''status'', JStr st), (''version'', JStr ''1.0.0''), (''timestamp'', JTime now),
            (''checks'', JObj [(''database'', JStr database)])])
      in case err of None \<Rightarrow> response ''ok'' ''ok'' | Some e \<Rightarrow> response ''error'' (''error: '' @ err_msg e))"

definition category_HandleHealth :: "('s \<Rightarrow> go_error option \<times> 's) \<Rightarrow> time \<Rightarrow> 's http_handler" where
  "category_HandleHealth ping now rq s =
     (case ping s of (err, s') \<Rightarrow> (RespondWithJSON 200 (Inr (category_health_json now err)), s'))"

definition category_GRPCHealth :: "('s \<Rightarrow> go_error option \<times> 's) \<Rightarrow> time \<Rightarrow> 's \<Rightarrow> json grpc_result \<times> 's" where
  "category_GRPCHealth ping now s = (case ping s of (err, s') \<Rightarrow> (Inr (category_health_json now err), s'))"

lemma health_copies:
  "book_HandleHealth = HandleHealth" "category_HandleHealth = HandleHealth"
  "book_GRPCHealth = GRPCHealth" "category_GRPCHealth = GRPCHealth"
proof -
  have "book_health_json = health_json" "category_health_json = health_json"
    by (auto simp: fun_eq_iff book_health_json_def category_health_json_def health_json_def Let_def split: option.split)
  then show "book_HandleHealth = HandleHealth" "category_HandleHealth = HandleHealth"
    "book_GRPCHealth = GRPCHealth" "category_GRPCHealth = GRPCHealth"
    by (auto simp: fun_eq_iff book_HandleHealth_def category_HandleHealth_def book_GRPCHealth_def
        category_GRPCHealth_def HandleHealth_def GRPCHealth_def split: prod.split)
qed

lemma HandleHealth_ok: "rs_status (fst (HandleHealth ping now rq s)) = 200"
  by (simp add: HandleHealth_def RespondWithJSON_def split: prod.split)

section \<open>What stands behind the token check\<close>

text \<open>
  A guarded handler that leaves the state alone for callers who are neither administrator nor
  librarian changes it only for a verified token with one of these roles.
\<close>

definition staff_token :: "jwt_auth \<Rightarrow> time \<Rightarrow> http_request \<Rightarrow> bool" where
  "staff_token j now rq \<longleftrightarrow>
     (\<exists>tok c alg. bearer_token (rq_header rq ''Authorization'') = Some tok \<and>
        jwt_verifies (ja_lib j) (HMAC alg) (ja_secret j) tok c \<and> now < cl_expires c \<and>
        (cl_role c = RoleAdmin \<or> cl_role c = RoleLibrarian))"

lemma guarded_staff:
  assumes "jwt_laws (ja_lib j)"
    and refuse: "\<And>rq s. \<not> isAdminOrLibrarian rq \<Longrightarrow> snd (h rq s) = s"
    and "snd (HTTPMiddleware j now h rq s) \<noteq> s"
  shows "staff_token j now rq"
proof (cases rule: HTTPMiddleware_cases [of j now h rq s])
  case refused
  with assms(3) show ?thesis by simp
next
  case (passed c rq')
  then have "isAdminOrLibrarian rq'" using refuse assms(3) by metis
  with passed(1) have role: "cl_role c = RoleAdmin \<or> cl_role c = RoleLibrarian"
    by (auto simp: authenticated_as_def isAdminOrLibrarian_def)
  from passed(1) obtain tok where tok: "bearer_token (rq_header rq ''Authorization'') = Some tok"
    "JWT_ValidateToken j tok now = Inr c" by (auto simp: authenticated_as_def)
  from ValidateToken_sound [OF assms(1) tok(2)] tok(1) role show ?thesis
    unfolding staff_token_def by blast
qed

lemma book_write_handlers_refuse:
  assumes "\<not> isAdminOrLibrarian rq"
  shows "snd (HandleCreateBook vd svc env rq s) = s" "snd (HandleUpdateBook ul vd svc env rq s) = s"
    "snd (HandleDeleteBook ul svc rq s) = s"
  using assms by (simp_all add: HandleCreateBook_def HandleUpdateBook_def HandleDeleteBook_def)

lemma category_write_handlers_refuse:
  assumes "\<not> isAdminOrLibrarian rq"
  shows "snd (HandleCreateCategory vd csvc cenv rq s) = s" "snd (HandleUpdateCategory ul vd csvc rq s) = s"
    "snd (HandleDeleteCategory ul csvc rq s) = s"
  using assms by (simp_all add: HandleCreateCategory_def HandleUpdateCategory_def HandleDeleteCategory_def)

end
