(* ===== verification/RouteProps.thy ===== *)
theory RouteProps
  imports Routes CategoryProps BookProps UserProps
begin

text \<open>
  Properties of the whole request path: the route table, the token check, the role check, the handler,
  the service and the repository.
\<close>

section \<open>Reads\<close>

context book_backend
begin

lemma book_read_handlers_frame:
  fixes cl
  defines "svc \<equiv> NewBookService (book_module r cl)"
  assumes "inv s" "h \<in> {HandleListBooks svc, HandleSearchBooks svc, HandleGetBookByISBN svc,
      HandleGetBooksByCategory svc, HandleGetBook (brc_uuid r) svc}"
  shows "books (fst (snd (h rq s))) = books (fst s) \<and> links (fst (snd (h rq s))) = links (fst s)"
proof -
  note frames = ListBooks_frame [OF assms(2)] SearchBooks_frame [OF assms(2)] GetBookByISBN_frame [OF assms(2)]
    GetBooksByCategory_spec [OF assms(2)] GetBookByID_spec [OF assms(2)]
  note pairs = frames [where s' = "(d, c)" for d c, unfolded fst_conv, THEN conjunct2, THEN conjunct1]
    frames(1-3) [where s' = "(d, c)" for d c, unfolded fst_conv, THEN conjunct2, THEN conjunct2]
    frames(4,5) [where s' = "(d, c)" for d c, unfolded fst_conv, THEN conjunct2, THEN conjunct2, THEN conjunct1]
  from assms(3) show ?thesis
    by (auto simp: svc_def HandleListBooks_def HandleSearchBooks_def HandleGetBookByISBN_def
        HandleGetBooksByCategory_def HandleGetBook_def respond_books_def Let_def
        split: prod.split sum.split option.split dest: pairs)
qed

end

context category_contract
begin

lemma category_read_handlers_frame:
  fixes ul
  defines "svc \<equiv> NewCategoryService ul repo"
  assumes "ok s" "h \<in> {HandleListCategories svc, HandleGetCategoryByName svc, HandleGetCategory ul svc,
      HandleGetCategoryChildren ul svc}"
  shows "cats (snd (h rq s)) = cats s"
proof -
  note frames = ListCategories_frame [OF assms(2)] GetCategoryByName_frame [OF assms(2)]
    GetCategoryByID_spec [OF assms(2)] GetCategoryChildren_spec [OF assms(2)]
  from assms(3) show ?thesis
    by (auto simp: svc_def HandleListCategories_def HandleGetCategoryByName_def HandleGetCategory_def
        HandleGetCategoryChildren_def Let_def
        split: prod.split sum.split option.split dest: frames)
qed

end

section \<open>Writes\<close>

lemma book_route_staff:
  assumes "book_backend r books links valid opened usable tbooks tlinks pg sub view"
    and "book_inv r books valid view s" and "jwt_laws (ja_lib j)"
    and "rt \<in> set (book_routes (HTTPMiddleware j now) (brc_uuid r) vd (NewBookService (book_module r cl)) env)"
    and "m \<in> set (rt_methods rt)" and "rt_handler rt rq s = (rsp, s')"
    and "books (fst s') \<noteq> books (fst s) \<or> links (fst s') \<noteq> links (fst s)"
  shows "m \<noteq> ''GET'' \<and> staff_token j now rq"
proof -
  let ?svc = "NewBookService (book_module r cl)"
  have read: "rt_handler rt \<notin> {HandleListBooks ?svc, HandleSearchBooks ?svc, HandleGetBookByISBN ?svc,
      HandleGetBooksByCategory ?svc, HandleGetBook (brc_uuid r) ?svc}"
    using book_backend.book_read_handlers_frame [OF assms(1,2), of "rt_handler rt" cl rq] assms(6,7) by fastforce
  have "snd (rt_handler rt rq s) \<noteq> s" using assms(6,7) by auto
  with assms(4,5) read show ?thesis
    by (auto simp: book_routes_def intro: guarded_staff [OF assms(3) book_write_handlers_refuse(1)]
        guarded_staff [OF assms(3) book_write_handlers_refuse(2)]
        guarded_staff [OF assms(3) book_write_handlers_refuse(3)])
qed

lemma book_routes_staff:
  assumes "book_backend r books links valid opened usable tbooks tlinks pg sub view"
    and "book_inv r books valid view s" and "jwt_laws (ja_lib j)" and "mux_laws mx"
    and "serve_http mx (book_routes (HTTPMiddleware j now) (brc_uuid r) vd (NewBookService (book_module r cl)) env)
      m p rq s = Some (rsp, s')"
    and "books (fst s') \<noteq> books (fst s) \<or> links (fst s') \<noteq> links (fst s)"
  shows "m \<noteq> ''GET'' \<and> staff_token j now rq"
  using serve_http_route [OF assms(4,5)] book_route_staff [OF assms(1-3) _ _ _ assms(6)] by metis

text \<open>
  The books and their links change only for staff: when a request that the router hands to any route of
  the book service changes either table, its method is not GET and it carried a bearer token that the
  secret key verifies, that has not expired, and whose role is admin or librarian.
\<close>

theorem book_routes_authorized:
  assumes "book_backend r books links valid opened usable tbooks tlinks pg sub view"
    and "book_inv r books valid view s" and "jwt_laws (ja_lib j)" and "mux_laws mx"
    and "serve_http mx (book_routes (HTTPMiddleware j now) (brc_uuid r) vd (NewBookService (book_module r cl)) env)
      m p rq s = Some (rsp, s')"
    and "books (fst s') \<noteq> books (fst s) \<or> links (fst s') \<noteq> links (fst s)"
  shows "m \<noteq> ''GET'' \<and> staff_token j now rq"
  by (rule book_routes_staff [OF assms])

text \<open>A router for the witnesses: templates match by segments, one in braces matches any but the empty.\<close>

definition segment_matches :: "string \<Rightarrow> string \<Rightarrow> bool" where
  "segment_matches t p \<longleftrightarrow> t = p \<or> take 1 t = ''{'' \<and> p \<noteq> []"

definition template_matches :: "string \<Rightarrow> string \<Rightarrow> bool" where
  "template_matches t p = list_all2 segment_matches (str_split (CHR ''/'') t) (str_split (CHR ''/'') p)"

fun first_route :: "(string list \<times> string) list \<Rightarrow> string \<Rightarrow> string \<Rightarrow> nat option" where
  "first_route [] m p = None"
| "first_route ((ms, t) # rs) m p =
     (if m \<in> set ms \<and> template_matches t p then Some 0 else map_option Suc (first_route rs m p))"

definition plain_mux :: mux_lib where
  "plain_mux = \<lparr>mx_matches = template_matches, mx_route = first_route\<rparr>"

lemma first_route_Some:
  "first_route rs m p = Some k \<Longrightarrow> k < length rs \<and> m \<in> set (fst (rs ! k)) \<and> template_matches (snd (rs ! k)) p \<and>
     (\<forall>j < k. \<not> (m \<in> set (fst (rs ! j)) \<and> template_matches (snd (rs ! j)) p))"
proof (induction rs m p arbitrary: k rule: first_route.induct)
  case (2 ms t rs m p)
  then show ?case by (cases k) (auto split: if_splits simp: less_Suc_eq_0_disj)
qed simp

lemma plain_mux_laws: "mux_laws plain_mux"
  using first_route_Some by (auto simp: mux_laws_def plain_mux_def)

lemma str_split_append: "str_split sep (a @ sep # b) = str_split sep a @ str_split sep b"
  by (induction a) (auto split: list.splits simp: neq_Nil_conv)

lemma plain_mux_variable: "mux_variable plain_mux ''/api/users''"
  unfolding mux_variable_def
proof (intro allI impI)
  fix seg p
  assume seg: "seg \<noteq> [] \<and> CHR ''/'' \<notin> set seg \<and> mx_matches plain_mux (''/api/users'' @ ''/'' @ seg) p"
  have "str_split (CHR ''/'') (''/api/users'' @ ''/'' @ seg) = str_split (CHR ''/'') ''/api/users'' @ [seg]"
    using seg str_split_append [of "CHR ''/''" "''/api/users''" seg] by (simp add: str_split_no_sep)
  moreover have "str_split (CHR ''/'') (''/api/users'' @ ''/{id}'') = str_split (CHR ''/'') ''/api/users'' @ [''{id}'']"
    by code_simp
  moreover have "segment_matches seg w \<Longrightarrow> segment_matches ''{id}'' w" for w
    using seg by (auto simp: segment_matches_def)
  ultimately show "mx_matches plain_mux (''/api/users'' @ ''/{id}'') p"
    using seg by (auto simp: plain_mux_def template_matches_def list_all2_append1 list_all2_Cons1)
qed

abbreviation token_for :: "string \<Rightarrow> string" where
  "token_for role \<equiv> projr (GenerateToken demo_auth ''aa'' ''l@x.io'' role ''lee'' 2000000000 2000000000)"

abbreviation request_as :: "string \<Rightarrow> string \<Rightarrow> http_request" where
  "request_as role i \<equiv> demo_request\<lparr>rq_header := (\<lambda>_. ''Bearer '' @ token_for role), rq_vars := (\<lambda>_. i)\<rparr>"

abbreviation demo_book_routes :: "(mem_books \<times> (string \<rightharpoonup> json)) route list" where
  "demo_book_routes \<equiv> book_routes (HTTPMiddleware demo_auth 3000000000) (brc_uuid mem_book_conf) no_validation
     (NewBookService demo_books) book_demo_env"

lemma librarian_deletes:
  "map_option (\<lambda>y. mem_rows (mb_books (fst (snd y))) 2)
     (serve_http plain_mux demo_book_routes ''DELETE'' ''/api/books/aaa'' (request_as RoleLibrarian ''aaa'') demo_shelf)
   = Some None"
  by code_simp

lemma book_routes_authorized_witness:
  "staff_token demo_auth 3000000000 (request_as RoleLibrarian ''aaa'') \<and>
   map_option (\<lambda>y. mem_rows (mb_books (fst (snd y))) 2)
     (serve_http plain_mux demo_book_routes ''DELETE'' ''/api/books/aaa'' (request_as RoleLibrarian ''aaa'') demo_shelf)
   = Some None"
proof -
  let ?run = "serve_http plain_mux demo_book_routes ''DELETE'' ''/api/books/aaa'' (request_as RoleLibrarian ''aaa'') demo_shelf"
  have gone: "map_option (\<lambda>y. mem_rows (mb_books (fst (snd y))) 2) ?run = Some None" by (rule librarian_deletes)
  then obtain rsp s' where run: "?run = Some (rsp, s')" and s': "mem_rows (mb_books (fst s')) 2 = None" by auto
  have "mem_rows (mb_books (fst demo_shelf)) 2 \<noteq> None" by code_simp
  with s' have changed: "mem_rows (mb_books (fst s')) \<noteq> mem_rows (mb_books (fst demo_shelf)) \<or>
      mem_rows (mb_links (fst s')) \<noteq> mem_rows (mb_links (fst demo_shelf))" by auto
  have laws: "jwt_laws (ja_lib demo_auth)" using plain_jwt_laws by simp
  from book_routes_authorized [OF mem_book_backend demo_shelf_inv laws plain_mux_laws run changed] gone
  show ?thesis by blast
qed

text \<open>
  The same holds for the categories: no route of the category service changes them without a verified,
  unexpired token of an admin or a librarian, and none at all for a GET request.
\<close>

theorem category_routes_authorized:
  assumes "category_backend r rows valid view"
    and "category_inv r rows valid view s" and "jwt_laws (ja_lib j)" and "mux_laws mx"
    and "serve_http mx (category_routes (HTTPMiddleware j now) ul vd (NewCategoryService ul (NewCategoryRepository r)) env)
      m p rq s = Some (rsp, s')"
    and "rows (fst s') \<noteq> rows (fst s)"
  shows "m \<noteq> ''GET'' \<and> staff_token j now rq"
proof -
  let ?svc = "NewCategoryService ul (NewCategoryRepository r)"
  obtain rt where rt: "rt \<in> set (category_routes (HTTPMiddleware j now) ul vd ?svc env)"
    "m \<in> set (rt_methods rt)" "rt_handler rt rq s = (rsp, s')"
    using serve_http_route [OF assms(4,5)] by blast
  note frame = category_contract.category_read_handlers_frame [OF category_backend.contract [OF assms(1)] assms(2)]
  have read: "rt_handler rt \<notin> {HandleListCategories ?svc, HandleGetCategoryByName ?svc, HandleGetCategory ul ?svc,
      HandleGetCategoryChildren ul ?svc}"
    using frame [of "rt_handler rt" ul rq] rt(3) assms(6) by fastforce
  have "snd (rt_handler rt rq s) \<noteq> s" using rt(3) assms(6) by auto
  with rt(1,2) read show ?thesis
    by (auto simp: category_routes_def intro: guarded_staff [OF assms(3) category_write_handlers_refuse(1)]
        guarded_staff [OF assms(3) category_write_handlers_refuse(2)]
        guarded_staff [OF assms(3) category_write_handlers_refuse(3)])
qed

abbreviation demo_category_routes :: "(category list \<times> (string \<rightharpoonup> json)) route list" where
  "demo_category_routes \<equiv> category_routes (HTTPMiddleware demo_auth 3000000000) unary_uuid no_validation
     (NewCategoryService unary_uuid demo_repo) demo_env"

lemma category_routes_authorized_witness:
  "staff_token demo_auth 3000000000 (request_as RoleAdmin ''a'') \<and>
   map_option (\<lambda>y. mem_rows (fst (snd y)) 1)
     (serve_http plain_mux demo_category_routes ''DELETE'' ''/api/categories/a'' (request_as RoleAdmin ''a'') demo_state)
   = Some None"
proof -
  let ?run = "serve_http plain_mux demo_category_routes ''DELETE'' ''/api/categories/a'' (request_as RoleAdmin ''a'') demo_state"
  have gone: "map_option (\<lambda>y. mem_rows (fst (snd y)) 1) ?run = Some None" by code_simp
  then obtain rsp s' where run: "?run = Some (rsp, s')" and s': "mem_rows (fst s') 1 = None" by auto
  have "mem_rows (fst demo_state) 1 \<noteq> None" by code_simp
  with s' have changed: "mem_rows (fst s') \<noteq> mem_rows (fst demo_state)" by auto
  have laws: "jwt_laws (ja_lib demo_auth)" using plain_jwt_laws by simp
  from category_routes_authorized [OF mem_category_backend demo_state_inv laws plain_mux_laws run changed] gone
  show ?thesis by blast
qed

section \<open>Accounts\<close>

text \<open>
  The lookups of users by e-mail and by username are unreachable: whatever the request, the router never
  takes their routes, because \<open>/api/users/{id}\<close> was registered before them.
\<close>

theorem user_lookup_routes_shadowed:
  assumes "mux_laws mx" and "mux_variable mx ''/api/users''"
    and "mx_route mx (route_table (user_routes guard ul vd svc au)) m p = Some k"
  shows "rt_path (user_routes guard ul vd svc au ! k) \<noteq> ''/api/users/email'' \<and>
    rt_path (user_routes guard ul vd svc au ! k) \<noteq> ''/api/users/username''"
proof -
  let ?rs = "route_table (user_routes guard ul vd svc au)"
  have k: "k < 12" "m \<in> set (fst (?rs ! k))"
    using assms(1,3) unfolding mux_laws_def by (fastforce simp: route_table_def user_routes_def)+
  show ?thesis
  proof (cases "k = 10 \<or> k = 11")
    case True
    then have m: "m = ''GET''" and j: "6 < k"
      using k(2) by (auto simp: route_table_def user_routes_def)
    have six: "?rs ! 6 = ([''GET''], ''/api/users'' @ ''/{id}'')"
      by (simp add: route_table_def user_routes_def)
    note shadow = shadowed_route [OF assms j six]
    have "snd (?rs ! k) \<noteq> ''/api/users'' @ ''/'' @ ''email''" by (rule shadow) (simp_all add: m)
    moreover have "snd (?rs ! k) \<noteq> ''/api/users'' @ ''/'' @ ''username''" by (rule shadow) (simp_all add: m)
    moreover have "k < length (user_routes guard ul vd svc au)" using k(1) by (simp add: user_routes_def)
    ultimately show ?thesis by (simp add: route_table_def)
  next
    case False
    with k(1) have "k = 0 \<or> k = 1 \<or> k = 2 \<or> k = 3 \<or> k = 4 \<or> k = 5 \<or> k = 6 \<or> k = 7 \<or> k = 8 \<or> k = 9"
      by presburger
    then show ?thesis by (auto simp: user_routes_def)
  qed
qed

abbreviation demo_user_routes :: "(user list \<times> (string \<rightharpoonup> json)) route list" where
  "demo_user_routes \<equiv> user_routes (HTTPMiddleware demo_auth 3000000000) unary_uuid no_validation
     (NewUserService demo_user_env demo_user_repo) (NewAuthService demo_user_env demo_module)"

lemma user_lookup_routes_shadowed_witness:
  "\<exists>k. mx_route plain_mux (route_table demo_user_routes) ''GET'' ''/api/users/email'' = Some k \<and>
     rt_path (demo_user_routes ! k) \<noteq> ''/api/users/email''"
proof -
  have "mx_route plain_mux (route_table demo_user_routes) ''GET'' ''/api/users/email'' = Some 6" by code_simp
  from user_lookup_routes_shadowed [OF plain_mux_laws plain_mux_variable this] this show ?thesis by blast
qed

text \<open>
  Any member can make an administrator: \<open>POST /api/users\<close> asks for a valid token but for no role, and the
  role of the new account is the one in the request.
\<close>

theorem member_creates_admin:
  "\<exists>rq tok. bearer_token (rq_header rq ''Authorization'') = Some tok \<and>
     map_sum id cl_role (JWT_ValidateToken demo_auth tok 3000000000) = Inr RoleMember \<and>
     map_option (\<lambda>y. map_option usr_role (mem_rows (fst (snd y)) 3))
       (serve_http plain_mux demo_user_routes ''POST'' ''/api/users'' rq demo_users) = Some (Some RoleAdmin)"
proof -
  let ?rq = "(request_as RoleMember ''aa'')\<lparr>rq_body := Inr (JObj [(''email'', JStr ''eve@x.io''),
     (''username'', JStr ''eve''), (''password'', JStr ''long-enough''), (''role'', JStr ''admin'')])\<rparr>"
  have "bearer_token (rq_header ?rq ''Authorization'') = Some (token_for RoleMember)" by code_simp
  moreover have "map_sum id cl_role (JWT_ValidateToken demo_auth (token_for RoleMember) 3000000000) = Inr RoleMember"
    by code_simp
  moreover have "map_option (\<lambda>y. map_option usr_role (mem_rows (fst (snd y)) 3))
       (serve_http plain_mux demo_user_routes ''POST'' ''/api/users'' ?rq demo_users) = Some (Some RoleAdmin)"
    by code_simp
  ultimately show ?thesis by blast
qed

end
