(* ===== verification/GatewayProps.thy ===== *)
theory GatewayProps
  imports Routes
begin

text \<open>
  Properties of the API gateway and of the configuration. The witnesses run it against a network that
  records the requests it forwards and answers with a body in two chunks.
\<close>

section \<open>Example network\<close>

definition script_reader :: "string list reader" where
  "script_reader n cs = (case cs of [] \<Rightarrow> (([], Some io_EOF), []) | c # cs' \<Rightarrow> ((c, None), cs'))"

definition client_writer :: "response_writer writer" where
  "client_writer data w = ((int (length data), None), add_body data w)"

definition demo_network :: "(string list, out_request list) network" where
  "demo_network =
     \<lparr>nw_check = (\<lambda>m u. if m = [] then Some (errors_New ''invalid method'') else None),
      nw_do = (\<lambda>rq log. (Inr \<lparr>up_status = 201, up_headers = [(''Content-Type'', [''text/plain''])],
                               up_body = [''hello '', ''world'']\<rparr>, log @ [rq])),
      nw_read = script_reader, nw_write = client_writer\<rparr>"

definition demo_gateway_request :: gateway_request where
  "demo_gateway_request = \<lparr>gq_method = ''GET'', gq_path = ''/api/books'', gq_query = ''page=2'',
     gq_headers = [(''Accept'', [''*/*'']), (''X-Forwarded-For'', [''1.2.3.4''])], gq_host = ''library.io'',
     gq_remote = ''10.0.0.1:5000'', gq_body = []\<rparr>"

lemma script_reads: "reads_to script_reader cs (concat cs) io_EOF"
proof (induction cs)
  case Nil
  have "script_reader buf_size [] = (([], Some io_EOF), [])" by (simp add: script_reader_def)
  from last_read [of script_reader, OF this] show ?case by simp
next
  case (Cons c cs)
  have "script_reader buf_size (c # cs) = ((c, None), cs)" by (simp add: script_reader_def)
  from more_reads [of script_reader, OF this Cons] show ?case by simp
qed

lemma client_takes_all: "takes_all client_writer add_body"
  by (simp add: takes_all_def client_writer_def add_body_def)

lemma client_prefix_writer: "prefix_writer client_writer wr_body"
  by (auto simp: prefix_writer_def client_writer_def add_body_def)

section \<open>The copy of a body\<close>

text \<open>
  C16. The copy loop terminates and is complete: when the reader comes to an end after finitely many reads and
  the writer takes what it is given, \<open>copyBuffer\<close> returns, every byte of the reader has gone to the
  writer in order, the count is their number (as an \<open>int64\<close>), and there is an error exactly if the
  reader ended with one other than \<open>io.EOF\<close>.
\<close>

theorem copyBuffer_terminates:
  assumes "reads_to rd src data e" and "takes_all wr put"
  shows "copyBuffer rd wr src w =
    Some ((wrap64 (int (length data)), if e = io_EOF then None else Some e), put data w)"
  by (rule copyBuffer_all [OF assms])

lemma copyBuffer_terminates_witness:
  "copyBuffer script_reader client_writer [''ab'', [], ''c''] fresh_writer = Some ((3, None), add_body ''abc'' fresh_writer)"
  using copyBuffer_terminates [OF script_reads client_takes_all, of "[''ab'', [], ''c'']" fresh_writer]
  by (simp add: wrap64_def)

text \<open>
  C39. No silent truncation: whatever the reader and however much the writer takes of each piece, if
  \<open>copyBuffer\<close> returns without an error then the reader came to its end and the writer has received
  exactly its bytes.
\<close>

theorem copyBuffer_no_silent_loss:
  assumes "prefix_writer wr body" and "copyBuffer rd wr src w = Some ((n, None), w')"
  shows "\<exists>data. reads_to rd src data io_EOF \<and> body w' = body w @ data"
  using copy_loop_sound [OF assms(1)] assms(2) by (fastforce simp: copyBuffer_def copied_def)

lemma copyBuffer_no_silent_loss_witness:
  "\<exists>data. reads_to script_reader [''ab'', ''c''] data io_EOF \<and>
     wr_body (snd (the (copyBuffer script_reader client_writer [''ab'', ''c''] fresh_writer))) = data"
proof -
  have run: "copyBuffer script_reader client_writer [''ab'', ''c''] fresh_writer = Some ((3, None), add_body ''abc'' fresh_writer)"
    using copyBuffer_all [OF script_reads client_takes_all, of "[''ab'', ''c'']" fresh_writer] by (simp add: wrap64_def)
  from copyBuffer_no_silent_loss [OF client_prefix_writer run] run show ?thesis
    by (simp add: fresh_writer_def add_body_def)
qed

section \<open>The proxy\<close>

text \<open>
  The gateway is transparent: when the service of a configured address answers, the client receives its
  status, its headers and its whole body, and the service has received the request of the client,
  with its method, path, query, body and headers, except for the three headers that the gateway sets
  whatever the client sent.
\<close>

theorem gateway_transparent:
  assumes "serviceURL \<noteq> []"
    and "nw_check nw (gq_method rq) (target_url (service_target serviceURL) rq) = None"
    and "canonical_entries (gq_headers rq)"
    and "nw_do nw \<lparr>or_method = gq_method rq, or_url = target_url (service_target serviceURL) rq,
        or_header = (header_of (gq_headers rq))(''X-Forwarded-Host'' := [gq_host rq],
          ''X-Forwarded-For'' := [gq_remote rq], ''X-Gateway'' := [''library-system-api-gateway'']),
        or_body = gq_body rq\<rparr> s = (Inr resp, s')"
    and "canonical_entries (up_headers resp)"
    and "reads_to (nw_read nw) (up_body resp) data e" and "takes_all (nw_write nw) add_body"
  shows "createServiceProxy nw serviceURL rq fresh_writer s =
    Some (\<lparr>wr_status = Some (up_status resp), wr_header = header_of (up_headers resp), wr_body = data\<rparr>, s')"
  using createServiceProxy_forward [of serviceURL nw rq s resp s' data e] assms
  by (simp add: proxy_header_spec [OF assms(3)])

lemma gateway_transparent_witness:
  "\<exists>s'. createServiceProxy demo_network ''book-service:8080'' demo_gateway_request fresh_writer [] =
     Some (\<lparr>wr_status = Some 201, wr_header = header_of [(''Content-Type'', [''text/plain''])], wr_body = ''hello world''\<rparr>, s')"
proof -
  let ?u = "''book-service:8080''" and ?rq = demo_gateway_request
  let ?resp = "\<lparr>up_status = 201, up_headers = [(''Content-Type'', [''text/plain''])], up_body = [''hello '', ''world'']\<rparr>"
  have url: "?u \<noteq> []" by simp
  have ok: "nw_check demo_network (gq_method ?rq) (target_url (service_target ?u) ?rq) = None"
    by (simp add: demo_network_def demo_gateway_request_def)
  have keys: "canonical_entries (gq_headers ?rq)" "canonical_entries (up_headers ?resp)" by code_simp+
  have go: "nw_do demo_network q [] = (Inr ?resp, [q])" for q by (simp add: demo_network_def)
  have rd: "reads_to (nw_read demo_network) (up_body ?resp) ''hello world'' io_EOF"
    using script_reads [of "[''hello '', ''world'']"] by (simp add: demo_network_def)
  have wr: "takes_all (nw_write demo_network) add_body" using client_takes_all by (simp add: demo_network_def)
  from gateway_transparent [OF url ok keys(1) go keys(2) rd wr] show ?thesis by auto
qed

text \<open>The path is forwarded decoded: an escaped question mark in it begins a query at the service.\<close>

lemma escaped_query_confused:
  assumes "q \<noteq> []"
  shows "target_url t (rq\<lparr>gq_path := p @ ''?'' @ q, gq_query := []\<rparr>) = target_url t (rq\<lparr>gq_path := p, gq_query := q\<rparr>)"
  using assms by (simp add: target_url_def)

section \<open>Health\<close>

text \<open>
  The gateway reports \<open>ok\<close> exactly if all three services have an address and their health URL answers 200,
  and \<open>degraded\<close> otherwise.
\<close>

theorem gateway_health_exact:
  "gh_status (gateway_health_handler get cfg now) =
     (if \<forall>u \<in> {gc_book_http cfg, gc_category_http cfg, gc_user_http cfg}. u \<noteq> [] \<and> get (health_url u) = Inr 200
      then ''ok'' else ''degraded'')"
proof -
  have "checkServiceHealth get u = ''ok'' \<longleftrightarrow> u \<noteq> [] \<and> get (health_url u) = Inr 200" for u
    by (auto simp: checkServiceHealth_def split: sum.splits)
  then show ?thesis by (simp add: gateway_health_handler_def Let_def)
qed

definition demo_gateway :: gateway_config where
  "demo_gateway = \<lparr>gc_app_name = ''library'', gc_app_env = ''development'', gc_server_port = ''8000'',
     gc_log_level = ''info'', gc_jwt_secret = ''secret'', gc_book_http = ''book-service:8080'',
     gc_category_http = ''category-service:8081'', gc_user_http = ''http://user-service:8082/'',
     gc_book_grpc = [], gc_category_grpc = [], gc_user_grpc = [], gc_rate_ip = 10, gc_rate_ip_burst = 20,
     gc_rate_global = 100, gc_rate_global_burst = 200\<rparr>"

lemma gateway_health_exact_witness:
  "gh_status (gateway_health_handler (\<lambda>u. if u = ''http://user-service:8082/health'' then Inr 200 else Inr 503)
     demo_gateway 0) = ''degraded'' \<and>
   gh_status (gateway_health_handler (\<lambda>_. Inr 200) demo_gateway 0) = ''ok''"
proof -
  have "health_url (gc_book_http demo_gateway) \<noteq> ''http://user-service:8082/health''" by code_simp
  moreover have "gc_book_http demo_gateway \<noteq> [] \<and> gc_category_http demo_gateway \<noteq> [] \<and> gc_user_http demo_gateway \<noteq> []"
    by (simp add: demo_gateway_def)
  ultimately show ?thesis by (simp add: gateway_health_exact)
qed

text \<open>
  The check does not see a lost database: the health handler of a service answers 200 also when its
  database does not answer, so the gateway calls such a service \<open>ok\<close>.
\<close>

theorem health_hides_database:
  assumes "u \<noteq> []" and "get (health_url u) = Inr (rs_status (fst (HandleHealth ping now rq s)))"
  shows "checkServiceHealth get u = ''ok''"
  using assms by (simp add: checkServiceHealth_def HandleHealth_ok)

lemma health_hides_database_witness:
  "checkServiceHealth (\<lambda>_. Inr (rs_status (fst (HandleHealth (\<lambda>s. (Some (errors_New ''connection refused''), s)) 0
     \<lparr>rq_header = (\<lambda>_. []), rq_remote = [], rq_query = (\<lambda>_. []), rq_vars = (\<lambda>_. []), rq_body = Inr JNull,
      rq_user_id = None, rq_user_role = None, rq_user_email = None, rq_auth_token = None\<rparr> ())))) ''book-service:8080''
   = ''ok''"
  by (rule health_hides_database) simp_all

section \<open>Configuration\<close>

text \<open>
  Without a configuration file, \<open>LoadConfig\<close> fails, naming the first one, exactly if a required variable
  is unset or empty; otherwise the credentials and the secret are those of the environment, and the
  Redis password is empty whatever the environment says.
\<close>

theorem LoadConfig_env_only:
  assumes "no_config_file vp env"
  shows "case LoadConfig parse vp env of
      Inl e \<Rightarrow> \<exists>k \<in> set requiredEnvs. Getenv env k = [] \<and> e = errors_New (''required environment variable not set: '' @ k)
    | Inr c \<Rightarrow> (\<forall>k \<in> set requiredEnvs. Getenv env k \<noteq> []) \<and> cf_db_user c = Getenv env ''DB_USER'' \<and>
        cf_db_password c = Getenv env ''DB_PASSWORD'' \<and> cf_jwt_secret c = Getenv env ''JWT_SECRET'' \<and>
        cf_redis_password c = []"
proof (cases "find (\<lambda>k. Getenv env k = []) requiredEnvs")
  case None
  with LoadConfig_env [OF assms, of parse] show ?thesis
    by (simp add: find_None_iff fill_config_def default_config_def or_env_def)
next
  case (Some k)
  then have "k \<in> set requiredEnvs \<and> Getenv env k = []" by (auto simp: find_Some_iff)
  with LoadConfig_env [OF assms, of parse] Some show ?thesis by auto
qed

definition demo_environment :: environment where
  "demo_environment = [''APP_NAME'' \<mapsto> ''library'', ''DB_NAME'' \<mapsto> ''books'', ''DB_USER'' \<mapsto> ''app'',
     ''DB_PASSWORD'' \<mapsto> ''pw'', ''JWT_SECRET'' \<mapsto> ''secret'', ''REDIS_PASSWORD'' \<mapsto> ''hunter2'',
     ''BOOK_SERVICE_URL'' \<mapsto> ''http://book-service:9090'']"

lemma LoadConfig_env_only_witness:
  "\<exists>c. LoadConfig (\<lambda>_. None) \<lparr>vp_decode = (\<lambda>_. None), vp_get = Getenv demo_environment\<rparr> demo_environment = Inr c \<and>
     cf_jwt_secret c = ''secret'' \<and> cf_redis_password c = []"
proof -
  let ?vp = "\<lparr>vp_decode = (\<lambda>_. None), vp_get = Getenv demo_environment\<rparr>"
  have nofile: "no_config_file ?vp demo_environment" by (simp add: no_config_file_def)
  have "\<not> isl (LoadConfig (\<lambda>_. None) ?vp demo_environment)"
    unfolding LoadConfig_env [OF nofile] by code_simp
  then obtain c where c: "LoadConfig (\<lambda>_. None) ?vp demo_environment = Inr c" by (metis isl_def sum.exhaust_sel)
  with LoadConfig_env_only [OF nofile, of "\<lambda>_. None"] show ?thesis
    by (simp add: demo_environment_def Getenv_def)
qed

text \<open>An address with a scheme in the older variable loses its host: only the scheme is kept.\<close>

lemma older_url_mangled:
  "service_http_url demo_environment ''BOOK_SERVICE_HTTP_URL'' ''BOOK_SERVICE_URL'' '':8080'' = ''http:8080''"
  "service_target (service_http_url demo_environment ''BOOK_SERVICE_HTTP_URL'' ''BOOK_SERVICE_URL'' '':8080'')
     = ''http://http:8080''"
  by code_simp+

end
