(* ===== verification/GatewayMain.thy ===== *)
theory GatewayMain
  imports Gateway RateLimit
begin

text \<open>
  The API gateway as \<open>main\<close> of \<open>api-gateway/cmd/main.go\<close> puts it together: the middleware (recovery,
  request logger, rate limiter), the pages of its own (debug, static files, documentation, health),
  the proxies, the fallback handlers, and the router that picks one of them. No handler of the
  gateway panics, so the recovery middleware hands every answer on; CORS wraps the whole router and is
  outside the model. A handler is \<open>None\<close> when it never returns.
\<close>

type_synonym 's gw_handler = "gateway_request \<Rightarrow> response_writer \<Rightarrow> 's \<Rightarrow> (response_writer \<times> 's) option"

section \<open>Writing a response\<close>

definition Set_header :: "string \<Rightarrow> string \<Rightarrow> response_writer \<Rightarrow> response_writer" where
  "Set_header k v w = w\<lparr>wr_header := Header_Set k v (wr_header w)\<rparr>"

text \<open>\<open>text\<close> is the text that \<open>encoding/json\<close> writes for a value.\<close>

definition write_response ::
  "response_writer writer \<Rightarrow> (json \<Rightarrow> string) \<Rightarrow> http_response \<Rightarrow> response_writer \<Rightarrow> response_writer" where
  "write_response wr text rsp w =
     snd (wr (text (rs_body rsp))
       (WriteHeader (rs_status rsp) (Set_header ''Content-Type'' ''application/json'' w)))"

definition write_all :: "response_writer writer \<Rightarrow> string list \<Rightarrow> response_writer \<Rightarrow> response_writer" where
  "write_all wr texts w = fold (\<lambda>t w. snd (wr t w)) texts w"

section \<open>Middleware\<close>

text \<open>What the middleware reads of a request.\<close>

definition gateway_view :: "gateway_request \<Rightarrow> http_request" where
  "gateway_view rq =
     \<lparr>rq_header = (\<lambda>k. Header_Get k (header_of (gq_headers rq))), rq_remote = gq_remote rq,
      rq_query = (\<lambda>_. []), rq_vars = (\<lambda>_. []), rq_body = Inr JNull, rq_user_id = None,
      rq_user_role = None, rq_user_email = None, rq_auth_token = None\<rparr>"

text \<open>The logger sets the header with the new request ID before the handler runs; the rest is logging.\<close>

definition RequestLogger_Middleware :: "string \<Rightarrow> 's gw_handler \<Rightarrow> 's gw_handler" where
  "RequestLogger_Middleware requestID handler rq w s =
     handler rq (Set_header ''X-Request-ID'' requestID w) s"

definition Limiter_Middleware ::
  "(string \<Rightarrow> string option) \<Rightarrow> response_writer writer \<Rightarrow> (json \<Rightarrow> string) \<Rightarrow> time \<Rightarrow>
   's gw_handler \<Rightarrow> (rate_limiter \<times> 's) gw_handler" where
  "Limiter_Middleware parse_ip wr text now handler rq w st =
     (case Allow (fst st) (extractClientIP parse_ip (gateway_view rq)) now of
        (False, rl) \<Rightarrow>
          Some (write_response wr text (RespondWithError 429 ''Rate limit exceeded'' None) w, (rl, snd st))
      | (True, rl) \<Rightarrow>
          (case handler rq w (snd st) of
             None \<Rightarrow> None
           | Some (w', s') \<Rightarrow> Some (w', (rl, s'))))"

section \<open>The static directory\<close>

text \<open>
  The file system: \<open>filepath.Join\<close>, \<open>Abs\<close> and \<open>Glob\<close>, \<open>os.Stat\<close> (size and printed mode),
  \<open>os.ReadFile\<close>, \<open>os.Getwd\<close>.
\<close>

record file_system =
  fs_join :: "string \<Rightarrow> string \<Rightarrow> string"
  fs_abs :: "string \<Rightarrow> string result"
  fs_glob :: "string \<Rightarrow> string list result"
  fs_stat :: "string \<Rightarrow> (int \<times> string) result"
  fs_read :: "string \<Rightarrow> string result"
  fs_getwd :: "string result"

definition alternatePaths :: "string list" where
  "alternatePaths = [''/app/static'', ''../static'', ''../../static'', ''api-gateway/static'']"

definition has_openapi :: "file_system \<Rightarrow> string \<Rightarrow> bool" where
  "has_openapi fs dir = (case fs_stat fs (fs_join fs dir ''openapi.json'') of Inl _ \<Rightarrow> False | Inr _ \<Rightarrow> True)"

text \<open>\<open>filepath.Abs\<close> answers the empty path with its error, and the code goes on with it.\<close>

definition static_dir :: "file_system \<Rightarrow> string" where
  "static_dir fs =
     (if has_openapi fs ''./static'' then ''./static''
      else case find (has_openapi fs) alternatePaths of
        Some path \<Rightarrow> path
      | None \<Rightarrow> (case fs_abs fs ''./static'' of Inl _ \<Rightarrow> [] | Inr path \<Rightarrow> path))"

text \<open>The verb \<open>%d\<close>.\<close>

fun dec_digits :: "nat \<Rightarrow> string \<Rightarrow> string" where
  "dec_digits n acc =
     (let acc' = char_of (48 + n mod 10) # acc
      in if n < 10 then acc' else dec_digits (n div 10) acc')"

definition show_int :: "int \<Rightarrow> string" where
  "show_int n = (if n < 0 then CHR ''-'' # dec_digits (nat (- n)) [] else dec_digits (nat n) [])"

abbreviation newline :: string where
  "newline \<equiv> [CHR 0x0A]"

definition debug_file_line :: "file_system \<Rightarrow> string \<Rightarrow> string" where
  "debug_file_line fs file =
     (case fs_stat fs file of
        Inl e \<Rightarrow> ''  '' @ file @ '' (error: '' @ err_msg e @ '')'' @ newline
      | Inr (n, mode) \<Rightarrow>
          ''  '' @ file @ '' (size: '' @ show_int n @ '', mode: '' @ mode @ '')'' @ newline)"

definition debug_lines :: "file_system \<Rightarrow> string \<Rightarrow> string list" where
  "debug_lines fs dir =
     [''Static directory: '' @ dir @ newline @ newline] @
     (case fs_glob fs (fs_join fs dir ''*'') of
        Inl e \<Rightarrow> [''Error listing files: '' @ err_msg e @ newline]
      | Inr files \<Rightarrow>
          [''Files in static directory:'' @ newline] @ map (debug_file_line fs) files @
          [case fs_read fs (fs_join fs dir ''openapi.json'') of
             Inl e \<Rightarrow> newline @ ''Error reading openapi.json: '' @ err_msg e @ newline
           | Inr content \<Rightarrow> newline @ ''openapi.json exists with size: '' @
               show_int (int (length content)) @ '' bytes'' @ newline,
           case fs_getwd fs of
             Inl e \<Rightarrow> newline @ ''Error getting working directory: '' @ err_msg e @ newline
           | Inr wd \<Rightarrow> newline @ ''Working directory: '' @ wd @ newline])"

definition debug_static_handler :: "response_writer writer \<Rightarrow> file_system \<Rightarrow> string \<Rightarrow> 's gw_handler" where
  "debug_static_handler wr fs dir rq w s =
     Some (write_all wr (debug_lines fs dir) (Set_header ''Content-Type'' ''text/plain'' w), s)"

section \<open>The health page\<close>

definition gateway_health_json :: "gateway_health \<Rightarrow> json" where
  "gateway_health_json h = JObj
     [(''status'', JStr (gh_status h)), (''version'', JStr (gh_version h)),
      (''timestamp'', JTime (gh_timestamp h)),
      (''services'', JObj (map (\<lambda>(k, v). (k, JStr v)) (gh_services h)))]"

definition health_page ::
  "response_writer writer \<Rightarrow> (json \<Rightarrow> string) \<Rightarrow> (string \<Rightarrow> int result) \<Rightarrow> gateway_config \<Rightarrow> time \<Rightarrow> 's gw_handler" where
  "health_page wr text get cfg now rq w s =
     Some (snd (wr (text (gateway_health_json (gateway_health_handler get cfg now)))
       (Set_header ''Content-Type'' ''application/json'' w)), s)"

section \<open>The router\<close>

text \<open>
  \<open>github.com/gorilla/mux\<close> with its documented contract: routes are tried in order, an exact path or
  a prefix, with or without methods; the middleware wraps the handler of a route that matches, not
  the fallback handlers; a path that is not clean is redirected to its clean form.
\<close>

datatype gw_path = Exact string | Prefix string

datatype mux_match = Matched nat | Redirected string | MethodMismatch | NoMatch

type_synonym gw_mux = "(string list option \<times> gw_path) list \<Rightarrow> string \<Rightarrow> string \<Rightarrow> mux_match"

fun path_matches :: "gw_path \<Rightarrow> string \<Rightarrow> bool" where
  "path_matches (Exact t) p = (p = t)"
| "path_matches (Prefix t) p = hasPrefix p t"

definition route_matches :: "string list option \<times> gw_path \<Rightarrow> string \<Rightarrow> string \<Rightarrow> bool" where
  "route_matches r m p =
     (path_matches (snd r) p \<and> (case fst r of None \<Rightarrow> True | Some ms \<Rightarrow> m \<in> set ms))"

definition gmux_laws :: "gw_mux \<Rightarrow> bool" where
  "gmux_laws gm \<longleftrightarrow>
     (\<forall>rs m p k. gm rs m p = Matched k \<longrightarrow>
        k < length rs \<and> route_matches (rs ! k) m p \<and> (\<forall>j < k. \<not> route_matches (rs ! j) m p))"

text \<open>The world of the gateway; the file server and the documentation pages are third-party handlers.\<close>

record ('r, 's) gateway_world =
  gw_net :: "('r, 's) network"
  gw_text :: "json \<Rightarrow> string"
  gw_parse_ip :: "string \<Rightarrow> string option"
  gw_fs :: file_system
  gw_files :: "string \<Rightarrow> 's gw_handler"
  gw_docs :: "'s gw_handler"
  gw_mux :: gw_mux
  gw_config :: gateway_config

text \<open>What a request draws from outside: the clock, the request ID, the answers of the health checks.\<close>

record gateway_env =
  ge_now :: time
  ge_request_id :: string
  ge_health :: "string \<Rightarrow> int result"

definition gateway_routes ::
  "('r, 's) gateway_world \<Rightarrow> gateway_env \<Rightarrow> ((string list option \<times> gw_path) \<times> 's gw_handler) list" where
  "gateway_routes gw env =
     (let wr = nw_write (gw_net gw); dir = static_dir (gw_fs gw)
      in [((Some [''GET''], Exact ''/debug/static''), debug_static_handler wr (gw_fs gw) dir),
          ((Some [''GET''], Prefix ''/static/''), gw_files gw dir),
          ((None, Prefix ''/docs''), gw_docs gw),
          ((Some [''GET''], Exact ''/health''),
             health_page wr (gw_text gw) (ge_health env) (gw_config gw) (ge_now env))] @
         map (\<lambda>(p, h). ((None, Prefix p), h)) (setupServiceProxies (gw_net gw) (gw_config gw)))"

definition gateway_serve ::
  "('r, 's) gateway_world \<Rightarrow> gateway_env \<Rightarrow> (rate_limiter \<times> 's) gw_handler" where
  "gateway_serve gw env rq w st =
     (let wr = nw_write (gw_net gw); rs = gateway_routes gw env
      in case gw_mux gw (map fst rs) (gq_method rq) (gq_path rq) of
           Matched k \<Rightarrow>
             RequestLogger_Middleware (ge_request_id env)
               (Limiter_Middleware (gw_parse_ip gw) wr (gw_text gw) (ge_now env) (snd (rs ! k))) rq w st
         | Redirected url \<Rightarrow> Some (WriteHeader 301 (Set_header ''Location'' url w), st)
         | MethodMismatch \<Rightarrow> Some (write_response wr (gw_text gw) (JSONMethodNotAllowed rq) w, st)
         | NoMatch \<Rightarrow> Some (write_response wr (gw_text gw) (JSONNotFound rq) w, st))"

definition gateway_limiter :: "gateway_config \<Rightarrow> time \<Rightarrow> rate_limiter" where
  "gateway_limiter cfg now =
     NewRateLimiter (gc_rate_ip cfg) (gc_rate_ip_burst cfg) (gc_rate_global cfg) (gc_rate_global_burst cfg) now"

text \<open>A history of the gateway: requests, each with a fresh response, and ticks of the limiter's cleanup.\<close>

datatype gw_event = Serve gateway_env gateway_request | CleanupTick time

fun gw_time :: "gw_event \<Rightarrow> time" where
  "gw_time (Serve env rq) = ge_now env"
| "gw_time (CleanupTick now) = now"

fun gateway_run ::
  "('r, 's) gateway_world \<Rightarrow> gw_event list \<Rightarrow> rate_limiter \<times> 's \<Rightarrow> (response_writer list \<times> (rate_limiter \<times> 's)) option" where
  "gateway_run gw [] st = Some ([], st)"
| "gateway_run gw (CleanupTick now # es) st = gateway_run gw es (cleanup_tick (fst st) now, snd st)"
| "gateway_run gw (Serve env rq # es) st =
     (case gateway_serve gw env rq fresh_writer st of
        None \<Rightarrow> None
      | Some (w, st') \<Rightarrow>
          (case gateway_run gw es st' of
             None \<Rightarrow> None
           | Some (ws, st'') \<Rightarrow> Some (w # ws, st'')))"

section \<open>Lemmas\<close>

declare dec_digits.simps [simp del]

lemma request_id_key [simp]: "canonical_key ''X-Request-ID'' = ''X-Request-Id''"
  by code_simp

lemma gateway_route_cases:
  assumes "rt \<in> set (gateway_routes gw env)"
  obtains
    (debug) "snd rt = debug_static_handler (nw_write (gw_net gw)) (gw_fs gw) (static_dir (gw_fs gw))"
  | (files) "snd rt = gw_files gw (static_dir (gw_fs gw))"
  | (docs) "snd rt = gw_docs gw"
  | (health) "snd rt = health_page (nw_write (gw_net gw)) (gw_text gw) (ge_health env) (gw_config gw) (ge_now env)"
  | (proxied) url where "snd rt = createServiceProxy (gw_net gw) url"
  using assms by (auto simp: gateway_routes_def setupServiceProxies_def Let_def)

text \<open>A request is answered by a fallback, or refused by the limiter, or handed to the handler of its route.\<close>

lemma gateway_serve_cases:
  assumes "gmux_laws (gw_mux gw)" "gateway_serve gw env rq w st = Some (w', st')"
  obtains
    (fallback) "st' = st"
  | (limited) rl where "Allow (fst st) (extractClientIP (gw_parse_ip gw) (gateway_view rq)) (ge_now env) = (False, rl)"
      "st' = (rl, snd st)"
      "w' = write_response (nw_write (gw_net gw)) (gw_text gw) (RespondWithError 429 ''Rate limit exceeded'' None)
         (Set_header ''X-Request-ID'' (ge_request_id env) w)"
  | (served) rl rt s' where "Allow (fst st) (extractClientIP (gw_parse_ip gw) (gateway_view rq)) (ge_now env) = (True, rl)"
      "rt \<in> set (gateway_routes gw env)"
      "snd rt rq (Set_header ''X-Request-ID'' (ge_request_id env) w) (snd st) = Some (w', s')" "st' = (rl, s')"
proof (cases "gw_mux gw (map fst (gateway_routes gw env)) (gq_method rq) (gq_path rq)")
  case (Matched k)
  then have k: "k < length (gateway_routes gw env)"
    using assms(1) unfolding gmux_laws_def by fastforce
  obtain ok rl where a: "Allow (fst st) (extractClientIP (gw_parse_ip gw) (gateway_view rq)) (ge_now env) = (ok, rl)"
    by (cases "Allow (fst st) (extractClientIP (gw_parse_ip gw) (gateway_view rq)) (ge_now env)")
  have run: "Limiter_Middleware (gw_parse_ip gw) (nw_write (gw_net gw)) (gw_text gw) (ge_now env)
      (snd (gateway_routes gw env ! k)) rq (Set_header ''X-Request-ID'' (ge_request_id env) w) st = Some (w', st')"
    using assms(2) Matched by (simp add: gateway_serve_def Let_def RequestLogger_Middleware_def)
  show ?thesis
  proof (cases ok)
    case True
    with run a served [of rl "gateway_routes gw env ! k"] k show ?thesis
      by (auto simp: Limiter_Middleware_def split: option.splits)
  next
    case False
    with run a limited [of rl] show ?thesis by (auto simp: Limiter_Middleware_def)
  qed
next
  case (Redirected url)
  have "st' = st" using assms(2) unfolding gateway_serve_def Let_def Redirected by simp
  then show ?thesis by (rule fallback)
next
  case MethodMismatch
  have "st' = st" using assms(2) unfolding gateway_serve_def Let_def MethodMismatch by simp
  then show ?thesis by (rule fallback)
next
  case NoMatch
  have "st' = st" using assms(2) unfolding gateway_serve_def Let_def NoMatch by simp
  then show ?thesis by (rule fallback)
qed

text \<open>
  \<open>calls\<close> is a count of the requests to the services: a request raises it by at most one, the pages of
  the gateway do not.
\<close>

definition counts_calls :: "('r, 's) gateway_world \<Rightarrow> ('s \<Rightarrow> nat) \<Rightarrow> bool" where
  "counts_calls gw calls \<longleftrightarrow>
     (\<forall>q s. calls (snd (nw_do (gw_net gw) q s)) \<le> Suc (calls s)) \<and>
     (\<forall>dir rq w s w' s'. gw_files gw dir rq w s = Some (w', s') \<longrightarrow> calls s' = calls s) \<and>
     (\<forall>rq w s w' s'. gw_docs gw rq w s = Some (w', s') \<longrightarrow> calls s' = calls s)"

lemma handler_calls:
  assumes "counts_calls gw calls" "rt \<in> set (gateway_routes gw env)" "snd rt rq w s = Some (w', s')"
  shows "calls s' \<le> Suc (calls s)"
  using assms(2)
proof (cases rule: gateway_route_cases)
  case (proxied url)
  with assms(3) have "createServiceProxy (gw_net gw) url rq w s = Some (w', s')" by simp
  from createServiceProxy_calls [OF this] assms(1) show ?thesis
    unfolding counts_calls_def by (metis le_SucI order_refl)
next
  case debug
  with assms(3) show ?thesis by (simp add: debug_static_handler_def)
next
  case health
  with assms(3) show ?thesis by (simp add: health_page_def)
next
  case files
  with assms(1,3) show ?thesis unfolding counts_calls_def by (metis le_SucI order_refl)
next
  case docs
  with assms(1,3) show ?thesis unfolding counts_calls_def by (metis le_SucI order_refl)
qed

text \<open>A history of the gateway is a history of its limiter that pays for every request to a service.\<close>

lemma gateway_run_limiter:
  assumes "gmux_laws (gw_mux gw)" "counts_calls gw calls"
    and "gateway_run gw es st = Some (ws, st')" "sorted (t # map gw_time es)"
  shows "\<exists>les gs. rl_run les (fst st) = (gs, fst st') \<and> calls (snd st') \<le> calls (snd st) + granted_all gs \<and>
    ordered_from t les \<and> end_time t les \<le> last (t # map gw_time es)"
  using assms(3,4)
proof (induction es arbitrary: st ws t)
  case Nil
  have "rl_run [] (fst st) = ([], fst st)" by simp
  with Nil show ?case by (intro exI [of _ "[]"] exI [of _ "[]"]) (simp add: granted_all_def)
next
  case (Cons e es)
  have t: "t \<le> gw_time e" "sorted (gw_time e # map gw_time es)"
    "last (t # map gw_time (e # es)) = last (gw_time e # map gw_time es)"
    using Cons.prems(2) by auto
  show ?case
  proof (cases e)
    case (CleanupTick now)
    then have run: "gateway_run gw es (cleanup_tick (fst st) now, snd st) = Some (ws, st')"
      using Cons.prems(1) by simp
    from Cons.IH [OF run t(2)] obtain les gs where ih:
      "rl_run les (cleanup_tick (fst st) now) = (gs, fst st')" "calls (snd st') \<le> calls (snd st) + granted_all gs"
      "ordered_from now les" "end_time now les \<le> last (t # map gw_time (e # es))"
      unfolding t(3) using CleanupTick by auto
    with t(1) CleanupTick show ?thesis by (intro exI [of _ "Tick now # les"] exI [of _ gs]) simp
  next
    case (Serve env rq)
    obtain w st1 ws1 where sv: "gateway_serve gw env rq fresh_writer st = Some (w, st1)"
      and run: "gateway_run gw es st1 = Some (ws1, st')"
      using Cons.prems(1) Serve by (auto split: option.splits prod.splits)
    from Cons.IH [OF run t(2)] obtain les gs where ih:
      "rl_run les (fst st1) = (gs, fst st')" "calls (snd st') \<le> calls (snd st1) + granted_all gs"
      "ordered_from (ge_now env) les" "end_time (ge_now env) les \<le> last (t # map gw_time (e # es))"
      unfolding t(3) using Serve by auto
    let ?ip = "extractClientIP (gw_parse_ip gw) (gateway_view rq)"
    have now: "t \<le> ge_now env" using t(1) Serve by simp
    from assms(1) sv show ?thesis
    proof (cases rule: gateway_serve_cases)
      case fallback
      have "ordered_from t les" using ih(3) now by (cases les) auto
      moreover have "end_time t les \<le> last (t # map gw_time (e # es))"
        using ih(4) now by (cases les) (auto simp: end_time_def)
      ultimately show ?thesis using ih(1,2) unfolding fallback by blast
    next
      case (limited rl)
      with ih now show ?thesis
        by (intro exI [of _ "Request ?ip (ge_now env) # les"] exI [of _ "(?ip, False) # gs"]) (simp add: granted_all_def)
    next
      case (served rl rt s')
      with handler_calls [OF assms(2) served(2,3)] ih now show ?thesis
        by (intro exI [of _ "Request ?ip (ge_now env) # les"] exI [of _ "(?ip, True) # gs"]) (simp add: granted_all_def)
    qed
  qed
qed

text \<open>Every request is answered when the bodies of the services end and the third-party pages return.\<close>

definition pages_return :: "('r, 's) gateway_world \<Rightarrow> bool" where
  "pages_return gw \<longleftrightarrow> (\<forall>dir rq w s. gw_files gw dir rq w s \<noteq> None) \<and> (\<forall>rq w s. gw_docs gw rq w s \<noteq> None)"

lemma handler_returns:
  assumes "bodies_end (gw_net gw)" "pages_return gw" "rt \<in> set (gateway_routes gw env)"
  shows "\<exists>w' s'. snd rt rq w s = Some (w', s')"
  using assms(3)
proof (cases rule: gateway_route_cases)
  case (proxied url)
  with createServiceProxy_returns [OF assms(1)] show ?thesis by (metis surj_pair)
qed (use assms(2) in \<open>auto simp: pages_return_def debug_static_handler_def health_page_def\<close>)

lemma gateway_serve_returns:
  assumes "gmux_laws (gw_mux gw)" "bodies_end (gw_net gw)" "pages_return gw"
  shows "\<exists>w' st'. gateway_serve gw env rq w st = Some (w', st')"
proof (cases "gw_mux gw (map fst (gateway_routes gw env)) (gq_method rq) (gq_path rq)")
  case (Matched k)
  then have "gateway_routes gw env ! k \<in> set (gateway_routes gw env)"
    using assms(1) unfolding gmux_laws_def by fastforce
  from handler_returns [OF assms(2,3) this] obtain w' s' where
    "snd (gateway_routes gw env ! k) rq (Set_header ''X-Request-ID'' (ge_request_id env) w) (snd st) = Some (w', s')"
    by metis
  with Matched show ?thesis
    by (auto simp: gateway_serve_def Let_def RequestLogger_Middleware_def Limiter_Middleware_def
        split: prod.split bool.split)
qed (auto simp: gateway_serve_def Let_def)

definition requests :: "gw_event list \<Rightarrow> nat" where
  "requests es = length (filter (\<lambda>e. case e of Serve _ _ \<Rightarrow> True | CleanupTick _ \<Rightarrow> False) es)"

lemma gateway_run_returns:
  assumes "gmux_laws (gw_mux gw)" "bodies_end (gw_net gw)" "pages_return gw"
  shows "\<exists>ws st'. gateway_run gw es st = Some (ws, st') \<and> length ws = requests es"
proof (induction es arbitrary: st)
  case Nil
  show ?case by (simp add: requests_def)
next
  case (Cons e es)
  show ?case
  proof (cases e)
    case (CleanupTick now)
    with Cons [of "(cleanup_tick (fst st) now, snd st)"] show ?thesis by (simp add: requests_def)
  next
    case (Serve env rq)
    obtain w st1 where sv: "gateway_serve gw env rq fresh_writer st = Some (w, st1)"
      using gateway_serve_returns [OF assms] by blast
    obtain ws st' where "gateway_run gw es st1 = Some (ws, st')" "length ws = requests es" using Cons by blast
    with sv Serve show ?thesis by (simp add: requests_def)
  qed
qed

end
