(* ===== verification/GatewaySystem.thy ===== *)
theory GatewaySystem
  imports GatewayMain GatewayProps RouteProps
begin

text \<open>
  Properties of the gateway as a whole, with its router, its limiter and the services behind it: what
  a client gets, how many requests reach the services, that every request is answered, and who can
  change books through it.
\<close>

section \<open>An example gateway\<close>

fun first_match :: "(string list option \<times> gw_path) list \<Rightarrow> string \<Rightarrow> string \<Rightarrow> nat option" where
  "first_match [] m p = None"
| "first_match (r # rs) m p = (if route_matches r m p then Some 0 else map_option Suc (first_match rs m p))"

definition plain_gmux :: gw_mux where
  "plain_gmux rs m p =
     (case first_match rs m p of
        Some k \<Rightarrow> Matched k
      | None \<Rightarrow> if list_ex (\<lambda>r. path_matches (snd r) p) rs then MethodMismatch else NoMatch)"

lemma first_match_Some:
  "first_match rs m p = Some k \<Longrightarrow>
     k < length rs \<and> route_matches (rs ! k) m p \<and> (\<forall>j < k. \<not> route_matches (rs ! j) m p)"
proof (induction rs m p arbitrary: k rule: first_match.induct)
  case (2 r rs m p)
  then show ?case by (cases k) (auto split: if_splits simp: less_Suc_eq_0_disj)
qed simp

lemma plain_gmux_laws: "gmux_laws plain_gmux"
  using first_match_Some by (auto simp: gmux_laws_def plain_gmux_def split: option.splits if_splits)

definition no_files :: file_system where
  "no_files = \<lparr>fs_join = (\<lambda>a b. a @ ''/'' @ b), fs_abs = (\<lambda>p. Inr (''/srv/'' @ p)),
     fs_glob = (\<lambda>_. Inr []), fs_stat = (\<lambda>_. Inl (errors_New ''no such file'')),
     fs_read = (\<lambda>_. Inl (errors_New ''no such file'')), fs_getwd = Inr ''/srv''\<rparr>"

definition demo_world :: "('r, 's) network \<Rightarrow> ('r, 's) gateway_world" where
  "demo_world nw = \<lparr>gw_net = nw, gw_text = (\<lambda>_. ''{}''), gw_parse_ip = (\<lambda>_. None), gw_fs = no_files,
     gw_files = (\<lambda>_ rq w s. Some (w, s)), gw_docs = (\<lambda>rq w s. Some (w, s)), gw_mux = plain_gmux,
     gw_config = demo_gateway\<rparr>"

definition demo_env_at :: "time \<Rightarrow> gateway_env" where
  "demo_env_at now = \<lparr>ge_now = now, ge_request_id = ''r-1'', ge_health = (\<lambda>_. Inr 200)\<rparr>"

section \<open>What a client gets\<close>

definition service_of :: "gateway_config \<Rightarrow> (string \<times> string) list" where
  "service_of cfg = [(''/api/books'', gc_book_http cfg), (''/api/categories'', gc_category_http cfg),
     (''/api/users'', gc_user_http cfg), (''/api/auth'', gc_user_http cfg)]"

lemma proxied_route:
  assumes "k < length (gateway_routes gw env)" "snd (fst (gateway_routes gw env ! k)) = Prefix p"
    and "(p, url) \<in> set (service_of (gw_config gw))"
  shows "snd (gateway_routes gw env ! k) = createServiceProxy (gw_net gw) url"
proof -
  have "k < 8" using assms(1) by (simp add: gateway_routes_def setupServiceProxies_def Let_def)
  then have "k = 0 \<or> k = 1 \<or> k = 2 \<or> k = 3 \<or> k = 4 \<or> k = 5 \<or> k = 6 \<or> k = 7" by presburger
  with assms(2,3) show ?thesis
    by (elim disjE) (auto simp: gateway_routes_def setupServiceProxies_def Let_def service_of_def)
qed

lemma gateway_serve_proxied:
  assumes "gmux_laws (gw_mux gw)"
    and "gw_mux gw (map fst (gateway_routes gw env)) (gq_method rq) (gq_path rq) = Matched k"
    and "snd (fst (gateway_routes gw env ! k)) = Prefix p" and "(p, url) \<in> set (service_of (gw_config gw))"
    and "Allow (fst st) (extractClientIP (gw_parse_ip gw) (gateway_view rq)) (ge_now env) = (True, rl)"
    and "url \<noteq> []" and "nw_check (gw_net gw) (gq_method rq) (target_url (service_target url) rq) = None"
    and "canonical_entries (gq_headers rq)"
    and "nw_do (gw_net gw) \<lparr>or_method = gq_method rq, or_url = target_url (service_target url) rq,
        or_header = (header_of (gq_headers rq))(''X-Forwarded-Host'' := [gq_host rq],
          ''X-Forwarded-For'' := [gq_remote rq], ''X-Gateway'' := [''library-system-api-gateway'']),
        or_body = gq_body rq\<rparr> (snd st) = (Inr resp, s')"
    and "canonical_entries (up_headers resp)"
    and "reads_to (nw_read (gw_net gw)) (up_body resp) data e" and "takes_all (nw_write (gw_net gw)) add_body"
  shows "gateway_serve gw env rq fresh_writer st =
    Some (\<lparr>wr_status = Some (up_status resp),
           wr_header = (header_of (up_headers resp))
             (''X-Request-Id'' := ge_request_id env # header_of (up_headers resp) ''X-Request-Id''),
           wr_body = data\<rparr>, (rl, s'))"
proof -
  let ?w = "Set_header ''X-Request-ID'' (ge_request_id env) fresh_writer"
  have "k < length (gateway_routes gw env)" using assms(1,2) unfolding gmux_laws_def by fastforce
  note h = proxied_route [OF this assms(3,4)]
  have w: "wr_status ?w = None" "wr_body ?w = []" "wr_header ?w = (\<lambda>_. [])(''X-Request-Id'' := [ge_request_id env])"
    by (simp_all add: Set_header_def fresh_writer_def Header_Set_def)
  have do: "nw_do (gw_net gw) \<lparr>or_method = gq_method rq, or_url = target_url (service_target url) rq,
      or_header = proxy_header rq, or_body = gq_body rq\<rparr> (snd st) = (Inr resp, s')"
    using assms(9) by (simp add: proxy_header_spec [OF assms(8)])
  have "createServiceProxy (gw_net gw) url rq ?w (snd st) =
    Some (\<lparr>wr_status = Some (up_status resp), wr_header = (\<lambda>k. wr_header ?w k @ header_of (up_headers resp) k),
           wr_body = wr_body ?w @ data\<rparr>, s')"
    by (rule createServiceProxy_into [OF assms(6,7) do assms(10-12) w(1)])
  moreover have "(\<lambda>k. wr_header ?w k @ header_of (up_headers resp) k) = (header_of (up_headers resp))
      (''X-Request-Id'' := ge_request_id env # header_of (up_headers resp) ''X-Request-Id'')"
    by (rule ext) (simp add: w)
  ultimately have "createServiceProxy (gw_net gw) url rq ?w (snd st) =
    Some (\<lparr>wr_status = Some (up_status resp),
           wr_header = (header_of (up_headers resp))
             (''X-Request-Id'' := ge_request_id env # header_of (up_headers resp) ''X-Request-Id''),
           wr_body = data\<rparr>, s')" by (simp only: w append_Nil)
  then show ?thesis
    using assms(2,5) h
    by (simp add: gateway_serve_def Let_def RequestLogger_Middleware_def Limiter_Middleware_def)
qed


abbreviation demo_st :: "rate_limiter \<times> out_request list" where
  "demo_st \<equiv> (gateway_limiter demo_gateway 0, [])"

lemma demo_match:
  "gw_mux (demo_world nw) (map fst (gateway_routes (demo_world nw) (demo_env_at now))) ''GET'' ''/api/books'' = Matched 4"
  "snd (fst (gateway_routes (demo_world nw) (demo_env_at now) ! 4)) = Prefix ''/api/books''"
  by (simp_all add: demo_world_def gateway_routes_def setupServiceProxies_def Let_def plain_gmux_def
      route_matches_def)


section \<open>How much reaches the services\<close>


definition tight_gateway :: gateway_config where
  "tight_gateway = demo_gateway\<lparr>gc_rate_global := 1, gc_rate_global_burst := 1\<rparr>"

abbreviation tight_world :: "(string list, out_request list) gateway_world" where
  "tight_world \<equiv> (demo_world demo_network)\<lparr>gw_config := tight_gateway\<rparr>"

definition two_requests :: "gw_event list" where
  "two_requests = [Serve (demo_env_at 0) demo_gateway_request, Serve (demo_env_at 0) demo_gateway_request]"

lemma demo_bodies_end: "bodies_end demo_network"
  using script_reads by (auto simp: bodies_end_def demo_network_def)

lemma demo_laws:
  "gmux_laws (gw_mux (demo_world nw))" "pages_return (demo_world nw)" "requests two_requests = 2"
  by (simp_all add: demo_world_def plain_gmux_laws pages_return_def requests_def two_requests_def)


section \<open>Every request is answered\<close>



section \<open>Who changes books\<close>

text \<open>
  The services behind the gateway serve the routes \<open>rs\<close> through the router \<open>mx\<close>: a request that changes
  the state has been handed to it with its method and its \<open>Authorization\<close> header. The third-party pages
  leave the state alone.
\<close>

definition behind_gateway :: "('r, 's) gateway_world \<Rightarrow> mux_lib \<Rightarrow> 's route list \<Rightarrow> bool" where
  "behind_gateway gw mx rs \<longleftrightarrow>
     (\<forall>q s. snd (nw_do (gw_net gw) q s) = s \<or>
        (\<exists>p rq rsp. rq_header rq ''Authorization'' = Header_Get ''Authorization'' (or_header q) \<and>
           serve_http mx rs (or_method q) p rq s = Some (rsp, snd (nw_do (gw_net gw) q s)))) \<and>
     (\<forall>dir rq w s w' s'. gw_files gw dir rq w s = Some (w', s') \<longrightarrow> s' = s) \<and>
     (\<forall>rq w s w' s'. gw_docs gw rq w s = Some (w', s') \<longrightarrow> s' = s)"

lemma authorization_key [simp]: "canonical_key ''Authorization'' = ''Authorization''"
  by code_simp

lemma gateway_reaches:
  assumes "gmux_laws (gw_mux gw)" "behind_gateway gw mx rs" "canonical_entries (gq_headers rq)"
    and "gateway_serve gw ge rq w st = Some (w', st')" "snd st' \<noteq> snd st"
  obtains p rq' rsp where "rq_header rq' ''Authorization'' = rq_header (gateway_view rq) ''Authorization''"
    "serve_http mx rs (gq_method rq) p rq' (snd st) = Some (rsp, snd st')"
  using assms(1,4)
proof (cases rule: gateway_serve_cases)
  case fallback
  with assms(5) show ?thesis by simp
next
  case (limited rl)
  with assms(5) show ?thesis by simp
next
  case (served rl rt s')
  from served(2) obtain url where "snd rt = createServiceProxy (gw_net gw) url"
    using served(3,4) assms(2,5)
    by (cases rule: gateway_route_cases) (auto simp: behind_gateway_def debug_static_handler_def health_page_def)
  with served(3) createServiceProxy_calls [of "gw_net gw" url rq] assms(5) served(4) obtain q
    where q: "s' = snd (nw_do (gw_net gw) q (snd st))" "or_method q = gq_method rq" "or_header q = proxy_header rq"
    by fastforce
  with assms(2,5) served(4) obtain p rq' rsp where
    "rq_header rq' ''Authorization'' = Header_Get ''Authorization'' (proxy_header rq)"
    "serve_http mx rs (gq_method rq) p rq' (snd st) = Some (rsp, s')"
    unfolding behind_gateway_def by (metis snd_conv)
  moreover have "Header_Get ''Authorization'' (proxy_header rq) = rq_header (gateway_view rq) ''Authorization''"
    by (simp add: Header_Get_def proxy_header_spec [OF assms(3)] gateway_view_def)
  ultimately show ?thesis using that served(4) by simp
qed

text \<open>
  C2. No way around the token check through the gateway: when a request of a client to the gateway changes
  the books or their links, the limiter admitted it, its method is not GET, and it carried a bearer
  token that the secret key of the book service verifies, that has not expired, and whose role is admin
  or librarian.
\<close>

theorem gateway_books_authorized:
  assumes "book_backend r books links valid opened usable tbooks tlinks pg sub view"
    and "book_inv r books valid view s" and "jwt_laws (ja_lib j)" and "mux_laws mx" and "gmux_laws (gw_mux gw)"
    and "behind_gateway gw mx
      (book_routes (HTTPMiddleware j now) (brc_uuid r) vd (NewBookService (book_module r cl)) env)"
    and "canonical_entries (gq_headers rq)"
    and "gateway_serve gw ge rq w (rl, s) = Some (w', (rl', s'))"
    and "books (fst s') \<noteq> books (fst s) \<or> links (fst s') \<noteq> links (fst s)"
  shows "fst (Allow rl (extractClientIP (gw_parse_ip gw) (gateway_view rq)) (ge_now ge)) \<and>
    gq_method rq \<noteq> ''GET'' \<and> staff_token j now (gateway_view rq)"
proof -
  have change: "snd (rl', s') \<noteq> snd (rl, s)" using assms(9) by auto
  from assms(5,8) have "fst (Allow rl (extractClientIP (gw_parse_ip gw) (gateway_view rq)) (ge_now ge))"
    using change by (cases rule: gateway_serve_cases) auto
  moreover obtain p rq' rsp where rq': "rq_header rq' ''Authorization'' = rq_header (gateway_view rq) ''Authorization''"
    and run: "serve_http mx (book_routes (HTTPMiddleware j now) (brc_uuid r) vd (NewBookService (book_module r cl)) env)
      (gq_method rq) p rq' s = Some (rsp, s')"
    by (rule gateway_reaches [OF assms(5-8) change]) simp
  moreover have "gq_method rq \<noteq> ''GET'' \<and> staff_token j now rq'"
    by (rule book_routes_staff [OF assms(1-4) run assms(9)])
  ultimately show ?thesis by (simp add: staff_token_def)
qed

text \<open>The book service as the network of the gateway.\<close>

definition book_network :: "(string list, mem_books \<times> (string \<rightharpoonup> json)) network" where
  "book_network =
     \<lparr>nw_check = (\<lambda>_ _. None),
      nw_do = (\<lambda>q s. case serve_http plain_mux demo_book_routes (or_method q) (drop 24 (or_url q))
          (demo_request\<lparr>rq_header := (\<lambda>_. Header_Get ''Authorization'' (or_header q)), rq_vars := (\<lambda>_. ''aaa'')\<rparr>) s of
            None \<Rightarrow> (Inr \<lparr>up_status = 404, up_headers = [], up_body = []\<rparr>, s)
          | Some (rsp, s') \<Rightarrow> (Inr \<lparr>up_status = rs_status rsp, up_headers = [], up_body = []\<rparr>, s')),
      nw_read = script_reader, nw_write = client_writer\<rparr>"

lemma book_network_behind: "behind_gateway (demo_world book_network) plain_mux demo_book_routes"
proof -
  let ?rq = "\<lambda>q. demo_request\<lparr>rq_header := (\<lambda>_. Header_Get ''Authorization'' (or_header q)), rq_vars := (\<lambda>_. ''aaa'')\<rparr>"
  have "snd (nw_do book_network q s) = s \<or>
      (\<exists>p rq rsp. rq_header rq ''Authorization'' = Header_Get ''Authorization'' (or_header q) \<and>
         serve_http plain_mux demo_book_routes (or_method q) p rq s = Some (rsp, snd (nw_do book_network q s)))" for q s
  proof (cases "serve_http plain_mux demo_book_routes (or_method q) (drop 24 (or_url q)) (?rq q) s")
    case (Some y)
    then have "rq_header (?rq q) ''Authorization'' = Header_Get ''Authorization'' (or_header q) \<and>
      serve_http plain_mux demo_book_routes (or_method q) (drop 24 (or_url q)) (?rq q) s
        = Some (fst y, snd (nw_do book_network q s))"
      by (simp add: book_network_def split: prod.split)
    then show ?thesis by blast
  qed (simp add: book_network_def)
  then show ?thesis by (simp add: behind_gateway_def demo_world_def)
qed

lemma book_network_do:
  assumes "Header_Get ''Authorization'' (or_header q) = a" "drop 24 (or_url q) = p" "or_method q = m"
    and "serve_http plain_mux demo_book_routes m p
      (demo_request\<lparr>rq_header := (\<lambda>_. a), rq_vars := (\<lambda>_. ''aaa'')\<rparr>) s = Some (rsp, s')"
  shows "nw_do book_network q s = (Inr \<lparr>up_status = rs_status rsp, up_headers = [], up_body = []\<rparr>, s')"
  using assms by (simp add: book_network_def)

definition delete_request :: gateway_request where
  "delete_request = \<lparr>gq_method = ''DELETE'', gq_path = ''/api/books/aaa'', gq_query = [],
     gq_headers = [(''Authorization'', [''Bearer '' @ token_for RoleLibrarian])], gq_host = ''library.io'',
     gq_remote = ''10.0.0.1:5000'', gq_body = []\<rparr>"

abbreviation book_st :: "rate_limiter \<times> mem_books \<times> (string \<rightharpoonup> json)" where
  "book_st \<equiv> (gateway_limiter demo_gateway 0, demo_shelf)"

lemma new_limiter_admits: "0 \<le> now \<Longrightarrow> fst (Allow (gateway_limiter demo_gateway 0) ip now)"
  by (simp add: gateway_limiter_def demo_gateway_def Allow_eq NewRateLimiter_def ip_bucket_def
      refillBucket_def min_float_def Let_def Seconds_def)

lemma delete_keys: "canonical_entries (gq_headers delete_request)"
  by (simp add: canonical_entries_def delete_request_def)

lemma delete_run:
  "\<exists>w' rl' s'. gateway_serve (demo_world book_network) (demo_env_at 3000000000) delete_request fresh_writer book_st
     = Some (w', (rl', s')) \<and> mem_rows (mb_books (fst s')) 2 = None"
proof -
  let ?gw = "demo_world book_network" and ?env = "demo_env_at 3000000000" and ?rq = delete_request
  let ?u = "gc_book_http demo_gateway"
  let ?q = "\<lparr>or_method = gq_method ?rq, or_url = target_url (service_target ?u) ?rq,
      or_header = (header_of (gq_headers ?rq))(''X-Forwarded-Host'' := [gq_host ?rq],
        ''X-Forwarded-For'' := [gq_remote ?rq], ''X-Gateway'' := [''library-system-api-gateway'']),
      or_body = gq_body ?rq\<rparr>"
  have laws: "gmux_laws (gw_mux ?gw)" by (simp add: demo_world_def plain_gmux_laws)
  have m: "gw_mux ?gw (map fst (gateway_routes ?gw ?env)) (gq_method ?rq) (gq_path ?rq) = Matched 4"
    by (simp add: delete_request_def demo_world_def gateway_routes_def setupServiceProxies_def Let_def
        plain_gmux_def route_matches_def)
  have p: "(''/api/books'', ?u) \<in> set (service_of (gw_config ?gw))" by (simp add: demo_world_def service_of_def)
  have "fst (Allow (fst book_st) (extractClientIP (gw_parse_ip ?gw) (gateway_view ?rq)) (ge_now ?env))"
    by (simp add: new_limiter_admits demo_env_at_def)
  then obtain rl where a: "Allow (fst book_st) (extractClientIP (gw_parse_ip ?gw) (gateway_view ?rq)) (ge_now ?env) = (True, rl)"
    by (metis prod.collapse)
  have net: "gw_net ?gw = book_network" by (simp add: demo_world_def)
  have url: "?u \<noteq> []" by (simp add: demo_gateway_def)
  have ok: "nw_check (gw_net ?gw) (gq_method ?rq) (target_url (service_target ?u) ?rq) = None"
    by (simp add: net) (simp add: book_network_def)
  let ?run = "serve_http plain_mux demo_book_routes ''DELETE'' ''/api/books/aaa'' (request_as RoleLibrarian ''aaa'') demo_shelf"
  have "map_option (\<lambda>y. mem_rows (mb_books (fst (snd y))) 2) ?run = Some None" by (rule librarian_deletes)
  then obtain rsp s' where del: "?run = Some (rsp, s')" and gone: "mem_rows (mb_books (fst s')) 2 = None" by auto
  have q1: "Header_Get ''Authorization'' (or_header ?q) = ''Bearer '' @ token_for RoleLibrarian"
    by (simp add: Header_Get_def delete_request_def header_of_def)
  have q2: "drop 24 (or_url ?q) = ''/api/books/aaa''"
    by (simp add: delete_request_def target_url_def demo_gateway_def service_target_def)
  have q3: "or_method ?q = ''DELETE''" by (simp add: delete_request_def)
  have go: "nw_do (gw_net ?gw) ?q (snd book_st)
      = (Inr \<lparr>up_status = rs_status rsp, up_headers = [], up_body = []\<rparr>, s')"
    using book_network_do [OF q1 q2 q3 del] by (simp only: net snd_conv)
  let ?resp = "\<lparr>up_status = rs_status rsp, up_headers = [], up_body = []\<rparr>"
  have up: "canonical_entries (up_headers ?resp)" by (simp add: canonical_entries_def)
  have rd: "reads_to (nw_read (gw_net ?gw)) (up_body ?resp) [] io_EOF"
    using script_reads [of "[]"] by (simp add: net) (simp add: book_network_def)
  have wr: "takes_all (nw_write (gw_net ?gw)) add_body"
    using client_takes_all by (simp add: net) (simp add: book_network_def)
  from gateway_serve_proxied [OF laws m demo_match(2) p a url ok delete_keys go up rd wr] gone show ?thesis by blast
qed

lemma gateway_books_authorized_witness:
  "staff_token demo_auth 3000000000 (gateway_view delete_request)"
proof -
  obtain w' rl' s' where run: "gateway_serve (demo_world book_network) (demo_env_at 3000000000) delete_request
      fresh_writer (gateway_limiter demo_gateway 0, demo_shelf) = Some (w', (rl', s'))"
    and gone: "mem_rows (mb_books (fst s')) 2 = None" using delete_run by blast
  have "mem_rows (mb_books (fst demo_shelf)) 2 \<noteq> None" by code_simp
  with gone have changed: "mem_rows (mb_books (fst s')) \<noteq> mem_rows (mb_books (fst demo_shelf)) \<or>
      mem_rows (mb_links (fst s')) \<noteq> mem_rows (mb_links (fst demo_shelf))" by auto
  have jwt: "jwt_laws (ja_lib demo_auth)" using plain_jwt_laws by simp
  from gateway_books_authorized [OF mem_book_backend demo_shelf_inv jwt plain_mux_laws demo_laws(1)
      book_network_behind delete_keys run changed]
  show ?thesis by blast
qed

end
