(* ===== verification/Envelope.thy ===== *)
theory Envelope
  imports RouteProps
begin

text \<open>
  The shape of what the three services answer over HTTP: one JSON envelope for success and one for
  errors, whose \<open>status\<close> field is the status of the response.
\<close>

definition success_codes :: "int list" where
  "success_codes = [200, 201]"

definition error_codes :: "int list" where
  "error_codes = [400, 401, 403, 404, 409, 500]"

text \<open>\<open>models.SuccessResponse\<close> and \<open>models.ErrorResponse\<close>, with their optional last field.\<close>

definition envelope :: "http_response \<Rightarrow> bool" where
  "envelope rsp \<longleftrightarrow> (\<exists>msg rest.
     rs_body rsp = JObj ((''status'', JInt (rs_status rsp)) # (''message'', JStr msg) # rest) \<and>
     (rs_status rsp \<in> set success_codes \<and> rest \<in> {[]} \<union> (\<lambda>d. [(''data'', d)]) ` UNIV \<or>
      rs_status rsp \<in> set error_codes \<and> rest \<in> {[]} \<union> (\<lambda>e. [(''error'', JStr e)]) ` UNIV))"

lemma envelope_error [intro, simp]: "st \<in> set error_codes \<Longrightarrow> envelope (RespondWithError st msg err)"
  by (auto simp: envelope_def RespondWithError_def str_field_def split: option.split)

lemma envelope_success [intro, simp]: "st \<in> set success_codes \<Longrightarrow> envelope (RespondWithSuccess st msg d)"
  by (auto simp: envelope_def RespondWithSuccess_def RespondWithJSON_def opt_field_def split: option.split)

lemma codes [simp]:
  "200 \<in> set success_codes" "201 \<in> set success_codes" "400 \<in> set error_codes" "401 \<in> set error_codes"
  "403 \<in> set error_codes" "404 \<in> set error_codes" "409 \<in> set error_codes" "500 \<in> set error_codes"
  by (simp_all add: success_codes_def error_codes_def)

text \<open>A handler that always answers with an envelope.\<close>

definition enveloped :: "'s http_handler \<Rightarrow> bool" where
  "enveloped h \<longleftrightarrow> (\<forall>rq s. envelope (fst (h rq s)))"

lemma envelope_helpers [simp]:
  "envelope (write_error e)" "envelope (internal_error e)" "envelope (user_lookup_error e)"
  "envelope (taken_error e)" "envelope (invalid_book_id ul rq)"
  by (simp_all add: write_error_def internal_error_def user_lookup_error_def taken_error_def invalid_book_id_def)

lemma enveloped_guard: "enveloped h \<Longrightarrow> enveloped (HTTPMiddleware j now h)"
  by (simp add: enveloped_def HTTPMiddleware_def Let_def split: option.split sum.split)

lemma enveloped_books:
  "enveloped (HandleListBooks svc)" "enveloped (HandleSearchBooks svc)" "enveloped (HandleGetBookByISBN svc)"
  "enveloped (HandleGetBooksByCategory svc)" "enveloped (HandleGetBook ul svc)"
  "enveloped (HandleCreateBook vd svc env)" "enveloped (HandleUpdateBook ul vd svc env)"
  "enveloped (HandleDeleteBook ul svc)"
  by (simp_all add: enveloped_def HandleListBooks_def HandleSearchBooks_def HandleGetBookByISBN_def
      HandleGetBooksByCategory_def HandleGetBook_def HandleCreateBook_def HandleUpdateBook_def
      HandleDeleteBook_def respond_books_def Let_def split: option.split sum.split prod.split)

lemma enveloped_categories:
  "enveloped (HandleListCategories cs)" "enveloped (HandleGetCategoryByName cs)"
  "enveloped (HandleGetCategory ul cs)" "enveloped (HandleGetCategoryChildren ul cs)"
  "enveloped (HandleCreateCategory vd cs cenv)" "enveloped (HandleUpdateCategory ul vd cs)"
  "enveloped (HandleDeleteCategory ul cs)"
  by (simp_all add: enveloped_def HandleListCategories_def HandleGetCategoryByName_def
      HandleGetCategory_def HandleGetCategoryChildren_def HandleCreateCategory_def
      HandleUpdateCategory_def HandleDeleteCategory_def Let_def
      split: option.split sum.split prod.split)

lemma enveloped_users:
  "enveloped (HandleCreateUser vd us)" "enveloped (HandleListUsers us)" "enveloped (HandleGetUser ul us)"
  "enveloped (HandleGetUserByEmail us)" "enveloped (HandleGetUserByUsername us)"
  "enveloped (HandleUpdateUser ul vd us)" "enveloped (HandleDeleteUser ul us)"
  "enveloped (HandleChangePassword ul vd us)"
  by (simp_all add: enveloped_def HandleCreateUser_def HandleListUsers_def HandleGetUser_def
      HandleGetUserByEmail_def HandleGetUserByUsername_def HandleUpdateUser_def HandleDeleteUser_def
      HandleChangePassword_def Let_def split: option.split sum.split prod.split)

lemma enveloped_auth:
  "enveloped (HandleLogin vd au)" "enveloped (HandleRegister vd au)" "enveloped (HandleRefreshToken vd au)"
  "enveloped (HandleLogout au)"
  by (simp_all add: enveloped_def HandleLogin_def HandleRegister_def HandleRefreshToken_def
      HandleLogout_def Let_def split: option.split sum.split prod.split)



end
