(* ===== verification/ServiceMain.thy ===== *)
theory ServiceMain
  imports Routes BookSpec UserBackend
begin

text \<open>
  The processes of the three services (\<open>services/*/cmd/main.go\<close>): how they start, the HTTP router with its
  middleware, the gRPC server with its interceptors and the methods behind it, and the shut-down. The
  three files are the same up to the module they start and, in the user service, the token check of
  the gRPC server.
\<close>

section \<open>Start\<close>

text \<open>
  \<open>sql.Open\<close>, \<open>Ping\<close>, \<open>gorm.Open\<close> (which gives the repositories their database) and the Redis client
  are parameters.
\<close>

record ('h, 'c, 'r) platform =
  pf_open :: "string \<Rightarrow> 'h result"
  pf_ping :: "'h \<Rightarrow> go_error option"
  pf_gorm :: "'h \<Rightarrow> 'r result"
  pf_redis :: "string \<Rightarrow> string \<Rightarrow> int \<Rightarrow> 'c redis_client"
  pf_redis_ping :: "'c redis_client \<Rightarrow> go_error option"

record redis_config =
  rcf_host :: string
  rcf_port :: string
  rcf_password :: string
  rcf_db :: int

definition NewRedis :: "('h, 'c, 'r) platform \<Rightarrow> redis_config \<Rightarrow> 'c redis_client result" where
  "NewRedis pf cfg =
     (let client = pf_redis pf (rcf_host cfg @ '':'' @ rcf_port cfg) (rcf_password cfg) (rcf_db cfg)
      in case pf_redis_ping pf client of
           Some e \<Rightarrow> Inl (errorf_wrap ''failed to connect to Redis'' e)
         | None \<Rightarrow> Inr client)"

text \<open>
  \<open>panic\<close>, \<open>log.Fatal\<close> (which ends the process), or the module the servers run on; \<open>name\<close> is the
  name of the service in the message.
\<close>

datatype 'm startup = Panics string | Exits string | Runs 'm

definition start_service ::
  "('h, 'c, 'r) platform \<Rightarrow> string \<Rightarrow> service_config result \<Rightarrow>
   (service_config \<Rightarrow> 'h \<Rightarrow> 'c redis_client option \<Rightarrow> 'm result) \<Rightarrow> 'm startup" where
  "start_service pf name loaded new_module =
     (case loaded of
        Inl e \<Rightarrow> Panics (''Error loading config: '' @ err_msg e)
      | Inr cfg \<Rightarrow>
          (case pf_open pf (GetDSN cfg) of
             Inl e \<Rightarrow> Exits ''Failed to connect to database''
           | Inr db \<Rightarrow>
               (case pf_ping pf db of
                  Some e \<Rightarrow> Exits ''Failed to ping database''
                | None \<Rightarrow>
                    let redisClient = (case NewRedis pf \<lparr>rcf_host = cf_redis_host cfg, rcf_port = cf_redis_port cfg,
                                           rcf_password = cf_redis_password cfg, rcf_db = 0\<rparr> of
                                         Inl _ \<Rightarrow> None
                                       | Inr client \<Rightarrow> Some client)
                    in (case new_module cfg db redisClient of
                          Inl e \<Rightarrow> Exits (''Failed to initialize '' @ name @ '' service module'')
                        | Inr m \<Rightarrow> Runs m))))"

text \<open>
  \<open>module.New\<close> of the three services, with the database of \<open>gorm.Open\<close> and the cache, or none; \<open>dial\<close> is the
  connection of the book service to the category service.
\<close>

definition new_category_module ::
  "('h, 'c, ('d, 'c) category_repo_conf) platform \<Rightarrow> service_config \<Rightarrow> 'h \<Rightarrow> 'c redis_client option \<Rightarrow>
   ('d \<times> 'c) category_service result" where
  "new_category_module pf cfg db redis =
     (case pf_gorm pf db of
        Inl e \<Rightarrow> Inl e
      | Inr r \<Rightarrow> Inr (NewCategoryService (crc_uuid r) (NewCategoryRepository (r\<lparr>crc_cache := redis\<rparr>))))"

definition new_book_module ::
  "('h, 'c, ('d, 't, 'c) book_repo_conf) platform \<Rightarrow> (string \<Rightarrow> category_stub result) \<Rightarrow> service_config \<Rightarrow> 'h \<Rightarrow>
   'c redis_client option \<Rightarrow> ('d \<times> 'c) book_service result" where
  "new_book_module pf dial cfg db redis =
     (case pf_gorm pf db of
        Inl e \<Rightarrow> Inl e
      | Inr r \<Rightarrow> Inr (NewBookService (book_module (r\<lparr>brc_cache := redis\<rparr>) (Some (NewCategoryClient dial (cf_category_url cfg))))))"

text \<open>An expiry of zero is replaced: 15 minutes for access tokens, a week for refresh tokens.\<close>

definition or_expiry :: "duration \<Rightarrow> duration \<Rightarrow> duration" where
  "or_expiry d default_expiry = (if d = 0 then default_expiry else d)"

definition new_user_module ::
  "('h, 'c, ('d, 'c) user_repo_conf) platform \<Rightarrow> jwt_lib \<Rightarrow> service_config \<Rightarrow> 'h \<Rightarrow>
   'c redis_client option \<Rightarrow> ('d \<times> 'c) auth_service_conf result" where
  "new_user_module pf jl cfg db redis =
     (let accessTokenExpiry = or_expiry (cf_access_expiry cfg) (15 * 60 * 1000000000);
          refreshTokenExpiry = or_expiry (cf_refresh_expiry cfg) (7 * 24 * 3600 * 1000000000)
      in case pf_gorm pf db of
           Inl e \<Rightarrow> Inl e
         | Inr r \<Rightarrow> Inr (user_module (r\<lparr>urc_cache := redis\<rparr>) jl (cf_jwt_secret cfg) accessTokenExpiry refreshTokenExpiry))"

section \<open>The HTTP servers\<close>

text \<open>
  \<open>router.Use(recovery, logger)\<close>: every route stands behind the recovery middleware; the health check
  is registered before the routes of the service.
\<close>

definition recovered :: "'s http_handler \<Rightarrow> 's http_handler" where
  "recovered h = Recovery_Middleware (\<lambda>rq s. case h rq s of (rsp, s') \<Rightarrow> (Returns rsp, s'))"

definition server_routes :: "'s http_handler \<Rightarrow> 's route list \<Rightarrow> 's route list" where
  "server_routes health rs =
     map (\<lambda>r. r\<lparr>rt_handler := recovered (rt_handler r)\<rparr>) (route [''GET''] ''/health'' health # rs)"

lemma recovered_id [simp]: "recovered h = h"
  by (intro ext) (simp add: recovered_def Recovery_Middleware_def split: prod.split)

section \<open>The gRPC servers\<close>

text \<open>
  The methods of the generated servers, with their messages. A method without an implementation is
  answered by the embedded \<open>Unimplemented\<close> server. The health messages carry no check of the database.
\<close>

datatype book_call = RpcGetBook string | RpcListBooks list_books_request | RpcCreateBook create_book_request
  | RpcUpdateBook update_book_request | RpcDeleteBook string | RpcSearchBooks string "string option" int int
  | RpcGetBooksByCategory string int int | RpcBookHealth | RpcBookUnimplemented string

datatype book_reply = OneBook proto_book | SomeBooks "proto_book list_response" | BookEmpty | BookHealthy

definition book_method ::
  "uuid_lib \<Rightarrow> 's book_service \<Rightarrow> book_env \<Rightarrow> book_call \<Rightarrow> (book_reply, 's) grpc_handler" where
  "book_method ul svc env call ctx s =
     (case call of
        RpcGetBook i \<Rightarrow> apfst (map_sum id OneBook) (GRPC_GetBook ul svc i s)
      | RpcListBooks req \<Rightarrow> apfst (map_sum id SomeBooks) (GRPC_ListBooks ul svc req s)
      | RpcCreateBook req \<Rightarrow> apfst (map_sum id OneBook) (GRPC_CreateBook ul svc env req s)
      | RpcUpdateBook req \<Rightarrow> apfst (map_sum id OneBook) (GRPC_UpdateBook ul svc env req s)
      | RpcDeleteBook i \<Rightarrow> apfst (map_sum id (\<lambda>_. BookEmpty)) (GRPC_DeleteBook ul svc i s)
      | RpcSearchBooks q f page psize \<Rightarrow> apfst (map_sum id SomeBooks) (GRPC_SearchBooks ul svc q f page psize s)
      | RpcGetBooksByCategory c page psize \<Rightarrow> apfst (map_sum id SomeBooks) (GRPC_GetBooksByCategory ul svc c page psize s)
      | RpcBookHealth \<Rightarrow> (Inr BookHealthy, s)
      | RpcBookUnimplemented m \<Rightarrow> (Inl (Unimplemented, ''method '' @ m @ '' not implemented''), s))"

datatype category_call = RpcGetCategory string | RpcGetCategoryByName string
  | RpcListCategories int int string bool "string option" | RpcCreateCategory create_category_request
  | RpcUpdateCategory update_category_request | RpcDeleteCategory string | RpcGetCategoryChildren string
  | RpcCategoryHealth | RpcCategoryUnimplemented string

datatype category_reply = OneCategory proto_category | SomeCategories "proto_category list_response"
  | CategoryEmpty | CategoryHealthy

definition category_method ::
  "uuid_lib \<Rightarrow> 's category_service \<Rightarrow> new_row_env \<Rightarrow> category_call \<Rightarrow> (category_reply, 's) grpc_handler" where
  "category_method ul svc env call ctx s =
     (case call of
        RpcGetCategory i \<Rightarrow> apfst (map_sum id OneCategory) (GRPC_GetCategory ul svc i s)
      | RpcGetCategoryByName n \<Rightarrow> apfst (map_sum id OneCategory) (GRPC_GetCategoryByName ul svc n s)
      | RpcListCategories page psize sort_by desc parent \<Rightarrow>
          apfst (map_sum id SomeCategories) (GRPC_ListCategories ul svc page psize sort_by desc parent s)
      | RpcCreateCategory req \<Rightarrow> apfst (map_sum id OneCategory) (GRPC_CreateCategory ul svc env req s)
      | RpcUpdateCategory req \<Rightarrow> apfst (map_sum id OneCategory) (GRPC_UpdateCategory ul svc req s)
      | RpcDeleteCategory i \<Rightarrow> apfst (map_sum id (\<lambda>_. CategoryEmpty)) (GRPC_DeleteCategory ul svc i s)
      | RpcGetCategoryChildren i \<Rightarrow> apfst (map_sum id SomeCategories) (GRPC_GetCategoryChildren ul svc i s)
      | RpcCategoryHealth \<Rightarrow> (Inr CategoryHealthy, s)
      | RpcCategoryUnimplemented m \<Rightarrow> (Inl (Unimplemented, ''method '' @ m @ '' not implemented''), s))"

datatype user_call = RpcGetUser string | RpcGetUserByEmail string | RpcGetUserByUsername string
  | RpcListUsers list_users_request | RpcCreateUser create_user_request | RpcUpdateUser update_user_request
  | RpcDeleteUser string | RpcChangePassword string change_password | RpcLogin user_login | RpcRefreshToken string
  | RpcLogout string | RpcUserHealth | RpcUserUnimplemented string

datatype user_reply = OneUser proto_user | SomeUsers "proto_user list_response" | UserEmpty
  | LoginReply token_response proto_user | TokenReply token_response | UserHealthy

text \<open>A method that returns, and the login, which may panic.\<close>

definition returning :: "('a \<Rightarrow> 'b) \<Rightarrow> 'a grpc_result \<times> 's \<Rightarrow> 'b grpc_result outcome \<times> 's" where
  "returning f y = apfst (\<lambda>r. Returns (map_sum id f r)) y"

definition user_method ::
  "uuid_lib \<Rightarrow> 's user_service \<Rightarrow> 's auth_service \<Rightarrow> user_call \<Rightarrow> grpc_context \<Rightarrow> 's \<Rightarrow>
   user_reply grpc_result outcome \<times> 's" where
  "user_method ul svc au call ctx s =
     (case call of
        RpcGetUser i \<Rightarrow> returning OneUser (GRPC_GetUser ul svc i s)
      | RpcGetUserByEmail e \<Rightarrow> returning OneUser (GRPC_GetUserByEmail ul svc e s)
      | RpcGetUserByUsername n \<Rightarrow> returning OneUser (GRPC_GetUserByUsername ul svc n s)
      | RpcListUsers req \<Rightarrow> returning SomeUsers (GRPC_ListUsers ul svc req s)
      | RpcCreateUser req \<Rightarrow> returning OneUser (GRPC_CreateUser ul svc req s)
      | RpcUpdateUser req \<Rightarrow> returning OneUser (GRPC_UpdateUser ul svc req s)
      | RpcDeleteUser i \<Rightarrow> returning (\<lambda>_. UserEmpty) (GRPC_DeleteUser ul svc i s)
      | RpcChangePassword i req \<Rightarrow> returning (\<lambda>_. UserEmpty) (GRPC_ChangePassword ul svc i req s)
      | RpcLogin req \<Rightarrow>
          (case GRPC_Login ul au req s of
             (Panic v, s') \<Rightarrow> (Panic v, s')
           | (Returns r, s') \<Rightarrow> (Returns (map_sum id (\<lambda>(t, u). LoginReply t u) r), s'))
      | RpcRefreshToken tok \<Rightarrow> returning TokenReply (GRPC_RefreshToken au tok s)
      | RpcLogout tok \<Rightarrow> returning (\<lambda>_. UserEmpty) (GRPC_Logout au tok s)
      | RpcUserHealth \<Rightarrow> (Returns (Inr UserHealthy), s)
      | RpcUserUnimplemented m \<Rightarrow> (Returns (Inl (Unimplemented, ''method '' @ m @ '' not implemented'')), s))"

text \<open>
  \<open>grpc.ChainUnaryInterceptor\<close>: recovery, then logging; the chain of the user service ends with the
  token check.
\<close>

definition plain_chain :: "string \<Rightarrow> ('r, 's) grpc_handler \<Rightarrow> ('r, 's) grpc_handler" where
  "plain_chain request_id h =
     UnaryRecoveryInterceptor (\<lambda>ctx s. case UnaryLoggingInterceptor request_id h ctx s of (r, s') \<Rightarrow> (Returns r, s'))"

definition guarded_chain ::
  "jwt_auth \<Rightarrow> time \<Rightarrow> string \<Rightarrow> (grpc_context \<Rightarrow> 's \<Rightarrow> 'r grpc_result outcome \<times> 's) \<Rightarrow> ('r, 's) grpc_handler" where
  "guarded_chain j now request_id h =
     UnaryRecoveryInterceptor (\<lambda>ctx s.
       case grpc_authenticate j now (with_request_id request_id ctx) of
         Inl e \<Rightarrow> (Returns (Inl e), s)
       | Inr ctx' \<Rightarrow> h ctx' s)"

text \<open>For handlers that return, the guarded chain is the composition of the three interceptors.\<close>

lemma guarded_chain_composed:
  "guarded_chain j now request_id (\<lambda>ctx s. case h ctx s of (r, s') \<Rightarrow> (Returns r, s')) =
   plain_chain request_id (UnaryInterceptor j now h)"
  by (intro ext) (simp add: guarded_chain_def plain_chain_def UnaryRecoveryInterceptor_def
      UnaryLoggingInterceptor_def UnaryInterceptor_def split: sum.split prod.split)

definition book_grpc_server ::
  "uuid_lib \<Rightarrow> 's book_service \<Rightarrow> book_env \<Rightarrow> string \<Rightarrow> book_call \<Rightarrow> (book_reply, 's) grpc_handler" where
  "book_grpc_server ul svc env request_id call = plain_chain request_id (book_method ul svc env call)"

definition category_grpc_server ::
  "uuid_lib \<Rightarrow> 's category_service \<Rightarrow> new_row_env \<Rightarrow> string \<Rightarrow> category_call \<Rightarrow> (category_reply, 's) grpc_handler" where
  "category_grpc_server ul svc env request_id call = plain_chain request_id (category_method ul svc env call)"

definition user_grpc_server ::
  "jwt_auth \<Rightarrow> time \<Rightarrow> uuid_lib \<Rightarrow> 's user_service \<Rightarrow> 's auth_service \<Rightarrow> string \<Rightarrow> user_call \<Rightarrow>
   (user_reply, 's) grpc_handler" where
  "user_grpc_server j now ul svc au request_id call = guarded_chain j now request_id (user_method ul svc au call)"

lemma plain_chain_ctx:
  assumes "\<And>c c' s. h c s = h c' s"
  shows "plain_chain request_id h ctx s = h ctx' s"
  using assms [of "with_request_id request_id ctx" s ctx']
  by (simp add: plain_chain_def UnaryRecoveryInterceptor_def UnaryLoggingInterceptor_def split: prod.split)

end
