(* ===== verification/ServiceMainProps.thy ===== *)
theory ServiceMainProps
  imports ServiceMain RouteProps
begin

text \<open>
  Properties of the service processes: who gets through to the gRPC methods, and how the gRPC methods and
  the HTTP handlers of the same operation compare.
\<close>

section \<open>The gRPC server of the user service\<close>

text \<open>A call with the token of a verified, unexpired identity in its metadata.\<close>

definition grpc_token :: "jwt_auth \<Rightarrow> time \<Rightarrow> grpc_context \<Rightarrow> claims \<Rightarrow> bool" where
  "grpc_token j now ctx c \<longleftrightarrow>
     (\<exists>md h hs tok alg. gc_metadata ctx = Some md \<and> md ''Authorization'' = h # hs \<and> bearer_token h = Some tok \<and>
        jwt_verifies (ja_lib j) (HMAC alg) (ja_secret j) tok c \<and> now < cl_expires c)"

lemma authenticate_token:
  assumes "jwt_laws (ja_lib j)" "grpc_authenticate j now (with_request_id rid ctx) = Inr ctx'"
  shows "\<exists>c. grpc_token j now ctx c"
proof -
  obtain h hs tok c where a: "(case gc_metadata ctx of None \<Rightarrow> [] | Some md \<Rightarrow> md ''Authorization'') = h # hs"
    "bearer_token h = Some tok" "JWT_ValidateToken j tok now = Inr c"
    using assms(2)
    by (auto simp: grpc_authenticate_def with_request_id_def Let_def split: option.splits list.splits sum.splits)
  then obtain md where "gc_metadata ctx = Some md" "md ''Authorization'' = h # hs" by (auto split: option.splits)
  with a ValidateToken_sound [OF assms(1) a(3)] show ?thesis unfolding grpc_token_def by blast
qed

text \<open>
  C18. The gRPC server of the user service lets nothing through without a token: when any of its methods changes the
  state, answers with a reply, or answers with an error other than the refusal, the call carried a token
  that the secret key verifies and that has not expired. This holds for the login as well, which nobody
  without a token can therefore call.
\<close>

theorem user_grpc_guarded:
  assumes "jwt_laws (ja_lib j)"
    and "user_grpc_server j now ul svc au rid call ctx s = (x, s')"
    and "s' \<noteq> s \<or> (\<forall>m. x \<noteq> Inl (Unauthenticated, m))"
  shows "\<exists>c. grpc_token j now ctx c"
proof (cases "grpc_authenticate j now (with_request_id rid ctx)")
  case (Inl e)
  then obtain m where "e = (Unauthenticated, m)"
    by (auto simp: grpc_authenticate_def split: option.splits list.splits sum.splits)
  with Inl assms(2,3) show ?thesis
    by (auto simp: user_grpc_server_def guarded_chain_def UnaryRecoveryInterceptor_def)
qed (rule authenticate_token [OF assms(1)])

definition bearer_context :: "string \<Rightarrow> grpc_context" where
  "bearer_context tok =
     \<lparr>gc_metadata = Some (\<lambda>k. if k = ''Authorization'' then [''Bearer '' @ tok] else []), gc_user_id = None,
      gc_user_role = None, gc_user_email = None, gc_auth_token = None\<rparr>"

definition anonymous_context :: grpc_context where
  "anonymous_context = \<lparr>gc_metadata = None, gc_user_id = None, gc_user_role = None, gc_user_email = None,
     gc_auth_token = None\<rparr>"

abbreviation demo_user_grpc ::
  "user_call \<Rightarrow> (user_reply, user list \<times> (string \<rightharpoonup> json)) grpc_handler" where
  "demo_user_grpc \<equiv> user_grpc_server demo_auth 3000000000 unary_uuid (NewUserService demo_user_env demo_user_repo)
     (NewAuthService demo_user_env demo_module) ''r-1''"

lemma user_grpc_guarded_witness:
  "\<exists>c. grpc_token demo_auth 3000000000 (bearer_context (token_for RoleMember)) c"
proof -
  let ?run = "demo_user_grpc (RpcDeleteUser ''a'') (bearer_context (token_for RoleMember)) demo_users"
  have "fst ?run = Inr UserEmpty" by code_simp
  then have run: "?run = (Inr UserEmpty, snd ?run)" by (metis prod.collapse)
  have jwt: "jwt_laws (ja_lib demo_auth)" using plain_jwt_laws by simp
  have "snd ?run \<noteq> demo_users \<or> (\<forall>m. Inr UserEmpty \<noteq> Inl (Unauthenticated, m))" by simp
  from user_grpc_guarded [OF jwt run this] show ?thesis .
qed

text \<open>The methods ask for no role: any member deletes any account, which over HTTP only the owner or an admin can.\<close>

lemma member_deletes_admin:
  "mem_rows (fst demo_users) 1 \<noteq> None \<and>
   mem_rows (fst (snd (demo_user_grpc (RpcDeleteUser ''a'') (bearer_context (token_for RoleMember)) demo_users))) 1 = None"
  by (intro conjI; code_simp)

section \<open>The gRPC servers of books and categories\<close>

text \<open>They have no token check: no answer and no effect depends on who calls.\<close>

lemma grpc_identity_ignored:
  "book_grpc_server ul bs benv rid call ctx s = book_grpc_server ul bs benv rid call anonymous_context s"
  "category_grpc_server ul cs cenv rid ccall ctx s' = category_grpc_server ul cs cenv rid ccall anonymous_context s'"
proof -
  have "book_method ul bs benv call c s = book_method ul bs benv call c' s" for c c' s
    by (simp add: book_method_def)
  note book = plain_chain_ctx [where h = "book_method ul bs benv call", OF this]
  have "category_method ul cs cenv ccall c s = category_method ul cs cenv ccall c' s" for c c' s
    by (simp add: category_method_def)
  note category = plain_chain_ctx [where h = "category_method ul cs cenv ccall", OF this]
  show "book_grpc_server ul bs benv rid call ctx s = book_grpc_server ul bs benv rid call anonymous_context s"
    unfolding book_grpc_server_def by (simp only: book [where ctx = ctx and ctx' = anonymous_context]
        book [where ctx = anonymous_context and ctx' = anonymous_context])
  show "category_grpc_server ul cs cenv rid ccall ctx s' = category_grpc_server ul cs cenv rid ccall anonymous_context s'"
    unfolding category_grpc_server_def by (simp only: category [where ctx = ctx and ctx' = anonymous_context]
        category [where ctx = anonymous_context and ctx' = anonymous_context])
qed

lemma book_grpc_delete:
  "book_grpc_server ul bs env rid (RpcDeleteBook i) ctx s = apfst (map_sum id (\<lambda>_. BookEmpty)) (GRPC_DeleteBook ul bs i s)"
  by (simp add: book_grpc_server_def plain_chain_def UnaryRecoveryInterceptor_def UnaryLoggingInterceptor_def
      book_method_def split: prod.split)

text \<open>
  The role check of the HTTP routes does not protect the books: over gRPC the call \<open>DeleteBook\<close> is answered alike
  for every caller, with or without metadata or a token, and whenever it is answered with success, the book it
  names is gone.
\<close>

theorem grpc_delete_unguarded:
  assumes "book_backend r books links valid opened usable tbooks tlinks pg sub view"
    and "book_inv r books valid view s"
    and "book_grpc_server (brc_uuid r) (NewBookService (book_module r cl)) env rid (RpcDeleteBook t) ctx s = (Inr y, s')"
  shows "book_grpc_server (brc_uuid r) (NewBookService (book_module r cl)) env rid (RpcDeleteBook t) anonymous_context s
      = (Inr y, s') \<and>
    (\<exists>i. uuid_parse (brc_uuid r) t = Some i \<and> books (fst s) i \<noteq> None \<and> books (fst s') = (books (fst s))(i := None))"
proof
  show "book_grpc_server (brc_uuid r) (NewBookService (book_module r cl)) env rid (RpcDeleteBook t) anonymous_context s
      = (Inr y, s')"
    using assms(3) grpc_identity_ignored(1) by metis
  obtain i u where i: "uuid_parse (brc_uuid r) t = Some i" and del: "DeleteBook (book_module r cl) i s = (Inr u, s')"
    using assms(3) by (auto simp: book_grpc_delete GRPC_DeleteBook_def split: option.splits prod.splits sum.splits)
  from book_backend.DeleteBook_spec [OF assms(1,2) del] i
  show "\<exists>i. uuid_parse (brc_uuid r) t = Some i \<and> books (fst s) i \<noteq> None \<and> books (fst s') = (books (fst s))(i := None)"
    by auto
qed

lemma grpc_delete_unguarded_witness:
  "\<exists>s'. book_grpc_server (brc_uuid mem_book_conf) (NewBookService demo_books) book_demo_env ''r-1''
      (RpcDeleteBook ''aaa'') anonymous_context demo_shelf = (Inr BookEmpty, s') \<and>
     mem_rows (mb_books (fst s')) 2 = None"
proof -
  let ?run = "book_grpc_server (brc_uuid mem_book_conf) (NewBookService demo_books) book_demo_env ''r-1''
      (RpcDeleteBook ''aaa'') (bearer_context ''x'') demo_shelf"
  have "fst ?run = Inr BookEmpty" by code_simp
  then have run: "?run = (Inr BookEmpty, snd ?run)" by (metis prod.collapse)
  have id: "uuid_parse (brc_uuid mem_book_conf) ''aaa'' = Some 2" by code_simp
  from grpc_delete_unguarded [OF mem_book_backend demo_shelf_inv run] id show ?thesis by auto
qed

section \<open>HTTP and gRPC\<close>


definition demo_update_message :: update_book_request where
  "demo_update_message = \<lparr>ub_id = ''aaa'', ub_title = Some ''Ulysses'', ub_author = None, ub_isbn = None, ub_year = None,
     ub_publisher = None, ub_description = None, ub_categories = [], ub_language = None, ub_pages = None,
     ub_status = None, ub_cover = None, ub_quantity = None, ub_available = None\<rparr>"


text \<open>
  The listing over gRPC ignores the status, the author and the language that its request asks for.
\<close>

lemma grpc_list_ignores_filters:
  "GRPC_ListBooks ul svc (req\<lparr>lb_status := a, lb_author := b, lb_language := c\<rparr>) s = GRPC_ListBooks ul svc req s"
  by (simp add: GRPC_ListBooks_def)

text \<open>
  An update over gRPC that names a missing parent is answered as if the category itself were missing: the
  message of the service contains the text that is looked for first.
\<close>

lemma missing_parent_not_found:
  "grpc_update_error (errors_New ''parent category not found'') = (NotFound, ErrCategoryNotFound)"
  "fst (GRPC_UpdateCategory unary_uuid (NewCategoryService unary_uuid demo_repo)
     \<lparr>qu_id = ''a'', qu_name = None, qu_description = None, qu_parent = Some ''aaaaaaaaa''\<rparr> demo_state)
   = Inl (NotFound, ErrCategoryNotFound)"
  by code_simp+

section \<open>Start\<close>

text \<open>
  Redis is optional: the book service runs exactly if the configuration loads, the database opens and answers and
  GORM takes it; without Redis it is the same service with no cache.
\<close>

lemma book_start:
  assumes "pf_open pf (GetDSN cfg) = Inr h" "pf_ping pf h = None" "pf_gorm pf h = Inr r"
  shows "\<exists>k. start_service pf ''book'' (Inr cfg) (new_book_module pf dial) =
      Runs (NewBookService (book_module (r\<lparr>brc_cache := k\<rparr>) (Some (NewCategoryClient dial (cf_category_url cfg))))) \<and>
    (k = None \<longleftrightarrow> pf_redis_ping pf (pf_redis pf (GetRedisAddress cfg) (cf_redis_password cfg) 0) \<noteq> None)"
  using assms
  by (auto simp: start_service_def new_book_module_def NewRedis_def GetRedisAddress_def Let_def
      split: option.split sum.split)

text \<open>
  With a configuration from the environment alone, Redis is called without a password: a server that requires
  one refuses the ping, and the service runs without its cache.
\<close>

lemma env_start_without_password:
  assumes "no_config_file vp environ" "LoadConfig parse vp environ = Inr cfg"
    and "pf_open pf (GetDSN cfg) = Inr h" "pf_ping pf h = None" "pf_gorm pf h = Inr r"
    and "\<forall>addr. pf_redis_ping pf (pf_redis pf addr [] 0) \<noteq> None"
  shows "start_service pf ''book'' (LoadConfig parse vp environ) (new_book_module pf dial) =
    Runs (NewBookService (book_module (r\<lparr>brc_cache := None\<rparr>) (Some (NewCategoryClient dial (cf_category_url cfg)))))"
proof -
  have "cf_redis_password cfg = []"
    using assms(2) LoadConfig_env [OF assms(1), of parse]
    by (auto simp: fill_config_def default_config_def or_env_def split: option.splits)
  with book_start [OF assms(3-5), of dial] assms(2,6) show ?thesis by auto
qed

end
