(* ===== verification/Database.thy ===== *)
theory Database
  imports Config UserBackend
begin

text \<open>
  \<open>pkg/database/postgres.go\<close>: the connection set-up around GORM, and the record operations on a table,
  one definition per method. Opening, \<open>gorm.DB.DB\<close>, the pool settings and the calls on the connection are
  the parameter \<open>sql_platform\<close>; the table is a \<open>gorm_api\<close>. The services of this repository open their
  databases by hand instead (\<open>ServiceMain\<close>). A \<open>Get\<close> after a write reads what was written.
\<close>

section \<open>The connection\<close>

record postgres_config =
  pc_host :: string
  pc_port :: string
  pc_user :: string
  pc_password :: string
  pc_dbname :: string
  pc_sslmode :: string

record gorm_options =
  go_singular_table :: bool
  go_prepare_stmt :: bool

record pool_settings =
  ps_max_idle :: int
  ps_max_open :: int
  ps_max_lifetime :: duration

text \<open>\<open>'g\<close> is a \<open>*gorm.DB\<close>, \<open>'h\<close> a \<open>*sql.DB\<close>, \<open>'w\<close> what the calls change.\<close>

record ('g, 'h, 'w) sql_platform =
  sp_open :: "string \<Rightarrow> gorm_options \<Rightarrow> 'w \<Rightarrow> 'g result \<times> 'w"
  sp_db :: "'g \<Rightarrow> 'h result"
  sp_pool :: "'h \<Rightarrow> pool_settings \<Rightarrow> 'w \<Rightarrow> 'w"
  sp_close :: "'h \<Rightarrow> 'w \<Rightarrow> unit result \<times> 'w"
  sp_ping :: "'h \<Rightarrow> 'w \<Rightarrow> unit result \<times> 'w"
  sp_migrate :: "'g \<Rightarrow> 'w \<Rightarrow> unit result \<times> 'w"

definition postgres_dsn :: "postgres_config \<Rightarrow> string" where
  "postgres_dsn c = ''host='' @ pc_host c @ '' port='' @ pc_port c @ '' user='' @ pc_user c @
     '' password='' @ pc_password c @ '' dbname='' @ pc_dbname c @ '' sslmode='' @ pc_sslmode c"

definition postgres_options :: gorm_options where
  "postgres_options = \<lparr>go_singular_table = False, go_prepare_stmt = True\<rparr>"

definition postgres_pool :: pool_settings where
  "postgres_pool = \<lparr>ps_max_idle = 10, ps_max_open = 100, ps_max_lifetime = 3600 * 1000000000\<rparr>"

definition err_connection :: "go_error \<Rightarrow> go_error" where
  "err_connection e = errorf_wrap ''failed to get database connection'' e"

definition NewPostgresDB ::
  "('g, 'h, 'w) sql_platform \<Rightarrow> postgres_config \<Rightarrow> 'w \<Rightarrow> 'g result \<times> 'w" where
  "NewPostgresDB pf cfg w =
     (case sp_open pf (postgres_dsn cfg) postgres_options w of
        (Inl e, w1) \<Rightarrow> (Inl (errorf_wrap ''failed to connect to database'' e), w1)
      | (Inr db, w1) \<Rightarrow>
          (case sp_db pf db of
             Inl e \<Rightarrow> (Inl (err_connection e), w1)
           | Inr sqlDB \<Rightarrow> (Inr db, sp_pool pf sqlDB postgres_pool w1)))"

definition PostgresDB_Close :: "('g, 'h, 'w) sql_platform \<Rightarrow> 'g \<Rightarrow> 'w \<Rightarrow> unit result \<times> 'w" where
  "PostgresDB_Close pf db w =
     (case sp_db pf db of Inl e \<Rightarrow> (Inl (err_connection e), w) | Inr sqlDB \<Rightarrow> sp_close pf sqlDB w)"

definition PostgresDB_Ping :: "('g, 'h, 'w) sql_platform \<Rightarrow> 'g \<Rightarrow> 'w \<Rightarrow> unit result \<times> 'w" where
  "PostgresDB_Ping pf db w =
     (case sp_db pf db of Inl e \<Rightarrow> (Inl (err_connection e), w) | Inr sqlDB \<Rightarrow> sp_ping pf sqlDB w)"

definition PostgresDB_AutoMigrate :: "('g, 'h, 'w) sql_platform \<Rightarrow> 'g \<Rightarrow> 'w \<Rightarrow> unit result \<times> 'w" where
  "PostgresDB_AutoMigrate pf db w =
     (case sp_migrate pf db w of
        (Inl e, w1) \<Rightarrow> (Inl (errorf_wrap ''failed to auto migrate models'' e), w1)
      | (Inr u, w1) \<Rightarrow> (Inr u, w1))"

section \<open>The record operations\<close>

text \<open>The model that a method fills in place is its result.\<close>

definition PostgresDB_Get :: "('d, 'r) gorm_api \<Rightarrow> sqlarg \<Rightarrow> 'd \<Rightarrow> 'r result \<times> 'd" where
  "PostgresDB_Get api i d = g_first api (q_where ''id = ?'' [i] q_all) d"

definition PostgresDB_Create :: "('d, 'r) gorm_api \<Rightarrow> 'r \<Rightarrow> 'd \<Rightarrow> 'r result \<times> 'd" where
  "PostgresDB_Create api r d = g_create api r d"

definition PostgresDB_Update :: "('d, 'r) gorm_api \<Rightarrow> 'r \<Rightarrow> 'd \<Rightarrow> 'r result \<times> 'd" where
  "PostgresDB_Update api r d = g_save api r d"

definition PostgresDB_Delete :: "('d, 'r) gorm_api \<Rightarrow> sqlarg \<Rightarrow> 'd \<Rightarrow> unit result \<times> 'd" where
  "PostgresDB_Delete api i d = g_delete api (q_where ''id = ?'' [i] q_all) d"

text \<open>\<open>gorm.DB.Transaction\<close> is the parameter \<open>transaction\<close>; the method hands the function on.\<close>

definition PostgresDB_WithTransaction ::
  "(('t \<Rightarrow> unit result \<times> 't) \<Rightarrow> 'd \<Rightarrow> unit result \<times> 'd) \<Rightarrow> ('t \<Rightarrow> unit result \<times> 't) \<Rightarrow> 'd \<Rightarrow> unit result \<times> 'd" where
  "PostgresDB_WithTransaction transaction body d = transaction body d"

section \<open>What they promise\<close>

text \<open>The services and this package write the same connection string.\<close>

lemma postgres_dsn_GetDSN:
  "postgres_dsn \<lparr>pc_host = cf_db_host c, pc_port = cf_db_port c, pc_user = cf_db_user c,
     pc_password = cf_db_password c, pc_dbname = cf_db_name c, pc_sslmode = cf_db_sslmode c\<rparr> = GetDSN c"
  by (simp add: postgres_dsn_def GetDSN_def)

text \<open>A table whose condition \<open>id = ?\<close> means the primary key.\<close>

locale keyed_store = gorm_store api rows valid sat
  for api :: "('d, 'a base_scheme) gorm_api"
    and rows :: "'d \<Rightarrow> uuid \<Rightarrow> 'a base_scheme option"
    and valid :: "'d \<Rightarrow> bool"
    and sat :: "where_clause \<Rightarrow> 'a base_scheme \<Rightarrow> bool" +
  assumes sat_id: "sat (Where ''id = ?'' [AUuid i]) r \<longleftrightarrow> base_id r = i"
begin

lemma Get_row:
  assumes "valid d" "PostgresDB_Get api (AUuid i) d = (x, d')"
  shows "valid d' \<and> rows d' = rows d \<and>
    (case x of Inr r \<Rightarrow> rows d i = Some r | Inl e \<Rightarrow> errors_Is e ErrRecordNotFound \<longrightarrow> rows d i = None)"
proof -
  let ?q = "q_where ''id = ?'' [AUuid i] q_all"
  have g: "g_first api ?q d = (x, d')" using assms(2) by (simp add: PostgresDB_Get_def)
  have q: "sat_all sat ?q r \<longleftrightarrow> base_id r = i" for r by (simp add: sat_id)
  show ?thesis
  proof (cases x)
    case (Inl e)
    have "rows d i = None" if "errors_Is e ErrRecordNotFound"
      using first_none [OF assms(1) g [unfolded Inl] that] q rows_id [OF assms(1)] by (cases "rows d i") auto
    with Inl first_frame [OF assms(1) g] show ?thesis by simp
  next
    case (Inr r)
    with first_row [OF assms(1) g [unfolded Inr]] first_frame [OF assms(1) g] q show ?thesis by auto
  qed
qed

lemma Delete_row:
  assumes "valid d" "PostgresDB_Delete api (AUuid i) d = (Inr u, d')"
  shows "valid d' \<and> rows d' = (rows d)(i := None)"
proof -
  have ok: "valid d'" "rows d' = (\<lambda>j. case rows d j of None \<Rightarrow> None
      | Some r \<Rightarrow> if sat_all sat (q_where ''id = ?'' [AUuid i] q_all) r then None else Some r)"
    using delete_ok [OF assms(1), of "q_where ''id = ?'' [AUuid i] q_all" u d'] assms(2)
    by (auto simp: PostgresDB_Delete_def)
  have "rows d' j = ((rows d)(i := None)) j" for j
    using ok(2) rows_id [OF assms(1), of j] by (cases "rows d j") (auto simp: sat_id)
  with ok(1) show ?thesis by blast
qed

end

lemma mem_keyed_store: "keyed_store (mem_api conflict user_sat assign) mem_rows mem_valid user_sat"
proof (intro keyed_store.intro)
  show "gorm_store (mem_api conflict user_sat assign) mem_rows mem_valid user_sat" by (rule mem_gorm_store)
  show "keyed_store_axioms user_sat" by unfold_locales simp
qed

interpretation users_table: keyed_store "urc_db mem_user_conf" mem_rows mem_valid user_sat
  using mem_keyed_store by simp


definition table_user :: user where
  "table_user = NewUser 7 ''zed@x.io'' ''zed'' ''#pw'' ''Zed'' ''Poe'' ''member''"


end
