(* ===== verification/Shutdown.thy ===== *)
theory Shutdown
  imports GoBase
begin

text \<open>
  The end of a service process (\<open>services/*/cmd/main.go\<close> from the signal on), as a step relation: the main
  goroutine first closes the HTTP server (\<open>httpServer.Shutdown(ctx)\<close>), then asks the gRPC server to stop
  in a goroutine and waits for that or for the end of \<open>ctx\<close>, whose ten seconds started with the signal
  and are shared by both. \<open>Shutdown\<close> refuses new connections at once and returns when no request is active
  or with the context; \<open>GracefulStop\<close> refuses new calls and returns when none is active; \<open>Stop\<close> cuts them.
  The clock stands still at the deadline until the process has acted on it. A server goroutine whose
  server fails ends the process with \<open>log.Fatal\<close>; the HTTP server fails only before it is shut down,
  as it then returns \<open>http.ErrServerClosed\<close>, the gRPC server until it is stopped.
\<close>

section \<open>Settings\<close>

text \<open>The settings of \<open>http.Server\<close>, which the library reads.\<close>

record server_settings =
  ss_addr :: string
  ss_read_timeout :: duration
  ss_write_timeout :: duration
  ss_idle_timeout :: duration

abbreviation seconds :: "int \<Rightarrow> duration" where
  "seconds n \<equiv> n * 1000000000"

section \<open>Steps\<close>

datatype phase = Serving | HttpClosing | GrpcClosing | Exited | Crashed

record process =
  pr_phase :: phase
  pr_http :: nat
  pr_grpc :: nat
  pr_time :: nat
  pr_cut :: nat

definition grace :: nat where
  "grace = 10"

inductive shutdown_step :: "process \<Rightarrow> process \<Rightarrow> bool" where
  http_request: "pr_phase p = Serving \<Longrightarrow> shutdown_step p (p\<lparr>pr_http := Suc (pr_http p)\<rparr>)"
| grpc_call: "pr_phase p \<in> {Serving, HttpClosing} \<Longrightarrow> shutdown_step p (p\<lparr>pr_grpc := Suc (pr_grpc p)\<rparr>)"
| http_done: "pr_phase p \<notin> {Exited, Crashed} \<Longrightarrow> pr_http p = Suc n \<Longrightarrow> shutdown_step p (p\<lparr>pr_http := n\<rparr>)"
| grpc_done: "pr_phase p \<notin> {Exited, Crashed} \<Longrightarrow> pr_grpc p = Suc n \<Longrightarrow> shutdown_step p (p\<lparr>pr_grpc := n\<rparr>)"
| quit: "pr_phase p = Serving \<Longrightarrow> shutdown_step p (p\<lparr>pr_phase := HttpClosing\<rparr>)"
| clock: "pr_phase p \<in> {HttpClosing, GrpcClosing} \<Longrightarrow> pr_time p < grace \<Longrightarrow>
    shutdown_step p (p\<lparr>pr_time := Suc (pr_time p)\<rparr>)"
| http_closed: "pr_phase p = HttpClosing \<Longrightarrow> pr_http p = 0 \<or> pr_time p = grace \<Longrightarrow>
    shutdown_step p (p\<lparr>pr_phase := GrpcClosing\<rparr>)"
| grpc_stopped: "pr_phase p = GrpcClosing \<Longrightarrow> pr_grpc p = 0 \<Longrightarrow> shutdown_step p (p\<lparr>pr_phase := Exited\<rparr>)"
| grpc_forced: "pr_phase p = GrpcClosing \<Longrightarrow> pr_time p = grace \<Longrightarrow>
    shutdown_step p (p\<lparr>pr_phase := Exited, pr_cut := pr_grpc p, pr_grpc := 0\<rparr>)"
| http_failed: "pr_phase p = Serving \<Longrightarrow> shutdown_step p (p\<lparr>pr_phase := Crashed\<rparr>)"
| grpc_failed: "pr_phase p \<in> {Serving, HttpClosing} \<Longrightarrow> shutdown_step p (p\<lparr>pr_phase := Crashed\<rparr>)"

text \<open>The steps of the process and of the clock alone, without any client.\<close>

inductive own_step :: "process \<Rightarrow> process \<Rightarrow> bool" where
  own_clock: "pr_phase p \<in> {HttpClosing, GrpcClosing} \<Longrightarrow> pr_time p < grace \<Longrightarrow>
    own_step p (p\<lparr>pr_time := Suc (pr_time p)\<rparr>)"
| own_http_closed: "pr_phase p = HttpClosing \<Longrightarrow> pr_http p = 0 \<or> pr_time p = grace \<Longrightarrow>
    own_step p (p\<lparr>pr_phase := GrpcClosing\<rparr>)"
| own_grpc_stopped: "pr_phase p = GrpcClosing \<Longrightarrow> pr_grpc p = 0 \<Longrightarrow> own_step p (p\<lparr>pr_phase := Exited\<rparr>)"
| own_grpc_forced: "pr_phase p = GrpcClosing \<Longrightarrow> pr_time p = grace \<Longrightarrow>
    own_step p (p\<lparr>pr_phase := Exited, pr_cut := pr_grpc p, pr_grpc := 0\<rparr>)"

text \<open>What the gRPC health service answers for the service: serving until the signal.\<close>

definition serving_status :: "process \<Rightarrow> bool" where
  "serving_status p = (pr_phase p = Serving)"

inductive_cases shutdown_stepE: "shutdown_step p q"
inductive_cases own_stepE: "own_step p q"

definition fresh_process :: process where
  "fresh_process = \<lparr>pr_phase = Serving, pr_http = 0, pr_grpc = 0, pr_time = 0, pr_cut = 0\<rparr>"

inductive lives :: "process \<Rightarrow> bool" where
  live_start: "lives fresh_process"
| live_step: "lives p \<Longrightarrow> shutdown_step p q \<Longrightarrow> lives q"

section \<open>Invariant and progress\<close>

definition process_ok :: "process \<Rightarrow> bool" where
  "process_ok p \<longleftrightarrow> pr_time p \<le> grace \<and> (pr_phase p = Serving \<longrightarrow> pr_time p = 0) \<and>
     (pr_cut p \<noteq> 0 \<longrightarrow> pr_phase p = Exited \<and> pr_time p = grace) \<and> (pr_phase p = Exited \<longrightarrow> pr_grpc p = 0)"

lemma process_ok_step: "process_ok p \<Longrightarrow> shutdown_step p q \<Longrightarrow> process_ok q"
  by (erule shutdown_stepE) (auto simp: process_ok_def)

lemma lives_ok: "lives p \<Longrightarrow> process_ok p"
proof (induction rule: lives.induct)
  case live_start
  show ?case by (simp add: process_ok_def fresh_process_def)
next
  case (live_step p q)
  then show ?case by (blast intro: process_ok_step)
qed

lemma own_step_step: "own_step p q \<Longrightarrow> shutdown_step p q"
  by (erule own_stepE) (auto intro: shutdown_step.intros)

text \<open>What is left to do: the seconds until the deadline and the phases.\<close>

definition phase_rank :: "phase \<Rightarrow> nat" where
  "phase_rank ph = (case ph of Serving \<Rightarrow> 3 | HttpClosing \<Rightarrow> 2 | GrpcClosing \<Rightarrow> 1 | _ \<Rightarrow> 0)"

definition remaining :: "process \<Rightarrow> nat" where
  "remaining p = (grace - pr_time p) + phase_rank (pr_phase p)"

lemma own_step_decreases: "own_step p q \<Longrightarrow> remaining q < remaining p"
  by (erule own_stepE) (auto simp: remaining_def phase_rank_def)

lemma own_step_enabled:
  assumes "process_ok p" "pr_phase p \<in> {HttpClosing, GrpcClosing}"
  shows "\<exists>q. own_step p q"
proof (cases "pr_time p < grace")
  case True
  with assms(2) show ?thesis by (blast intro: own_clock)
next
  case False
  with assms(1) have "pr_time p = grace" by (simp add: process_ok_def)
  with assms(2) show ?thesis by (blast intro: own_http_closed own_grpc_forced)
qed

lemma own_step_closing:
  "own_step p q \<Longrightarrow> pr_phase q \<in> {HttpClosing, GrpcClosing, Exited}"
  by (erule own_stepE) auto

fun own_steps :: "nat \<Rightarrow> process \<Rightarrow> process \<Rightarrow> bool" where
  "own_steps 0 p q = (p = q)"
| "own_steps (Suc n) p q = (\<exists>r. own_step p r \<and> own_steps n r q)"

lemma own_steps_exit:
  assumes "process_ok p" "own_steps n p q" "pr_phase p \<notin> {Serving, Crashed}"
    and "\<nexists>r. own_step q r"
  shows "n \<le> remaining p \<and> pr_phase q = Exited"
  using assms
proof (induction n arbitrary: p)
  case 0
  then show ?case using own_step_enabled [of q] by (cases "pr_phase q") auto
next
  case (Suc n)
  then obtain r where r: "own_step p r" "own_steps n r q" by auto
  have "process_ok r" "pr_phase r \<notin> {Serving, Crashed}"
    using process_ok_step [OF Suc.prems(1) own_step_step [OF r(1)]] own_step_closing [OF r(1)] by auto
  with Suc.IH [OF _ r(2) _ Suc.prems(4)] own_step_decreases [OF r(1)] show ?case by auto
qed

lemma remaining_bound: "pr_phase p \<in> {HttpClosing, GrpcClosing, Exited} \<Longrightarrow> remaining p \<le> grace + 2"
  by (auto simp: remaining_def phase_rank_def)

text \<open>Once it has stopped to be announced as serving, a process is never announced again.\<close>

lemma serving_never_again:
  assumes "shutdown_step\<^sup>*\<^sup>* p q" "\<not> serving_status p"
  shows "\<not> serving_status q"
  using assms by (induction rule: rtranclp_induct) (auto simp: serving_status_def elim!: shutdown_stepE)

section \<open>Properties\<close>

text \<open>
  C31. The process ends: however the clients behave until the signal and after it, once it is closing
  the process has a step of its own as long as it has not exited, and every sequence of its own steps and
  of clock ticks ends, after at most the ten seconds of grace and two phases, in the exited state.
\<close>

theorem shutdown_ends:
  assumes "lives p" and "pr_phase p \<in> {HttpClosing, GrpcClosing}"
  shows "(\<exists>q. own_step p q) \<and>
    (\<forall>n q. own_steps n p q \<longrightarrow> n \<le> grace + 2 \<and> ((\<nexists>r. own_step q r) \<longrightarrow> pr_phase q = Exited))"
proof (intro conjI allI impI)
  have ok: "process_ok p" using assms(1) by (rule lives_ok)
  then show "\<exists>q. own_step p q" using assms(2) by (rule own_step_enabled)
  fix n q
  assume run: "own_steps n p q"
  have "remaining q + n \<le> remaining p" using run
  proof (induction n arbitrary: p)
    case (Suc n)
    then obtain r where "own_step p r" "own_steps n r q" by auto
    with Suc.IH [of r] own_step_decreases [of p r] show ?case by simp
  qed simp
  with remaining_bound [of p] assms(2) show "n \<le> grace + 2" by auto
  assume "\<nexists>r. own_step q r"
  then show "pr_phase q = Exited" using own_steps_exit [OF ok run] assms(2) by auto
qed

definition closing_process :: process where
  "closing_process = \<lparr>pr_phase = HttpClosing, pr_http = 1, pr_grpc = 0, pr_time = 0, pr_cut = 0\<rparr>"

lemma closing_lives: "lives closing_process"
proof -
  have "lives (fresh_process\<lparr>pr_http := 1\<rparr>)"
    using live_step [OF live_start http_request] by (simp add: fresh_process_def)
  from live_step [OF this quit] show ?thesis by (simp add: fresh_process_def closing_process_def)
qed

lemma shutdown_ends_witness: "\<exists>q. own_step closing_process q"
  using shutdown_ends [OF closing_lives] by (simp add: closing_process_def)

text \<open>
  Calls are cut only at the deadline, but the deadline is shared: a call is never cut before ten seconds have passed
  since the signal; yet one hanging HTTP request uses them up, and a gRPC call that is accepted
  in the last moment, the server having never stopped to accept them, is cut without any time to finish.
\<close>

theorem shutdown_cuts_calls:
  "(lives p \<and> pr_cut p \<noteq> 0 \<longrightarrow> pr_time p = grace) \<and>
   (\<exists>q q1 q2. lives q \<and> pr_http q = 1 \<and> pr_grpc q = 0 \<and> pr_time q = grace \<and>
      shutdown_step q (q\<lparr>pr_grpc := 1\<rparr>) \<and> shutdown_step (q\<lparr>pr_grpc := 1\<rparr>) q1 \<and> shutdown_step q1 q2 \<and>
      pr_phase q2 = Exited \<and> pr_cut q2 = 1)"
proof
  show "lives p \<and> pr_cut p \<noteq> 0 \<longrightarrow> pr_time p = grace"
    using lives_ok [of p] by (auto simp: process_ok_def)
  let ?at = "\<lambda>n. closing_process\<lparr>pr_time := n\<rparr>"
  have "n \<le> grace \<Longrightarrow> lives (?at n)" for n
  proof (induction n)
    case 0
    with closing_lives show ?case by (simp add: closing_process_def)
  next
    case (Suc n)
    then have "shutdown_step (?at n) ((?at n)\<lparr>pr_time := Suc (pr_time (?at n))\<rparr>)"
      by (intro clock) (simp_all add: closing_process_def)
    with Suc show ?case by (auto intro: live_step)
  qed
  then have live: "lives (?at grace)" by simp
  let ?q = "(?at grace)\<lparr>pr_grpc := 1\<rparr>"
  let ?q1 = "?q\<lparr>pr_phase := GrpcClosing\<rparr>"
  have "shutdown_step (?at grace) ?q" using grpc_call [of "?at grace"] by (simp add: closing_process_def)
  moreover have "shutdown_step ?q ?q1" by (rule http_closed) (simp_all add: closing_process_def)
  moreover have "shutdown_step ?q1 (?q1\<lparr>pr_phase := Exited, pr_cut := pr_grpc ?q1, pr_grpc := 0\<rparr>)"
    by (rule grpc_forced) simp_all
  moreover have "pr_http (?at grace) = 1" "pr_grpc (?at grace) = 0" "pr_time (?at grace) = grace"
    by (simp_all add: closing_process_def)
  moreover have "pr_phase (?q1\<lparr>pr_phase := Exited, pr_cut := pr_grpc ?q1, pr_grpc := 0\<rparr>) = Exited"
    "pr_cut (?q1\<lparr>pr_phase := Exited, pr_cut := pr_grpc ?q1, pr_grpc := 0\<rparr>) = 1" by simp_all
  ultimately show "\<exists>q q1 q2. lives q \<and> pr_http q = 1 \<and> pr_grpc q = 0 \<and> pr_time q = grace \<and>
      shutdown_step q (q\<lparr>pr_grpc := 1\<rparr>) \<and> shutdown_step (q\<lparr>pr_grpc := 1\<rparr>) q1 \<and> shutdown_step q1 q2 \<and>
      pr_phase q2 = Exited \<and> pr_cut q2 = 1" using live by blast
qed

lemma shutdown_cuts_calls_witness:
  "pr_cut closing_process = 0 \<and> (\<exists>q2 :: process. pr_phase q2 = Exited \<and> pr_cut q2 = 1)"
proof -
  obtain q2 :: process where "pr_phase q2 = Exited \<and> pr_cut q2 = 1" using shutdown_cuts_calls [of closing_process] by blast
  then show ?thesis by (auto simp: closing_process_def)
qed

end
