(* ===== verification/Logging.thy ===== *)
theory Logging
  imports Config Json
begin

text \<open>
  \<open>pkg/logger/logger.go\<close>: what \<open>New\<close> asks of zap, as data, and the default logger of the package, a
  global variable that the first use fills. Parsing a level, writing an entry and finding the caller of
  an entry are zap's and parameters. The last lemma looks at the caller that the skip of one frame
  reports, which is right for the functions of the package and wrong for the methods.
\<close>

section \<open>Configuration\<close>

datatype log_level = DebugLevel | InfoLevel | WarnLevel | ErrorLevel | DPanicLevel | PanicLevel | FatalLevel

datatype level_encoder = LowercaseLevelEncoder | CapitalLevelEncoder

datatype time_encoder = ISO8601TimeEncoder | EpochTimeEncoder

datatype duration_encoder = StringDurationEncoder | SecondsDurationEncoder

datatype caller_encoder = ShortCallerEncoder | FullCallerEncoder

record encoder_config =
  ec_time_key :: string
  ec_level_key :: string
  ec_name_key :: string
  ec_caller_key :: string
  ec_function_key :: string
  ec_message_key :: string
  ec_stacktrace_key :: string
  ec_line_ending :: string
  ec_level :: level_encoder
  ec_time :: time_encoder
  ec_duration :: duration_encoder
  ec_caller :: caller_encoder

datatype encoder = JSONEncoder encoder_config | ConsoleEncoder encoder_config

datatype 'o write_syncer = Stdout | Writer 'o

datatype zap_option = AddCaller | AddCallerSkip nat | Development | AddStacktrace log_level

record 'o zap_logger =
  zl_encoder :: encoder
  zl_sink :: "'o write_syncer"
  zl_level :: log_level
  zl_options :: "zap_option list"
  zl_fields :: "(string \<times> json) list"

record 'o log_config =
  lgc_level :: string
  lgc_production :: bool
  lgc_output :: "'o option"
  lgc_json_format :: bool

text \<open>\<open>zapcore.OmitKey\<close> is the empty key, \<open>zapcore.DefaultLineEnding\<close> a line feed.\<close>

definition base_encoder_config :: encoder_config where
  "base_encoder_config =
     \<lparr>ec_time_key = ''timestamp'', ec_level_key = ''level'', ec_name_key = ''logger'',
      ec_caller_key = ''caller'', ec_function_key = [], ec_message_key = ''message'',
      ec_stacktrace_key = ''stacktrace'', ec_line_ending = [CHR 0x0A], ec_level = LowercaseLevelEncoder,
      ec_time = ISO8601TimeEncoder, ec_duration = StringDurationEncoder, ec_caller = ShortCallerEncoder\<rparr>"

definition Logger_New :: "(string \<Rightarrow> log_level result) \<Rightarrow> 'o log_config \<Rightarrow> 'o zap_logger" where
  "Logger_New unmarshal config =
     (let level = (case unmarshal (lgc_level config) of Inl e \<Rightarrow> InfoLevel | Inr l \<Rightarrow> l);
          encoderConfig = (if lgc_production config
                           then base_encoder_config\<lparr>ec_level := LowercaseLevelEncoder, ec_time := ISO8601TimeEncoder\<rparr>
                           else base_encoder_config);
          enc = (if lgc_json_format config \<or> lgc_production config then JSONEncoder encoderConfig
                 else ConsoleEncoder encoderConfig);
          writeSyncer = (case lgc_output config of None \<Rightarrow> Stdout | Some w \<Rightarrow> Writer w);
          options = [AddCaller, AddCallerSkip 1] @
            (if lgc_production config then [] else [Development, AddStacktrace ErrorLevel])
      in \<lparr>zl_encoder = enc, zl_sink = writeSyncer, zl_level = level, zl_options = options, zl_fields = []\<rparr>)"

section \<open>Fields\<close>

definition Logger_With :: "'o zap_logger \<Rightarrow> (string \<times> json) list \<Rightarrow> 'o zap_logger" where
  "Logger_With l fs = l\<lparr>zl_fields := zl_fields l @ fs\<rparr>"

definition Logger_WithField :: "'o zap_logger \<Rightarrow> string \<Rightarrow> json \<Rightarrow> 'o zap_logger" where
  "Logger_WithField l k v = Logger_With l [(k, v)]"

text \<open>The entries of the Go map in the order the loop happens to visit them.\<close>

definition Logger_WithFields :: "'o zap_logger \<Rightarrow> (string \<times> json) list \<Rightarrow> 'o zap_logger" where
  "Logger_WithFields l entries = Logger_With l entries"

section \<open>The default logger\<close>

type_synonym 'o logger_var = "'o zap_logger option"

definition InitLogger :: "(string \<Rightarrow> log_level result) \<Rightarrow> 'o log_config \<Rightarrow> 'o logger_var \<Rightarrow> 'o logger_var" where
  "InitLogger unmarshal config v = Some (Logger_New unmarshal config)"

definition Logger_Default :: "(string \<Rightarrow> log_level result) \<Rightarrow> 'o logger_var \<Rightarrow> 'o zap_logger \<times> 'o logger_var" where
  "Logger_Default unmarshal v =
     (case v of
        Some l \<Rightarrow> (l, v)
      | None \<Rightarrow>
          let l = Logger_New unmarshal \<lparr>lgc_level = ''info'', lgc_production = False, lgc_output = None, lgc_json_format = False\<rparr>
          in (l, Some l))"

text \<open>\<open>zap_log\<close> is the method of zap for a level; \<open>'w\<close> is what it writes to.\<close>

type_synonym ('o, 'w) zap_log = "'o zap_logger \<Rightarrow> log_level \<Rightarrow> string \<Rightarrow> (string \<times> json) list \<Rightarrow> 'w \<Rightarrow> 'w"

definition log_default ::
  "(string \<Rightarrow> log_level result) \<Rightarrow> ('o, 'w) zap_log \<Rightarrow> log_level \<Rightarrow> string \<Rightarrow> (string \<times> json) list \<Rightarrow>
   'o logger_var \<times> 'w \<Rightarrow> 'o logger_var \<times> 'w" where
  "log_default unmarshal zap lv msg fs s =
     (case Logger_Default unmarshal (fst s) of (l, v) \<Rightarrow> (v, zap l lv msg fs (snd s)))"

definition Log_Debug where "Log_Debug unmarshal zap = log_default unmarshal zap DebugLevel"
definition Log_Info where "Log_Info unmarshal zap = log_default unmarshal zap InfoLevel"
definition Log_Warn where "Log_Warn unmarshal zap = log_default unmarshal zap WarnLevel"
definition Log_Error where "Log_Error unmarshal zap = log_default unmarshal zap ErrorLevel"
definition Log_Fatal where "Log_Fatal unmarshal zap = log_default unmarshal zap FatalLevel"

text \<open>The logger of a service or of the gateway: the logging configuration handed to \<open>New\<close>.\<close>

definition service_logger :: "(string \<Rightarrow> log_level result) \<Rightarrow> logging_config \<Rightarrow> 'o zap_logger" where
  "service_logger unmarshal cfg =
     Logger_New unmarshal \<lparr>lgc_level = lc_level cfg, lgc_production = lc_production cfg, lgc_output = None,
       lgc_json_format = lc_json cfg\<rparr>"

section \<open>Facts\<close>

text \<open>The encoder configuration is the same in production: the branch that sets it changes nothing.\<close>

lemma production_encoder_config:
  "zl_encoder (Logger_New unmarshal config) =
     (if lgc_json_format config \<or> lgc_production config then JSONEncoder base_encoder_config
      else ConsoleEncoder base_encoder_config)"
  by (simp add: Logger_New_def Let_def base_encoder_config_def)

lemma New_level: "zl_level (Logger_New unmarshal config) = InfoLevel \<or>
    unmarshal (lgc_level config) = Inr (zl_level (Logger_New unmarshal config))"
  by (auto simp: Logger_New_def Let_def split: sum.splits)

lemma WithFields_append:
  "zl_fields (Logger_WithFields (Logger_WithFields l a) b) = zl_fields l @ a @ b"
  by (simp add: Logger_WithFields_def Logger_With_def)

text \<open>The variable is filled once: any sequence of log calls goes to the logger that the first one finds or makes.\<close>

lemma Default_fixed:
  assumes "Logger_Default unmarshal v = (l, v')"
  shows "v' = Some l \<and> Logger_Default unmarshal v' = (l, v')"
  using assms by (auto simp: Logger_Default_def Let_def split: option.splits)

lemma log_sequence:
  assumes "Logger_Default unmarshal v = (l, v')"
  shows "fold (\<lambda>(lv, m, fs). log_default unmarshal zap lv m fs) (c # calls) (v, w)
    = (v', fold (\<lambda>(lv, m, fs). zap l lv m fs) (c # calls) w)"
proof -
  have v': "v' = Some l" using Default_fixed [OF assms] by simp
  have "fold (\<lambda>(lv, m, fs). log_default unmarshal zap lv m fs) calls (v', w)
      = (v', fold (\<lambda>(lv, m, fs). zap l lv m fs) calls w)" for w
    by (induction calls arbitrary: w) (auto simp: log_default_def v' Logger_Default_def)
  then show ?thesis using assms by (cases c) (simp add: log_default_def)
qed

text \<open>
  The caller of an entry. \<open>frames\<close> are the functions on the stack from the one that calls zap; zap
  skips as many as the options say, and \<open>caller\<close> is what it then finds.
\<close>

definition caller_skip :: "'o zap_logger \<Rightarrow> nat" where
  "caller_skip l = sum_list (map (\<lambda>opt. case opt of AddCallerSkip n \<Rightarrow> n | _ \<Rightarrow> 0) (zl_options l))"

definition reported_caller :: "(nat \<Rightarrow> string list \<Rightarrow> string) \<Rightarrow> 'o zap_logger \<Rightarrow> string list \<Rightarrow> string option" where
  "reported_caller caller l frames = (if AddCaller \<in> set (zl_options l) then Some (caller (caller_skip l) frames) else None)"

lemma New_skips_one: "caller_skip (Logger_New unmarshal config) = 1" "AddCaller \<in> set (zl_options (Logger_New unmarshal config))"
  by (simp_all add: caller_skip_def Logger_New_def Let_def)

lemma caller_of_method:
  assumes "\<And>n frames. n < length frames \<Longrightarrow> caller n frames = frames ! n"
  shows "reported_caller caller (Logger_New unmarshal config) (f # g # rest) = Some g"
  using assms [of 1 "f # g # rest"] by (simp add: reported_caller_def New_skips_one)

end
