(* ===== verification/GatewayProcess.thy ===== *)
theory GatewayProcess
  imports GatewayMain Shutdown Logging Routes
begin

text \<open>
  The process of the API gateway (\<open>main\<close> of \<open>api-gateway/cmd/main.go\<close>): its start, and its life as a step
  relation. A failing server ends the process through \<open>log.Fatal\<close>. On a signal \<open>server.Shutdown(ctx)\<close>
  refuses new connections and returns when no request is active, with the error of closing the
  listener if there was one, or with an error after ten seconds; on an error \<open>log.Fatal\<close> ends the process
  with the requests that are left. The exit code of \<open>log.Fatal\<close> is 1.
\<close>

section \<open>Start\<close>

record cors_options =
  co_origins :: "string list"
  co_methods :: "string list"
  co_headers :: "string list"
  co_exposed :: "string list"
  co_credentials :: bool
  co_max_age :: int

definition gateway_cors :: cors_options where
  "gateway_cors =
     \<lparr>co_origins = [''*''], co_methods = [''GET'', ''POST'', ''PUT'', ''DELETE'', ''OPTIONS''],
      co_headers = [''Accept'', ''Authorization'', ''Content-Type'', ''X-CSRF-Token''],
      co_exposed = [''Link'', ''X-Request-ID'', ''X-Total-Count''], co_credentials = True, co_max_age = 300\<rparr>"

definition gateway_server :: "gateway_config \<Rightarrow> server_settings" where
  "gateway_server cfg =
     \<lparr>ss_addr = '':'' @ gc_server_port cfg, ss_read_timeout = seconds 15, ss_write_timeout = seconds 15,
      ss_idle_timeout = seconds 60\<rparr>"

record gateway_process =
  gp_config :: gateway_config
  gp_limiter :: rate_limiter
  gp_static :: string
  gp_cors :: cors_options
  gp_server :: server_settings

text \<open>What \<open>main\<close> sets up before it listens: the limiter, the static directory, CORS, the server.\<close>

definition start_gateway ::
  "(string \<Rightarrow> rat option) \<Rightarrow> environment \<Rightarrow> file_system \<Rightarrow> time \<Rightarrow> string + gateway_process" where
  "start_gateway parse env fs now =
     (case loadAPIGatewayConfig parse env of
        Inl e \<Rightarrow> Inl (''Error loading config: '' @ err_msg e)
      | Inr cfg \<Rightarrow> Inr \<lparr>gp_config = cfg, gp_limiter = gateway_limiter cfg now, gp_static = static_dir fs,
                       gp_cors = gateway_cors, gp_server = gateway_server cfg\<rparr>)"

text \<open>
  The preflight of a browser is refused the method \<open>PATCH\<close>, which every service serves on its update route.
\<close>

lemma patch_not_in_cors:
  "\<exists>rt \<in> set (book_routes guard ul vd svc env). ''PATCH'' \<in> set (rt_methods rt)"
  "\<exists>rt \<in> set (category_routes guard ul vd csvc cenv). ''PATCH'' \<in> set (rt_methods rt)"
  "\<exists>rt \<in> set (user_routes guard ul vd usvc au). ''PATCH'' \<in> set (rt_methods rt)"
  "''PATCH'' \<notin> set (co_methods gateway_cors)"
  by (simp_all add: book_routes_def category_routes_def user_routes_def gateway_cors_def)

section \<open>Life\<close>

datatype gateway_phase = Listening | Draining | Ended nat

record gateway_life =
  gl_phase :: gateway_phase
  gl_active :: nat
  gl_time :: nat
  gl_cut :: nat

definition fatal :: "gateway_life \<Rightarrow> gateway_life" where
  "fatal p = p\<lparr>gl_phase := Ended 1, gl_cut := gl_active p, gl_active := 0\<rparr>"

text \<open>The steps of the clients and of the network, and those of the process itself with the clock.\<close>

inductive client_step :: "gateway_life \<Rightarrow> gateway_life \<Rightarrow> bool" where
  gw_request: "gl_phase p = Listening \<Longrightarrow> client_step p (p\<lparr>gl_active := Suc (gl_active p)\<rparr>)"
| gw_answered: "gl_phase p \<in> {Listening, Draining} \<Longrightarrow> gl_active p = Suc n \<Longrightarrow> client_step p (p\<lparr>gl_active := n\<rparr>)"
| gw_failed: "gl_phase p = Listening \<Longrightarrow> client_step p (fatal p)"
| gw_signal: "gl_phase p = Listening \<Longrightarrow> client_step p (p\<lparr>gl_phase := Draining\<rparr>)"

inductive drain_step :: "gateway_life \<Rightarrow> gateway_life \<Rightarrow> bool" where
  drain_clock: "gl_phase p = Draining \<Longrightarrow> gl_time p < grace \<Longrightarrow> drain_step p (p\<lparr>gl_time := Suc (gl_time p)\<rparr>)"
| drain_done: "gl_phase p = Draining \<Longrightarrow> gl_active p = 0 \<Longrightarrow> drain_step p (p\<lparr>gl_phase := Ended 0\<rparr>)"
| drain_close_error: "gl_phase p = Draining \<Longrightarrow> gl_active p = 0 \<Longrightarrow> drain_step p (fatal p)"
| drain_forced: "gl_phase p = Draining \<Longrightarrow> gl_time p = grace \<Longrightarrow> drain_step p (fatal p)"

definition gateway_step :: "gateway_life \<Rightarrow> gateway_life \<Rightarrow> bool" where
  "gateway_step p q \<longleftrightarrow> client_step p q \<or> drain_step p q"

inductive_cases client_stepE: "client_step p q"
inductive_cases drain_stepE: "drain_step p q"

definition fresh_gateway :: gateway_life where
  "fresh_gateway = \<lparr>gl_phase = Listening, gl_active = 0, gl_time = 0, gl_cut = 0\<rparr>"

text \<open>The signal is remembered by the clock: it runs only after it.\<close>

definition gateway_ok :: "gateway_life \<Rightarrow> bool" where
  "gateway_ok p \<longleftrightarrow> gl_time p \<le> grace \<and> (gl_phase p = Listening \<longrightarrow> gl_time p = 0) \<and>
     (case gl_phase p of Ended c \<Rightarrow> gl_active p = 0 \<and> c \<le> 1 \<and> (c = 0 \<longrightarrow> gl_cut p = 0) \<and>
         (gl_cut p \<noteq> 0 \<longrightarrow> gl_time p = 0 \<or> gl_time p = grace)
      | _ \<Rightarrow> gl_cut p = 0)"

lemma gateway_ok_step: "gateway_ok p \<Longrightarrow> gateway_step p q \<Longrightarrow> gateway_ok q"
  unfolding gateway_step_def
  by (elim disjE client_stepE drain_stepE) (auto simp: gateway_ok_def fatal_def)

lemma gateway_ok_reachable: "gateway_step\<^sup>*\<^sup>* fresh_gateway p \<Longrightarrow> gateway_ok p"
proof (induction rule: rtranclp_induct)
  case base
  show ?case by (simp add: gateway_ok_def fresh_gateway_def)
next
  case (step p q)
  then show ?case by (blast intro: gateway_ok_step)
qed

definition drain_left :: "gateway_life \<Rightarrow> nat" where
  "drain_left p = (if gl_phase p = Draining then Suc (grace - gl_time p) else 0)"

lemma drain_step_decreases: "drain_step p q \<Longrightarrow> drain_left q < drain_left p"
  by (erule drain_stepE) (auto simp: drain_left_def fatal_def)

lemma drain_enabled: "gateway_ok p \<Longrightarrow> gl_phase p = Draining \<Longrightarrow> \<exists>q. drain_step p q"
  by (cases "gl_time p < grace") (auto simp: gateway_ok_def intro: drain_step.intros)

lemma drain_result: "drain_step p q \<Longrightarrow> gl_phase q = Draining \<or> (\<exists>c. gl_phase q = Ended c)"
  by (erule drain_stepE) (auto simp: fatal_def)

inductive drain_steps :: "nat \<Rightarrow> gateway_life \<Rightarrow> gateway_life \<Rightarrow> bool" where
  drain_refl: "drain_steps 0 p p"
| drain_more: "drain_steps n p q \<Longrightarrow> drain_step q r \<Longrightarrow> drain_steps (Suc n) p r"

lemma drain_steps_left: "drain_steps n p q \<Longrightarrow> drain_left q + n \<le> drain_left p"
  by (induction rule: drain_steps.induct) (auto dest: drain_step_decreases)

lemma drain_steps_reach:
  "drain_steps n p q \<Longrightarrow> gateway_step\<^sup>*\<^sup>* s p \<Longrightarrow> gateway_step\<^sup>*\<^sup>* s q"
  by (induction rule: drain_steps.induct)
    (auto simp: gateway_step_def intro: rtranclp.rtrancl_into_rtrancl)

lemma drain_steps_phase:
  "drain_steps n p q \<Longrightarrow> gl_phase p = Draining \<Longrightarrow> gl_phase q = Draining \<or> (\<exists>c. gl_phase q = Ended c)"
  by (induction rule: drain_steps.induct) (auto dest: drain_result elim: drain_stepE)

text \<open>
  C37. The exit of the gateway: in every state that the process can reach, an exit with code 0 has cut no
  request, and an exit with code 1 that cut requests happened before the clock ran, as the server failed,
  or ten seconds after the signal; and a process that has got its signal ends, whatever the clients do not do: its own steps are at
  most eleven, and where they stop it has ended with one of the two codes.
\<close>

theorem gateway_exit:
  assumes "gateway_step\<^sup>*\<^sup>* fresh_gateway p"
  shows "(gl_phase p = Ended c \<longrightarrow> (c = 0 \<and> gl_cut p = 0) \<or> (c = 1 \<and> (gl_cut p \<noteq> 0 \<longrightarrow> gl_time p = 0 \<or> gl_time p = grace))) \<and>
    (gl_phase p = Draining \<and> drain_steps n p q \<longrightarrow>
       n \<le> Suc grace \<and> ((\<nexists>r. drain_step q r) \<longrightarrow> gl_phase q = Ended 0 \<or> gl_phase q = Ended 1))"
proof (intro conjI impI)
  have ok: "gateway_ok p" using assms by (rule gateway_ok_reachable)
  assume "gl_phase p = Ended c"
  with ok show "(c = 0 \<and> gl_cut p = 0) \<or> (c = 1 \<and> (gl_cut p \<noteq> 0 \<longrightarrow> gl_time p = 0 \<or> gl_time p = grace))"
    by (cases c) (auto simp: gateway_ok_def)
next
  assume "gl_phase p = Draining \<and> drain_steps n p q"
  then have d: "gl_phase p = Draining" and run: "drain_steps n p q" by auto
  from drain_steps_left [OF run] show "n \<le> Suc grace" by (auto simp: drain_left_def split: if_splits)
  assume stop: "\<nexists>r. drain_step q r"
  have okq: "gateway_ok q" using drain_steps_reach [OF run assms] by (rule gateway_ok_reachable)
  then obtain c where "gl_phase q = Ended c" using drain_steps_phase [OF run d] drain_enabled stop by blast
  with okq show "gl_phase q = Ended 0 \<or> gl_phase q = Ended 1"
    by (cases c) (auto simp: gateway_ok_def le_Suc_eq)
qed

definition draining_gateway :: gateway_life where
  "draining_gateway = \<lparr>gl_phase = Draining, gl_active = 1, gl_time = 0, gl_cut = 0\<rparr>"

lemma draining_reached: "gateway_step\<^sup>*\<^sup>* fresh_gateway draining_gateway"
proof -
  have "gateway_step fresh_gateway (fresh_gateway\<lparr>gl_active := 1\<rparr>)"
    using gw_request [of fresh_gateway] by (simp add: gateway_step_def fresh_gateway_def)
  moreover have "gateway_step (fresh_gateway\<lparr>gl_active := 1\<rparr>) draining_gateway"
    using gw_signal [of "fresh_gateway\<lparr>gl_active := 1\<rparr>"]
    by (simp add: gateway_step_def fresh_gateway_def draining_gateway_def)
  ultimately show ?thesis by auto
qed

lemma gateway_exit_witness:
  "drain_steps 1 draining_gateway (draining_gateway\<lparr>gl_time := 1\<rparr>) \<and> (1 :: nat) \<le> Suc grace"
proof -
  have "drain_steps (Suc 0) draining_gateway (draining_gateway\<lparr>gl_time := 1\<rparr>)"
    using drain_more [OF drain_refl drain_clock, of draining_gateway]
    by (simp add: draining_gateway_def grace_def)
  with gateway_exit [OF draining_reached, of 0 "Suc 0" "draining_gateway\<lparr>gl_time := 1\<rparr>"] show ?thesis
    by (simp add: draining_gateway_def)
qed

end
