(* ===== verification/CrossService.thy ===== *)
theory CrossService
  imports UserSystem ServiceMainProps
begin

text \<open>
  What the services mean to each other: the tokens of the user service at the other services, which
  share its secret and nothing else, and the category server behind the client of the book service.
\<close>

section \<open>Tokens\<close>

text \<open>A service that only checks tokens has no token duration; the check does not use it.\<close>

lemma HTTPMiddleware_duration:
  "HTTPMiddleware \<lparr>ja_lib = jl, ja_secret = k, ja_duration = d\<rparr> = HTTPMiddleware \<lparr>ja_lib = jl, ja_secret = k, ja_duration = d'\<rparr>"
proof -
  have "token_keyfunc \<lparr>ja_lib = jl, ja_secret = k, ja_duration = d\<rparr>
      = token_keyfunc \<lparr>ja_lib = jl, ja_secret = k, ja_duration = d'\<rparr>"
    by (intro ext) (simp add: token_keyfunc_def split: sig_method.split)
  then have "JWT_ValidateToken \<lparr>ja_lib = jl, ja_secret = k, ja_duration = d\<rparr>
      = JWT_ValidateToken \<lparr>ja_lib = jl, ja_secret = k, ja_duration = d'\<rparr>"
    by (intro ext) (simp add: JWT_ValidateToken_def)
  then show ?thesis by (intro ext) (simp only: HTTPMiddleware_def)
qed

text \<open>
  C12. One login opens all services: the access token of a successful login is accepted by the middleware
  of every service with the same secret, whatever its own state and whatever has become of the account
  since, from the second of its issue until it expires, and the handler sees the ID, the e-mail address
  and the role that the account had at the login.
\<close>

theorem login_token_opens_services:
  assumes "user_backend r rows valid view" and "valid (fst s)" and "jwt_laws jl"
    and "Login env (user_module r jl k ae re) req s = (Inr t, s')"
    and "NumericDate (ue_now_issued env) \<le> now" and "now < NumericDate (ue_now_expires env + ae)"
    and "rq_header rq ''Authorization'' = ''Bearer '' @ tr_access t"
  shows "\<exists>u. rows (fst s) (base_id u) = Some u \<and> (usr_username u = ul_name req \<or> usr_email u = ul_name req) \<and>
    CheckPasswordHash (ue_bcrypt env) (ul_password req) (usr_password u) \<and>
    (\<forall>handler x. HTTPMiddleware \<lparr>ja_lib = jl, ja_secret = k, ja_duration = d\<rparr> now handler rq x =
       handler (rq\<lparr>rq_user_id := Some (uuid_string (urc_uuid r) (base_id u)), rq_user_role := Some (usr_role u),
                   rq_user_email := Some (usr_email u), rq_auth_token := Some (tr_access t)\<rparr>) x)"
proof -
  let ?j = "\<lparr>ja_lib = jl, ja_secret = k, ja_duration = ae\<rparr>"
  obtain u where u: "rows (fst s) (base_id u) = Some u" "usr_username u = ul_name req \<or> usr_email u = ul_name req"
    "CheckPasswordHash (ue_bcrypt env) (ul_password req) (usr_password u)"
    "user_token env (user_module r jl k ae re) u = Inr (tr_access t)"
    using user_backend.Login_spec [OF assms(1,2,4)] by auto
  have g: "GenerateToken ?j (uuid_string (urc_uuid r) (base_id u)) (usr_email u) (usr_role u) (usr_username u)
      (ue_now_expires env) (ue_now_issued env) = Inr (tr_access t)"
    using u(4) by (simp add: user_token_def)
  have "HTTPMiddleware ?j now handler rq x =
       handler (rq\<lparr>rq_user_id := Some (uuid_string (urc_uuid r) (base_id u)), rq_user_role := Some (usr_role u),
                   rq_user_email := Some (usr_email u), rq_auth_token := Some (tr_access t)\<rparr>) x" for handler x
    by (rule GenerateToken_accepted [OF _ g assms(5) _ assms(7)]) (use assms(3,6) in simp_all)
  with u(1-3) HTTPMiddleware_duration [of jl k d ae] show ?thesis by metis
qed

text \<open>
  The administrator Ann logs in, then her account is deleted, then her token deletes a book.
\<close>

abbreviation ann_login :: "token_response result \<times> (user list \<times> (string \<rightharpoonup> json))" where
  "ann_login \<equiv> Login demo_user_env demo_module \<lparr>ul_name = ''ann'', ul_password = ''secret-one''\<rparr> demo_users"

definition ann_request :: http_request where
  "ann_request = demo_request\<lparr>rq_header := (\<lambda>_. ''Bearer '' @ tr_access (projr (fst ann_login))), rq_vars := (\<lambda>_. ''aaa'')\<rparr>"

lemma ann_login_ok: "\<exists>t. ann_login = (Inr t, snd ann_login) \<and> tr_access t = tr_access (projr (fst ann_login))"
proof -
  have "\<not> isl (fst ann_login)" by code_simp
  then show ?thesis by (metis prod.collapse sum.collapse(2))
qed

lemma login_token_opens_services_witness:
  "\<exists>u. mem_rows (fst demo_users) (base_id u) = Some u \<and> usr_role u = RoleAdmin \<and>
     HTTPMiddleware demo_auth 3000000000 (\<lambda>rq x. (RespondWithSuccess 200 [] None, rq_user_role rq)) ann_request None
     = (RespondWithSuccess 200 [] None, Some RoleAdmin)"
proof -
  obtain t where run: "ann_login = (Inr t, snd ann_login)" "tr_access t = tr_access (projr (fst ann_login))"
    using ann_login_ok by blast
  have h: "rq_header ann_request ''Authorization'' = ''Bearer '' @ tr_access t"
    by (simp add: ann_request_def run(2))
  have now: "NumericDate (ue_now_issued demo_user_env) \<le> 3000000000"
    "3000000000 < NumericDate (ue_now_expires demo_user_env + 5000000000)"
    by (simp_all add: demo_user_env_def NumericDate_def)
  from login_token_opens_services [OF mem_user_backend demo_users_valid plain_jwt_laws run(1) now h, of 5000000000]
  obtain u where u: "mem_rows (fst demo_users) (base_id u) = Some u" "usr_username u = ''ann'' \<or> usr_email u = ''ann''"
    and run: "\<forall>handler (x :: string option). HTTPMiddleware demo_auth 3000000000 handler ann_request x =
       handler (ann_request\<lparr>rq_user_id := Some (uuid_string (urc_uuid mem_user_conf) (base_id u)),
         rq_user_role := Some (usr_role u), rq_user_email := Some (usr_email u), rq_auth_token := Some (tr_access t)\<rparr>) x"
    by auto
  from mem_rows_SomeD [OF u(1)] u(2) have "usr_role u = RoleAdmin"
    by (auto simp: demo_users_def NewUser_def)
  with u(1) run show ?thesis by auto
qed

lemma deleted_admin_deletes_books:
  "mem_rows (fst (snd (DeleteUser demo_user_repo 1 (snd ann_login)))) 1 = None \<and>
   map_option (\<lambda>y. mem_rows (mb_books (fst (snd y))) 2)
     (serve_http plain_mux demo_book_routes ''DELETE'' ''/api/books/aaa'' ann_request demo_shelf) = Some None"
  by (intro conjI; code_simp)

text \<open>
  A logout over gRPC fails: the method hands the refresh token to a service that parses an access token.
\<close>

lemma grpc_logout_refuses_refresh_token:
  "fst (GRPC_Logout (NewAuthService demo_user_env demo_module) (tr_refresh (projr (fst ann_login))) (snd ann_login))
     = Inl (Unauthenticated, ErrInvalidToken) \<and>
   fst (GRPC_Logout (NewAuthService demo_user_env demo_module) (tr_access (projr (fst ann_login))) (snd ann_login))
     = Inr ()"
  by (intro conjI; code_simp)

section \<open>The category server behind the book service\<close>

text \<open>
  The generated client in front of the category server: its calls become calls of the server, a status
  becomes an error. \<open>CheckCategoryExists\<close> reaches the embedded \<open>Unimplemented\<close> server.
\<close>

definition category_stub_of :: "(category_call \<Rightarrow> category_reply grpc_result) \<Rightarrow> category_stub" where
  "category_stub_of call =
     \<lparr>st_CheckCategoryExists = (\<lambda>c. case call (RpcCategoryUnimplemented ''CheckCategoryExists'') of
          Inl (code, m) \<Rightarrow> Inl (errors_New m)
        | Inr reply \<Rightarrow> Inl (errors_New ''malformed reply'')),
      st_GetCategory_name = (\<lambda>c. case call (RpcGetCategory c) of
          Inl (code, m) \<Rightarrow> Inl (errors_New m)
        | Inr (OneCategory p) \<Rightarrow> Inr (pc_name p)
        | Inr reply \<Rightarrow> Inl (errors_New ''malformed reply''))\<rparr>"

text \<open>
  C36. Against the category server of this repository the category check is void: whatever categories
  that server holds, and whether the connection to it succeeds or not, creating and updating books with
  well-formed category IDs and listing by category behave exactly as with no category service at all.
\<close>

theorem book_category_integration:
  assumes "\<forall>stub. dial url = Inr stub \<longrightarrow>
      stub = category_stub_of (\<lambda>c. fst (category_grpc_server ul csvc cenv rid c ctx cs))"
    and "\<forall>c \<in> set (bq_categories new) \<union> set (bu_categories req). c \<noteq> [] \<longrightarrow> uuid_parse (brc_uuid r) c \<noteq> None"
  shows "CreateBook (book_module r (Some (NewCategoryClient dial url))) env new s
      = CreateBook (book_module r None) env new s \<and>
    UpdateBook (book_module r (Some (NewCategoryClient dial url))) env i req s
      = UpdateBook (book_module r None) env i req s \<and>
    GetBooksByCategory (book_module r (Some (NewCategoryClient dial url))) c page lm s
      = GetBooksByCategory (book_module r None) c page lm s"
proof (rule category_check_is_void [OF _ assms(2)])
  have "isl (st_CheckCategoryExists (category_stub_of
      (\<lambda>c. fst (category_grpc_server ul csvc cenv rid c ctx cs))) c)" for c
    by (simp add: category_stub_of_def category_grpc_server_def plain_chain_def UnaryRecoveryInterceptor_def
        UnaryLoggingInterceptor_def category_method_def)
  with assms(1) show "\<forall>stub c. dial url = Inr stub \<longrightarrow> isl (st_CheckCategoryExists stub c)" by metis
qed

abbreviation demo_category_stub :: category_stub where
  "demo_category_stub \<equiv> category_stub_of (\<lambda>c. fst (category_grpc_server unary_uuid
     (NewCategoryService unary_uuid demo_repo) demo_env ''r-1'' c anonymous_context ([], Map.empty)))"

text \<open>The category of the new book is none that the category server holds, and the book is created.\<close>

lemma book_category_integration_witness:
  "isl (st_GetCategory_name demo_category_stub (hd (bq_categories demo_create))) \<and>
   \<not> isl (fst (CreateBook (book_module mem_book_conf
     (Some (NewCategoryClient (\<lambda>_. Inr demo_category_stub) ''category:50051''))) book_demo_env demo_create demo_shelf))"
proof -
  have ids: "\<forall>c \<in> set (bq_categories demo_create) \<union> set (bu_categories no_update).
      c \<noteq> [] \<longrightarrow> uuid_parse (brc_uuid mem_book_conf) c \<noteq> None"
    by (simp add: demo_create_def no_update_def unary1_uuid_def)
  have dial: "\<forall>stub. (\<lambda>_. Inr demo_category_stub) ''category:50051'' = Inr stub \<longrightarrow> stub = demo_category_stub" by simp
  have "isl (st_GetCategory_name demo_category_stub (hd (bq_categories demo_create)))" by code_simp
  moreover have "\<not> isl (fst (CreateBook (book_module mem_book_conf None) book_demo_env demo_create demo_shelf))"
    by code_simp
  ultimately show ?thesis using book_category_integration
    [where dial = "\<lambda>_. Inr demo_category_stub" and url = "''category:50051''" and ul = unary_uuid
       and csvc = "NewCategoryService unary_uuid demo_repo" and cenv = demo_env and rid = "''r-1''"
       and ctx = anonymous_context and cs = "([], Map.empty)", OF dial ids] by simp
qed

end
