(* ===== verification/ServiceProcess.thy ===== *)
theory ServiceProcess
  imports CrossService Shutdown Logging
begin

text \<open>
  The processes of the three services as a whole (\<open>main\<close> of \<open>services/*/cmd/main.go\<close> up to the signal): from
  the environment to the logger, the module, the router, the two servers with their addresses and settings,
  the name under which the gRPC health service announces it, and the background task; and what the
  deferred calls release at the end.
\<close>

section \<open>The servers\<close>

text \<open>The settings of the keep-alive of the gRPC server, which the library reads.\<close>

record keepalive_settings =
  ks_max_idle :: duration
  ks_max_age :: duration
  ks_max_age_grace :: duration
  ks_time :: duration
  ks_timeout :: duration

definition http_server :: "service_config \<Rightarrow> server_settings" where
  "http_server cfg =
     \<lparr>ss_addr = '':'' @ cf_server_port cfg, ss_read_timeout = seconds 15, ss_write_timeout = seconds 15,
      ss_idle_timeout = seconds 60\<rparr>"

definition grpc_keepalive :: keepalive_settings where
  "grpc_keepalive =
     \<lparr>ks_max_idle = minutes 15, ks_max_age = minutes 30, ks_max_age_grace = minutes 5, ks_time = minutes 5,
      ks_timeout = seconds 20\<rparr>"

definition grpc_address :: "service_config \<Rightarrow> string" where
  "grpc_address cfg = '':'' @ cf_grpc_port cfg"

text \<open>
  A running service: what both servers answer at a time, with the readings \<open>'e\<close> of the clock and the random
  source during the request and, for gRPC, its request ID.
\<close>

record ('s, 'e, 'call, 'reply, 'o) service_process =
  svp_logger :: "'o zap_logger"
  svp_http :: server_settings
  svp_grpc_addr :: string
  svp_keepalive :: keepalive_settings
  svp_health_name :: string
  svp_routes :: "time \<Rightarrow> 'e \<Rightarrow> 's route list"
  svp_grpc :: "time \<Rightarrow> 'e \<Rightarrow> string \<Rightarrow> 'call \<Rightarrow> ('reply, 's) grpc_handler"
  svp_background :: "(duration \<times> (time \<Rightarrow> time \<Rightarrow> 's \<Rightarrow> unit result \<times> 's)) option"

section \<open>The three processes\<close>

text \<open>\<open>ping\<close> is \<open>db.PingContext\<close>, which changes nothing.\<close>

definition book_process ::
  "('h, 'c, ('d, 't, 'c) book_repo_conf) platform \<Rightarrow> (string \<Rightarrow> category_stub result) \<Rightarrow> jwt_lib \<Rightarrow> uuid_lib \<Rightarrow>
   validator \<Rightarrow> ('h \<Rightarrow> 'd \<times> 'c \<Rightarrow> go_error option) \<Rightarrow> (string \<Rightarrow> log_level result) \<Rightarrow> logging_config \<Rightarrow>
   service_config result \<Rightarrow> ('d \<times> 'c, book_env, ServiceMain.book_call, ServiceMain.book_reply, 'o) service_process startup" where
  "book_process pf dial jl ul vd ping unmarshal lc loaded =
     start_service pf ''book'' loaded (\<lambda>cfg db redis.
       case new_book_module pf dial cfg db redis of
         Inl e \<Rightarrow> Inl e
       | Inr svc \<Rightarrow>
           let jwtAuth = NewJWTAuth jl (cf_jwt_secret cfg) 0
           in Inr \<lparr>svp_logger = service_logger unmarshal lc, svp_http = http_server cfg,
                   svp_grpc_addr = grpc_address cfg, svp_keepalive = grpc_keepalive,
                   svp_health_name = ''book-service'',
                   svp_routes = (\<lambda>now env. server_routes (book_HandleHealth (\<lambda>s. (ping db s, s)) now)
                     (book_routes (HTTPMiddleware jwtAuth now) ul vd svc env)),
                   svp_grpc = (\<lambda>now env request_id. book_grpc_server ul svc env request_id),
                   svp_background = None\<rparr>)"

definition category_process ::
  "('h, 'c, ('d, 'c) category_repo_conf) platform \<Rightarrow> jwt_lib \<Rightarrow> uuid_lib \<Rightarrow> validator \<Rightarrow>
   ('h \<Rightarrow> 'd \<times> 'c \<Rightarrow> go_error option) \<Rightarrow> (string \<Rightarrow> log_level result) \<Rightarrow> logging_config \<Rightarrow> service_config result \<Rightarrow>
   ('d \<times> 'c, new_row_env, ServiceMain.category_call, ServiceMain.category_reply, 'o) service_process startup" where
  "category_process pf jl ul vd ping unmarshal lc loaded =
     start_service pf ''category'' loaded (\<lambda>cfg db redis.
       case new_category_module pf cfg db redis of
         Inl e \<Rightarrow> Inl e
       | Inr svc \<Rightarrow>
           let jwtAuth = NewJWTAuth jl (cf_jwt_secret cfg) 0
           in Inr \<lparr>svp_logger = service_logger unmarshal lc, svp_http = http_server cfg,
                   svp_grpc_addr = grpc_address cfg, svp_keepalive = grpc_keepalive,
                   svp_health_name = ''category-service'',
                   svp_routes = (\<lambda>now env. server_routes (category_HandleHealth (\<lambda>s. (ping db s, s)) now)
                     (category_routes (HTTPMiddleware jwtAuth now) ul vd svc env)),
                   svp_grpc = (\<lambda>now env request_id. category_grpc_server ul svc env request_id),
                   svp_background = None\<rparr>)"

text \<open>The task of the user service deletes the expired tokens every twelve hours (\<open>startTokenCleanupTask\<close>).\<close>

definition token_cleanup_task :: "'s auth_service_conf \<Rightarrow> duration \<times> (time \<Rightarrow> time \<Rightarrow> 's \<Rightarrow> unit result \<times> 's)" where
  "token_cleanup_task conf = (minutes (12 * 60), ar_CleanupExpiredTokens (as_authRepo conf))"

definition user_process ::
  "('h, 'c, ('d, 'c) user_repo_conf) platform \<Rightarrow> jwt_lib \<Rightarrow> uuid_lib \<Rightarrow> validator \<Rightarrow>
   ('h \<Rightarrow> 'd \<times> 'c \<Rightarrow> go_error option) \<Rightarrow> (string \<Rightarrow> log_level result) \<Rightarrow> logging_config \<Rightarrow> service_config result \<Rightarrow>
   ('d \<times> 'c, user_env, ServiceMain.user_call, ServiceMain.user_reply, 'o) service_process startup" where
  "user_process pf jl ul vd ping unmarshal lc loaded =
     start_service pf ''user'' loaded (\<lambda>cfg db redis.
       case new_user_module pf jl cfg db redis of
         Inl e \<Rightarrow> Inl e
       | Inr conf \<Rightarrow>
           let users = (\<lambda>env. NewUserService env (as_userRepo conf)); auth = (\<lambda>env. NewAuthService env conf)
           in Inr \<lparr>svp_logger = service_logger unmarshal lc, svp_http = http_server cfg,
                   svp_grpc_addr = grpc_address cfg, svp_keepalive = grpc_keepalive,
                   svp_health_name = ''user-service'',
                   svp_routes = (\<lambda>now env. server_routes (HandleHealth (\<lambda>s. (ping db s, s)) now)
                     (user_routes (HTTPMiddleware (as_jwtAuth conf) now) ul vd (users env) (auth env))),
                   svp_grpc = (\<lambda>now env request_id.
                     user_grpc_server (as_jwtAuth conf) now ul (users env) (auth env) request_id),
                   svp_background = Some (token_cleanup_task conf)\<rparr>)"


section \<open>Deferred calls\<close>

text \<open>
  The resources in the order in which \<open>main\<close> defers their release, Redis only if it was reached, the
  connection to the category service only in the book service; a process that ends by returning from \<open>main\<close> releases
  them in reverse, one that ends with \<open>log.Fatal\<close> (\<open>os.Exit\<close>) releases nothing.
\<close>

datatype resource = LogBuffer | DatabasePool | RedisClient | CategoryConnection

definition service_defers :: "bool \<Rightarrow> bool \<Rightarrow> resource list" where
  "service_defers redis_ok has_client =
     [LogBuffer, DatabasePool] @ (if redis_ok then [RedisClient] else []) @
     (if has_client then [CategoryConnection] else [])"

definition released :: "phase \<Rightarrow> resource list \<Rightarrow> resource list" where
  "released ph defers = (case ph of Exited \<Rightarrow> rev defers | _ \<Rightarrow> [])"

text \<open>
  \<open>Close\<close> of the category clients and of the module of the book service: a connection that was never made
  needs none, and the error of the library is handed on.
\<close>

definition grpcCategoryClient_Close :: "('w \<Rightarrow> unit result \<times> 'w) option \<Rightarrow> 'w \<Rightarrow> unit result \<times> 'w" where
  "grpcCategoryClient_Close conn w = (case conn of Some conn_close \<Rightarrow> conn_close w | None \<Rightarrow> (Inr (), w))"

definition mockCategoryClient_Close :: "'w \<Rightarrow> unit result \<times> 'w" where
  "mockCategoryClient_Close w = (Inr (), w)"

definition Module_Close :: "('w \<Rightarrow> unit result \<times> 'w) option \<Rightarrow> 'w \<Rightarrow> unit result \<times> 'w" where
  "Module_Close client_close w = (case client_close of Some close_client \<Rightarrow> close_client w | None \<Rightarrow> (Inr (), w))"

text \<open>The log is flushed last, after everything that may still log.\<close>

lemma log_flushed_last: "last (released Exited (service_defers redis_ok has_client)) = LogBuffer"
  by (simp add: released_def service_defers_def)

section \<open>Facts\<close>

lemma server_routes_eq: "server_routes health rs = route [''GET''] ''/health'' health # rs"
  by (simp add: server_routes_def)

text \<open>What a running process knows: the configuration has loaded, the database was opened and taken by GORM.\<close>

lemma start_service_Runs:
  assumes "start_service pf name loaded new_module = Runs m"
  obtains cfg h k where "loaded = Inr cfg" "pf_open pf (GetDSN cfg) = Inr h" "pf_ping pf h = None"
    "new_module cfg h k = Inr m"
    "k = None \<or> k = Some (pf_redis pf (GetRedisAddress cfg) (cf_redis_password cfg) 0)"
  using assms
  by (auto simp: start_service_def NewRedis_def GetRedisAddress_def Let_def split: sum.splits option.splits)

lemma book_process_Runs:
  assumes "book_process pf dial jl ul vd ping unmarshal lc loaded = Runs p"
  obtains cfg h k r where "loaded = Inr cfg" "pf_open pf (GetDSN cfg) = Inr h" "pf_gorm pf h = Inr r"
    "k = None \<or> k = Some (pf_redis pf (GetRedisAddress cfg) (cf_redis_password cfg) 0)"
    "\<And>now env. svp_routes p now env = route [''GET''] ''/health'' (book_HandleHealth (\<lambda>s. (ping h s, s)) now) #
       book_routes (HTTPMiddleware (NewJWTAuth jl (cf_jwt_secret cfg) 0) now) ul vd
         (NewBookService (book_module (r\<lparr>brc_cache := k\<rparr>) (Some (NewCategoryClient dial (cf_category_url cfg))))) env"
proof (rule start_service_Runs [OF assms [unfolded book_process_def]])
  fix cfg h k
  assume run: "loaded = Inr cfg" "pf_open pf (GetDSN cfg) = Inr h"
    "k = None \<or> k = Some (pf_redis pf (GetRedisAddress cfg) (cf_redis_password cfg) 0)"
    and m: "(case new_book_module pf dial cfg h k of Inl e \<Rightarrow> Inl e
      | Inr svc \<Rightarrow> let jwtAuth = NewJWTAuth jl (cf_jwt_secret cfg) 0
           in Inr \<lparr>svp_logger = service_logger unmarshal lc, svp_http = http_server cfg,
                   svp_grpc_addr = grpc_address cfg, svp_keepalive = grpc_keepalive,
                   svp_health_name = ''book-service'',
                   svp_routes = (\<lambda>now env. server_routes (book_HandleHealth (\<lambda>s. (ping h s, s)) now)
                     (book_routes (HTTPMiddleware jwtAuth now) ul vd svc env)),
                   svp_grpc = (\<lambda>now env request_id. book_grpc_server ul svc env request_id),
                   svp_background = None\<rparr>) = Inr p"
  from m obtain r where r: "pf_gorm pf h = Inr r" by (auto simp: new_book_module_def split: sum.splits)
  from m r show ?thesis
    by (intro that [OF run(1,2) r run(3)]) (auto simp: new_book_module_def server_routes_eq Let_def)
qed

text \<open>Without a configuration file the secret is the value of \<open>JWT_SECRET\<close>, and no service starts without one.\<close>

lemma secret_from_environment:
  assumes "no_config_file vp environ" "LoadConfig parse vp environ = Inr cfg"
  shows "environ ''JWT_SECRET'' = Some (cf_jwt_secret cfg) \<and> cf_jwt_secret cfg \<noteq> []"
proof -
  have none: "find (\<lambda>k. Getenv environ k = []) requiredEnvs = None"
    and cfg: "cfg = fill_config environ (default_config parse environ)"
    using assms(2) LoadConfig_env [OF assms(1), of parse] by (auto split: option.splits)
  from none have "Getenv environ ''JWT_SECRET'' \<noteq> []" by (simp add: requiredEnvs_def split: if_splits)
  with cfg show ?thesis
    by (auto simp: fill_config_def default_config_def or_env_def Getenv_def split: option.splits)
qed

lemma book_backend_uncached:
  assumes "book_backend (r\<lparr>brc_cache := k\<rparr>) books links valid opened usable tbooks tlinks pg sub view"
  shows "book_backend (r\<lparr>brc_cache := None\<rparr>) books links valid opened usable tbooks tlinks pg sub view"
  using assms no_cache_reliable by (simp add: book_backend_def book_backend_axioms_def)

section \<open>From the environment to the shelf\<close>


text \<open>A book service in memory, started from an environment with the five required variables.\<close>

definition shelf_environment :: environment where
  "shelf_environment = [''APP_NAME'' \<mapsto> ''library'', ''DB_NAME'' \<mapsto> ''books'', ''DB_USER'' \<mapsto> ''app'',
     ''DB_PASSWORD'' \<mapsto> ''pw'', ''JWT_SECRET'' \<mapsto> ''secret'']"

definition shelf_viper :: viper_lib where
  "shelf_viper = \<lparr>vp_decode = (\<lambda>_. None), vp_get = Getenv shelf_environment\<rparr>"

definition shelf_platform ::
  "(unit, string \<rightharpoonup> json, (mem_books, unit, string \<rightharpoonup> json) book_repo_conf) platform" where
  "shelf_platform = \<lparr>pf_open = (\<lambda>_. Inr ()), pf_ping = (\<lambda>_. None), pf_gorm = (\<lambda>_. Inr mem_book_conf),
     pf_redis = (\<lambda>_ _ _. mem_redis), pf_redis_ping = (\<lambda>_. None)\<rparr>"

abbreviation shelf_process ::
  "(mem_books \<times> (string \<rightharpoonup> json), book_env, ServiceMain.book_call, ServiceMain.book_reply, unit)
     service_process startup" where
  "shelf_process \<equiv> book_process shelf_platform (\<lambda>_. Inl (errors_New ''refused'')) plain_jwt (brc_uuid mem_book_conf)
     no_validation (\<lambda>_ _. None) (\<lambda>_. Inr InfoLevel) (LoadLoggingConfig shelf_environment)
     (LoadConfig (\<lambda>_. None) shelf_viper shelf_environment)"

abbreviation shelf_delete :: "(http_response \<times> (mem_books \<times> (string \<rightharpoonup> json))) option" where
  "shelf_delete \<equiv> (case shelf_process of
     Runs p \<Rightarrow> serve_http plain_mux (svp_routes p 3000000000 book_demo_env) ''DELETE'' ''/api/books/aaa''
       (request_as RoleLibrarian ''aaa'') demo_shelf
   | _ \<Rightarrow> None)"

lemma shelf_delete_gone: "map_option (\<lambda>y. mem_rows (mb_books (fst (snd y))) 2) shelf_delete = Some None"
  by code_simp


end
