(* ===== verification/Spec2Isabelle.thy ===== *)
theory Spec2Isabelle
  imports RateLimit CategoryProps UserSystem BookProps RouteProps GatewayProps GatewaySystem Envelope
    ServiceMainProps Database GatewayProcess ServiceProcess
begin

text \<open>
  The library system: a category, a book and a user service, each with an HTTP and a gRPC surface over
  a repository (PostgreSQL through GORM) and a Redis cache, behind an API gateway, with shared packages
  under \<open>pkg\<close>. A request passes the gateway (rate limiter, reverse proxy), the router of the service,
  the JWT middleware of the protected routes, a handler (decoding, validation, role check), the business
  logic and the repository. The book service asks the category service whether a category exists.

  \<^bold>\<open>State and parameters.\<close> Every operation is a function from its arguments and a state to a result and a
  new state. The state of a service is a pair: the database and the cache. Third-party code is a
  parameter: GORM and PostgreSQL (the record \<open>gorm_api\<close>, statements as \<open>stmt\<close>), the Redis client
  (\<open>redis_client\<close>), the JWT library (\<open>jwt_lib\<close>), bcrypt (\<open>bcrypt_lib\<close>), UUIDs (\<open>uuid_lib\<close>), the
  validator, \<open>gorilla/mux\<close> (\<open>mux_lib\<close>), viper, the network of the gateway, \<open>net.ParseIP\<close>. What the code
  relies on of them is stated once, as the assumptions of a locale (\<open>gorm_store\<close>, \<open>reliable_cache\<close>,
  \<open>book_store\<close>) or as a named predicate (\<open>jwt_laws\<close>, \<open>bcrypt_laws\<close>, \<open>uuid_laws\<close>, \<open>mux_laws\<close>). Each has an
  executable instance, on which the locales are interpreted and the witnesses run: a list store with
  transactions, a cache that is a map, plain-text tokens and hashes, UUIDs in unary. Readings of the clock,
  of the random source and of \<open>uuid.New()\<close> are arguments.

  \<^bold>\<open>The theories.\<close>
  \<^item> \<open>GoBase\<close>, \<open>Constants\<close>, \<open>Json\<close>, \<open>Http\<close>, \<open>Paging\<close>, \<open>Helpers\<close>, \<open>ServiceBase\<close>: integers of Go
    with their wrap-around, \<open>strings\<close>, errors with their chains, \<open>pkg/constants\<close>, JSON documents and
    decoding, requests and responses (\<open>pkg/utils/response.go\<close>, \<open>validation.go\<close>), paging
    (\<open>pkg/models\<close>), \<open>pkg/utils/helpers.go\<close> and \<open>hash.go\<close>.
  \<^item> \<open>Gorm\<close>, \<open>MemStore\<close>: the ORM interface with the contract \<open>gorm_store\<close>, and the list store.
    \<open>RedisCache\<close>: \<open>pkg/cache/redis.go\<close> with the contract \<open>reliable_cache\<close>. \<open>CachedTable\<close>: the
    read-through and invalidation pattern of the repositories, with the coherence of cache and table
    proved once.
  \<^item> \<open>CategoryModel\<close>, \<open>CategoryRepo\<close>, \<open>CategoryService\<close>, \<open>CategoryHandlers\<close>: the layers of
    \<open>services/category-service\<close>. \<open>CategorySpec\<close> states the contract of the repository (locale
    \<open>category_contract\<close>) and proves the logic over it, \<open>CategoryBackend\<close> proves that the repository keeps
    the contract, \<open>CategorySystem\<close> is the step relation of the running service, \<open>CategoryProps\<close> holds the
    properties.
  \<^item> \<open>UserModel\<close>, \<open>UserRepo\<close>, \<open>UserService\<close>, \<open>UserHandlers\<close>: users and authentication, the layers of
    \<open>services/user-service\<close>. \<open>UserBackend\<close> proves what the repositories do to the tables and states the
    invariant of the cached users, \<open>UserProps\<close> holds the properties of single operations, \<open>UserSteps\<close> what
    each operation leaves of the invariant and of the accounts, \<open>UserSystem\<close> the step relation of the
    running service with its clean-up task, and the properties of its runs.
  \<^item> \<open>BookModel\<close>, \<open>BookRepo\<close>, \<open>BookService\<close>, \<open>BookHandlers\<close>: the layers of \<open>services/book-service\<close>
    with the client of the category service. \<open>BookBackend\<close> states the contract of the database with its two
    tables and transactions (\<open>book_store\<close>, \<open>book_backend\<close>), \<open>BookMem\<close> interprets it, \<open>BookSpec\<close> proves the
    logic over it, \<open>BookSystem\<close> is the step relation, \<open>BookProps\<close> holds the properties.
  \<^item> \<open>JwtAuth\<close>: \<open>pkg/middleware/auth.go\<close>, \<open>grpc.go\<close> and \<open>recovery.go\<close>; \<open>RateLimit\<close>:
    \<open>ratelimit.go\<close> and the client address of \<open>logging.go\<close>.
  \<^item> \<open>Config\<close>: \<open>pkg/config\<close>. \<open>Gateway\<close>, \<open>GatewayProps\<close>: the proxy, the health page and the
    configuration of \<open>api-gateway/cmd/main.go\<close>, and \<open>internal/proxy\<close>. \<open>GatewayMain\<close>: its \<open>main\<close>, that is
    the middleware, the pages and the router around the proxy, and histories of requests;
    \<open>GatewaySystem\<close>: the properties of the whole, with the services behind it.
  \<^item> \<open>Routes\<close>, \<open>RouteProps\<close>: the route tables of the services, the health handlers, and the
    properties of the whole path from the router to the tables. \<open>Envelope\<close>: the shape of all answers.
  \<^item> \<open>ServiceMain\<close>, \<open>ServiceMainProps\<close>: the processes of \<open>services/*/cmd/main.go\<close>: their start, their
    HTTP routers, their gRPC servers (one constructor per method and message) with the interceptors.
    \<open>Shutdown\<close>: their end, as a step relation. \<open>ServiceProcess\<close>: \<open>main\<close> as a whole, from the environment to
    the two servers with their settings, the announced health and the background task.
    \<open>CrossService\<close>: what the services mean to each other, tokens and the category check.
  \<^item> \<open>Database\<close>: \<open>pkg/database/postgres.go\<close>, the connection set-up and the generic operations over the ORM,
    with the contract \<open>keyed_store\<close> of the operations by key. \<open>Logging\<close>: \<open>pkg/logger/logger.go\<close>, loggers as values.
    \<open>GatewayProcess\<close>: start and end of the gateway as a process.

  \<^bold>\<open>What is proved.\<close>
  \<^item> Invariants by rule induction over all request sequences, with the cache losing entries at any
    moment: the category hierarchy stays a forest; a lookup by ID through the cache answers the live row,
    for categories, for books and for users (there up to the time stamps, and for names that are not the
    text of an ID).
  \<^item> The effect of every writing operation on the tables, success and failure alike, and the pages of
    the listings against the set of matching rows.
  \<^item> Who may do what: a handler behind the middleware sees only the identity of a verified token;
    through the routes of the book service, and from the gateway on, only a token of an administrator or
    librarian changes a row. The gRPC server of users lets nothing through without a token; those of books
    and categories do not look at the caller. Login needs the password; a refresh token works once; only
    the creation and the update of accounts give roles.
  \<^item> The rate limits as bounds over any sequence of requests and clean-ups.
  \<^item> The gateway: the copy loop ends and loses nothing, a request and its answer pass unchanged up to
    three headers and the request ID, every request is answered, and the requests that reach the services
    are within the global rate.
  \<^item> The composition: a book service started from its environment guards its shelf with the secret of that
    environment, and none starts without one; the token of a login opens every service with the same
    secret until it expires, whatever becomes of the account; against the category server of the repository
    the category check of the book service has no effect; what the database package stores is what it reads.
  \<^item> The end of the gateway: within ten seconds after the signal, with code 0 only if no request was cut.
  \<^item> The shape of every answer of every route; the agreement of the HTTP and the gRPC update of a book;
    the end of a closing process within its ten seconds.
  \<^item> What the code does against its intention, as closed facts about runs of the model: cycles by
    overlapping updates, lost password hashes, a logout that is not enforced, members who make
    administrators, more copies available than there are, categories lost by an update, names that meet the cache
    keys of other accounts, deleted administrators with valid tokens, log entries that name the wrong
    caller, and others.

  \<^bold>\<open>Loops and termination.\<close> The cycle check ends because the set of visited categories grows within a finite
  type (a measure). The copy loop of the gateway ends only if the reader does: it is a partial function
  into \<open>option\<close>, and \<open>reads_to\<close> describes the readers that end. The other loops are structural.

  \<^bold>\<open>Idealisations.\<close> \<open>float64\<close> values (token buckets, ratings, the rates of the configuration) are rationals;
  JSON is a tree, so that two texts of one document are not distinguished; a step of a service serves one
  request to its end, except where overlap is the point (\<open>update_prepare\<close>, \<open>update_write\<close>); \<open>Allow\<close> runs
  under its mutex and is one step; the category service gives the same answers for the whole of one
  request; logging has no effect on a request (\<open>Logging\<close> models the loggers, not the
  calls); text is ASCII where the case of letters matters.

  \<^bold>\<open>Not modelled.\<close> Sockets and the goroutines that serve them, the writing of log entries by zap, the file
  server and Swagger pages, the CORS library (its options are in \<open>GatewayProcess\<close>), generated protobuf code and
  SQL migrations: I/O or third-party code without logic of this repository. The deferred rollback of a
  panicking transaction is left out, as nothing in a transaction of the model panics. Contexts and their
  deadlines appear only as the errors that the parameters may answer, in \<open>Shutdown\<close> and in \<open>GatewayProcess\<close>.
\<close>

end
